(* ===== verification/Fleet_Prelude.thy ===== *)
theory Fleet_Prelude
  imports Complex_Main "HOL-Library.Sublist" "HOL-Library.List_Lexorder" "HOL-Library.Char_ord"
begin

text \<open>
  What the Fleet UI uses of JavaScript itself: strings, numbers, optional values, arrays and
  JSON values, with the lemmas the component theories share.

  \<^item> A JavaScript string is a \<^typ>\<open>string\<close> holding its UTF-8 bytes. The operations the modelled
    code applies (prefix tests, splitting at ASCII delimiters, trimming, concatenation,
    substring search) act on ASCII delimiters, so they commute with the encoding; case folding
    and white space are those of ASCII. Where the code counts UTF-16 code units the
    component theory says so.
  \<^item> A number the code only uses as an integer is an \<^typ>\<open>int\<close> or a \<^typ>\<open>nat\<close>, with \<^const>\<open>None\<close> for
    \<open>NaN\<close> where \<open>NaN\<close> can arise; a number that can have a fraction (epoch seconds, durations)
    is a \<^typ>\<open>rat\<close>, so rounding of IEEE doubles is not modelled.
  \<^item> \<open>undefined\<close> and \<open>null\<close> of an optional field are both \<^const>\<open>None\<close>: the modelled code reads those
    fields with truthiness tests, \<open>??\<close> and \<open>== null\<close>, which do not tell them apart.
\<close>

named_theorems js_defs \<open>definitions of the string and option operations of JavaScript\<close>
named_theorems str_safe \<open>which characters an encoded or printed string can contain\<close>

section \<open>Optional values and truthiness\<close>

definition nullish :: "'a option \<Rightarrow> 'a \<Rightarrow> 'a" where
  "nullish x d = (case x of None \<Rightarrow> d | Some v \<Rightarrow> v)"

lemma nullish_simps [simp]: "nullish None d = d" "nullish (Some v) d = v"
  by (simp_all add: nullish_def)

text \<open>Truthiness of an optional string, boolean and number.\<close>

definition truthy_str :: "string option \<Rightarrow> bool" where
  "truthy_str x = (case x of None \<Rightarrow> False | Some s \<Rightarrow> s \<noteq> [])"

definition truthy_bool :: "bool option \<Rightarrow> bool" where
  "truthy_bool x = (x = Some True)"

definition truthy_num :: "'a::zero option \<Rightarrow> bool" where
  "truthy_num x = (case x of None \<Rightarrow> False | Some n \<Rightarrow> n \<noteq> 0)"

lemma truthy_simps [simp]:
  "\<not> truthy_str None" "truthy_str (Some s) \<longleftrightarrow> s \<noteq> []"
  "\<not> truthy_bool None" "truthy_bool (Some b) \<longleftrightarrow> b"
  "\<not> truthy_num None" "truthy_num (Some n) \<longleftrightarrow> n \<noteq> 0"
  by (simp_all add: truthy_str_def truthy_bool_def truthy_num_def)

text \<open>The JavaScript \<open>a || d\<close> on an optional string.\<close>

definition str_or :: "string option \<Rightarrow> string \<Rightarrow> string" where
  "str_or x d = (if truthy_str x then the x else d)"

lemma str_or_simps [simp]: "str_or None d = d" "str_or (Some []) d = d" "str_or (Some (c # s)) d = c # s"
  by (simp_all add: str_or_def)

lemma truthy_str_iff: "truthy_str x \<longleftrightarrow> (\<exists>s. x = Some s \<and> s \<noteq> [])"
  by (cases x) auto

section \<open>Characters\<close>

definition is_digit :: "char \<Rightarrow> bool" where
  "is_digit c \<longleftrightarrow> c \<in> set ''0123456789''"

definition digit_val :: "char \<Rightarrow> nat" where
  "digit_val c = (of_char c :: nat) - 48"

definition digit_char :: "nat \<Rightarrow> char" where
  "digit_char n = ''0123456789'' ! (n mod 10)"

definition is_ws :: "char \<Rightarrow> bool" where
  "is_ws c \<longleftrightarrow> c \<in> {CHR '' '', CHR 0x09, CHR 0x0A, CHR 0x0B, CHR 0x0C, CHR 0x0D}"

definition to_lower_char :: "char \<Rightarrow> char" where
  "to_lower_char c = (let n = (of_char c :: nat) in if 65 \<le> n \<and> n \<le> 90 then char_of (n + 32) else c)"

definition to_lower :: "string \<Rightarrow> string" where
  "to_lower s = map to_lower_char s"

definition is_alpha :: "char \<Rightarrow> bool" where
  "is_alpha c \<longleftrightarrow> (let n = (of_char c :: nat) in (65 \<le> n \<and> n \<le> 90) \<or> (97 \<le> n \<and> n \<le> 122))"

lemma is_digit_digit_char [simp]: "is_digit (digit_char n)"
proof -
  have "''0123456789'' ! (n mod 10) \<in> set ''0123456789''" by (rule nth_mem) simp
  then show ?thesis by (simp only: is_digit_def digit_char_def)
qed

lemma digit_val_digit_char [simp]: "digit_val (digit_char n) = n mod 10"
proof -
  have v: "map digit_val ''0123456789'' = [0..<10]" by (simp add: digit_val_def upt_rec)
  have "digit_val (''0123456789'' ! (n mod 10)) = map digit_val ''0123456789'' ! (n mod 10)"
    by (rule nth_map [symmetric]) simp
  also have "\<dots> = n mod 10" unfolding v by (simp add: nth_upt)
  finally show ?thesis by (simp only: digit_char_def)
qed

lemma digit_not_special:
  "is_digit c \<Longrightarrow> c \<noteq> CHR '' '' \<and> c \<noteq> CHR ''-'' \<and> c \<noteq> CHR ''+'' \<and> c \<noteq> CHR '':'' \<and> c \<noteq> CHR ''*'' \<and> c \<noteq> CHR ''/''
     \<and> c \<noteq> CHR ''?'' \<and> \<not> is_ws c"
  by (auto simp: is_digit_def is_ws_def)

section \<open>Printing and reading numbers\<close>

fun show_nat :: "nat \<Rightarrow> string" where
  "show_nat n = (if n < 10 then [digit_char n] else show_nat (n div 10) @ [digit_char n])"

declare show_nat.simps [simp del]

definition show_int :: "int \<Rightarrow> string" where
  "show_int i = (if i < 0 then CHR ''-'' # show_nat (nat (- i)) else show_nat (nat i))"

definition digits_val :: "string \<Rightarrow> nat" where
  "digits_val ds = foldl (\<lambda>a c. 10 * a + digit_val c) 0 ds"

text \<open>
  \<open>parseInt(s, 10)\<close>: white space, an optional sign, then the longest run of digits; \<^const>\<open>None\<close> is
  \<open>NaN\<close>.
\<close>

definition parse_int :: "string \<Rightarrow> int option" where
  "parse_int s =
     (let t = dropWhile is_ws s;
          neg = (case t of c # _ \<Rightarrow> c = CHR ''-'' | [] \<Rightarrow> False);
          u = (case t of c # r \<Rightarrow> if c = CHR ''-'' \<or> c = CHR ''+'' then r else t | [] \<Rightarrow> []);
          ds = takeWhile is_digit u
      in if ds = [] then None
         else Some (if neg then - int (digits_val ds) else int (digits_val ds)))"

text \<open>\<open>String(n).padStart(k, '0')\<close>.\<close>

definition pad_start :: "nat \<Rightarrow> char \<Rightarrow> string \<Rightarrow> string" where
  "pad_start k c s = replicate (k - length s) c @ s"

definition pad2 :: "int \<Rightarrow> string" where
  "pad2 n = pad_start 2 (CHR ''0'') (show_int n)"

lemma show_nat_digits [simp]: "\<forall>c \<in> set (show_nat n). is_digit c"
proof (induction n rule: show_nat.induct)
  case (1 n)
  then show ?case by (subst show_nat.simps) auto
qed

lemma show_nat_digitD: "c \<in> set (show_nat n) \<Longrightarrow> is_digit c"
  using show_nat_digits by blast

lemma show_nat_nonempty [simp]: "show_nat n \<noteq> []"
  by (subst show_nat.simps) simp

lemma digits_val_snoc [simp]: "digits_val (ds @ [c]) = 10 * digits_val ds + digit_val c"
  by (simp add: digits_val_def)

lemma digits_val_Nil [simp]: "digits_val [] = 0"
  by (simp add: digits_val_def)

lemma digits_val_show_nat [simp]: "digits_val (show_nat n) = n"
proof (induction n rule: show_nat.induct)
  case (1 n)
  show ?case
  proof (cases "n < 10")
    case True
    then show ?thesis by (subst show_nat.simps) (simp add: digits_val_def)
  next
    case False
    with 1 show ?thesis by (subst show_nat.simps) simp
  qed
qed

lemma takeWhile_all: "\<forall>c \<in> set xs. P c \<Longrightarrow> takeWhile P xs = xs"
  by (induction xs) auto

lemma hd_show_nat_digit: "show_nat n = c # cs \<Longrightarrow> is_digit c"
  using show_nat_digitD [of c n] by simp

lemma parse_int_digits:
  assumes ne: "ds \<noteq> []" and d: "\<forall>c \<in> set ds. is_digit c" and r: "\<forall>c r. rest = c # r \<longrightarrow> \<not> is_digit c"
  shows "parse_int (ds @ rest) = Some (int (digits_val ds))"
proof -
  obtain c cs where ds: "ds = c # cs" using ne by (cases ds) auto
  with d have c: "is_digit c" by simp
  note nc = digit_not_special [OF c]
  have tw: "takeWhile is_digit (ds @ rest) = ds"
  proof (cases rest)
    case Nil
    with d show ?thesis by (simp add: takeWhile_all)
  next
    case (Cons a list)
    with r have "\<not> is_digit a" by simp
    with Cons d show ?thesis by (simp add: takeWhile_append takeWhile_all)
  qed
  have dw: "dropWhile is_ws (ds @ rest) = ds @ rest"
    using ds nc by simp
  have "parse_int (ds @ rest) =
    (if takeWhile is_digit (ds @ rest) = [] then None
     else Some (int (digits_val (takeWhile is_digit (ds @ rest)))))"
    unfolding parse_int_def Let_def dw using ds nc by auto
  with tw ne show ?thesis by simp
qed

lemma parse_int_show_nat [simp]: "parse_int (show_nat n) = Some (int n)"
  using parse_int_digits [of "show_nat n" "[]"] by simp

lemma parse_int_minus:
  "parse_int (CHR ''-'' # show_nat n) = Some (- int n)"
  by (simp add: parse_int_def is_ws_def takeWhile_all)

lemma parse_int_show_int [simp]: "parse_int (show_int i) = Some i"
  by (simp add: show_int_def parse_int_minus)

lemma replicate_zero_digits: "\<forall>c \<in> set (replicate k (CHR ''0'')). is_digit c"
  by (auto simp: is_digit_def)

lemma foldl_digits_zero [simp]: "foldl (\<lambda>a c. 10 * a + digit_val c) 0 (replicate k (CHR ''0'')) = 0"
  by (induction k) (simp_all add: digit_val_def)

lemma pad2_nat: "0 \<le> i \<Longrightarrow> pad2 i = replicate (2 - length (show_nat (nat i))) (CHR ''0'') @ show_nat (nat i)"
  by (simp add: pad2_def pad_start_def show_int_def)

lemma pad2_digits: "0 \<le> i \<Longrightarrow> c \<in> set (pad2 i) \<Longrightarrow> is_digit c"
  using replicate_zero_digits show_nat_digitD by (auto simp: pad2_nat)

lemma pad2_nonempty [simp]: "pad2 i \<noteq> []"
  by (simp add: pad2_def pad_start_def show_int_def)

lemma digits_val_pad2: "0 \<le> i \<Longrightarrow> digits_val (pad2 i) = nat i"
  using digits_val_show_nat [of "nat i"] by (simp add: pad2_nat digits_val_def)

lemma parse_int_pad2_append:
  assumes "0 \<le> i" and "\<forall>c r. rest = c # r \<longrightarrow> \<not> is_digit c"
  shows "parse_int (pad2 i @ rest) = Some i"
  using parse_int_digits [of "pad2 i" rest] assms pad2_digits [OF assms(1)]
  by (simp add: digits_val_pad2)

lemma parse_int_pad2 [simp]: "0 \<le> i \<Longrightarrow> parse_int (pad2 i) = Some i"
  using parse_int_pad2_append [of i "[]"] by simp

section \<open>Strings\<close>

definition starts_with :: "string \<Rightarrow> string \<Rightarrow> bool" where
  "starts_with s p \<longleftrightarrow> take (length p) s = p"

definition ends_with :: "string \<Rightarrow> string \<Rightarrow> bool" where
  "ends_with s p \<longleftrightarrow> starts_with (rev s) (rev p)"

fun includes_str :: "string \<Rightarrow> string \<Rightarrow> bool" where
  "includes_str [] q = (q = [])"
| "includes_str (c # s) q = (starts_with (c # s) q \<or> includes_str s q)"

definition has_char :: "string \<Rightarrow> char \<Rightarrow> bool" where
  "has_char s c \<longleftrightarrow> c \<in> set s"

text \<open>\<open>s.indexOf(c)\<close> and \<open>s.lastIndexOf(c)\<close>; \<^const>\<open>None\<close> is \<open>-1\<close>.\<close>

fun index_of :: "'a \<Rightarrow> 'a list \<Rightarrow> nat option" where
  "index_of c [] = None"
| "index_of c (x # xs) = (if x = c then Some 0 else map_option Suc (index_of c xs))"

definition last_index_of :: "'a \<Rightarrow> 'a list \<Rightarrow> nat option" where
  "last_index_of c s = map_option (\<lambda>i. length s - Suc i) (index_of c (rev s))"

definition trim_start :: "string \<Rightarrow> string" where
  "trim_start s = dropWhile is_ws s"

definition trim :: "string \<Rightarrow> string" where
  "trim s = rev (dropWhile is_ws (rev (dropWhile is_ws s)))"

text \<open>\<open>s.split(c)\<close> for a one-character separator, and \<open>xs.join(sep)\<close>.\<close>

fun split_on :: "char \<Rightarrow> string \<Rightarrow> string list" where
  "split_on c [] = [[]]"
| "split_on c (x # xs) =
     (if x = c then [] # split_on c xs
      else case split_on c xs of [] \<Rightarrow> [[x]] | y # ys \<Rightarrow> (x # y) # ys)"

fun join_with :: "string \<Rightarrow> string list \<Rightarrow> string" where
  "join_with sep [] = []"
| "join_with sep [x] = x"
| "join_with sep (x # y # ys) = x @ sep @ join_with sep (y # ys)"

text \<open>\<open>s.split(/\s+/)\<close>.\<close>

function split_ws :: "string \<Rightarrow> string list" where
  "split_ws s =
     (case dropWhile (\<lambda>c. \<not> is_ws c) s of
        [] \<Rightarrow> [takeWhile (\<lambda>c. \<not> is_ws c) s]
      | c # r \<Rightarrow> takeWhile (\<lambda>c. \<not> is_ws c) s # split_ws (dropWhile is_ws r))"
  by pat_completeness auto
termination
proof (relation "measure length", goal_cases)
  case (2 s c r)
  have "length (c # r) \<le> length s"
    using 2 length_dropWhile_le [of "\<lambda>c. \<not> is_ws c" s] by simp
  then show ?case
    using length_dropWhile_le [of is_ws r] by simp
qed simp

declare split_ws.simps [simp del]

lemma starts_with_prefix: "starts_with s p \<longleftrightarrow> prefix p s"
  by (auto simp: starts_with_def prefix_def) (metis append_take_drop_id)

lemma starts_with_append [simp]: "starts_with (p @ s) p"
  by (simp add: starts_with_def)

lemma includes_str_sublist: "includes_str s q \<longleftrightarrow> sublist q s"
  by (induction s) (auto simp: starts_with_prefix sublist_Cons_right)

lemma includes_str_Nil [simp]: "includes_str s []"
  by (cases s) (auto simp: starts_with_def)

lemma index_of_None: "index_of c s = None \<longleftrightarrow> c \<notin> set s"
  by (induction s) auto

lemma index_of_Some: "index_of c s = Some i \<Longrightarrow> i < length s \<and> s ! i = c \<and> c \<notin> set (take i s)"
  by (induction s arbitrary: i) (auto split: if_splits)

lemma index_of_append: "c \<notin> set xs \<Longrightarrow> index_of c (xs @ c # ys) = Some (length xs)"
  by (induction xs) auto

lemma split_on_nonempty [simp]: "split_on c s \<noteq> []"
  by (cases s) (auto split: list.splits)

lemma split_on_no_sep: "c \<notin> set s \<Longrightarrow> split_on c s = [s]"
  by (induction s) auto

lemma split_on_append: "c \<notin> set xs \<Longrightarrow> split_on c (xs @ c # ys) = xs # split_on c ys"
  by (induction xs) auto

lemma join_Cons: "ys \<noteq> [] \<Longrightarrow> join_with sep (x # ys) = x @ sep @ join_with sep ys"
  by (cases ys) auto

lemma split_on_join:
  assumes "xs \<noteq> []" and "\<forall>x \<in> set xs. c \<notin> set x"
  shows "split_on c (join_with [c] xs) = xs"
  using assms
proof (induction xs)
  case (Cons x xs)
  then show ?case
    by (cases "xs = []") (auto simp: split_on_no_sep join_Cons split_on_append)
qed simp

lemma split_on_subset: "x \<in> set (split_on c s) \<Longrightarrow> set x \<subseteq> set s"
proof (induction s arbitrary: x)
  case (Cons a s)
  obtain y ys where y: "split_on c s = y # ys" by (cases "split_on c s") auto
  then have "set y \<subseteq> set s" "\<forall>z \<in> set ys. set z \<subseteq> set s" using Cons.IH by simp_all
  then show ?case using Cons.prems y by (auto split: if_splits)
qed simp

lemma join_split_on: "join_with [c] (split_on c s) = s"
proof (induction s)
  case (Cons x s)
  then show ?case by (cases "split_on c s"; cases "tl (split_on c s)") auto
qed simp

lemma split_on_parts: "x \<in> set (split_on c s) \<Longrightarrow> c \<notin> set x"
  by (induction s arbitrary: x) (auto split: list.splits if_splits)

lemma set_join_with: "set (join_with sep xs) \<subseteq> set sep \<union> \<Union> (set ` set xs)"
  by (induction sep xs rule: join_with.induct) auto

lemma trim_no_ws: "\<forall>c \<in> set s. \<not> is_ws c \<Longrightarrow> trim s = s"
  by (simp add: trim_def dropWhile_eq_self_iff hd_rev) (metis dropWhile_eq_self_iff hd_in_set last_in_set rev_is_Nil_conv rev_rev_ident hd_rev)

lemma trim_Nil [simp]: "trim [] = []"
  by (simp add: trim_def)

lemma split_ws_no_ws:
  assumes a: "\<forall>c \<in> set s. \<not> is_ws c"
  shows "split_ws s = [s]"
proof -
  from a have d: "dropWhile (\<lambda>c. \<not> is_ws c) s = []" by (simp add: dropWhile_eq_Nil_conv)
  show ?thesis unfolding split_ws.simps [of s] d using a by (simp add: takeWhile_all)
qed

lemma split_ws_step:
  assumes "\<forall>c \<in> set w. \<not> is_ws c" and "s \<noteq> []" and "\<not> is_ws (hd s)"
  shows "split_ws (w @ CHR '' '' # s) = w # split_ws s"
proof -
  have ws: "is_ws (CHR '' '')" by (simp add: is_ws_def)
  have tw: "takeWhile (\<lambda>c. \<not> is_ws c) (w @ CHR '' '' # s) = w"
    using assms(1) ws by (simp add: takeWhile_append takeWhile_all)
  have dw: "dropWhile (\<lambda>c. \<not> is_ws c) (w @ CHR '' '' # s) = CHR '' '' # s"
    using assms(1) ws by (simp add: dropWhile_append)
  have "dropWhile is_ws s = s"
    using assms(2,3) by (cases s) auto
  with tw dw show ?thesis by (subst split_ws.simps) simp
qed

text \<open>The em dash U+2014 and the apostrophe U+2019 in UTF-8.\<close>

definition em_dash :: string where
  "em_dash = [CHR 0xE2, CHR 0x80, CHR 0x94]"

definition apostrophe :: string where
  "apostrophe = [CHR 0xE2, CHR 0x80, CHR 0x99]"

section \<open>Arrays\<close>

text \<open>\<open>xs.filter((_, j) => j !== i)\<close> and \<open>xs.map((c, j) => (j === i ? v : c))\<close>.\<close>

definition remove_at :: "nat \<Rightarrow> 'a list \<Rightarrow> 'a list" where
  "remove_at i xs = map snd (filter (\<lambda>(j, _). j \<noteq> i) (enumerate 0 xs))"

definition replace_at :: "nat \<Rightarrow> 'a \<Rightarrow> 'a list \<Rightarrow> 'a list" where
  "replace_at i v xs = map (\<lambda>(j, c). if j = i then v else c) (enumerate 0 xs)"

lemma filter_enumerate_ge: "i < k \<Longrightarrow> map snd (filter (\<lambda>(j, _). j \<noteq> i) (enumerate k xs)) = xs"
  by (induction xs arbitrary: k) auto

lemma enumerate_filter_neq:
  "map snd (filter (\<lambda>(j, _). j \<noteq> k + i) (enumerate k xs)) = take i xs @ drop (Suc i) xs"
proof (induction xs arbitrary: k i)
  case (Cons x xs)
  show ?case
  proof (cases i)
    case 0
    then show ?thesis using filter_enumerate_ge [of k "Suc k" xs] by simp
  next
    case (Suc i')
    with Cons.IH [of "Suc k" i'] show ?thesis by simp
  qed
qed simp

lemma remove_at_eq: "remove_at i xs = take i xs @ drop (Suc i) xs"
  using enumerate_filter_neq [of 0 i xs] by (simp add: remove_at_def)

lemma replace_at_eq: "replace_at i v xs = xs[i := v]"
  by (rule nth_equalityI) (auto simp: replace_at_def nth_enumerate_eq nth_list_update)

lemma length_remove_at: "i < length xs \<Longrightarrow> length (remove_at i xs) = length xs - 1"
  by (simp add: remove_at_eq)

text \<open>\<open>Array.from(new Set(xs)).sort()\<close>: the distinct elements in increasing order.\<close>

definition sorted_pool :: "string list \<Rightarrow> string list" where
  "sorted_pool xs = sort (remdups xs)"

lemma sorted_pool_props: "sorted (sorted_pool xs)" "distinct (sorted_pool xs)" "set (sorted_pool xs) = set xs"
  by (simp_all add: sorted_pool_def)

section \<open>Sorting with a comparator\<close>

text \<open>
  \<open>xs.sort(cmp)\<close>: the result for a consistent comparator is the sorted permutation that keeps
  equal elements in order, computed here by insertion. The locale \<open>js_comparator\<close> is what a
  caller of \<open>sort\<close> has to provide.
\<close>

fun insert_by :: "('a \<Rightarrow> 'a \<Rightarrow> int) \<Rightarrow> 'a \<Rightarrow> 'a list \<Rightarrow> 'a list" where
  "insert_by cmp x [] = [x]"
| "insert_by cmp x (y # ys) = (if cmp x y \<le> 0 then x # y # ys else y # insert_by cmp x ys)"

definition sort_by :: "('a \<Rightarrow> 'a \<Rightarrow> int) \<Rightarrow> 'a list \<Rightarrow> 'a list" where
  "sort_by cmp xs = foldr (insert_by cmp) xs []"

lemma set_insert_by [simp]: "set (insert_by cmp x ys) = insert x (set ys)"
  by (induction ys) auto

lemma set_sort_by [simp]: "set (sort_by cmp xs) = set xs"
  unfolding sort_by_def by (induction xs) auto

lemma length_insert_by [simp]: "length (insert_by cmp x ys) = Suc (length ys)"
  by (induction ys) auto

lemma length_sort_by [simp]: "length (sort_by cmp xs) = length xs"
  unfolding sort_by_def by (induction xs) auto

lemma distinct_insert_by: "distinct (insert_by cmp x ys) \<longleftrightarrow> x \<notin> set ys \<and> distinct ys"
  by (induction ys) auto

lemma distinct_sort_by [simp]: "distinct (sort_by cmp xs) = distinct xs"
proof (induction xs)
  case (Cons x xs)
  then show ?case
    using set_sort_by [of cmp xs] by (simp add: sort_by_def distinct_insert_by)
qed (simp add: sort_by_def)

locale js_comparator =
  fixes cmp :: "'a \<Rightarrow> 'a \<Rightarrow> int"
  assumes cmp_swap: "cmp a b \<le> 0 \<longleftrightarrow> cmp b a \<ge> 0"
    and cmp_trans: "cmp a b \<le> 0 \<Longrightarrow> cmp b c \<le> 0 \<Longrightarrow> cmp a c \<le> 0"
begin

lemma cmp_refl: "cmp a a \<le> 0"
  using cmp_swap [of a a] by linarith

lemma sorted_insert_by:
  "sorted_wrt (\<lambda>a b. cmp a b \<le> 0) ys \<Longrightarrow> sorted_wrt (\<lambda>a b. cmp a b \<le> 0) (insert_by cmp x ys)"
proof (induction ys)
  case (Cons y ys)
  have "cmp y x \<le> 0" if "\<not> cmp x y \<le> 0" using that cmp_swap [of y x] by linarith
  with Cons show ?case using cmp_trans by (auto)
qed simp

lemma sorted_sort_by: "sorted_wrt (\<lambda>a b. cmp a b \<le> 0) (sort_by cmp xs)"
  unfolding sort_by_def by (induction xs) (auto intro: sorted_insert_by)

text \<open>A filter commutes with sorting, so elements that compare equal keep their order.\<close>

lemma filter_insert_equal:
  assumes P: "\<And>a b. P a \<Longrightarrow> P b \<Longrightarrow> cmp a b = 0"
  shows "sorted_wrt (\<lambda>a b. cmp a b \<le> 0) ys \<Longrightarrow>
    filter P (insert_by cmp x ys) = (if P x then x # filter P ys else filter P ys)"
proof (induction ys)
  case (Cons y ys)
  show ?case
  proof (cases "cmp x y \<le> 0")
    case False
    then have "P x \<Longrightarrow> \<not> P y" using P [of x y] by auto
    with False Cons show ?thesis by auto
  qed auto
qed simp

lemma sort_by_stable:
  assumes "\<And>a b. P a \<Longrightarrow> P b \<Longrightarrow> cmp a b = 0"
  shows "filter P (sort_by cmp xs) = filter P xs"
proof (induction xs)
  case (Cons x xs)
  then show ?case
    using filter_insert_equal [of P "sort_by cmp xs" x, OF assms sorted_sort_by]
    by (simp add: sort_by_def)
qed (simp add: sort_by_def)

end

section \<open>JSON values\<close>

datatype json =
    JNull
  | JBool bool
  | JNum rat
  | JStr string
  | JArr "json list"
  | JObj "(string \<times> json) list"

primrec json_truthy :: "json \<Rightarrow> bool" where
  "json_truthy JNull = False"
| "json_truthy (JBool b) = b"
| "json_truthy (JNum n) = (n \<noteq> 0)"
| "json_truthy (JStr s) = (s \<noteq> [])"
| "json_truthy (JArr _) = True"
| "json_truthy (JObj _) = True"

end
