(* ===== verification/Url_Codec.thy ===== *)
theory Url_Codec
  imports Fleet_Prelude
begin

text \<open>
  The URL encodings of the JavaScript library that \<open>api/client.ts\<close> uses: \<open>encodeURIComponent\<close> for
  path segments and \<open>URLSearchParams\<close> for queries. Both work byte by byte on the UTF-8 bytes
  that a \<^typ>\<open>string\<close> holds here. The locale \<open>url_codec\<close> is the contract the request builders
  rely on: decoding undoes encoding, and no delimiter of a URL survives encoding.
\<close>

section \<open>Percent encoding\<close>

definition hex_char :: "nat \<Rightarrow> char" where
  "hex_char n = ''0123456789ABCDEF'' ! (n mod 16)"

definition hex_val :: "char \<Rightarrow> nat option" where
  "hex_val c = index_of c ''0123456789ABCDEF''"

definition pct_byte :: "char \<Rightarrow> string" where
  "pct_byte c = [CHR ''%'', hex_char (of_char c div 16), hex_char (of_char c)]"

definition is_alnum :: "char \<Rightarrow> bool" where
  "is_alnum c \<longleftrightarrow> is_alpha c \<or> is_digit c"

definition component_plain :: "char \<Rightarrow> bool" where
  "component_plain c \<longleftrightarrow> is_alnum c \<or> c \<in> set ''-_.!~*()'' \<or> c = CHR 0x27"

definition encodeURIComponent :: "string \<Rightarrow> string" where
  "encodeURIComponent s = concat (map (\<lambda>c. if component_plain c then [c] else pct_byte c) s)"

definition form_plain :: "char \<Rightarrow> bool" where
  "form_plain c \<longleftrightarrow> is_alnum c \<or> c \<in> set ''*-._''"

definition form_encode :: "string \<Rightarrow> string" where
  "form_encode s = concat (map (\<lambda>c. if c = CHR '' '' then ''+'' else if form_plain c then [c] else pct_byte c) s)"

text \<open>Decoding, as the server does it; \<^const>\<open>None\<close> for a malformed escape.\<close>

fun pct_decode :: "(char \<Rightarrow> char) \<Rightarrow> string \<Rightarrow> string option" where
  "pct_decode f [] = Some []"
| "pct_decode f (c # s) =
     (if c = CHR ''%'' then
        (case s of
           a # b # r \<Rightarrow>
             (case (hex_val a, hex_val b) of
                (Some x, Some y) \<Rightarrow> map_option (\<lambda>t. char_of (16 * x + y) # t) (pct_decode f r)
              | _ \<Rightarrow> None)
         | _ \<Rightarrow> None)
      else map_option (\<lambda>t. f c # t) (pct_decode f s))"

definition decode_component :: "string \<Rightarrow> string option" where
  "decode_component s = pct_decode id s"

definition decode_form :: "string \<Rightarrow> string option" where
  "decode_form s = pct_decode (\<lambda>c. if c = CHR ''+'' then CHR '' '' else c) s"

section \<open>Query strings\<close>

text \<open>\<open>URLSearchParams\<close> is a list of pairs; \<open>set\<close> replaces the first entry of a name and drops the others.\<close>

type_synonym params = "(string \<times> string) list"

fun params_set :: "string \<Rightarrow> string \<Rightarrow> params \<Rightarrow> params" where
  "params_set k v [] = [(k, v)]"
| "params_set k v ((k', v') # ps) =
     (if k' = k then (k, v) # filter (\<lambda>(k'', _). k'' \<noteq> k) ps else (k', v') # params_set k v ps)"

definition params_get :: "string \<Rightarrow> params \<Rightarrow> string option" where
  "params_get k ps = map_of ps k"

definition params_delete :: "string \<Rightarrow> params \<Rightarrow> params" where
  "params_delete k ps = filter (\<lambda>(k', _). k' \<noteq> k) ps"

definition params_toString :: "params \<Rightarrow> string" where
  "params_toString ps = join_with ''&'' (map (\<lambda>(k, v). form_encode k @ ''='' @ form_encode v) ps)"

section \<open>Lemmas\<close>

lemma index_of_nth: "distinct xs \<Longrightarrow> i < length xs \<Longrightarrow> index_of (xs ! i) xs = Some i"
  by (induction xs arbitrary: i) (auto simp: nth_Cons split: nat.splits)

lemma hex_val_hex_char [simp]: "hex_val (hex_char n) = Some (n mod 16)"
  using index_of_nth [of "''0123456789ABCDEF''" "n mod 16"] by (simp add: hex_val_def hex_char_def)

lemma concat_map_elem: "x \<in> set (concat (map f s)) \<longleftrightarrow> (\<exists>c \<in> set s. x \<in> set (f c))"
  by auto

lemma hex_char_alnum [simp]: "is_alnum (hex_char n)"
proof -
  have "list_all is_alnum ''0123456789ABCDEF''" by (simp add: is_alnum_def is_alpha_def is_digit_def)
  then show ?thesis unfolding hex_char_def list_all_length by simp
qed

lemma byte_recombine: "char_of (16 * ((of_char c div 16) mod 16) + of_char c mod 16 :: nat) = (c :: char)"
proof -
  have b: "(of_char c :: nat) < 256" by simp
  have "(of_char c div 16 :: nat) < 16" by (rule less_mult_imp_div_less) (use b in simp)
  then have "(of_char c div 16) mod 16 = (of_char c div 16 :: nat)" by simp
  moreover have "16 * (of_char c div 16) + of_char c mod 16 = (of_char c :: nat)" by simp
  ultimately show ?thesis by simp
qed

lemma decode_pct_byte [simp]: "pct_decode f (pct_byte c @ s) = map_option (\<lambda>t. c # t) (pct_decode f s)"
  using byte_recombine [of c] by (simp add: pct_byte_def)

lemma plain_not_percent: "component_plain c \<Longrightarrow> c \<noteq> CHR ''%''" "form_plain c \<Longrightarrow> c \<noteq> CHR ''%'' \<and> c \<noteq> CHR ''+''"
  by (auto simp: component_plain_def form_plain_def is_alnum_def is_alpha_def is_digit_def)

lemma decode_encode_component: "decode_component (encodeURIComponent s) = Some s"
  unfolding decode_component_def encodeURIComponent_def
  by (induction s) (auto simp: plain_not_percent)

lemma decode_encode_form: "decode_form (form_encode s) = Some s"
  unfolding decode_form_def form_encode_def
  by (induction s) (auto dest: plain_not_percent)

definition url_delims :: string where
  "url_delims = ''/?#&= :@''"

lemma alnum_not_delim: "is_alnum c \<Longrightarrow> c \<notin> set url_delims"
  by (auto simp: url_delims_def is_alnum_def is_alpha_def is_digit_def)

lemma pct_byte_not_delim: "x \<in> set (pct_byte c) \<Longrightarrow> x \<notin> set url_delims"
  using alnum_not_delim [OF hex_char_alnum] by (auto simp: pct_byte_def url_delims_def)

lemma component_plain_not_delim: "component_plain c \<Longrightarrow> c \<notin> set url_delims"
  by (auto simp: component_plain_def url_delims_def is_alnum_def is_alpha_def is_digit_def)

lemma form_plain_not_delim: "form_plain c \<Longrightarrow> c \<notin> set url_delims"
  by (auto simp: form_plain_def url_delims_def is_alnum_def is_alpha_def is_digit_def)

lemma component_no_delim: "x \<in> set (encodeURIComponent s) \<Longrightarrow> x \<notin> set url_delims"
proof -
  assume "x \<in> set (encodeURIComponent s)"
  then obtain c where "c \<in> set s" "x \<in> set (if component_plain c then [c] else pct_byte c)"
    unfolding encodeURIComponent_def concat_map_elem by blast
  then show ?thesis
    using pct_byte_not_delim [of x c] component_plain_not_delim [of c] by (cases "component_plain c") simp_all
qed

lemma form_no_delim: "x \<in> set (form_encode s) \<Longrightarrow> x \<notin> set url_delims"
proof -
  assume "x \<in> set (form_encode s)"
  then obtain c where "c \<in> set s" "x \<in> set (if c = CHR '' '' then ''+'' else if form_plain c then [c] else pct_byte c)"
    unfolding form_encode_def concat_map_elem by blast
  moreover have "CHR ''+'' \<notin> set url_delims" by (simp add: url_delims_def)
  ultimately show ?thesis
    using pct_byte_not_delim [of x c] form_plain_not_delim [of c]
    by (cases "c = CHR '' ''"; cases "form_plain c") simp_all
qed

section \<open>The contract of an encoding\<close>

locale url_codec =
  fixes enc :: "string \<Rightarrow> string" and dec :: "string \<Rightarrow> string option"
  assumes dec_enc: "dec (enc s) = Some s"
    and no_delim: "x \<in> set (enc s) \<Longrightarrow> x \<notin> set url_delims"
begin

lemma enc_inj: "enc s = enc t \<longleftrightarrow> s = t"
  by (metis dec_enc option.inject)

lemma delim_free: "c \<in> set url_delims \<Longrightarrow> c \<notin> set (enc s)"
  using no_delim by blast

text \<open>An encoded segment between slashes is one segment of the path.\<close>

lemma segment:
  assumes "CHR ''/'' \<notin> set rest"
  shows "split_on (CHR ''/'') (enc s @ CHR ''/'' # rest) = [enc s, rest]"
proof -
  have "CHR ''/'' \<notin> set (enc s)" by (rule delim_free) (simp add: url_delims_def)
  then show ?thesis by (simp add: split_on_append split_on_no_sep assms)
qed

end

interpretation component: url_codec encodeURIComponent decode_component
  by unfold_locales (simp add: decode_encode_component, rule component_no_delim)

interpretation form: url_codec form_encode decode_form
  by unfold_locales (simp add: decode_encode_form, rule form_no_delim)

section \<open>Reading a query string back\<close>

definition parse_pair :: "string \<Rightarrow> (string \<times> string) option" where
  "parse_pair p =
    (case split_on (CHR ''='') p of
       [k, v] \<Rightarrow> (case (decode_form k, decode_form v) of (Some a, Some b) \<Rightarrow> Some (a, b) | _ \<Rightarrow> None)
     | _ \<Rightarrow> None)"

definition parse_query :: "string \<Rightarrow> (string \<times> string) option list" where
  "parse_query q = (if q = [] then [] else map parse_pair (split_on (CHR ''&'') q))"

lemma parse_pair_encode: "parse_pair (form_encode k @ ''='' @ form_encode v) = Some (k, v)"
proof -
  have "CHR ''='' \<notin> set (form_encode k)" "CHR ''='' \<notin> set (form_encode v)"
    by (rule form.delim_free; simp add: url_delims_def)+
  then show ?thesis by (simp add: parse_pair_def split_on_append split_on_no_sep decode_encode_form)
qed

lemma parse_params_toString: "parse_query (params_toString ps) = map Some ps"
proof (cases ps)
  case Nil
  then show ?thesis by (simp add: parse_query_def params_toString_def)
next
  case (Cons p ps')
  let ?ts = "map (\<lambda>(k, v). form_encode k @ ''='' @ form_encode v) ps"
  have nd: "\<forall>t \<in> set ?ts. CHR ''&'' \<notin> set t"
    using form.delim_free [of "CHR ''&''"] by (auto simp: url_delims_def)
  have "?ts \<noteq> []" using Cons by simp
  then have "split_on (CHR ''&'') (join_with [CHR ''&''] ?ts) = ?ts" using nd by (rule split_on_join)
  moreover have "params_toString ps \<noteq> []"
    using Cons by (cases p; cases ps') (auto simp: params_toString_def)
  ultimately show ?thesis
    by (simp add: parse_query_def params_toString_def case_prod_unfold parse_pair_encode comp_def
        del: append.simps)
qed

lemma params_toString_Nil: "params_toString ps = [] \<longleftrightarrow> ps = []"
  by (cases ps; cases "tl ps") (auto simp: params_toString_def)

lemma params_set_new: "k \<notin> fst ` set ps \<Longrightarrow> params_set k v ps = ps @ [(k, v)]"
  by (induction ps) auto

lemma map_of_filter_fst: "map_of (filter (\<lambda>(k'', _). k'' \<noteq> k) ps) k' = (if k' = k then None else map_of ps k')"
  by (induction ps) auto

lemma params_get_set: "params_get k' (params_set k v ps) = (if k' = k then Some v else params_get k' ps)"
  unfolding params_get_def by (induction ps) (auto simp: map_of_filter_fst)

end
