(* ===== verification/Api_Transport.thy ===== *)
theory Api_Transport
  imports Url_Codec
begin

text \<open>
  The transport half of \<open>api/client.ts\<close>: the module's variables, the token read from the page's
  URL, \<open>apiFetch\<close> with its bearer header and version check, and the response helpers. An
  \<open>async\<close> function is a state transformer on \<open>client\<close> that returns a value or a thrown error.
  What the network does is the field \<open>cl_network\<close>: the outcomes of the coming calls of
  \<open>fetch\<close>, each with the milliseconds it takes; when the list is used up a call rejects, as it
  does when the network is gone.
\<close>

section \<open>Requests, responses, errors\<close>

record request =
  rq_url :: string
  rq_method :: string
  rq_headers :: "(string \<times> string) list"
  rq_body :: "json option"

text \<open>The \<open>RequestInit\<close> argument; a JSON body is kept as the value passed to \<open>JSON.stringify\<close>.\<close>

record fetch_opts =
  fo_method :: "string option"
  fo_headers :: "(string \<times> string) list"
  fo_body :: "json option"

text \<open>\<open>rs_json\<close> is \<^const>\<open>None\<close> when \<open>r.json()\<close> rejects.\<close>

record response =
  rs_status :: nat
  rs_headers :: "(string \<times> string) list"
  rs_json :: "json option"
  rs_text :: string

datatype net_event = NetFail | NetOk response

datatype js_error = ApiErr string nat | PlainErr string | FetchErr | JsonErr | TypeErr

datatype effect = ToastInfo string | ReloadAfter nat

record client =
  cl_initialAddonVersion :: "string option"
  cl_reloadScheduled :: bool
  cl_authToken :: "string option option"
  cl_page_query :: params
  cl_storage :: "string \<Rightarrow> string option"
  cl_storage_read :: bool
  cl_storage_write :: bool
  cl_history_ok :: bool
  cl_network :: "(nat \<times> net_event) list"
  cl_sent :: "request list"
  cl_clock :: nat
  cl_effects :: "effect list"

type_synonym 'a api = "client \<Rightarrow> (js_error + 'a) \<times> client"

definition api_return :: "'a \<Rightarrow> 'a api" where
  "api_return x c = (Inr x, c)"

definition api_throw :: "js_error \<Rightarrow> 'a api" where
  "api_throw e c = (Inl e, c)"

definition api_bind :: "'a api \<Rightarrow> ('a \<Rightarrow> 'b api) \<Rightarrow> 'b api" where
  "api_bind m f c = (case m c of (Inl e, c') \<Rightarrow> (Inl e, c') | (Inr x, c') \<Rightarrow> f x c')"

definition rs_ok :: "response \<Rightarrow> bool" where
  "rs_ok r \<longleftrightarrow> 200 \<le> rs_status r \<and> rs_status r \<le> 299"

text \<open>Header names compare without regard to case.\<close>

definition header_get :: "string \<Rightarrow> (string \<times> string) list \<Rightarrow> string option" where
  "header_get name hs = map_option snd (find (\<lambda>(k, _). to_lower k = to_lower name) hs)"

section \<open>Reading errors and bodies\<close>

definition isUnauthorizedError :: "js_error \<Rightarrow> bool" where
  "isUnauthorizedError err = (case err of ApiErr _ status \<Rightarrow> status = 401 | _ \<Rightarrow> False)"

definition readError :: "response \<Rightarrow> string \<Rightarrow> string" where
  "readError r fallback =
    (case rs_json r of
       Some (JObj fs) \<Rightarrow>
         (case map_of fs ''error'' of
            Some (JStr (c # s)) \<Rightarrow> c # s
          | _ \<Rightarrow> fallback @ '' (HTTP '' @ show_nat (rs_status r) @ '')'')
     | _ \<Rightarrow> fallback @ '' (HTTP '' @ show_nat (rs_status r) @ '')'')"

definition parseResponse :: "response \<Rightarrow> string \<Rightarrow> json api" where
  "parseResponse r errorTag =
    (if \<not> rs_ok r then api_throw (ApiErr (readError r errorTag) (rs_status r))
     else case rs_json r of None \<Rightarrow> api_throw JsonErr | Some j \<Rightarrow> api_return j)"

definition expectOk :: "response \<Rightarrow> string \<Rightarrow> unit api" where
  "expectOk r errorTag =
    (if \<not> rs_ok r then api_throw (ApiErr (readError r errorTag) (rs_status r)) else api_return ())"

section \<open>The page: socket URLs and the token\<close>

text \<open>\<open>pathname_of\<close> is the path the browser resolves an \<open>href\<close> to.\<close>

definition buildWsUrl :: "string \<Rightarrow> string \<Rightarrow> string option \<Rightarrow> (string \<Rightarrow> string) \<Rightarrow> string \<Rightarrow> string" where
  "buildWsUrl protocol host base_href pathname_of path =
    (let proto = (if protocol = ''https:'' then ''wss:'' else ''ws:'');
         base = str_or base_href ''/''
     in proto @ ''//'' @ host @ pathname_of (base @ path))"

definition TOKEN_KEY :: string where
  "TOKEN_KEY = ''esphome_fleet_token''"

definition getAuthToken :: "client \<Rightarrow> string option \<times> client" where
  "getAuthToken c =
    (case cl_authToken c of
       Some t \<Rightarrow> (t, c)
     | None \<Rightarrow>
        (let tok = params_get ''token'' (cl_page_query c) in
         if truthy_str tok \<and> \<not> cl_storage_write c then (None, c\<lparr>cl_authToken := Some None\<rparr>)
         else
           let c1 = (if truthy_str tok then c\<lparr>cl_storage := (cl_storage c)(TOKEN_KEY := tok)\<rparr> else c) in
           if truthy_str tok \<and> \<not> cl_history_ok c then (None, c1\<lparr>cl_authToken := Some None\<rparr>)
           else
             let c2 = (if truthy_str tok then c1\<lparr>cl_page_query := params_delete ''token'' (cl_page_query c1)\<rparr> else c1) in
             if \<not> cl_storage_read c then (None, c2\<lparr>cl_authToken := Some None\<rparr>)
             else let t = cl_storage c2 TOKEN_KEY in (t, c2\<lparr>cl_authToken := Some t\<rparr>)))"

section \<open>apiFetch\<close>

definition fetch :: "request \<Rightarrow> response api" where
  "fetch req c =
    (let c1 = c\<lparr>cl_sent := cl_sent c @ [req]\<rparr> in
     case cl_network c of
       [] \<Rightarrow> (Inl FetchErr, c1)
     | (d, ev) # net \<Rightarrow>
        (let c2 = c1\<lparr>cl_network := net, cl_clock := cl_clock c + d\<rparr> in
         case ev of NetFail \<Rightarrow> (Inl FetchErr, c2) | NetOk r \<Rightarrow> (Inr r, c2)))"

definition authorize :: "string option \<Rightarrow> (string \<times> string) list \<Rightarrow> (string \<times> string) list" where
  "authorize token hs =
    (if truthy_str token \<and> header_get ''Authorization'' hs = None
     then hs @ [(''Authorization'', ''Bearer '' @ the token)] else hs)"

definition checkVersion :: "response \<Rightarrow> client \<Rightarrow> client" where
  "checkVersion r c =
    (let sv = header_get ''X-Server-Version'' (rs_headers r) in
     if truthy_str sv \<and> truthy_str (cl_initialAddonVersion c) \<and> sv \<noteq> cl_initialAddonVersion c
        \<and> \<not> cl_reloadScheduled c
     then c\<lparr>cl_reloadScheduled := True,
            cl_effects := cl_effects c @ [ToastInfo (''New server version '' @ em_dash @ '' reloading...''), ReloadAfter 1000]\<rparr>
     else c)"

definition apiFetch :: "string \<Rightarrow> fetch_opts \<Rightarrow> response api" where
  "apiFetch path opts c =
    (let (token, c1) = getAuthToken c;
         req = \<lparr>rq_url = path, rq_method = nullish (fo_method opts) ''GET'',
                rq_headers = authorize token (fo_headers opts), rq_body = fo_body opts\<rparr>
     in case fetch req c1 of
          (Inl e, c2) \<Rightarrow> (Inl e, c2)
        | (Inr r, c2) \<Rightarrow> (Inr r, checkVersion r c2))"

definition setInitialAddonVersion :: "string \<Rightarrow> client \<Rightarrow> client" where
  "setInitialAddonVersion version c =
    (if cl_initialAddonVersion c = None then c\<lparr>cl_initialAddonVersion := Some version\<rparr> else c)"

definition getInitialAddonVersion :: "client \<Rightarrow> string option" where
  "getInitialAddonVersion c = cl_initialAddonVersion c"

text \<open>The shapes of the options the endpoints pass.\<close>

definition plain_opts :: fetch_opts where
  "plain_opts = \<lparr>fo_method = None, fo_headers = [], fo_body = None\<rparr>"

definition method_opts :: "string \<Rightarrow> fetch_opts" where
  "method_opts m = \<lparr>fo_method = Some m, fo_headers = [], fo_body = None\<rparr>"

definition json_opts :: "string \<Rightarrow> json \<Rightarrow> fetch_opts" where
  "json_opts m body = \<lparr>fo_method = Some m, fo_headers = [(''Content-Type'', ''application/json'')], fo_body = Some body\<rparr>"

definition json_call :: "string \<Rightarrow> fetch_opts \<Rightarrow> string \<Rightarrow> json api" where
  "json_call path opts tag = api_bind (apiFetch path opts) (\<lambda>r. parseResponse r tag)"

definition ok_call :: "string \<Rightarrow> fetch_opts \<Rightarrow> string \<Rightarrow> unit api" where
  "ok_call path opts tag = api_bind (apiFetch path opts) (\<lambda>r. expectOk r tag)"

section \<open>Lemmas\<close>

lemma api_return_simps [simp]: "api_return x c = (Inr x, c)" "api_throw e c = (Inl e, c)"
  by (simp_all add: api_return_def api_throw_def)

lemma parseResponse_state [simp]: "snd (parseResponse r tag c) = c"
  by (simp add: parseResponse_def split: option.splits)

lemma expectOk_state [simp]: "snd (expectOk r tag c) = c"
  by (simp add: expectOk_def)

lemma getAuthToken_frame:
  assumes "getAuthToken c = (t, c')"
  shows "cl_sent c' = cl_sent c \<and> cl_network c' = cl_network c \<and> cl_clock c' = cl_clock c
    \<and> cl_effects c' = cl_effects c \<and> cl_reloadScheduled c' = cl_reloadScheduled c
    \<and> cl_initialAddonVersion c' = cl_initialAddonVersion c \<and> cl_authToken c' = Some t"
  using assms by (auto simp: getAuthToken_def Let_def split: option.splits if_splits)

lemma checkVersion_frame [simp]:
  "cl_sent (checkVersion r c) = cl_sent c" "cl_network (checkVersion r c) = cl_network c"
  "cl_clock (checkVersion r c) = cl_clock c" "cl_authToken (checkVersion r c) = cl_authToken c"
  "cl_initialAddonVersion (checkVersion r c) = cl_initialAddonVersion c"
  "cl_page_query (checkVersion r c) = cl_page_query c" "cl_storage (checkVersion r c) = cl_storage c"
  by (simp_all add: checkVersion_def Let_def)

lemma fetch_frame:
  assumes "fetch req c = (res, c')"
  shows "cl_sent c' = cl_sent c @ [req] \<and> cl_effects c' = cl_effects c
    \<and> cl_reloadScheduled c' = cl_reloadScheduled c \<and> cl_initialAddonVersion c' = cl_initialAddonVersion c
    \<and> cl_authToken c' = cl_authToken c \<and> cl_network c' = tl (cl_network c)
    \<and> cl_page_query c' = cl_page_query c"
  using assms by (auto simp: fetch_def Let_def split: list.splits prod.splits net_event.splits)

definition request_of :: "string \<Rightarrow> fetch_opts \<Rightarrow> client \<Rightarrow> request" where
  "request_of path opts c =
    \<lparr>rq_url = path, rq_method = nullish (fo_method opts) ''GET'',
     rq_headers = authorize (fst (getAuthToken c)) (fo_headers opts), rq_body = fo_body opts\<rparr>"

lemma apiFetch_frame:
  assumes "apiFetch path opts c = (res, c')"
  shows "cl_sent c' = cl_sent c @ [request_of path opts c]
    \<and> cl_initialAddonVersion c' = cl_initialAddonVersion c
    \<and> cl_authToken c' = Some (fst (getAuthToken c)) \<and> cl_network c' = tl (cl_network c)"
proof -
  obtain t c1 where a: "getAuthToken c = (t, c1)" by (cases "getAuthToken c")
  note fa = getAuthToken_frame [OF a]
  obtain x c2 where f: "fetch (request_of path opts c) c1 = (x, c2)"
    by (cases "fetch (request_of path opts c) c1")
  note ff = fetch_frame [OF f]
  from assms f have "c' = c2 \<or> (\<exists>r. c' = checkVersion r c2)"
    by (auto simp: apiFetch_def request_of_def a Let_def split: sum.splits)
  then show ?thesis using fa ff a by auto
qed

section \<open>The contract of the transport\<close>

text \<open>
  What the endpoints need of \<open>apiFetch\<close>: a call sends exactly one request, with the path, method
  and body it was given, and settles the token. Whatever is built from one call and the
  response helpers inherits that, and turns a response outside 200-299 into an \<open>ApiError\<close> with
  its status.
\<close>

locale transport =
  fixes send :: "string \<Rightarrow> fetch_opts \<Rightarrow> response api"
  assumes one_request: "send path opts c = (res, c') \<Longrightarrow>
      \<exists>hs. cl_sent c' = cl_sent c @ [\<lparr>rq_url = path, rq_method = nullish (fo_method opts) ''GET'',
                               rq_headers = hs, rq_body = fo_body opts\<rparr>]"
    and token_settled: "send path opts c = (res, c') \<Longrightarrow> cl_authToken c' \<noteq> None"
begin

lemma wrapped_one_request:
  assumes "\<And>r c. snd (f r c) = c"
  shows "\<exists>hs. cl_sent (snd (api_bind (send path opts) f c)) =
    cl_sent c @ [\<lparr>rq_url = path, rq_method = nullish (fo_method opts) ''GET'', rq_headers = hs, rq_body = fo_body opts\<rparr>]"
proof -
  obtain res c' where s: "send path opts c = (res, c')" by (cases "send path opts c")
  then have "snd (api_bind (send path opts) f c) = c'"
    using assms by (simp add: api_bind_def split: sum.splits)
  with one_request [OF s] show ?thesis by simp
qed

lemma json_one_request:
  "\<exists>hs. cl_sent (snd (api_bind (send path opts) (\<lambda>r. parseResponse r tag) c)) =
    cl_sent c @ [\<lparr>rq_url = path, rq_method = nullish (fo_method opts) ''GET'', rq_headers = hs, rq_body = fo_body opts\<rparr>]"
  by (rule wrapped_one_request) simp

lemma error_status:
  assumes "send path opts c = (Inr r, c')" and "\<not> rs_ok r"
  shows "fst (api_bind (send path opts) (\<lambda>r. parseResponse r tag) c) = Inl (ApiErr (readError r tag) (rs_status r))"
    and "fst (api_bind (send path opts) (\<lambda>r. expectOk r tag) c) = Inl (ApiErr (readError r tag) (rs_status r))"
  using assms by (simp_all add: api_bind_def parseResponse_def expectOk_def)

lemma ok_value:
  assumes "send path opts c = (Inr r, c')" and "rs_ok r"
  shows "fst (api_bind (send path opts) (\<lambda>r. parseResponse r tag) c)
      = (case rs_json r of None \<Rightarrow> Inl JsonErr | Some j \<Rightarrow> Inr j)"
    and "fst (api_bind (send path opts) (\<lambda>r. expectOk r tag) c) = Inr ()"
  using assms by (simp_all add: api_bind_def parseResponse_def expectOk_def split: option.splits)

end

interpretation api: transport apiFetch
  by unfold_locales (use apiFetch_frame in \<open>fastforce simp: request_of_def\<close>)+

section \<open>Reachable states of the module\<close>

inductive client_step :: "client \<Rightarrow> client \<Rightarrow> bool" where
  call: "apiFetch path opts c = (res, c') \<Longrightarrow> client_step c c'"
| sentinel: "client_step c (setInitialAddonVersion v c)"

inductive client_reach :: "client \<Rightarrow> client \<Rightarrow> bool" for c0 where
  start: "client_reach c0 c0"
| step: "client_reach c0 c \<Longrightarrow> client_step c c' \<Longrightarrow> client_reach c0 c'"

definition reloads :: "client \<Rightarrow> nat" where
  "reloads c = length (filter (\<lambda>e. \<exists>n. e = ReloadAfter n) (cl_effects c))"

definition reload_inv :: "client \<Rightarrow> bool" where
  "reload_inv c \<longleftrightarrow> reloads c = (if cl_reloadScheduled c then 1 else 0)"

lemma checkVersion_inv: "reload_inv c \<Longrightarrow> reload_inv (checkVersion r c)"
  by (auto simp: reload_inv_def reloads_def checkVersion_def Let_def)

lemma apiFetch_inv:
  assumes "reload_inv c" and "apiFetch path opts c = (res, c')"
  shows "reload_inv c'"
proof -
  obtain t c1 where a: "getAuthToken c = (t, c1)" by (cases "getAuthToken c")
  note fa = getAuthToken_frame [OF a]
  obtain x c2 where f: "fetch (request_of path opts c) c1 = (x, c2)"
    by (cases "fetch (request_of path opts c) c1")
  note ff = fetch_frame [OF f]
  have "reload_inv c2" using assms(1) fa ff by (simp add: reload_inv_def reloads_def)
  moreover from assms(2) f have "c' = c2 \<or> (\<exists>r. c' = checkVersion r c2)"
    by (auto simp: apiFetch_def request_of_def a Let_def split: sum.splits)
  ultimately show ?thesis using checkVersion_inv by auto
qed

lemma client_reach_inv:
  assumes "client_reach c0 c" and "reload_inv c0"
  shows "reload_inv c
    \<and> (cl_initialAddonVersion c0 \<noteq> None \<longrightarrow> cl_initialAddonVersion c = cl_initialAddonVersion c0)
    \<and> (cl_authToken c0 \<noteq> None \<longrightarrow> cl_authToken c = cl_authToken c0)"
  using assms
proof (induction rule: client_reach.induct)
  case (step c c')
  from step.hyps(2) show ?case
  proof (cases rule: client_step.cases)
    case (call path opts res)
    have "fst (getAuthToken c) = the (cl_authToken c)" if "cl_authToken c \<noteq> None"
      using that by (auto simp: getAuthToken_def)
    with step call apiFetch_inv [OF _ call] apiFetch_frame [OF call] show ?thesis by auto
  next
    case (sentinel v)
    with step show ?thesis
      by (auto simp: setInitialAddonVersion_def reload_inv_def reloads_def)
  qed
qed simp

section \<open>Properties\<close>

text \<open>C7: in every state the client module reaches from a fresh page, at most one page reload has
  been scheduled, exactly one when the flag says so, and the version and token recorded first
  never change.\<close>
theorem one_reload:
  assumes "client_reach c0 c" and "cl_effects c0 = []" and "\<not> cl_reloadScheduled c0"
  shows "reloads c \<le> 1 \<and> (reloads c = 1 \<longleftrightarrow> cl_reloadScheduled c)
    \<and> (cl_initialAddonVersion c0 \<noteq> None \<longrightarrow> cl_initialAddonVersion c = cl_initialAddonVersion c0)
    \<and> (cl_authToken c0 \<noteq> None \<longrightarrow> cl_authToken c = cl_authToken c0)"
proof -
  have "reload_inv c0" using assms(2,3) by (simp add: reload_inv_def reloads_def)
  from client_reach_inv [OF assms(1) this] show ?thesis by (auto simp: reload_inv_def)
qed

definition fresh_client :: client where
  "fresh_client = \<lparr>cl_initialAddonVersion = Some ''1.7.0'', cl_reloadScheduled = False, cl_authToken = None,
     cl_page_query = [(''token'', ''s3cret''), (''tab'', ''queue'')], cl_storage = (\<lambda>_. None),
     cl_storage_read = True, cl_storage_write = True, cl_history_ok = True,
     cl_network = [(20, NetOk \<lparr>rs_status = 200, rs_headers = [(''x-server-version'', ''1.7.1'')],
                    rs_json = Some (JArr []), rs_text = ''[]''\<rparr>)],
     cl_sent = [], cl_clock = 0, cl_effects = []\<rparr>"

lemma fresh_fetch: "cl_reloadScheduled (snd (apiFetch ''./ui/api/targets'' plain_opts fresh_client))"
  by code_simp

theorem one_reload_witness:
  "reloads (snd (apiFetch ''./ui/api/targets'' plain_opts fresh_client)) = 1"
proof -
  have "client_reach fresh_client (snd (apiFetch ''./ui/api/targets'' plain_opts fresh_client))"
    by (rule client_reach.step [OF client_reach.start], rule client_step.call, rule prod.collapse [symmetric])
  then show ?thesis using one_reload fresh_fetch by (simp add: fresh_client_def)
qed

text \<open>The token. When a page was opened with a \<open>token\<close> parameter and its storage works, the
  first call moves the token out of the visible URL, sends it as a bearer header on that
  request, and keeps every other query parameter; later calls reuse it without touching the
  page again.\<close>
theorem token_from_url:
  assumes "cl_authToken c = None" and "params_get ''token'' (cl_page_query c) = Some tok" and "tok \<noteq> []"
    and "cl_storage_read c" and "cl_storage_write c" and "cl_history_ok c"
    and "header_get ''Authorization'' (fo_headers opts) = None"
    and "apiFetch path opts c = (res, c')"
  shows "header_get ''Authorization'' (rq_headers (last (cl_sent c'))) = Some (''Bearer '' @ tok)
    \<and> cl_page_query c' = filter (\<lambda>(k, _). k \<noteq> ''token'') (cl_page_query c)
    \<and> getAuthToken c' = (Some tok, c')"
proof -
  have tok: "getAuthToken c = (Some tok, c\<lparr>cl_storage := (cl_storage c)(TOKEN_KEY := Some tok),
      cl_page_query := params_delete ''token'' (cl_page_query c), cl_authToken := Some (Some tok)\<rparr>)"
    using assms(1-6) by (simp add: getAuthToken_def Let_def)
  note fr = apiFetch_frame [OF assms(8)]
  have find_append: "header_get n (hs @ [(k, v)]) = (if header_get n hs = None then
      (if to_lower k = to_lower n then Some v else None) else header_get n hs)" for n hs k v
    by (induction hs) (auto simp: header_get_def)
  have "header_get ''Authorization'' (rq_headers (last (cl_sent c'))) = Some (''Bearer '' @ tok)"
    using fr tok assms(3,7) find_append by (simp add: request_of_def authorize_def)
  moreover have "cl_page_query c' = filter (\<lambda>(k, _). k \<noteq> ''token'') (cl_page_query c)"
  proof -
    let ?c1 = "snd (getAuthToken c)"
    obtain x c2 where f: "fetch (request_of path opts c) ?c1 = (x, c2)"
      by (cases "fetch (request_of path opts c) ?c1")
    from assms(8) f have "c' = c2 \<or> (\<exists>r. c' = checkVersion r c2)"
      by (auto simp: apiFetch_def request_of_def tok Let_def split: sum.splits)
    then show ?thesis using fetch_frame [OF f] tok by (auto simp: params_delete_def)
  qed
  moreover have "getAuthToken c' = (Some tok, c')"
    using fr tok by (simp add: getAuthToken_def)
  ultimately show ?thesis by simp
qed

theorem token_from_url_witness:
  "header_get ''Authorization'' (rq_headers (last (cl_sent (snd (apiFetch ''./ui/api/targets'' plain_opts fresh_client)))))
     = Some ''Bearer s3cret''
   \<and> cl_page_query (snd (apiFetch ''./ui/api/targets'' plain_opts fresh_client)) = [(''tab'', ''queue'')]"
  using token_from_url [of fresh_client "''s3cret''" plain_opts "''./ui/api/targets''", OF _ _ _ _ _ _ _ prod.collapse [symmetric]]
  by (simp add: fresh_client_def params_get_def plain_opts_def header_get_def)


definition expired_client :: client where
  "expired_client = fresh_client\<lparr>cl_network := [(5, NetOk \<lparr>rs_status = 401, rs_headers = [],
     rs_json = Some (JObj [(''error'', JStr ''session expired'')]), rs_text = []\<rparr>)]\<rparr>"


end
