(* ===== verification/Api_Endpoints.thy ===== *)
theory Api_Endpoints
  imports Api_Transport
begin

text \<open>
  The endpoint half of \<open>api/client.ts\<close>: one definition per exported function, in the file's order.
  Each is one request built with \<open>json_call\<close> or \<open>ok_call\<close>; the ones that look at the response
  themselves (\<open>getApiKey\<close>, \<open>getRenderedConfig\<close>, \<open>validateConfig\<close>, \<open>createTarget\<close>, the diagnostics
  pair) follow the code branch by branch. Typed response objects stay \<^typ>\<open>json\<close>, as the code
  only casts them. A JSON object has each name once.
\<close>

section \<open>Reading response fields\<close>

text \<open>\<open>data.k\<close>: reading a field of \<open>null\<close> throws, of any other non-object gives \<open>undefined\<close>.\<close>

definition js_field :: "json \<Rightarrow> string \<Rightarrow> json option api" where
  "js_field j k = (case j of JNull \<Rightarrow> api_throw TypeErr | JObj fs \<Rightarrow> api_return (map_of fs k) | _ \<Rightarrow> api_return None)"

definition js_truthy :: "json option \<Rightarrow> bool" where
  "js_truthy v = (case v of None \<Rightarrow> False | Some j \<Rightarrow> json_truthy j)"

text \<open>\<open>v || d\<close> and \<open>v ?? d\<close>.\<close>

definition js_or :: "json option \<Rightarrow> json \<Rightarrow> json" where
  "js_or v d = (if js_truthy v then the v else d)"

definition js_coalesce :: "json option \<Rightarrow> json \<Rightarrow> json" where
  "js_coalesce v d = (case v of None \<Rightarrow> d | Some JNull \<Rightarrow> d | Some j \<Rightarrow> j)"

definition jstrs :: "string list \<Rightarrow> json" where
  "jstrs xs = JArr (map JStr xs)"

definition when_field :: "bool \<Rightarrow> string \<Rightarrow> json \<Rightarrow> (string \<times> json) list" where
  "when_field b k v = (if b then [(k, v)] else [])"

definition read_field :: "json api \<Rightarrow> string \<Rightarrow> (json option \<Rightarrow> 'a api) \<Rightarrow> 'a api" where
  "read_field m k f = api_bind m (\<lambda>j. api_bind (js_field j k) f)"

text \<open>The three URL families: targets and archived files by encoded name, workers by the raw id.\<close>

definition target_path :: "string \<Rightarrow> string \<Rightarrow> string" where
  "target_path filename rest = ''./ui/api/targets/'' @ encodeURIComponent filename @ rest"

definition file_path :: "string \<Rightarrow> string \<Rightarrow> string" where
  "file_path filename rest = ''./ui/api/files/'' @ encodeURIComponent filename @ rest"

definition worker_path :: "string \<Rightarrow> string \<Rightarrow> string" where
  "worker_path wid rest = ''./ui/api/workers/'' @ wid @ rest"

section \<open>Server info, file history, settings, versions\<close>

definition getServerInfo :: "json api" where
  "getServerInfo = json_call ''./ui/api/server-info'' plain_opts ''fetching server info''"

definition getFileHistory :: "string \<Rightarrow> int \<Rightarrow> int \<Rightarrow> json api" where
  "getFileHistory filename limit offset =
    json_call (file_path filename (''/history?limit='' @ show_int limit @ ''&offset='' @ show_int offset))
      plain_opts ''fetching file history''"

definition getFileStatus :: "string \<Rightarrow> json api" where
  "getFileStatus filename = json_call (file_path filename ''/status'') plain_opts ''fetching file status''"

definition getFileContentAt :: "string \<Rightarrow> string option \<Rightarrow> json option api" where
  "getFileContentAt filename hash =
    (let qs = (if truthy_str hash then ''?hash='' @ encodeURIComponent (the hash) else [])
     in read_field (json_call (file_path filename (''/content-at'' @ qs)) plain_opts ''fetching file content at commit'')
          ''content'' api_return)"

definition getFileDiff :: "string \<Rightarrow> string option \<Rightarrow> string option \<Rightarrow> json option api" where
  "getFileDiff filename from to =
    (let p1 = (if truthy_str from then params_set ''from'' (the from) [] else []);
         p2 = (if truthy_str to then params_set ''to'' (the to) p1 else p1);
         qs = (if params_toString p2 \<noteq> [] then ''?'' @ params_toString p2 else [])
     in read_field (json_call (file_path filename (''/diff'' @ qs)) plain_opts ''fetching file diff'')
          ''diff'' api_return)"

definition rollbackFile :: "string \<Rightarrow> string \<Rightarrow> json api" where
  "rollbackFile filename hash =
    json_call (file_path filename ''/rollback'') (json_opts ''POST'' (JObj [(''hash'', JStr hash)])) ''rolling back file''"

definition commitFile :: "string \<Rightarrow> string option \<Rightarrow> json api" where
  "commitFile filename message =
    json_call (file_path filename ''/commit'')
      (json_opts ''POST'' (JObj (when_field (truthy_str message) ''message'' (JStr (the message))))) ''committing file''"

definition getSettings :: "json api" where
  "getSettings = json_call ''./ui/api/settings'' plain_opts ''fetching settings''"

definition updateSettings :: "json \<Rightarrow> json api" where
  "updateSettings partial = json_call ''./ui/api/settings'' (json_opts ''PATCH'' partial) ''updating settings''"

definition getEsphomeVersions :: "json api" where
  "getEsphomeVersions = json_call ''./ui/api/esphome-versions'' plain_opts ''fetching ESPHome versions''"

definition refreshEsphomeVersions :: "json api" where
  "refreshEsphomeVersions =
    json_call ''./ui/api/esphome-versions/refresh'' (method_opts ''POST'') ''refreshing ESPHome versions''"

definition reinstallEsphome :: "unit api" where
  "reinstallEsphome = ok_call ''./ui/api/esphome/reinstall'' (method_opts ''POST'') ''retrying ESPHome install''"

definition setEsphomeVersion :: "string \<Rightarrow> unit api" where
  "setEsphomeVersion version =
    ok_call ''./ui/api/esphome-version'' (json_opts ''POST'' (JObj [(''version'', JStr version)])) ''setting ESPHome version''"

definition getTargets :: "json api" where
  "getTargets = json_call ''./ui/api/targets'' plain_opts ''fetching targets''"

definition getDevices :: "json api" where
  "getDevices = json_call ''./ui/api/devices'' plain_opts ''fetching devices''"

definition getWorkers :: "json api" where
  "getWorkers = json_call ''./ui/api/workers'' plain_opts ''fetching workers''"

definition getQueue :: "json api" where
  "getQueue = json_call ''./ui/api/queue'' plain_opts ''fetching queue''"

section \<open>Compiling and the queue\<close>

datatype compile_targets = TargetList "string list" | AllTargets | OutdatedTargets

definition targets_json :: "compile_targets \<Rightarrow> json" where
  "targets_json ts = (case ts of TargetList xs \<Rightarrow> jstrs xs | AllTargets \<Rightarrow> JStr ''all'' | OutdatedTargets \<Rightarrow> JStr ''outdated'')"

record tag_filter_arg =
  tf_op :: string
  tf_tags :: "string list"

definition compile_body :: "compile_targets \<Rightarrow> string option \<Rightarrow> string option \<Rightarrow> bool option
    \<Rightarrow> tag_filter_arg option \<Rightarrow> bool option \<Rightarrow> string option \<Rightarrow> (string \<times> json) list" where
  "compile_body targets pinnedClientId esphomeVersion downloadOnly workerTagFilter bypassRoutingRules address =
    [(''targets'', targets_json targets)]
    @ when_field (truthy_str pinnedClientId) ''pinned_client_id'' (JStr (the pinnedClientId))
    @ when_field (truthy_str esphomeVersion) ''esphome_version'' (JStr (the esphomeVersion))
    @ when_field (downloadOnly = Some True) ''download_only'' (JBool True)
    @ (case workerTagFilter of
         Some f \<Rightarrow> when_field (0 < length (tf_tags f)) ''worker_tag_filter''
                     (JObj [(''op'', JStr (tf_op f)), (''tags'', jstrs (tf_tags f))])
       | None \<Rightarrow> [])
    @ when_field (bypassRoutingRules = Some True) ''bypass_routing_rules'' (JBool True)
    @ when_field (truthy_str address \<and> trim (the address) \<noteq> []) ''address'' (JStr (trim (the address)))"

definition compile :: "compile_targets \<Rightarrow> string option \<Rightarrow> string option \<Rightarrow> bool option
    \<Rightarrow> tag_filter_arg option \<Rightarrow> bool option \<Rightarrow> string option \<Rightarrow> json api" where
  "compile targets pinnedClientId esphomeVersion downloadOnly workerTagFilter bypassRoutingRules address =
    json_call ''./ui/api/compile''
      (json_opts ''POST'' (JObj (compile_body targets pinnedClientId esphomeVersion downloadOnly
         workerTagFilter bypassRoutingRules address))) ''enqueuing compile''"

definition cancelJobs :: "string list \<Rightarrow> json api" where
  "cancelJobs ids = json_call ''./ui/api/cancel'' (json_opts ''POST'' (JObj [(''job_ids'', jstrs ids)])) ''cancelling jobs''"

datatype retry_ids = RetryList "string list" | AllFailed

definition retryJobs :: "retry_ids \<Rightarrow> json api" where
  "retryJobs ids =
    json_call ''./ui/api/retry''
      (json_opts ''POST'' (JObj [(''job_ids'', case ids of RetryList xs \<Rightarrow> jstrs xs | AllFailed \<Rightarrow> JStr ''all_failed'')]))
      ''retrying jobs''"

definition retryAllFailed :: "json api" where
  "retryAllFailed = retryJobs AllFailed"

definition removeJobs :: "string list \<Rightarrow> json api" where
  "removeJobs ids = json_call ''./ui/api/queue/remove'' (json_opts ''POST'' (JObj [(''ids'', jstrs ids)])) ''removing jobs''"

definition clearQueue :: "string list \<Rightarrow> bool option \<Rightarrow> json api" where
  "clearQueue states requireOtaSuccess =
    json_call ''./ui/api/queue/clear''
      (json_opts ''POST'' (JObj ([(''states'', jstrs states)]
         @ when_field (requireOtaSuccess = Some True) ''require_ota_success'' (JBool True)))) ''clearing queue''"

section \<open>Target contents\<close>

definition getTargetContent :: "string \<Rightarrow> json api" where
  "getTargetContent filename =
    read_field (json_call (target_path filename ''/content'') plain_opts ''fetching target content'')
      ''content'' (\<lambda>v. api_return (js_or v (JStr [])))"

definition save_body :: "string \<Rightarrow> string option \<Rightarrow> bool option \<Rightarrow> (string \<times> json) list" where
  "save_body content commitMessage skipCommit =
    [(''content'', JStr content)]
    @ when_field (truthy_str commitMessage \<and> trim (the commitMessage) \<noteq> []) ''commit_message''
        (JStr (trim (the commitMessage)))
    @ when_field (skipCommit = Some True) ''skip_commit'' (JBool True)"

definition saveTargetContent :: "string \<Rightarrow> string \<Rightarrow> string option \<Rightarrow> bool option \<Rightarrow> json api" where
  "saveTargetContent filename content commitMessage skipCommit =
    read_field (json_call (target_path filename ''/content'')
        (json_opts ''POST'' (JObj (save_body content commitMessage skipCommit))) ''saving target content'')
      ''renamed_to'' (\<lambda>v. api_return (js_coalesce v JNull))"

section \<open>Workers\<close>

definition disableWorker :: "string \<Rightarrow> bool \<Rightarrow> unit api" where
  "disableWorker wid disabled =
    ok_call (worker_path wid ''/disable'') (json_opts ''POST'' (JObj [(''disabled'', JBool disabled)])) ''updating worker''"

definition setWorkerParallelJobs :: "string \<Rightarrow> int \<Rightarrow> unit api" where
  "setWorkerParallelJobs wid maxParallelJobs =
    ok_call (worker_path wid ''/parallel-jobs'')
      (json_opts ''POST'' (JObj [(''max_parallel_jobs'', JNum (of_int maxParallelJobs))])) ''setting worker parallel-jobs''"

definition setWorkerDiskQuota :: "string \<Rightarrow> int option \<Rightarrow> unit api" where
  "setWorkerDiskQuota wid diskQuotaBytes =
    ok_call (worker_path wid ''/disk-quota'')
      (json_opts ''POST'' (JObj [(''disk_quota_bytes'', case diskQuotaBytes of None \<Rightarrow> JNull | Some n \<Rightarrow> JNum (of_int n))]))
      ''setting worker disk-quota''"

definition cleanWorkerCache :: "string \<Rightarrow> unit api" where
  "cleanWorkerCache wid = ok_call (worker_path wid ''/clean'') (method_opts ''POST'') ''cleaning worker cache''"

definition removeWorker :: "string \<Rightarrow> unit api" where
  "removeWorker wid = ok_call (worker_path wid []) (method_opts ''DELETE'') ''removing worker''"

section \<open>Diagnostics\<close>

record diagnostics =
  dg_ok :: bool
  dg_filename :: string
  dg_body :: string

definition FILENAME_OPEN :: string where
  "FILENAME_OPEN = ''filename='' @ [CHR 0x22]"

text \<open>\<open>disp.match(/filename="([^"]+)"/)\<close>: the leftmost match.\<close>

fun match_filename :: "string \<Rightarrow> string option" where
  "match_filename [] = None"
| "match_filename (c # s) =
     (let rest = drop (length FILENAME_OPEN) (c # s);
          name = takeWhile (\<lambda>x. x \<noteq> CHR 0x22) rest
      in if starts_with FILENAME_OPEN (c # s) \<and> name \<noteq> [] \<and> name \<noteq> rest then Some name
         else match_filename s)"

definition readDiagnosticsResponse :: "response \<Rightarrow> diagnostics" where
  "readDiagnosticsResponse resp =
    \<lparr>dg_ok = header_get ''X-Diagnostics-Ok'' (rs_headers resp) = Some ''1'',
     dg_filename = nullish (match_filename (str_or (header_get ''Content-Disposition'' (rs_headers resp)) [])) ''diagnostics.txt'',
     dg_body = rs_text resp\<rparr>"

definition requestServerDiagnostics :: "diagnostics api" where
  "requestServerDiagnostics =
    api_bind (apiFetch ''./ui/api/diagnostics/server'' (method_opts ''POST'')) (\<lambda>resp.
    api_bind (expectOk resp ''requesting server diagnostics'') (\<lambda>_.
    api_return (readDiagnosticsResponse resp)))"

text \<open>
  A value in a template literal. The server's \<open>request_id\<close> is a string; numbers are written
  only when whole, which is all a JSON id could be.
\<close>

fun template_str :: "json option \<Rightarrow> string" where
  "template_str None = ''undefined''"
| "template_str (Some JNull) = ''null''"
| "template_str (Some (JBool b)) = (if b then ''true'' else ''false'')"
| "template_str (Some (JNum n)) = show_int \<lfloor>n\<rfloor>"
| "template_str (Some (JStr s)) = s"
| "template_str (Some (JArr xs)) =
     join_with '','' (map (\<lambda>j. if j = JNull then [] else template_str (Some j)) xs)"
| "template_str (Some (JObj _)) = ''[object Object]''"

definition response_json :: "response \<Rightarrow> json api" where
  "response_json r = (case rs_json r of None \<Rightarrow> api_throw JsonErr | Some j \<Rightarrow> api_return j)"

text \<open>\<open>setTimeout\<close> as the passing of at least that much time.\<close>

definition sleep :: "nat \<Rightarrow> client \<Rightarrow> client" where
  "sleep ms c = c\<lparr>cl_clock := cl_clock c + ms\<rparr>"

definition poll_path :: "string \<Rightarrow> string \<Rightarrow> string" where
  "poll_path wid rid = worker_path wid (''/diagnostics/'' @ rid)"

definition poll_once :: "string \<Rightarrow> string \<Rightarrow> diagnostics option api" where
  "poll_once wid rid =
    api_bind (apiFetch (poll_path wid rid) plain_opts) (\<lambda>r.
      if rs_status r = 200 then api_return (Some (readDiagnosticsResponse r))
      else if rs_status r \<noteq> 202 then
        api_bind (expectOk r ''polling worker diagnostics'') (\<lambda>_. api_return None)
      else api_return None)"

lemma poll_once_network: "cl_network (snd (poll_once wid rid c)) = tl (cl_network c)"
proof -
  obtain res c' where a: "apiFetch (poll_path wid rid) plain_opts c = (res, c')"
    by (cases "apiFetch (poll_path wid rid) plain_opts c")
  have "snd (poll_once wid rid c) = c'"
    by (simp add: poll_once_def a api_bind_def expectOk_def split: sum.splits)
  with apiFetch_frame [OF a] show ?thesis by simp
qed

lemma apiFetch_no_network: "cl_network c = [] \<Longrightarrow> fst (apiFetch path opts c) = Inl FetchErr"
proof -
  assume n: "cl_network c = []"
  obtain t c1 where a: "getAuthToken c = (t, c1)" by (cases "getAuthToken c")
  with n getAuthToken_frame [OF a] show ?thesis by (simp add: apiFetch_def fetch_def Let_def)
qed

lemma poll_once_progress:
  assumes p: "poll_once wid rid c = (Inr None, c')"
  shows "length (cl_network c') < length (cl_network c)"
proof -
  have "cl_network c \<noteq> []"
  proof
    assume "cl_network c = []"
    then have "\<exists>e. fst (poll_once wid rid c) = Inl e"
      using apiFetch_no_network [of c "poll_path wid rid" plain_opts]
      by (cases "apiFetch (poll_path wid rid) plain_opts c") (simp add: poll_once_def api_bind_def)
    with p show False by simp
  qed
  then show ?thesis using poll_once_network [of wid rid c] p by (simp)
qed

text \<open>
  The \<open>while (Date.now() < deadline)\<close> loop. Each turn uses up one network outcome and a call
  without one rejects, so the recursion ends for every \<open>deadline\<close> and interval.
\<close>

function poll_loop :: "string \<Rightarrow> string \<Rightarrow> nat \<Rightarrow> nat \<Rightarrow> nat \<Rightarrow> diagnostics api" where
  "poll_loop wid rid timeoutMs deadline interval c =
    (if cl_clock c < deadline then
       (case poll_once wid rid c of
          (Inl e, c') \<Rightarrow> (Inl e, c')
        | (Inr (Some d), c') \<Rightarrow> (Inr d, c')
        | (Inr None, c') \<Rightarrow> poll_loop wid rid timeoutMs deadline interval (sleep interval c'))
     else (Inl (PlainErr (''Worker did not return a diagnostics dump within ''
             @ show_int (int ((timeoutMs + 500) div 1000)) @ '' s.'')), c))"
  by pat_completeness auto
termination
  by (relation "measure (\<lambda>(_, _, _, _, _, c). length (cl_network c))")
    (auto simp: sleep_def dest: poll_once_progress [OF sym])

declare poll_loop.simps [simp del]

definition requestWorkerDiagnostics :: "string \<Rightarrow> nat \<Rightarrow> nat \<Rightarrow> diagnostics api" where
  "requestWorkerDiagnostics wid timeoutMs pollIntervalMs =
    api_bind (apiFetch (worker_path wid ''/request-diagnostics'') (method_opts ''POST'')) (\<lambda>reqResp.
    api_bind (expectOk reqResp ''starting worker diagnostics request'') (\<lambda>_.
    api_bind (response_json reqResp) (\<lambda>j.
    api_bind (js_field j ''request_id'') (\<lambda>v c.
      poll_loop wid (template_str v) timeoutMs (cl_clock c + timeoutMs) pollIntervalMs c))))"

definition getJobLog :: "string \<Rightarrow> int \<Rightarrow> json api" where
  "getJobLog jobId offset =
    json_call (''./ui/api/jobs/'' @ jobId @ ''/log?offset='' @ show_int offset) plain_opts ''fetching job log''"

section \<open>API key, rendered config, validation\<close>

definition getApiKey :: "string \<Rightarrow> json api" where
  "getApiKey filename =
    read_field (json_call (target_path filename ''/api-key'') plain_opts ''fetching API key'') ''key''
      (\<lambda>v. if js_truthy v then api_return (the v) else api_throw (PlainErr ''Server did not return an API key''))"

record rendered_config =
  rn_success :: bool
  rn_output :: json
  rn_cached :: bool

text \<open>\<open>new Error(x)\<close> turns its argument into a string.\<close>

definition error_of :: "json \<Rightarrow> js_error" where
  "error_of j = PlainErr (template_str (Some j))"

definition http_note :: "string \<Rightarrow> response \<Rightarrow> string" where
  "http_note what r = what @ '' (HTTP '' @ show_nat (rs_status r) @ '')''"

definition getRenderedConfig :: "string \<Rightarrow> rendered_config api" where
  "getRenderedConfig target =
    api_bind (apiFetch (target_path target ''/rendered-config'') plain_opts) (\<lambda>r.
      case rs_json r of
        None \<Rightarrow> if \<not> rs_ok r then api_throw (PlainErr (http_note ''rendering failed'' r))
                else api_throw (PlainErr ''rendered-config response was not valid JSON'')
      | Some data \<Rightarrow>
          if \<not> rs_ok r \<and> rs_status r \<noteq> 200 then
            api_bind (js_field data ''output'') (\<lambda>output.
              if js_truthy output
              then api_return \<lparr>rn_success = False, rn_output = the output, rn_cached = False\<rparr>
              else api_bind (js_field data ''error'') (\<lambda>err.
                api_throw (error_of (js_or err (JStr (http_note ''rendering failed'' r))))))
          else
            api_bind (js_field data ''success'') (\<lambda>success.
            api_bind (js_field data ''output'') (\<lambda>output.
            api_bind (js_field data ''cached'') (\<lambda>cached.
              api_return \<lparr>rn_success = js_truthy success, rn_output = js_or output (JStr []),
                          rn_cached = js_truthy cached\<rparr>))))"

definition validateConfig :: "string \<Rightarrow> (bool \<times> json) api" where
  "validateConfig target =
    api_bind (apiFetch ''./ui/api/validate'' (json_opts ''POST'' (JObj [(''target'', JStr target)]))) (\<lambda>r.
      case rs_json r of
        None \<Rightarrow> if \<not> rs_ok r then api_throw (PlainErr (http_note ''validation failed'' r))
                else api_throw (PlainErr ''validate response was not valid JSON'')
      | Some data \<Rightarrow>
          if \<not> rs_ok r then
            api_bind (js_field data ''error'') (\<lambda>err.
            api_bind (js_field data ''output'') (\<lambda>output.
              api_throw (error_of (js_or err (js_or output (JStr (http_note ''validation failed'' r)))))))
          else
            api_bind (js_field data ''success'') (\<lambda>success.
            api_bind (js_field data ''output'') (\<lambda>output.
              api_return (js_truthy success, js_or output (JStr [])))))"

definition getSecretKeys :: "json api" where
  "getSecretKeys = read_field (json_call ''./ui/api/secret-keys'' plain_opts ''getSecretKeys'') ''keys''
    (\<lambda>v. api_return (js_or v (JArr [])))"

definition getEsphomeSchema :: "json api" where
  "getEsphomeSchema = read_field (json_call ''./ui/api/esphome-schema'' plain_opts ''getEsphomeSchema'') ''components''
    (\<lambda>v. api_return (js_or v (JArr [])))"

section \<open>The archive, target life cycle, metadata\<close>

definition getArchivedConfigs :: "json api" where
  "getArchivedConfigs = json_call ''./ui/api/archive'' plain_opts ''fetching archived configs''"

definition restoreArchivedConfig :: "string \<Rightarrow> unit api" where
  "restoreArchivedConfig filename =
    ok_call (''./ui/api/archive/'' @ encodeURIComponent filename @ ''/restore'') (method_opts ''POST'')
      ''restoring archived config''"

definition deleteArchivedConfig :: "string \<Rightarrow> unit api" where
  "deleteArchivedConfig filename =
    ok_call (''./ui/api/archive/'' @ encodeURIComponent filename) (method_opts ''DELETE'') ''deleting archived config''"

definition createTarget :: "string \<Rightarrow> string option \<Rightarrow> json api" where
  "createTarget filename source =
    read_field (json_call ''./ui/api/targets''
        (json_opts ''POST'' (JObj ([(''filename'', JStr filename)]
           @ when_field (truthy_str source) ''source'' (JStr (the source))))) ''creating target'')
      ''target'' (\<lambda>v. if js_truthy v then api_return (the v)
                        else api_throw (PlainErr ''Server did not return a target name''))"

definition deleteTarget :: "string \<Rightarrow> bool \<Rightarrow> unit api" where
  "deleteTarget filename archive =
    ok_call (target_path filename (''?archive='' @ (if archive then ''true'' else ''false''))) (method_opts ''DELETE'')
      ''deleting target''"

definition restartDevice :: "string \<Rightarrow> unit api" where
  "restartDevice filename = ok_call (target_path filename ''/restart'') (method_opts ''POST'') ''restarting device''"

definition pingDevice :: "string \<Rightarrow> json api" where
  "pingDevice filename = json_call (target_path filename ''/ping'') (method_opts ''POST'') ''pinging device''"

definition renameTarget :: "string \<Rightarrow> string \<Rightarrow> json api" where
  "renameTarget filename newName =
    json_call (target_path filename ''/rename'') (json_opts ''POST'' (JObj [(''new_name'', JStr newName)]))
      ''renaming target''"

definition updateTargetMeta :: "string \<Rightarrow> json \<Rightarrow> unit api" where
  "updateTargetMeta filename meta =
    ok_call (target_path filename ''/meta'') (json_opts ''POST'' meta) ''updating target metadata''"

definition setWorkerTags :: "string \<Rightarrow> string list \<Rightarrow> unit api" where
  "setWorkerTags clientId tags =
    ok_call (''./ui/api/workers/'' @ encodeURIComponent clientId @ ''/tags'')
      (json_opts ''POST'' (JObj [(''tags'', jstrs tags)])) ''setting worker tags''"

section \<open>Routing rules\<close>

definition getRoutingRules :: "json api" where
  "getRoutingRules = read_field (json_call ''./ui/api/routing-rules'' plain_opts ''fetching routing rules'') ''rules''
    (\<lambda>v. api_return (js_coalesce v (JArr [])))"

definition createRoutingRule :: "json \<Rightarrow> json api" where
  "createRoutingRule rule = json_call ''./ui/api/routing-rules'' (json_opts ''POST'' rule) ''creating routing rule''"

definition updateRoutingRule :: "string \<Rightarrow> json \<Rightarrow> json api" where
  "updateRoutingRule rid rule =
    json_call (''./ui/api/routing-rules/'' @ encodeURIComponent rid) (json_opts ''PUT'' rule) ''updating routing rule''"

definition deleteRoutingRule :: "string \<Rightarrow> unit api" where
  "deleteRoutingRule rid =
    ok_call (''./ui/api/routing-rules/'' @ encodeURIComponent rid) (method_opts ''DELETE'') ''deleting routing rule''"

section \<open>Schedules and version pins\<close>

definition setTargetSchedule :: "string \<Rightarrow> string \<Rightarrow> string option \<Rightarrow> json api" where
  "setTargetSchedule filename cron tz =
    read_field (json_call (target_path filename ''/schedule'')
        (json_opts ''POST'' (JObj (if truthy_str tz then [(''cron'', JStr cron), (''tz'', JStr (the tz))]
                                   else [(''cron'', JStr cron)]))) ''setting schedule'')
      ''schedule_enabled'' (\<lambda>v. api_return (js_coalesce v (JBool True)))"

definition deleteTargetSchedule :: "string \<Rightarrow> unit api" where
  "deleteTargetSchedule filename = ok_call (target_path filename ''/schedule'') (method_opts ''DELETE'') ''deleting schedule''"

definition toggleTargetSchedule :: "string \<Rightarrow> json api" where
  "toggleTargetSchedule filename =
    read_field (json_call (target_path filename ''/schedule/toggle'') (method_opts ''POST'') ''toggling schedule'')
      ''schedule_enabled'' (\<lambda>v. api_return (js_coalesce v (JBool False)))"

definition pinTargetVersion :: "string \<Rightarrow> string \<Rightarrow> unit api" where
  "pinTargetVersion filename version =
    ok_call (target_path filename ''/pin'') (json_opts ''POST'' (JObj [(''version'', JStr version)])) ''pinning version''"

definition unpinTargetVersion :: "string \<Rightarrow> unit api" where
  "unpinTargetVersion filename = ok_call (target_path filename ''/pin'') (method_opts ''DELETE'') ''unpinning version''"

definition setTargetScheduleOnce :: "string \<Rightarrow> string \<Rightarrow> unit api" where
  "setTargetScheduleOnce filename datetime =
    ok_call (target_path filename ''/schedule/once'') (json_opts ''POST'' (JObj [(''datetime'', JStr datetime)]))
      ''setting one-time schedule''"

section \<open>History queries\<close>

record history_params =
  hp_target :: "string option"
  hp_state :: "string option"
  hp_since :: "int option"
  hp_until :: "int option"
  hp_limit :: "int option"
  hp_offset :: "int option"
  hp_sort :: "string option"
  hp_desc :: "bool option"

definition set_truthy :: "string \<Rightarrow> string option \<Rightarrow> params \<Rightarrow> params" where
  "set_truthy k v ps = (if truthy_str v then params_set k (the v) ps else ps)"

definition set_int :: "string \<Rightarrow> int option \<Rightarrow> params \<Rightarrow> params" where
  "set_int k v ps = (case v of Some n \<Rightarrow> params_set k (show_int n) ps | None \<Rightarrow> ps)"

definition history_query :: "history_params \<Rightarrow> params" where
  "history_query p =
    (let q1 = set_truthy ''target'' (hp_target p) [];
         q2 = set_truthy ''state'' (hp_state p) q1;
         q3 = set_int ''since'' (hp_since p) q2;
         q4 = set_int ''until'' (hp_until p) q3;
         q5 = set_int ''limit'' (hp_limit p) q4;
         q6 = set_int ''offset'' (hp_offset p) q5;
         q7 = set_truthy ''sort'' (hp_sort p) q6
     in case hp_desc p of Some b \<Rightarrow> params_set ''desc'' (if b then ''1'' else ''0'') q7 | None \<Rightarrow> q7)"

definition history_url :: "string \<Rightarrow> params \<Rightarrow> string" where
  "history_url base qs = (if params_toString qs \<noteq> [] then base @ ''?'' @ params_toString qs else base)"

definition getJobHistory :: "history_params \<Rightarrow> json api" where
  "getJobHistory p = json_call (history_url ''./ui/api/history'' (history_query p)) plain_opts ''fetching job history''"

definition getJobHistoryStats :: "string option \<Rightarrow> int option \<Rightarrow> json api" where
  "getJobHistoryStats target window_days =
    json_call (history_url ''./ui/api/history/stats'' (set_int ''window_days'' window_days (set_truthy ''target'' target [])))
      plain_opts ''fetching job-history stats''"

definition getScheduleHistory :: "json api" where
  "getScheduleHistory = json_call ''./ui/api/schedule-history'' plain_opts ''getScheduleHistory''"

section \<open>The polling loop\<close>

lemma getAuthToken_clock [simp]: "cl_clock (snd (getAuthToken c)) = cl_clock c"
  by (cases "getAuthToken c") (simp add: getAuthToken_frame)

lemma fetch_clock: "fetch req c = (res, c') \<Longrightarrow> cl_clock c \<le> cl_clock c'"
  by (auto simp: fetch_def Let_def split: list.splits prod.splits net_event.splits)

lemma apiFetch_clock:
  assumes "apiFetch path opts c = (res, c')"
  shows "cl_clock c \<le> cl_clock c'"
proof -
  obtain t c1 where a: "getAuthToken c = (t, c1)" by (cases "getAuthToken c")
  obtain x c2 where f: "fetch (request_of path opts c) c1 = (x, c2)"
    by (cases "fetch (request_of path opts c) c1")
  from assms f have "cl_clock c' = cl_clock c2"
    by (auto simp: apiFetch_def request_of_def a Let_def split: sum.splits)
  with fetch_clock [OF f] getAuthToken_frame [OF a] show ?thesis by simp
qed

lemma apiFetch_answer:
  assumes "cl_network c = (d, NetOk r) # net"
  shows "\<exists>c'. apiFetch path opts c = (Inr r, c') \<and> cl_network c' = net \<and> cl_clock c' = cl_clock c + d
    \<and> cl_sent c' = cl_sent c @ [request_of path opts c]"
proof -
  obtain t c1 where a: "getAuthToken c = (t, c1)" by (cases "getAuthToken c")
  note f = getAuthToken_frame [OF a]
  show ?thesis
    using f assms by (simp add: apiFetch_def request_of_def a Let_def fetch_def)
qed

lemma poll_once_frame:
  assumes "poll_once wid rid c = (res, c')"
  shows "length (cl_sent c') = Suc (length (cl_sent c)) \<and> cl_clock c \<le> cl_clock c'"
proof -
  obtain x c1 where a: "apiFetch (poll_path wid rid) plain_opts c = (x, c1)"
    by (cases "apiFetch (poll_path wid rid) plain_opts c")
  have "c' = c1" using assms
    by (auto simp: poll_once_def a api_bind_def expectOk_def split: sum.splits if_splits)
  with apiFetch_frame [OF a] apiFetch_clock [OF a] show ?thesis by simp
qed

lemma div_step:
  assumes "0 < (i::nat)" and "x + i \<le> y"
  shows "Suc ((x + i - 1) div i) \<le> (y + i - 1) div i"
proof -
  have "(x + i - 1 + i) div i \<le> (y + i - 1) div i" using assms by (intro div_le_mono) simp
  moreover have "(x + i - 1 + i) div i = Suc ((x + i - 1) div i)" using assms(1) by (simp only: div_add_self2 Suc_eq_plus1)
  ultimately show ?thesis by simp
qed

lemma poll_loop_bound:
  assumes "0 < interval" and "poll_loop wid rid t deadline interval c = (res, c')"
  shows "length (cl_sent c') \<le> length (cl_sent c) + (deadline - cl_clock c + interval - 1) div interval"
  using assms
proof (induction wid rid t deadline interval c arbitrary: res c' rule: poll_loop.induct)
  case (1 wid rid t deadline interval c)
  show ?case
  proof (cases "cl_clock c < deadline")
    case False
    with 1(3) show ?thesis by (simp add: poll_loop.simps [of _ _ _ _ _ c])
  next
    case True
    obtain x c1 where p: "poll_once wid rid c = (x, c1)" by (cases "poll_once wid rid c")
    note f = poll_once_frame [OF p]
    have one: "1 \<le> (deadline - cl_clock c + interval - 1) div interval"
      using div_step [of interval 0 "deadline - cl_clock c + interval - 1"] True \<open>0 < interval\<close>
      by (simp add: Suc_le_eq div_greater_zero_iff)
    show ?thesis
    proof (cases "x = Inr None")
      case False
      then have "c' = c1" using 1(3) True p
        by (auto simp: poll_loop.simps [of _ _ _ _ _ c] split: sum.splits option.splits)
      with f one show ?thesis by simp
    next
      case x: True
      let ?s = "sleep interval c1"
      have rec: "poll_loop wid rid t deadline interval ?s = (res, c')"
        using 1(3) True p x by (simp add: poll_loop.simps [of _ _ _ _ _ c])
      have IH: "length (cl_sent c') \<le> length (cl_sent ?s) + (deadline - cl_clock ?s + interval - 1) div interval"
        using 1(1) [OF True p [symmetric] x refl \<open>0 < interval\<close> rec] .
      have "Suc ((deadline - cl_clock ?s + interval - 1) div interval) \<le> (deadline - cl_clock c + interval - 1) div interval"
      proof (cases "deadline \<le> cl_clock ?s")
        case True
        with one \<open>0 < interval\<close> show ?thesis by simp
      next
        case False
        then show ?thesis using f \<open>0 < interval\<close> by (intro div_step) (auto simp: sleep_def intro: diff_le_mono2)
      qed
      with IH f show ?thesis by (simp add: sleep_def)
    qed
  qed
qed

lemma poll_loop_pending:
  assumes "cl_network c = (d, NetOk r) # net" and "rs_status r = 202" and "cl_clock c < deadline"
  shows "\<exists>c'. poll_loop wid rid t deadline i c = poll_loop wid rid t deadline i c'
    \<and> cl_network c' = net \<and> cl_clock c' = cl_clock c + d + i \<and> length (cl_sent c') = Suc (length (cl_sent c))"
proof -
  from apiFetch_answer [OF assms(1), of "poll_path wid rid" plain_opts] obtain c1 where
    a: "apiFetch (poll_path wid rid) plain_opts c = (Inr r, c1)" and
    n: "cl_network c1 = net" "cl_clock c1 = cl_clock c + d" "length (cl_sent c1) = Suc (length (cl_sent c))"
    by auto
  have "poll_once wid rid c = (Inr None, c1)"
    using a assms(2) by (simp add: poll_once_def api_bind_def)
  then have "poll_loop wid rid t deadline i c = poll_loop wid rid t deadline i (sleep i c1)"
    using assms(3) by (simp add: poll_loop.simps [of _ _ _ _ _ c])
  with n show ?thesis by (intro exI [of _ "sleep i c1"]) (simp add: sleep_def)
qed

lemma poll_loop_answer:
  assumes "cl_network c = map (\<lambda>d. (d, NetOk pending)) ds @ (d, NetOk r) # net"
    and "rs_status pending = 202" and "rs_status r = 200"
    and "cl_clock c + sum_list ds + length ds * i < deadline"
  shows "fst (poll_loop wid rid t deadline i c) = Inr (readDiagnosticsResponse r)
    \<and> length (cl_sent (snd (poll_loop wid rid t deadline i c))) = length (cl_sent c) + length ds + 1"
  using assms
proof (induction ds arbitrary: c)
  case Nil
  from Nil(1) have "cl_network c = (d, NetOk r) # net" by simp
  from apiFetch_answer [OF this, of "poll_path wid rid" plain_opts] obtain c1 where
    a: "apiFetch (poll_path wid rid) plain_opts c = (Inr r, c1)" and n: "length (cl_sent c1) = Suc (length (cl_sent c))"
    by auto
  have "poll_once wid rid c = (Inr (Some (readDiagnosticsResponse r)), c1)"
    using a Nil(3) by (simp add: poll_once_def api_bind_def)
  with n Nil(4) show ?case by (simp add: poll_loop.simps [of _ _ _ _ _ c])
next
  case (Cons e ds)
  from Cons(2) have "cl_network c = (e, NetOk pending) # map (\<lambda>d. (d, NetOk pending)) ds @ (d, NetOk r) # net" by simp
  from poll_loop_pending [OF this Cons(3), of deadline wid rid t i] Cons(5) obtain c' where
    c': "poll_loop wid rid t deadline i c = poll_loop wid rid t deadline i c'"
      "cl_network c' = map (\<lambda>d. (d, NetOk pending)) ds @ (d, NetOk r) # net"
      "cl_clock c' = cl_clock c + e + i" "length (cl_sent c') = Suc (length (cl_sent c))"
    by auto
  from c'(3) Cons(5) have "cl_clock c' + sum_list ds + length ds * i < deadline" by (simp add: algebra_simps)
  from Cons.IH [OF c'(2) Cons(3) Cons(4) this] c' show ?case by simp
qed

section \<open>Paths a browser resolves\<close>

text \<open>
  What becomes of a request path: the query is cut off, the path is split at slashes, a dot
  segment is dropped and a double dot removes the segment before it. The page's own base is the
  empty path here.
\<close>

fun resolve_dots :: "string list \<Rightarrow> string list \<Rightarrow> string list" where
  "resolve_dots acc [] = rev acc"
| "resolve_dots acc (s # ss) =
     (if s = ''.'' then resolve_dots acc ss
      else if s = ''..'' then resolve_dots (tl acc) ss
      else resolve_dots (s # acc) ss)"

definition resolved :: "string \<Rightarrow> string list" where
  "resolved url = resolve_dots [] (split_on (CHR ''/'') (takeWhile (\<lambda>c. c \<noteq> CHR ''?'') url))"

lemma encode_nil: "encodeURIComponent [] = []"
  by (simp add: encodeURIComponent_def)

lemma encode_dots:
  "encodeURIComponent f = ''.'' \<longleftrightarrow> f = ''.''" "encodeURIComponent f = ''..'' \<longleftrightarrow> f = ''..''"
proof -
  have "encodeURIComponent ''.'' = ''.''" "encodeURIComponent ''..'' = ''..''" by code_simp+
  then show "encodeURIComponent f = ''.'' \<longleftrightarrow> f = ''.''" "encodeURIComponent f = ''..'' \<longleftrightarrow> f = ''..''"
    using component.enc_inj by metis+
qed

lemma component_no_slash: "CHR ''/'' \<notin> set (encodeURIComponent s)" "CHR ''?'' \<notin> set (encodeURIComponent s)"
  by (rule component.delim_free; simp add: url_delims_def)+

lemma takeWhile_cut: "(\<forall>x \<in> set p. P x) \<Longrightarrow> takeWhile P q = [] \<Longrightarrow> takeWhile P (p @ q) = p"
  by simp

lemma resolved_target:
  assumes "CHR ''/'' \<notin> set act" and "CHR ''?'' \<notin> set act" and "act \<noteq> ''.''" and "act \<noteq> ''..''"
    and "f \<noteq> ''.''" and "f \<noteq> ''..''" and "q = [] \<or> (\<exists>q'. q = CHR ''?'' # q')"
  shows "resolved (target_path f (CHR ''/'' # act @ q)) = [''ui'', ''api'', ''targets'', encodeURIComponent f, act]"
proof -
  let ?p = "target_path f (CHR ''/'' # act)"
  have "takeWhile (\<lambda>c. c \<noteq> CHR ''?'') (target_path f (CHR ''/'' # act @ q)) = ?p"
  proof -
    have "\<forall>x \<in> set ?p. x \<noteq> CHR ''?''"
      using assms(2) component_no_slash by (auto simp: target_path_def)
    moreover have "target_path f (CHR ''/'' # act @ q) = ?p @ q" by (simp add: target_path_def)
    moreover have "takeWhile (\<lambda>c. c \<noteq> CHR ''?'') q = []" using assms(7) by auto
    ultimately show ?thesis by (simp only: takeWhile_cut)
  qed
  moreover have "split_on (CHR ''/'') ?p = [''.'', ''ui'', ''api'', ''targets'', encodeURIComponent f, act]"
    by (simp add: target_path_def split_on_append split_on_no_sep component_no_slash assms(1))
  ultimately show ?thesis using assms(3-6) by (simp add: resolved_def encode_dots)
qed

lemma resolved_target_root:
  assumes "f \<noteq> ''.''" and "f \<noteq> ''..''"
  shows "resolved (target_path f (''?archive='' @ x)) = [''ui'', ''api'', ''targets'', encodeURIComponent f]"
proof -
  let ?p = "target_path f []"
  have "takeWhile (\<lambda>c. c \<noteq> CHR ''?'') (target_path f (''?archive='' @ x)) = ?p"
  proof -
    have "\<forall>x \<in> set ?p. x \<noteq> CHR ''?''" using component_no_slash by (auto simp: target_path_def)
    moreover have "target_path f (''?archive='' @ x) = ?p @ (''?archive='' @ x)" by (simp add: target_path_def)
    moreover have "takeWhile (\<lambda>c. c \<noteq> CHR ''?'') (''?archive='' @ x) = []" by simp
    ultimately show ?thesis by (simp only: takeWhile_cut)
  qed
  moreover have "split_on (CHR ''/'') ?p = [''.'', ''ui'', ''api'', ''targets'', encodeURIComponent f]"
    by (simp add: target_path_def split_on_append split_on_no_sep component_no_slash)
  ultimately show ?thesis using assms by (simp add: resolved_def encode_dots)
qed

section \<open>What one endpoint sends\<close>

definition sends :: "request list \<Rightarrow> string \<Rightarrow> fetch_opts \<Rightarrow> request list \<Rightarrow> bool" where
  "sends before path opts after \<longleftrightarrow>
    (\<exists>hs. after = before @ [\<lparr>rq_url = path, rq_method = nullish (fo_method opts) ''GET'', rq_headers = hs,
                             rq_body = fo_body opts\<rparr>])"

lemma sends_url: "sends before path opts after \<Longrightarrow> rq_url (last after) = path"
  by (auto simp: sends_def)

lemma json_call_sends: "sends (cl_sent c) path opts (cl_sent (snd (json_call path opts tag c)))"
  unfolding sends_def json_call_def by (rule api.json_one_request)

lemma ok_call_sends: "sends (cl_sent c) path opts (cl_sent (snd (ok_call path opts tag c)))"
  unfolding sends_def ok_call_def by (rule api.wrapped_one_request) simp

lemma read_field_sent:
  assumes "\<And>v c. snd (f v c) = c"
  shows "snd (read_field m k f c) = snd (m c)"
  using assms by (auto simp: read_field_def api_bind_def js_field_def split: prod.splits sum.splits json.splits)

lemma saveTargetContent_sends:
  "sends (cl_sent c) (target_path f ''/content'') (json_opts ''POST'' (JObj (save_body content msg skip)))
     (cl_sent (snd (saveTargetContent f content msg skip c)))"
  unfolding saveTargetContent_def by (subst read_field_sent) (simp_all add: json_call_sends)

section \<open>Properties\<close>

text \<open>C21: whatever the target is called, slashes, question marks and percent signs included, the
  request to save, restart or delete it resolves to the path of that target's own action, with
  the name as one segment that decodes back to it. Only the two dot names are outside this.\<close>
theorem target_request_addresses:
  assumes "f \<noteq> ''.''" and "f \<noteq> ''..''"
  shows "resolved (rq_url (last (cl_sent (snd (saveTargetContent f content msg skip c)))))
      = [''ui'', ''api'', ''targets'', encodeURIComponent f, ''content'']
    \<and> resolved (rq_url (last (cl_sent (snd (restartDevice f c)))))
      = [''ui'', ''api'', ''targets'', encodeURIComponent f, ''restart'']
    \<and> resolved (rq_url (last (cl_sent (snd (deleteTarget f archive c)))))
      = [''ui'', ''api'', ''targets'', encodeURIComponent f]
    \<and> decode_component (encodeURIComponent f) = Some f"
proof -
  have "rq_url (last (cl_sent (snd (saveTargetContent f content msg skip c)))) = target_path f ''/content''"
    by (rule sends_url [OF saveTargetContent_sends])
  moreover have "rq_url (last (cl_sent (snd (restartDevice f c)))) = target_path f ''/restart''"
    unfolding restartDevice_def by (rule sends_url [OF ok_call_sends])
  moreover have "rq_url (last (cl_sent (snd (deleteTarget f archive c))))
      = target_path f (''?archive='' @ (if archive then ''true'' else ''false''))"
    unfolding deleteTarget_def by (rule sends_url [OF ok_call_sends])
  ultimately show ?thesis
    using resolved_target [of "''content''" f "[]"] resolved_target [of "''restart''" f "[]"]
      resolved_target_root [OF assms] assms component.dec_enc [of f] by simp
qed

theorem target_request_witness:
  "resolved (rq_url (last (cl_sent (snd (restartDevice ''../queue/clear?x'' fresh_client)))))
     = [''ui'', ''api'', ''targets'', ''..%2Fqueue%2Fclear%3Fx'', ''restart'']"
proof -
  have "encodeURIComponent ''../queue/clear?x'' = ''..%2Fqueue%2Fclear%3Fx''" by code_simp
  with target_request_addresses [of "''../queue/clear?x''"] show ?thesis by simp
qed

lemma worker_paths_collide: "worker_path ''w1/tags'' [] = worker_path ''w1'' ''/tags''"
  by (simp add: worker_path_def)

text \<open>C15: waiting for a worker's thread dump sends a bounded number of requests: one to start it and
  at most one per poll interval until the timeout, whatever the worker answers.\<close>
theorem worker_diagnostics_bounded:
  assumes "0 < pollIntervalMs"
    and "requestWorkerDiagnostics wid timeoutMs pollIntervalMs c = (res, c')"
  shows "length (cl_sent c') \<le> length (cl_sent c) + 1 + (timeoutMs + pollIntervalMs - 1) div pollIntervalMs"
proof -
  let ?p = "worker_path wid ''/request-diagnostics''" and ?o = "method_opts ''POST''"
  obtain x c1 where a: "apiFetch ?p ?o c = (x, c1)" by (cases "apiFetch ?p ?o c")
  have len: "length (cl_sent c1) = Suc (length (cl_sent c))" using apiFetch_frame [OF a] by simp
  from assms(2) a have "c' = c1 \<or> (\<exists>rid. poll_loop wid rid timeoutMs (cl_clock c1 + timeoutMs) pollIntervalMs c1 = (res, c'))"
    by (auto simp: requestWorkerDiagnostics_def api_bind_def expectOk_def response_json_def js_field_def
        split: sum.splits if_splits option.splits json.splits)
  then show ?thesis
  proof
    assume "\<exists>rid. poll_loop wid rid timeoutMs (cl_clock c1 + timeoutMs) pollIntervalMs c1 = (res, c')"
    then obtain rid where "poll_loop wid rid timeoutMs (cl_clock c1 + timeoutMs) pollIntervalMs c1 = (res, c')" ..
    from poll_loop_bound [OF assms(1) this] len show ?thesis by simp
  qed (simp add: len)
qed

definition answer :: "nat \<Rightarrow> (string \<times> string) list \<Rightarrow> json option \<Rightarrow> string \<Rightarrow> response" where
  "answer status hs j txt = \<lparr>rs_status = status, rs_headers = hs, rs_json = j, rs_text = txt\<rparr>"

definition dump_client :: client where
  "dump_client = fresh_client\<lparr>cl_network :=
     [(10, NetOk (answer 200 [] (Some (JObj [(''request_id'', JStr ''r1'')])) [])),
      (20, NetOk (answer 202 [] None [])), (30, NetOk (answer 202 [] None [])),
      (40, NetOk (answer 200 [(''X-Diagnostics-Ok'', ''1'')] None ''Thread 1''))]\<rparr>"

theorem worker_diagnostics_bounded_witness:
  "length (cl_sent (snd (requestWorkerDiagnostics ''w1'' 2000 500 dump_client))) \<le> 5"
proof -
  have "length (cl_sent dump_client) = 0" by (simp add: dump_client_def fresh_client_def)
  with worker_diagnostics_bounded [of 500 "''w1''" 2000 dump_client, OF _ prod.collapse [symmetric]]
  show ?thesis by simp
qed

text \<open>C14: when the worker's dump arrives before the timeout, after any number of still-pending
  replies, the call returns exactly that dump, having asked once per pending reply and once
  more; it cannot time out first or miss the answer.\<close>
theorem worker_diagnostics_delivers:
  assumes "cl_network c = (lag, NetOk start) # map (\<lambda>d. (d, NetOk pending)) ds @ (d, NetOk dump) # net"
    and "rs_status start = 200" and "rs_json start = Some (JObj [(''request_id'', JStr rid)])"
    and "rs_status pending = 202" and "rs_status dump = 200"
    and "sum_list ds + length ds * pollIntervalMs < timeoutMs"
  shows "fst (requestWorkerDiagnostics wid timeoutMs pollIntervalMs c) = Inr (readDiagnosticsResponse dump)
    \<and> length (cl_sent (snd (requestWorkerDiagnostics wid timeoutMs pollIntervalMs c)))
        = length (cl_sent c) + length ds + 2"
proof -
  let ?p = "worker_path wid ''/request-diagnostics''" and ?o = "method_opts ''POST''"
  from apiFetch_answer [OF assms(1), of ?p ?o] obtain c1 where
    a: "apiFetch ?p ?o c = (Inr start, c1)" "cl_network c1 = map (\<lambda>d. (d, NetOk pending)) ds @ (d, NetOk dump) # net"
      "length (cl_sent c1) = Suc (length (cl_sent c))" by auto
  have "requestWorkerDiagnostics wid timeoutMs pollIntervalMs c
      = poll_loop wid rid timeoutMs (cl_clock c1 + timeoutMs) pollIntervalMs c1"
    using a(1) assms(2,3)
    by (simp add: requestWorkerDiagnostics_def api_bind_def expectOk_def rs_ok_def response_json_def js_field_def)
  moreover have "cl_clock c1 + sum_list ds + length ds * pollIntervalMs < cl_clock c1 + timeoutMs"
    using assms(6) by simp
  ultimately show ?thesis
    using poll_loop_answer [OF a(2) assms(4,5), of pollIntervalMs "cl_clock c1 + timeoutMs" wid rid timeoutMs] a(3)
    by simp
qed

theorem worker_diagnostics_delivers_witness:
  "fst (requestWorkerDiagnostics ''w1'' 2000 500 dump_client)
     = Inr \<lparr>dg_ok = True, dg_filename = ''diagnostics.txt'', dg_body = ''Thread 1''\<rparr>"
proof -
  have "fst (requestWorkerDiagnostics ''w1'' 2000 500 dump_client)
      = Inr (readDiagnosticsResponse (answer 200 [(''X-Diagnostics-Ok'', ''1'')] None ''Thread 1''))"
    by (rule conjunct1 [OF worker_diagnostics_delivers [where ds = "[20, 30]" and pending = "answer 202 [] None []"
        and lag = 10 and d = 40 and net = "[]" and rid = "''r1''"
        and start = "answer 200 [] (Some (JObj [(''request_id'', JStr ''r1'')])) []"]])
      (simp_all add: dump_client_def answer_def)
  also have "readDiagnosticsResponse (answer 200 [(''X-Diagnostics-Ok'', ''1'')] None ''Thread 1'')
      = \<lparr>dg_ok = True, dg_filename = ''diagnostics.txt'', dg_body = ''Thread 1''\<rparr>" by code_simp
  finally show ?thesis .
qed

definition opt_pair :: "string \<Rightarrow> string option \<Rightarrow> params" where
  "opt_pair k v = (case v of None \<Rightarrow> [] | Some s \<Rightarrow> [(k, s)])"

definition nonempty_opt :: "string option \<Rightarrow> string option" where
  "nonempty_opt v = (if truthy_str v then v else None)"

lemma set_truthy_new: "k \<notin> fst ` set ps \<Longrightarrow> set_truthy k v ps = ps @ opt_pair k (nonempty_opt v)"
  by (auto simp: set_truthy_def opt_pair_def nonempty_opt_def truthy_str_def params_set_new split: option.splits)

lemma set_int_new: "k \<notin> fst ` set ps \<Longrightarrow> set_int k v ps = ps @ opt_pair k (map_option show_int v)"
  by (auto simp: set_int_def opt_pair_def params_set_new split: option.splits)

lemma opt_pair_keys: "fst ` set (opt_pair k v) \<subseteq> {k}"
  by (cases v) (simp_all add: opt_pair_def)

lemma not_in_opt_pair: "k' \<noteq> k \<Longrightarrow> k' \<notin> fst ` set (opt_pair k v)"
  using opt_pair_keys [of k v] by auto

text \<open>The history query. Decoding the query string of the URL gives back exactly the parameters
  that were passed, each once and in the code's order; empty strings are left out while zero and
  \<open>desc: false\<close> are sent.\<close>
theorem history_query_decodes:
  "parse_query (params_toString (history_query p)) = map Some
     (opt_pair ''target'' (nonempty_opt (hp_target p)) @ opt_pair ''state'' (nonempty_opt (hp_state p))
      @ opt_pair ''since'' (map_option show_int (hp_since p)) @ opt_pair ''until'' (map_option show_int (hp_until p))
      @ opt_pair ''limit'' (map_option show_int (hp_limit p)) @ opt_pair ''offset'' (map_option show_int (hp_offset p))
      @ opt_pair ''sort'' (nonempty_opt (hp_sort p))
      @ opt_pair ''desc'' (map_option (\<lambda>b. if b then ''1'' else ''0'') (hp_desc p)))"
proof -
  have desc: "(case hp_desc p of Some b \<Rightarrow> params_set ''desc'' (if b then ''1'' else ''0'') ps | None \<Rightarrow> ps)
      = ps @ opt_pair ''desc'' (map_option (\<lambda>b. if b then ''1'' else ''0'') (hp_desc p))"
    if "''desc'' \<notin> fst ` set ps" for ps
    using that by (simp add: opt_pair_def params_set_new split: option.splits)
  show ?thesis
    unfolding parse_params_toString history_query_def Let_def
    by (simp add: set_truthy_new set_int_new desc image_Un not_in_opt_pair)
qed

text \<open>A failed validation always says why. On a reply that is not OK, the error thrown carries the
  server's \<open>error\<close> text, else its \<open>output\<close>, else the HTTP status; on an OK reply with an object
  body there is no error and the output is passed on.\<close>
theorem validate_reports:
  assumes "cl_network c = (d, NetOk r) # net" and "rs_json r = Some (JObj fs)"
    and "map_of fs ''error'' = Some (JStr err)" and "map_of fs ''output'' = Some (JStr out)"
    and "map_of fs ''success'' = Some (JBool ok)"
  shows "fst (validateConfig target c) =
    (if rs_ok r then Inr (ok, JStr out)
     else Inl (PlainErr (if err \<noteq> [] then err else if out \<noteq> [] then out
                         else ''validation failed (HTTP '' @ show_nat (rs_status r) @ '')'')))"
proof -
  from apiFetch_answer [OF assms(1)] obtain c1 where
    a: "apiFetch ''./ui/api/validate'' (json_opts ''POST'' (JObj [(''target'', JStr target)])) c = (Inr r, c1)"
    by blast
  show ?thesis
    unfolding validateConfig_def
    by (simp add: api_bind_def a assms(2-5) js_field_def js_or_def js_truthy_def error_of_def http_note_def)
qed

theorem validate_reports_witness:
  "fst (validateConfig ''a.yaml'' (fresh_client\<lparr>cl_network :=
      [(5, NetOk (answer 400 [] (Some (JObj [(''success'', JBool False), (''output'', JStr ''bad pin''), (''error'', JStr [])])) []))]\<rparr>))
    = Inl (PlainErr ''bad pin'')"
  by (subst validate_reports [where r = "answer 400 [] (Some (JObj [(''success'', JBool False), (''output'', JStr ''bad pin''), (''error'', JStr [])])) []"
      and fs = "[(''success'', JBool False), (''output'', JStr ''bad pin''), (''error'', JStr [])]"
      and err = "[]" and out = "''bad pin''" and ok = False and d = 5 and net = "[]"])
    (simp_all add: answer_def rs_ok_def)

end
