(* ===== verification/Fleet_Types.thy ===== *)
theory Fleet_Types
  imports Fleet_Prelude
begin

text \<open>
  The data types of \<open>ha-addon/ui/src/types/index.ts\<close>: the rows the server sends and the UI
  keeps. An interface is a record, a string-literal union a datatype, an optional or nullable
  field an \<^typ>\<open>'a option\<close>. The job record is built in layers (\<open>job_status\<close>, \<open>job_badge\<close>,
  \<open>job\<close>), so that a helper written against a structural subset of \<open>Job\<close> takes the
  corresponding layer with any extension, as TypeScript's structural types do.
\<close>

section \<open>Server and versions\<close>

datatype install_status = Installing | Ready | InstallFailed

record server_info =
  si_token :: string
  si_port :: int
  si_server_ip :: "string option"
  si_server_addresses :: "string list option"
  si_addon_version :: "string option"
  si_server_client_version :: "string option"
  si_min_image_version :: "string option"
  si_esphome_install_status :: "install_status option"
  si_esphome_server_version :: "string option"
  si_default_worker_disk_quota_bytes :: "int option"

datatype address_source =
    Mdns | MdnsDefault | WifiUseAddress | EthernetUseAddress | OpenthreadUseAddress
  | WifiStaticIp | EthernetStaticIp | Arp

record esphome_versions =
  ev_selected :: "string option"
  ev_detected :: "string option"
  ev_available :: "string list"

section \<open>Targets and devices\<close>

datatype network_type = Wifi | Ethernet | Thread
datatype bluetooth_proxy = BtOff | BtPassive | BtActive
datatype final_state = FinSuccess | FinFailed | FinCancelled | FinTimedOut
datatype compile_source = FromHistory | FromDevice

record last_compile =
  lc_at :: rat
  lc_state :: final_state
  lc_ota_result :: "string option"
  lc_validate_only :: bool
  lc_download_only :: bool
  lc_server_ota :: "bool option"
  lc_source :: compile_source

record target_ident =
  t_target :: string
  t_device_name :: "string option"
  t_friendly_name :: "string option"
  t_comment :: "string option"
  t_area :: "string option"
  t_project_name :: "string option"
  t_project_version :: "string option"
  t_ip_address :: "string option"
  t_address_source :: "address_source option"
  t_running_version :: "string option"
  t_online :: "bool option"
  t_needs_update :: "bool option"
  t_config_modified :: "bool option"
  t_last_seen :: "string option"
  t_compilation_time :: "rat option"
  t_server_version :: "string option"

record target_caps = target_ident +
  t_has_api_key :: "bool option"
  t_has_web_server :: "bool option"
  t_has_restart_button :: "bool option"
  t_ha_configured :: "bool option"
  t_ha_connected :: "bool option"
  t_ha_device_id :: "string option"
  t_network_type :: "network_type option"
  t_network_static_ip :: "bool option"
  t_network_ipv6 :: "bool option"
  t_network_ap_fallback :: "bool option"
  t_network_matter :: "bool option"
  t_esp_type :: "string option"
  t_board :: "string option"
  t_bluetooth_proxy :: "bluetooth_proxy option"

record target = target_caps +
  t_pinned_version :: "string option"
  t_schedule :: "string option"
  t_schedule_enabled :: "bool option"
  t_schedule_last_run :: "string option"
  t_schedule_once :: "string option"
  t_schedule_tz :: "string option"
  t_tags :: "string option"
  t_has_uncommitted_changes :: "bool option"
  t_last_flashed_config_hash :: "string option"
  t_config_drifted_since_flash :: "bool option"
  t_last_compile :: "last_compile option"
  t_mac_address :: "string option"
  t_archived :: "bool option"
  t_archived_at :: "rat option"
  t_archived_size :: "int option"

record device =
  d_name :: string
  d_mac_address :: "string option"
  d_ip_address :: "string option"
  d_running_version :: "string option"
  d_online :: "bool option"
  d_compile_target :: "string option"
  d_last_seen :: "string option"
  d_compilation_time :: "rat option"
  d_address_source :: "address_source option"
  d_ha_configured :: "bool option"
  d_ha_connected :: "bool option"
  d_ha_device_id :: "string option"

text \<open>A row with only its file name, to build examples from.\<close>

definition bare_target :: "string \<Rightarrow> target" where
  "bare_target name =
    \<lparr>t_target = name, t_device_name = None, t_friendly_name = None, t_comment = None,
     t_area = None, t_project_name = None, t_project_version = None, t_ip_address = None,
     t_address_source = None, t_running_version = None, t_online = None, t_needs_update = None,
     t_config_modified = None, t_last_seen = None, t_compilation_time = None, t_server_version = None,
     t_has_api_key = None, t_has_web_server = None, t_has_restart_button = None, t_ha_configured = None,
     t_ha_connected = None, t_ha_device_id = None, t_network_type = None, t_network_static_ip = None,
     t_network_ipv6 = None, t_network_ap_fallback = None, t_network_matter = None, t_esp_type = None,
     t_board = None, t_bluetooth_proxy = None, t_pinned_version = None, t_schedule = None,
     t_schedule_enabled = None, t_schedule_last_run = None, t_schedule_once = None, t_schedule_tz = None,
     t_tags = None, t_has_uncommitted_changes = None, t_last_flashed_config_hash = None, t_config_drifted_since_flash = None,
     t_last_compile = None, t_mac_address = None, t_archived = None, t_archived_at = None,
     t_archived_size = None\<rparr>"

section \<open>Routing rules\<close>

text \<open>
  The union type of \<open>op\<close> is not checked at run time; \<open>UnknownOp\<close> stands for any other string,
  which the evaluator's \<open>default\<close> branch handles.
\<close>

datatype routing_clause_op = AllOf | AnyOf | NoneOf | UnknownOp string

record routing_clause =
  rc_op :: routing_clause_op
  rc_tags :: "string list"

datatype severity = Required

record routing_rule =
  rr_id :: string
  rr_name :: string
  rr_severity :: severity
  rr_device_match :: "routing_clause list"
  rr_worker_match :: "routing_clause list"

section \<open>Workers\<close>

record system_info =
  sy_os_version :: "string option"
  sy_cpu_model :: "string option"
  sy_cpu_arch :: "string option"
  sy_cpu_cores :: "int option"
  sy_total_memory :: "string option"
  sy_uptime :: "string option"
  sy_perf_score :: "rat option"
  sy_cpu_usage :: "rat option"
  sy_disk_total :: "string option"
  sy_disk_free :: "string option"
  sy_disk_used_pct :: "rat option"
  sy_cached_targets :: "int option"
  sy_cache_size_mb :: "rat option"
  sy_disk_usage_bytes :: "int option"
  sy_disk_quota_bytes :: "int option"
  sy_last_eviction_freed_bytes :: "int option"

record worker_preset =
  wp_hostname :: "string option"
  wp_max_parallel_jobs :: "int option"
  wp_host_platform :: "string option"

record worker =
  w_client_id :: string
  w_hostname :: string
  w_online :: bool
  w_disabled :: bool
  w_max_parallel_jobs :: "int option"
  w_requested_max_parallel_jobs :: "int option"
  w_client_version :: "string option"
  w_image_version :: "string option"
  w_system_info :: "system_info option"
  w_current_job_id :: "string option"
  w_last_seen :: "string option"
  w_health_blocked_reason :: "string option"
  w_tags :: "string list option"
  w_disk_quota_bytes :: "int option"
  w_disk_quota_override_bytes :: "int option"
  w_default_worker_disk_quota_bytes :: "int option"

section \<open>Jobs\<close>

text \<open>
  \<open>state\<close> is a plain string on the wire. \<open>job_status\<close> is the \<open>JobStatusLike\<close> of
  \<open>utils/jobState.ts\<close> and \<open>job_badge\<close> the parameter type of \<open>getJobBadge\<close>.
\<close>

record job_status =
  j_state :: string
  j_ota_result :: "string option"
  j_validate_only :: "bool option"
  j_download_only :: "bool option"
  j_server_ota :: "bool option"

record job_badge = job_status +
  j_ota_only :: "bool option"
  j_status_text :: "string option"

record blocked_reason =
  br_rule_id :: string
  br_rule_name :: string
  br_summary :: string

record job = job_badge +
  j_id :: string
  j_target :: string
  j_esphome_version :: "string option"
  j_assigned_client_id :: "string option"
  j_assigned_hostname :: "string option"
  j_worker_id :: "int option"
  j_pinned_client_id :: "string option"
  j_is_followup :: "bool option"
  j_scheduled :: "bool option"
  j_schedule_kind :: "string option"
  j_ha_action :: "bool option"
  j_api_triggered :: "bool option"
  j_config_hash :: "string option"
  j_run_id :: "string option"
  j_selection_reason :: "string option"
  j_duration_seconds :: "rat option"
  j_assigned_at :: "string option"
  j_created_at :: string
  j_finished_at :: "string option"
  j_has_firmware :: "bool option"
  j_firmware_variants :: "string list option"
  j_log :: "string option"
  j_blocked_reason :: "blocked_reason option"
  j_worker_tag_filter :: "routing_clause option"

end
