(* ===== verification/Job_State.thy ===== *)
theory Job_State
  imports Fleet_Types
begin

text \<open>
  \<open>utils/jobState.ts\<close>: the predicates that say which phase a job is in and the badge the UI
  shows for it. The locale \<open>job_phases\<close> is the contract the tabs rely on when they count,
  filter and enable actions: every job is in exactly one of four phases.
\<close>

section \<open>Predicates\<close>

definition isJobSuccessful :: "'a job_status_scheme \<Rightarrow> bool" where
  "isJobSuccessful job =
     (if j_state job \<noteq> ''success'' then False
      else if truthy_bool (j_validate_only job) \<or> truthy_bool (j_download_only job) then True
      else j_ota_result job = Some ''success'')"

definition isServerOtaPending :: "'a job_status_scheme \<Rightarrow> bool" where
  "isServerOtaPending job \<longleftrightarrow>
     truthy_bool (j_server_ota job) \<and> j_state job = ''success'' \<and> j_ota_result job = None"

definition isJobInProgress :: "'a job_status_scheme \<Rightarrow> bool" where
  "isJobInProgress job =
     (if j_state job = ''pending'' \<or> j_state job = ''working'' \<or> j_state job = ''blocked'' then True
      else if j_state job = ''success'' \<and> \<not> truthy_bool (j_validate_only job)
           \<and> \<not> truthy_bool (j_download_only job)
           \<and> j_ota_result job \<noteq> Some ''success'' \<and> j_ota_result job \<noteq> Some ''failed'' then True
      else False)"

definition isJobCancelled :: "'a job_status_scheme \<Rightarrow> bool" where
  "isJobCancelled job \<longleftrightarrow> j_state job = ''cancelled''"

definition isJobFailed :: "'a job_status_scheme \<Rightarrow> bool" where
  "isJobFailed job =
     (if j_state job = ''cancelled'' then False
      else \<not> isJobInProgress job \<and> \<not> isJobSuccessful job)"

definition isJobFinished :: "'a job_status_scheme \<Rightarrow> bool" where
  "isJobFinished job \<longleftrightarrow> \<not> isJobInProgress job"

definition isJobRetryable :: "'a job_status_scheme \<Rightarrow> bool" where
  "isJobRetryable job \<longleftrightarrow> isJobFinished job"

lemmas job_pred_defs = isJobSuccessful_def isJobInProgress_def isJobFailed_def
  isJobCancelled_def isJobFinished_def isJobRetryable_def

section \<open>Badges\<close>

record badge =
  badge_label :: string
  badge_cls :: string

datatype variant = VPending | VWorking | VSuccess | VFailed | VTimedOut | VCancelled | VBlocked

definition BADGE_BASE :: string where
  "BADGE_BASE = ''inline-block rounded-full px-2 py-0.5 text-[11px] font-semibold tracking-wide''"

primrec variant_colours :: "variant \<Rightarrow> string" where
  "variant_colours VPending = ''bg-[#374151] text-[#9ca3af]''"
| "variant_colours VWorking = ''bg-[#1e3a5f] text-[#60a5fa]''"
| "variant_colours VSuccess = ''bg-[#14532d] text-[#4ade80]''"
| "variant_colours VFailed = ''bg-[#450a0a] text-[#f87171]''"
| "variant_colours VTimedOut = ''bg-[#431407] text-[#fb923c]''"
| "variant_colours VCancelled = ''bg-[#374151] text-[#9ca3af]''"
| "variant_colours VBlocked = ''bg-[#3f1d1d] text-[#fb7185]''"

definition badge_variant :: "variant \<Rightarrow> string" where
  "badge_variant v = BADGE_BASE @ '' '' @ variant_colours v"

text \<open>The keys of the \<open>BADGE_VARIANTS\<close> object, for the lookup by state of the last branch.\<close>

definition BADGE_VARIANTS :: "string \<Rightarrow> string option" where
  "BADGE_VARIANTS =
     map_of [(''pending'', badge_variant VPending), (''working'', badge_variant VWorking),
             (''success'', badge_variant VSuccess), (''failed'', badge_variant VFailed),
             (''timed_out'', badge_variant VTimedOut), (''cancelled'', badge_variant VCancelled),
             (''blocked'', badge_variant VBlocked)]"

definition mk_badge :: "string \<Rightarrow> variant \<Rightarrow> badge" where
  "mk_badge l v = \<lparr>badge_label = l, badge_cls = badge_variant v\<rparr>"

definition getJobBadge :: "'a job_badge_scheme \<Rightarrow> badge" where
  "getJobBadge job =
    (let st = j_state job;
         validate = truthy_bool (j_validate_only job);
         download = truthy_bool (j_download_only job);
         server = truthy_bool (j_server_ota job)
     in if st = ''pending'' \<and> validate then mk_badge ''Validate'' VPending
     else if st = ''pending'' \<and> download then mk_badge ''Download'' VPending
     else if st = ''pending'' \<and> server then mk_badge ''Server OTA'' VPending
     else if st = ''pending'' \<and> truthy_bool (j_ota_only job) then mk_badge ''OTA Retry'' VTimedOut
     else if st = ''pending'' then mk_badge ''Pending'' VPending
     else if st = ''blocked'' then mk_badge ''Blocked'' VBlocked
     else if st = ''working'' \<and> validate then mk_badge (str_or (j_status_text job) ''Validating'') VWorking
     else if st = ''working'' \<and> (download \<or> server) then mk_badge (str_or (j_status_text job) ''Compiling'') VWorking
     else if st = ''working'' then mk_badge (str_or (j_status_text job) ''Working'') VWorking
     else if st = ''failed'' then mk_badge ''Failed'' VFailed
     else if st = ''success'' \<and> validate then mk_badge ''Valid'' VSuccess
     else if st = ''success'' \<and> download \<and> \<not> server then mk_badge ''Ready'' VSuccess
     else if st = ''success'' \<and> server then
       (if j_ota_result job = Some ''success'' then mk_badge ''Success'' VSuccess
        else if j_ota_result job = Some ''failed'' then mk_badge ''OTA Failed'' VTimedOut
        else mk_badge (str_or (j_status_text job) ''Server OTA'') VWorking)
     else if st = ''success'' then
       (if j_ota_result job = Some ''success'' then mk_badge ''Success'' VSuccess
        else if j_ota_result job = Some ''failed'' then mk_badge ''OTA Failed'' VTimedOut
        else mk_badge ''OTA Pending'' VWorking)
     else if st = ''timed_out'' then mk_badge ''Timed Out'' VTimedOut
     else if st = ''cancelled'' then mk_badge ''Cancelled'' VCancelled
     else \<lparr>badge_label = st, badge_cls = str_or (BADGE_VARIANTS st) (badge_variant VPending)\<rparr>)"

lemma badge_variant_inj:
  "badge_variant v = badge_variant w \<longleftrightarrow> variant_colours v = variant_colours w"
  by (simp add: badge_variant_def)

lemma badge_variant_eq_success: "badge_variant v = badge_variant VSuccess \<longleftrightarrow> v = VSuccess"
  by (cases v) (simp_all add: badge_variant_inj)

lemma badge_cls_mk [simp]: "badge_cls (mk_badge l v) = badge_variant v" "badge_label (mk_badge l v) = l"
  by (simp_all add: mk_badge_def)

section \<open>The contract of the phases\<close>

locale job_phases =
  fixes in_progress successful failed cancelled :: "'j \<Rightarrow> bool"
  assumes some_phase: "in_progress j \<or> successful j \<or> failed j \<or> cancelled j"
    and progress_excl: "in_progress j \<Longrightarrow> \<not> successful j \<and> \<not> failed j \<and> \<not> cancelled j"
    and success_excl: "successful j \<Longrightarrow> \<not> failed j \<and> \<not> cancelled j"
    and failed_excl: "failed j \<Longrightarrow> \<not> cancelled j"
begin

text \<open>Counting a list by phase loses and repeats nothing.\<close>

lemma count_phases:
  "length (filter in_progress js) + length (filter successful js)
     + length (filter failed js) + length (filter cancelled js) = length js"
proof (induction js)
  case (Cons j js)
  then show ?case
    using some_phase [of j] progress_excl [of j] success_excl [of j] failed_excl [of j]
    by (cases "in_progress j"; cases "successful j"; cases "failed j"; cases "cancelled j") auto
qed simp

lemma finished_phases: "\<not> in_progress j \<longleftrightarrow> successful j \<or> failed j \<or> cancelled j"
  using some_phase [of j] progress_excl [of j] by auto

lemma exactly_one:
  "length (filter (\<lambda>p. p j) [in_progress, successful, failed, cancelled]) = 1"
  using some_phase [of j] progress_excl [of j] success_excl [of j] failed_excl [of j] by auto

end

interpretation phases: job_phases
  "isJobInProgress :: 'a job_status_scheme \<Rightarrow> bool" isJobSuccessful isJobFailed isJobCancelled
  by unfold_locales (auto simp: job_pred_defs split: if_splits)

section \<open>Properties\<close>

text \<open>C8: every job, whatever its state string and flags, is in exactly one of the phases in
  progress, successful, failed and cancelled; it is finished exactly when it is in one of the
  last three, and exactly the finished jobs can be retried. A pending, working or blocked job is
  never finished, and a failed or timed out one never shows as anything else.\<close>
theorem job_in_one_phase:
  "length (filter (\<lambda>p. p job) [isJobInProgress, isJobSuccessful, isJobFailed, isJobCancelled]) = 1
   \<and> (isJobFinished job \<longleftrightarrow> isJobSuccessful job \<or> isJobFailed job \<or> isJobCancelled job)
   \<and> (isJobRetryable job \<longleftrightarrow> \<not> isJobInProgress job)
   \<and> \<not> (isJobFinished job \<and> j_state job \<in> set [''pending'', ''working'', ''blocked''])
   \<and> \<not> (j_state job \<in> set [''failed'', ''timed_out''] \<and> (isJobInProgress job \<or> isJobSuccessful job \<or> isJobCancelled job))"
proof -
  have "\<not> (isJobFinished job \<and> j_state job \<in> set [''pending'', ''working'', ''blocked''])"
    by (auto simp: isJobFinished_def isJobInProgress_def)
  moreover have "\<not> (j_state job \<in> set [''failed'', ''timed_out''] \<and> (isJobInProgress job \<or> isJobSuccessful job \<or> isJobCancelled job))"
    by (auto simp: isJobInProgress_def isJobSuccessful_def isJobCancelled_def)
  ultimately show ?thesis
    using phases.exactly_one [of job] phases.finished_phases [of job]
    unfolding isJobFinished_def isJobRetryable_def by blast
qed

text \<open>A job the server pushes over the air (\<open>server_ota\<close>, compile succeeded, no OTA result
  yet) is in progress, and so neither finished nor retryable, as long as it is not a
  validate-only or download-only job; once an OTA result of success or failure arrives it is
  finished.\<close>
theorem server_ota_pending_in_progress:
  assumes "isServerOtaPending job"
    and "\<not> truthy_bool (j_validate_only job)" and "\<not> truthy_bool (j_download_only job)"
    and "r \<in> {''success'', ''failed''}"
  shows "isJobInProgress job \<and> \<not> isJobRetryable job
    \<and> isJobFinished (job\<lparr>j_ota_result := Some r\<rparr>)
    \<and> (isJobSuccessful (job\<lparr>j_ota_result := Some r\<rparr>) \<longleftrightarrow> r = ''success'')"
  using assms by (auto simp: isServerOtaPending_def job_pred_defs)

text \<open>The badge has the success colours exactly for the successful jobs, for every state and
  flag combination the server produces (it never sets \<open>server_ota\<close> and \<open>download_only\<close> on one
  job).\<close>
theorem badge_success_iff:
  assumes "\<not> (truthy_bool (j_server_ota job) \<and> truthy_bool (j_download_only job))"
  shows "badge_cls (getJobBadge job) = badge_variant VSuccess \<longleftrightarrow> isJobSuccessful job"
proof (cases "j_state job \<in> {''pending'', ''blocked'', ''working'', ''failed'', ''success'', ''timed_out'', ''cancelled''}")
  case True
  with assms show ?thesis
    by (auto simp: getJobBadge_def isJobSuccessful_def badge_variant_eq_success Let_def)
next
  case False
  then show ?thesis
    by (simp add: getJobBadge_def isJobSuccessful_def BADGE_VARIANTS_def badge_variant_eq_success Let_def)
qed

text \<open>
  Without the server's guarantee the two disagree: a compile-and-download job that is also marked
  for a server push shows a working badge and counts as successful.
\<close>

definition both_flags_job :: job_badge where
  "both_flags_job = \<lparr>j_state = ''success'', j_ota_result = None, j_validate_only = None,
     j_download_only = Some True, j_server_ota = Some True, j_ota_only = None, j_status_text = None\<rparr>"

theorem badge_disagrees_on_both_flags:
  "isJobSuccessful both_flags_job \<and> isServerOtaPending both_flags_job
   \<and> badge_cls (getJobBadge both_flags_job) = badge_variant VWorking"
  by (simp add: both_flags_job_def isJobSuccessful_def isServerOtaPending_def getJobBadge_def)

section \<open>Witnesses\<close>

definition pushed_job :: job_badge where
  "pushed_job = \<lparr>j_state = ''success'', j_ota_result = None, j_validate_only = None,
     j_download_only = None, j_server_ota = Some True, j_ota_only = None, j_status_text = None\<rparr>"

theorem server_ota_pending_witness:
  "isServerOtaPending pushed_job \<and> isJobInProgress pushed_job
   \<and> isJobFinished (pushed_job\<lparr>j_ota_result := Some ''failed''\<rparr>)"
  using server_ota_pending_in_progress [of pushed_job "''failed''"]
  by (simp add: pushed_job_def isServerOtaPending_def)

theorem badge_success_witness:
  "badge_cls (getJobBadge (pushed_job\<lparr>j_ota_result := Some ''success''\<rparr>)) = badge_variant VSuccess"
  using badge_success_iff [of "pushed_job\<lparr>j_ota_result := Some ''success''\<rparr>"]
  by (simp add: pushed_job_def isJobSuccessful_def)

end
