(* ===== verification/Text_Format.thy ===== *)
theory Text_Format
  imports Fleet_Prelude
begin

text \<open>
  \<open>utils/format.ts\<close>: relative times, durations, the time and date preferences and deep links.
  The clock is an argument in milliseconds. What the browser's locale prints
  (\<open>toLocaleTimeString\<close>, \<open>toLocaleDateString\<close>, \<open>toLocaleString\<close>) and the local calendar fields of
  an instant come from the platform, so they are the fields of a \<open>platform\<close> record.
\<close>

text \<open>\<open>Math.round\<close>: the nearest integer, halves rounded up.\<close>

definition js_round :: "rat \<Rightarrow> int" where
  "js_round x = \<lfloor>x + 1 / 2\<rfloor>"

section \<open>Relative times and durations\<close>

text \<open>The second argument is \<open>new Date(isoString).getTime()\<close>, \<^const>\<open>None\<close> for an invalid date.\<close>

definition timeAgo :: "int \<Rightarrow> int option \<Rightarrow> string" where
  "timeAgo now_ms date_ms =
    (case date_ms of
       None \<Rightarrow> ''NaNh ago''
     | Some t \<Rightarrow>
        (let ago = js_round (of_int (now_ms - t) / 1000)
         in if ago < 60 then show_int ago @ ''s ago''
            else if ago < 3600 then show_int (ago div 60) @ ''m ago''
            else show_int (ago div 3600) @ ''h ago''))"

text \<open>\<open>s.replace(/\.ya?ml$/i, '')\<close>.\<close>

definition strip_yaml_str :: "string \<Rightarrow> string" where
  "strip_yaml_str s =
    (if ends_with (to_lower s) ''.yaml'' then take (length s - 5) s
     else if ends_with (to_lower s) ''.yml'' then take (length s - 4) s
     else s)"

definition stripYaml :: "string option \<Rightarrow> string" where
  "stripYaml s = (if truthy_str s then strip_yaml_str (the s) else nullish s [])"

definition fmtDuration :: "rat option \<Rightarrow> string" where
  "fmtDuration secs =
    (case secs of
       None \<Rightarrow> em_dash
     | Some x \<Rightarrow>
        (let s = js_round x
         in if s < 60 then show_int s @ ''s''
            else show_int (s div 60) @ ''m '' @ show_int (s mod 60) @ ''s''))"

definition epoch_diff :: "int \<Rightarrow> rat \<Rightarrow> int" where
  "epoch_diff now_ms epoch = max 0 \<lfloor>of_int now_ms / 1000 - epoch\<rfloor>"

definition fmtEpochRelative :: "int \<Rightarrow> rat option \<Rightarrow> string" where
  "fmtEpochRelative now_ms epoch =
    (case epoch of
       None \<Rightarrow> em_dash
     | Some e \<Rightarrow>
        (let diff = epoch_diff now_ms e
         in if diff = 0 then ''just now''
            else if diff < 60 then show_int diff @ ''s ago''
            else if diff < 3600 then show_int (diff div 60) @ ''m ago''
            else if diff < 86400 then show_int (diff div 3600) @ ''h ago''
            else show_int (diff div 86400) @ ''d ago''))"

section \<open>Time and date preferences\<close>

datatype time_format_pref = TimeAuto | Time12h | Time24h
datatype date_format_pref = DateAuto | DateIso | DateUs | DateEu | DateLong

text \<open>The two module-level variables \<open>_timeFormatPref\<close> and \<open>_dateFormatPref\<close>.\<close>

record fmt_prefs =
  fp_time :: time_format_pref
  fp_date :: date_format_pref

definition initial_prefs :: fmt_prefs where
  "initial_prefs = \<lparr>fp_time = TimeAuto, fp_date = DateAuto\<rparr>"

definition setTimeFormatPref :: "time_format_pref \<Rightarrow> fmt_prefs \<Rightarrow> fmt_prefs" where
  "setTimeFormatPref pref st = st\<lparr>fp_time := pref\<rparr>"

definition setDateFormatPref :: "date_format_pref \<Rightarrow> fmt_prefs \<Rightarrow> fmt_prefs" where
  "setDateFormatPref pref st = st\<lparr>fp_date := pref\<rparr>"

text \<open>
  \<open>Intl.DateTimeFormatOptions\<close>: the \<open>hour12\<close> option and the other options, in the order of the
  object's keys. The local calendar fields of a \<open>Date\<close>, months counted from 0.
\<close>

record intl_opts =
  io_hour12 :: "bool option"
  io_fields :: "(string \<times> string) list"

record local_date =
  ld_year :: int
  ld_month :: int
  ld_day :: int
  ld_hours :: int
  ld_minutes :: int
  ld_seconds :: int

record platform =
  pf_time_string :: "local_date \<Rightarrow> intl_opts \<Rightarrow> string"
  pf_date_string :: "string option \<Rightarrow> intl_opts \<Rightarrow> local_date \<Rightarrow> string"
  pf_string :: "local_date \<Rightarrow> intl_opts \<Rightarrow> string"
  pf_local :: "rat \<Rightarrow> local_date"

definition applyHour12 :: "fmt_prefs \<Rightarrow> intl_opts \<Rightarrow> intl_opts" where
  "applyHour12 st opts =
    (if fp_time st = Time12h then opts\<lparr>io_hour12 := Some True\<rparr>
     else if fp_time st = Time24h then opts\<lparr>io_hour12 := Some False\<rparr>
     else opts)"

definition no_opts :: intl_opts where
  "no_opts = \<lparr>io_hour12 = None, io_fields = []\<rparr>"

definition formatDate :: "platform \<Rightarrow> fmt_prefs \<Rightarrow> local_date \<Rightarrow> string" where
  "formatDate pf st date =
    (case fp_date st of
       DateIso \<Rightarrow> show_int (ld_year date) @ ''-'' @ pad2 (ld_month date + 1) @ ''-'' @ pad2 (ld_day date)
     | DateUs \<Rightarrow> pf_date_string pf (Some ''en-US'') no_opts date
     | DateEu \<Rightarrow> pf_date_string pf (Some ''en-GB'') no_opts date
     | DateLong \<Rightarrow> pf_date_string pf None
         \<lparr>io_hour12 = None, io_fields = [(''year'', ''numeric''), (''month'', ''short''), (''day'', ''numeric'')]\<rparr> date
     | DateAuto \<Rightarrow> pf_date_string pf None no_opts date)"

text \<open>The object spread \<open>{...base, ...opts}\<close>: a key of \<open>opts\<close> overrides the base's in place.\<close>

definition spread_opts :: "intl_opts \<Rightarrow> intl_opts \<Rightarrow> intl_opts" where
  "spread_opts base opts =
    \<lparr>io_hour12 = (case io_hour12 opts of None \<Rightarrow> io_hour12 base | Some b \<Rightarrow> Some b),
     io_fields = map (\<lambda>(k, v). (k, nullish (map_of (io_fields opts) k) v)) (io_fields base)
       @ filter (\<lambda>(k, _). k \<notin> set (map fst (io_fields base))) (io_fields opts)\<rparr>"

definition time_base :: intl_opts where
  "time_base = \<lparr>io_hour12 = None,
     io_fields = [(''hour'', ''2-digit''), (''minute'', ''2-digit''), (''second'', ''2-digit'')]\<rparr>"

definition fmtTimeOfDay :: "platform \<Rightarrow> fmt_prefs \<Rightarrow> local_date \<Rightarrow> intl_opts option \<Rightarrow> string" where
  "fmtTimeOfDay pf st date opts =
    pf_time_string pf date
      (applyHour12 st (case opts of None \<Rightarrow> time_base | Some o' \<Rightarrow> spread_opts time_base o'))"

definition fmtDateTime :: "platform \<Rightarrow> fmt_prefs \<Rightarrow> local_date \<Rightarrow> intl_opts option \<Rightarrow> string" where
  "fmtDateTime pf st date opts =
    (case opts of
       Some o' \<Rightarrow> pf_string pf date (applyHour12 st o')
     | None \<Rightarrow> formatDate pf st date @ '', '' @ fmtTimeOfDay pf st date None)"

definition fmtEpochAbsolute :: "platform \<Rightarrow> fmt_prefs \<Rightarrow> rat option \<Rightarrow> string" where
  "fmtEpochAbsolute pf st epoch =
    (case epoch of None \<Rightarrow> [] | Some e \<Rightarrow> fmtDateTime pf st (pf_local pf (e * 1000)) None)"

section \<open>Deep links\<close>

text \<open>
  The part of \<open>window\<close> that \<open>haDeepLink\<close> reads: \<open>top\<close> is \<^const>\<open>None\<close> when it is null or the window
  itself, and its origin is \<^const>\<open>None\<close> when reading it throws (a cross-origin parent).
\<close>

record browser_window =
  bw_top :: "string option option"
  bw_protocol :: string
  bw_hostname :: string

definition haDeepLink :: "browser_window option \<Rightarrow> string \<Rightarrow> string option" where
  "haDeepLink win path =
    (case win of
       None \<Rightarrow> None
     | Some w \<Rightarrow>
        (case bw_top w of
           Some (Some origin) \<Rightarrow> Some (origin @ path)
         | _ \<Rightarrow> Some (bw_protocol w @ ''//'' @ bw_hostname w @ '':8123'' @ path)))"

section \<open>Lemmas\<close>

lemma epoch_diff_nonneg [simp]: "0 \<le> epoch_diff now e"
  by (simp add: epoch_diff_def)

lemma ends_with_append [simp]: "ends_with (s @ p) p"
  by (simp add: ends_with_def)

lemma to_lower_append [simp]: "to_lower (s @ t) = to_lower s @ to_lower t"
  by (simp add: to_lower_def)

lemma length_to_lower [simp]: "length (to_lower s) = length s"
  by (simp add: to_lower_def)

lemma ends_with_split: "ends_with s p \<longleftrightarrow> (\<exists>r. s = r @ p)"
  by (auto simp: ends_with_def starts_with_def) (metis append_take_drop_id rev_append rev_rev_ident)

text \<open>A bucket of width \<open>u\<close>: the printed count is the whole number of units that fit.\<close>

lemma bucket:
  assumes "(u::int) > 0" and "u \<le> d"
  shows "1 \<le> d div u \<and> (d div u) * u \<le> d \<and> d < (d div u + 1) * u"
proof -
  have m: "d mod u < u" "0 \<le> d mod u" using assms by simp_all
  have e: "d = (d div u) * u + d mod u" by simp
  have "1 \<le> d div u" using assms by (simp add: pos_imp_zdiv_pos_iff int_one_le_iff_zero_less)
  moreover have "(d div u) * u \<le> d" using m e by linarith
  moreover have "d < (d div u) * u + u" using m e by linarith
  ultimately show ?thesis by (simp add: distrib_right)
qed

lemma extension_lengths:
  "to_lower ext = ''.yaml'' \<Longrightarrow> length ext = 5" "to_lower ext = ''.yml'' \<Longrightarrow> length ext = 4"
  using length_to_lower [of ext] by simp_all

lemma yml_not_yaml: "\<not> ends_with (s @ ''.yml'') ''.yaml''"
  by (simp add: ends_with_def starts_with_def)

lemma strip_yaml_str_ext:
  assumes "to_lower ext \<in> {''.yaml'', ''.yml''}"
  shows "strip_yaml_str (base @ ext) = base"
  using assms yml_not_yaml [of "to_lower base"] ends_with_append [of "to_lower base"]
  by (auto simp: strip_yaml_str_def extension_lengths simp del: ends_with_append)

section \<open>Properties\<close>

text \<open>A relative epoch never shows a negative or fractional amount: it reads \<open>just now\<close> when
  less than one whole second has passed (clock skew into the future included), and otherwise
  a count \<open>n >= 1\<close> and a unit of \<open>u\<close> seconds with \<open>n * u\<close> at most the elapsed seconds and
  \<open>(n + 1) * u\<close> above them.\<close>
theorem fmtEpochRelative_bucket:
  "(epoch_diff now e = 0 \<longrightarrow> fmtEpochRelative now (Some e) = ''just now'')
   \<and> (epoch_diff now e > 0 \<longrightarrow>
       (\<exists>n u unit. fmtEpochRelative now (Some e) = show_int n @ unit @ '' ago''
          \<and> (unit, u) \<in> {(''s'', 1), (''m'', 60), (''h'', 3600), (''d'', 86400)}
          \<and> 1 \<le> n \<and> n * u \<le> epoch_diff now e \<and> epoch_diff now e < (n + 1) * u))"
proof (intro conjI impI)
  let ?d = "epoch_diff now e"
  assume pos: "?d > 0"
  consider "?d < 60" | "60 \<le> ?d" "?d < 3600" | "3600 \<le> ?d" "?d < 86400" | "86400 \<le> ?d"
    by linarith
  then show "\<exists>n u unit. fmtEpochRelative now (Some e) = show_int n @ unit @ '' ago''
          \<and> (unit, u) \<in> {(''s'', 1), (''m'', 60), (''h'', 3600), (''d'', 86400)}
          \<and> 1 \<le> n \<and> n * u \<le> ?d \<and> ?d < (n + 1) * u"
  proof cases
    case 1
    with pos show ?thesis
      by (intro exI [of _ ?d] exI [of _ 1] exI [of _ "''s''"]) (simp add: fmtEpochRelative_def)
  next
    case 2
    with pos bucket [of 60 ?d] show ?thesis
      by (intro exI [of _ "?d div 60"] exI [of _ 60] exI [of _ "''m''"]) (simp add: fmtEpochRelative_def)
  next
    case 3
    with pos bucket [of 3600 ?d] show ?thesis
      by (intro exI [of _ "?d div 3600"] exI [of _ 3600] exI [of _ "''h''"]) (simp add: fmtEpochRelative_def)
  next
    case 4
    with pos bucket [of 86400 ?d] show ?thesis
      by (intro exI [of _ "?d div 86400"] exI [of _ 86400] exI [of _ "''d''"]) (simp add: fmtEpochRelative_def)
  qed
qed (simp add: fmtEpochRelative_def)

theorem fmtEpochRelative_witness: "fmtEpochRelative 7300000 (Some (7301 / 1)) = ''just now''"
proof -
  have "epoch_diff 7300000 (7301 / 1) = 0" by (simp add: epoch_diff_def)
  then show ?thesis using fmtEpochRelative_bucket [of 7300000 "7301 / 1"] by simp
qed

text \<open>A duration of at least a minute prints as whole minutes and a remainder of 0 to 59
  seconds that add up to the duration rounded to the nearest second, within half a second
  of the exact value.\<close>
theorem fmtDuration_minutes:
  assumes "60 \<le> js_round x"
  shows "\<exists>m s. fmtDuration (Some x) = show_int m @ ''m '' @ show_int s @ ''s''
    \<and> 1 \<le> m \<and> 0 \<le> s \<and> s < 60 \<and> \<bar>of_int (60 * m + s) - x\<bar> \<le> 1 / 2"
proof -
  let ?r = "js_round x"
  have "\<bar>of_int ?r - x\<bar> \<le> 1 / 2"
    unfolding js_round_def using floor_correct [of "x + 1 / 2"] by linarith
  moreover have "60 * (?r div 60) + ?r mod 60 = ?r" by simp
  moreover have "1 \<le> ?r div 60" using bucket [of 60 ?r] assms by simp
  moreover have "fmtDuration (Some x) = show_int (?r div 60) @ ''m '' @ show_int (?r mod 60) @ ''s''"
    using assms by (simp add: fmtDuration_def Let_def)
  ultimately show ?thesis
    by (intro exI [of _ "?r div 60"] exI [of _ "?r mod 60"]) simp
qed

theorem fmtDuration_minutes_witness:
  "60 \<le> js_round (119.6) \<and> (\<exists>m s. fmtDuration (Some 119.6) = show_int m @ ''m '' @ show_int s @ ''s''
    \<and> 1 \<le> m \<and> 0 \<le> s \<and> s < 60 \<and> \<bar>of_int (60 * m + s) - 119.6\<bar> \<le> (1 / 2 :: rat))"
proof -
  have "60 \<le> js_round (119.6)" by (simp add: js_round_def)
  then show ?thesis using fmtDuration_minutes [of "119.6"] by simp
qed

text \<open>\<open>stripYaml\<close> removes one \<open>.yaml\<close> or \<open>.yml\<close> extension, in any letter case, and leaves a
  name without one alone.\<close>
theorem stripYaml_spec:
  "(to_lower ext \<in> {''.yaml'', ''.yml''} \<longrightarrow> stripYaml (Some (base @ ext)) = base)
   \<and> (\<not> ends_with (to_lower s) ''.yaml'' \<longrightarrow> \<not> ends_with (to_lower s) ''.yml'' \<longrightarrow> stripYaml (Some s) = s)"
  using strip_yaml_str_ext [of ext base] length_to_lower [of ext]
  by (auto simp: stripYaml_def strip_yaml_str_def)

theorem stripYaml_witness:
  "stripYaml (Some ''garage.YAML'') = ''garage'' \<and> stripYaml (Some ''garage'') = ''garage''"
proof -
  have "to_lower ''.YAML'' = ''.yaml''" "\<not> ends_with (to_lower ''garage'') ''.yaml''"
    "\<not> ends_with (to_lower ''garage'') ''.yml''"
    by code_simp+
  then show ?thesis
    using stripYaml_spec [of "''.YAML''" "''garage''" "''garage''"] by simp
qed

end
