(* ===== verification/Log_Viewers.thy ===== *)
theory Log_Viewers
  imports Api_Endpoints Job_State Text_Format "HOL-Library.Sublist"
begin

text \<open>
  \<open>components/LogModal.tsx\<close> and \<open>components/DeviceLogModal.tsx\<close>: how a log dialog picks its stream,
  what it writes to the terminal, the polling fallback and the reconnection after a flash. A
  terminal (xterm) is the text written since its last reset. A socket is the sequence of what
  happens on it. \<open>get_job_log\<close> of \<open>ha-addon/server/ui_api.py\<close> is mirrored to say what polling shows.
\<close>

section \<open>Sources\<close>

datatype log_source = JobLog string | WorkerLog string

fun sourceKey :: "log_source \<Rightarrow> string" where
  "sourceKey (JobLog i) = ''job:'' @ i"
| "sourceKey (WorkerLog i) = ''worker:'' @ i"

definition is_live :: "job \<Rightarrow> bool" where
  "is_live job \<longleftrightarrow> j_state job \<in> set [''working'', ''pending'']"

definition otaRefreshKey :: "job option \<Rightarrow> string" where
  "otaRefreshKey job =
    (case job of None \<Rightarrow> [] | Some j \<Rightarrow> if is_live j then [] else j_state j @ '':'' @ nullish (j_ota_result j) [])"

text \<open>What the set-up effect depends on: while it stays the same the terminal is left alone.\<close>

definition stream_key :: "log_source \<Rightarrow> job list \<Rightarrow> string \<times> bool \<times> string" where
  "stream_key src queue =
    (let job = (case src of JobLog i \<Rightarrow> find (\<lambda>j. j_id j = i) queue | WorkerLog _ \<Rightarrow> None)
     in (sourceKey src, job \<noteq> None, otaRefreshKey job))"

text \<open>The stream that is opened, with the dim hint written first.\<close>

datatype log_stream =
    Socket string "string option"
  | Polling string
  | NoStream

definition dim :: "string \<Rightarrow> string" where
  "dim s = [CHR 0x1B] @ ''[2m'' @ s @ [CHR 0xE2, CHR 0x80, CHR 0xA6] @ [CHR 0x1B] @ ''[0m'' @ [CHR 0x0D, CHR 0x0A]"

definition open_stream :: "log_source \<Rightarrow> job list \<Rightarrow> log_stream" where
  "open_stream src queue =
    (case src of
       JobLog i \<Rightarrow>
        (case find (\<lambda>j. j_id j = i) queue of
           None \<Rightarrow> NoStream
         | Some job \<Rightarrow>
             if is_live job then
               Socket (''ui/api/jobs/'' @ i @ ''/log/ws'')
                 (if j_state job \<noteq> ''working'' then Some (dim ''Waiting for a worker to pick up this job'') else None)
             else Polling i)
     | WorkerLog w \<Rightarrow> Socket (''ui/api/workers/'' @ w @ ''/logs/ws'') (Some (dim ''Connecting to worker'')))"

section \<open>Sockets\<close>

record log_term =
  lt_text :: string
  lt_hint :: bool

definition start_term :: "string option \<Rightarrow> log_term" where
  "start_term hint = \<lparr>lt_text = nullish hint [], lt_hint = (hint \<noteq> None)\<rparr>"

text \<open>\<open>onmessage\<close>: the first frame replaces the hint.\<close>

definition on_frame :: "string \<Rightarrow> log_term \<Rightarrow> log_term" where
  "on_frame frame t =
    (if lt_hint t then \<lparr>lt_text = frame, lt_hint = False\<rparr> else t\<lparr>lt_text := lt_text t @ frame\<rparr>)"

section \<open>Polling\<close>

record log_poll =
  lp_offset :: nat
  lp_text :: string
  lp_timers :: nat

definition start_polling :: log_poll where
  "start_polling = \<lparr>lp_offset = 0, lp_text = [], lp_timers = 0\<rparr>"

text \<open>The parsed response: the chunk, the next offset and whether the job has finished.\<close>

record log_reply =
  lr_log :: string
  lr_offset :: nat
  lr_finished :: bool

text \<open>
  One run of \<open>poll()\<close>, \<^const>\<open>None\<close> when the request throws. The timer is set for another run in
  the branch of an unfinished log and again after the \<open>try\<close> block, so in every case.
\<close>

definition poll_run :: "log_reply option \<Rightarrow> log_poll \<Rightarrow> log_poll" where
  "poll_run reply st =
    (case reply of
       None \<Rightarrow> st\<lparr>lp_timers := Suc (lp_timers st)\<rparr>
     | Some r \<Rightarrow>
        (let st1 = st\<lparr>lp_text := (if lr_log r \<noteq> [] then lp_text st @ lr_log r else lp_text st), lp_offset := lr_offset r\<rparr>
         in if \<not> lr_finished r then st1\<lparr>lp_timers := Suc (lp_timers st1)\<rparr>
            else st1\<lparr>lp_timers := Suc (lp_timers st1)\<rparr>))"

text \<open>\<open>get_job_log\<close> for the full text it holds and the job's state.\<close>

definition py_get_job_log :: "string \<Rightarrow> bool \<Rightarrow> nat \<Rightarrow> log_reply" where
  "py_get_job_log full_log finished offset =
    \<lparr>lr_log = drop offset full_log, lr_offset = length full_log, lr_finished = finished\<rparr>"

text \<open>A served poll has the text the server held then, a failed one is \<^const>\<open>None\<close>.\<close>

fun poll_all :: "(string \<times> bool) option list \<Rightarrow> log_poll \<Rightarrow> log_poll" where
  "poll_all [] st = st"
| "poll_all (None # ps) st = poll_all ps (poll_run None st)"
| "poll_all (Some (txt, fin) # ps) st =
     poll_all ps (poll_run (Some (py_get_job_log txt fin (lp_offset st))) st)"

fun served :: "(string \<times> bool) option list \<Rightarrow> string list" where
  "served [] = []"
| "served (None # ps) = served ps"
| "served (Some (txt, _) # ps) = txt # served ps"

section \<open>The header of a build log\<close>

definition client_name :: "worker list \<Rightarrow> job \<Rightarrow> string option" where
  "client_name workers job =
    (if truthy_str (j_assigned_hostname job) then j_assigned_hostname job
     else if truthy_str (j_assigned_client_id job) then
       (let i = the (j_assigned_client_id job);
            host = map_option w_hostname (find (\<lambda>c. w_client_id c = i) workers)
        in if truthy_str host then host else Some (take 8 i))
     else None)"

definition log_meta :: "worker list \<Rightarrow> job \<Rightarrow> string" where
  "log_meta workers job =
    (let dur = (case j_duration_seconds job of None \<Rightarrow> None | Some s \<Rightarrow> Some (fmtDuration (Some s) @ '' duration''))
     in join_with ('' '' @ [CHR 0xC2, CHR 0xB7] @ '' '')
          (map the (filter truthy_str [client_name workers job, dur])))"

definition rerun_button :: "job \<Rightarrow> string option" where
  "rerun_button job =
    (if \<not> truthy_bool (j_validate_only job) \<and> j_state job \<in> set [''failed'', ''timed_out'', ''success'']
     then Some (if j_state job = ''success'' then ''success'' else ''warn'') else None)"

definition edit_button :: "job option \<Rightarrow> bool" where
  "edit_button job = (case job of None \<Rightarrow> False | Some j \<Rightarrow> \<not> truthy_bool (j_validate_only j))"

definition diff_button :: "bool \<Rightarrow> job option \<Rightarrow> (string \<times> string) option" where
  "diff_button versioning job =
    (case job of
       None \<Rightarrow> None
     | Some j \<Rightarrow> if versioning \<and> \<not> truthy_bool (j_validate_only j) \<and> truthy_str (j_config_hash j)
                then Some (j_target j, the (j_config_hash j)) else None)"

section \<open>The device's live log\<close>

definition BOOT_RETRY_DELAY_MS :: nat where "BOOT_RETRY_DELAY_MS = 3000"
definition BOOT_RETRY_WINDOW_MS :: nat where "BOOT_RETRY_WINDOW_MS = 90000"

datatype live_message = Waiting | ClosedNote

text \<open>
  The loop of \<open>connect\<close> and \<open>onclose\<close> from time \<open>t\<close> after opening: each element of the list is how
  long that connection lasts. The result has the time of each attempt and what was written when
  it closed; with the list used up the last connection is still open.
\<close>

fun connect_loop :: "bool \<Rightarrow> nat \<Rightarrow> nat list \<Rightarrow> (nat \<times> live_message option) list" where
  "connect_loop awaitBoot t [] = [(t, None)]"
| "connect_loop awaitBoot t (d # ds) =
     (if awaitBoot \<and> t + d < BOOT_RETRY_WINDOW_MS
      then (t, Some Waiting) # connect_loop awaitBoot (t + d + BOOT_RETRY_DELAY_MS) ds
      else [(t, Some ClosedNote)])"

definition live_log_path :: "string \<Rightarrow> string" where
  "live_log_path f = ''ui/api/targets/'' @ encodeURIComponent f @ ''/logs/ws''"

section \<open>Lemmas\<close>

lemma poll_run_timers [simp]: "lp_timers (poll_run r st) = Suc (lp_timers st)"
  by (simp add: poll_run_def Let_def split: option.splits)

lemma poll_run_served:
  "lp_text (poll_run (Some (py_get_job_log txt fin n)) st) = lp_text st @ drop n txt"
  "lp_offset (poll_run (Some (py_get_job_log txt fin n)) st) = length txt"
  by (simp_all add: poll_run_def py_get_job_log_def Let_def)

lemma poll_run_failed [simp]:
  "lp_text (poll_run None st) = lp_text st" "lp_offset (poll_run None st) = lp_offset st"
  by (simp_all add: poll_run_def)

lemma poll_all_timers: "lp_timers (poll_all ps st) = lp_timers st + length ps"
  by (induction ps st rule: poll_all.induct) simp_all

lemma poll_all_text:
  assumes "lp_offset st = length (lp_text st)" and "sorted_wrt prefix (lp_text st # served ps)"
  shows "lp_text (poll_all ps st) = last (lp_text st # served ps)
    \<and> lp_offset (poll_all ps st) = length (lp_text (poll_all ps st))"
  using assms
proof (induction ps st rule: poll_all.induct)
  case (3 tx fin ps st)
  let ?st = "poll_run (Some (py_get_job_log tx fin (lp_offset st))) st"
  from "3.prems" have "prefix (lp_text st) tx" by simp
  then have "lp_text ?st = tx" using "3.prems"(1) by (auto simp: poll_run_served prefix_def)
  then show ?case using 3 by (simp add: poll_run_served)
qed simp_all

lemma connect_starts:
  "(s, m) \<in> set (connect_loop b t ds) \<Longrightarrow> t \<le> s \<and> (s = t \<or> s < BOOT_RETRY_WINDOW_MS + BOOT_RETRY_DELAY_MS)"
  by (induction b t ds rule: connect_loop.induct) (fastforce split: if_splits)+

lemma connect_count:
  "length (connect_loop b t ds) \<le> Suc ((BOOT_RETRY_WINDOW_MS - t + BOOT_RETRY_DELAY_MS - 1) div BOOT_RETRY_DELAY_MS)"
proof (induction b t ds rule: connect_loop.induct)
  case (2 b t d ds)
  show ?case
  proof (cases "b \<and> t + d < BOOT_RETRY_WINDOW_MS")
    case True
    have "Suc ((90000 - (t + d + 3000) + 3000 - 1) div 3000) \<le> (90000 - t + 3000 - 1) div (3000 :: nat)"
    proof (cases "t + d + 3000 \<le> 90000")
      case True
      then show ?thesis by (intro div_step) simp_all
    next
      case False
      then have "3000 \<le> 90000 - t + (3000 :: nat) - 1" using True unfolding BOOT_RETRY_WINDOW_MS_def by linarith
      from div_le_mono [OF this, of 3000] False show ?thesis by simp
    qed
    moreover have "length (connect_loop b (t + d + 3000) ds) \<le> Suc ((90000 - (t + d + 3000) + 3000 - 1) div 3000)"
      using "2.IH" [OF True] by (simp only: BOOT_RETRY_WINDOW_MS_def BOOT_RETRY_DELAY_MS_def)
    moreover have "length (connect_loop b t (d # ds)) = Suc (length (connect_loop b (t + d + 3000) ds))"
      using True by (simp add: BOOT_RETRY_DELAY_MS_def)
    ultimately show ?thesis unfolding BOOT_RETRY_WINDOW_MS_def BOOT_RETRY_DELAY_MS_def by linarith
  qed auto
qed simp

section \<open>Properties\<close>

text \<open>C16: polling shows the log exactly. As long as the log only grows on the server, after any number
  of polls, failed ones among them, the terminal holds the text of the last answered poll: nothing
  is missing, repeated or out of order.\<close>
theorem polled_log_exact:
  assumes "sorted_wrt prefix (served ps)"
  shows "lp_text (poll_all ps start_polling) = last ([] # served ps)
    \<and> lp_offset (poll_all ps start_polling) = length (lp_text (poll_all ps start_polling))"
  using poll_all_text [of start_polling ps] assms by (simp add: start_polling_def)

text \<open>The live log after a flash reconnects a bounded number of times: however the connections
  end, at most 31 attempts are made, all within 93 seconds of opening, and without a preceding
  flash there is exactly one.\<close>
theorem reconnects_bounded:
  "length (connect_loop awaitBoot 0 ds) \<le> 31
   \<and> list_all (\<lambda>(t, _). t < 93000) (connect_loop awaitBoot 0 ds)
   \<and> length (connect_loop False 0 ds) = 1"
proof -
  have "length (connect_loop awaitBoot 0 ds) \<le> 31"
    using connect_count [of awaitBoot 0 ds] by (simp add: BOOT_RETRY_WINDOW_MS_def BOOT_RETRY_DELAY_MS_def)
  moreover have "list_all (\<lambda>(t, _). t < 93000) (connect_loop awaitBoot 0 ds)"
    using connect_starts [of _ _ awaitBoot 0 ds]
    by (fastforce simp: list_all_iff BOOT_RETRY_WINDOW_MS_def BOOT_RETRY_DELAY_MS_def)
  moreover have "length (connect_loop False 0 ds) = 1" by (cases ds) simp_all
  ultimately show ?thesis by blast
qed

text \<open>
  The polling never ends by itself, although the comment where it is started for a finished job says
  that it stops with the first response that reports the job finished: every run, that one
  included, sets the timer for another.
\<close>

theorem polling_never_stops: "lp_timers (poll_all ps start_polling) = length ps"
  by (simp add: poll_all_timers start_polling_def)

text \<open>A poll of the queue that changes neither the job's presence nor its flash result leaves the
  terminal alone.\<close>

lemma stream_key_stable:
  assumes "find (\<lambda>j. j_id j = i) queue = Some job" and "find (\<lambda>j. j_id j = i) queue' = Some job'"
    and "j_state job' = j_state job" and "j_ota_result job' = j_ota_result job"
  shows "stream_key (JobLog i) queue' = stream_key (JobLog i) queue"
  using assms by (simp add: stream_key_def otaRefreshKey_def is_live_def)

section \<open>Witnesses\<close>

theorem polled_log_exact_witness:
  "lp_text (poll_all [Some (''Compiling'', False), None, Some (''Compiling... done'', True)] start_polling) = ''Compiling... done''"
  using polled_log_exact [of "[Some (''Compiling'', False), None, Some (''Compiling... done'', True)]"] by simp

end
