(* ===== verification/Job_Origin.thy ===== *)
theory Job_Origin
  imports Fleet_Types
begin

text \<open>
  Where a job came from and why a worker got it: \<open>utils/trigger.tsx\<close> and
  \<open>utils/selectionReason.ts\<close>. The Queue tab classifies live rows, which carry flags; the history
  dialogs classify rows of the server's database, which carry the two columns written by
  \<open>_triggered_by\<close> in \<open>ha-addon/server/job_history.py\<close>. That function is mirrored here to compare
  the two readings. An icon is named by its component.
\<close>

section \<open>Trigger sources\<close>

record trigger_row =
  tr_ha_action :: "bool option"
  tr_api_triggered :: "bool option"
  tr_scheduled :: "bool option"
  tr_schedule_kind :: "string option"
  tr_triggered_by :: "string option"
  tr_trigger_detail :: "string option"
  tr_state :: "string option"
  tr_started_at :: "rat option"
  tr_assigned_hostname :: "string option"

datatype trigger_source = TrigUser | TrigHaAction | TrigApi | TrigScheduleOnce | TrigScheduleRecurring

definition classifyTrigger :: "trigger_row \<Rightarrow> trigger_source" where
  "classifyTrigger row =
    (if truthy_bool (tr_ha_action row) then TrigHaAction
     else if truthy_bool (tr_api_triggered row) then TrigApi
     else if truthy_bool (tr_scheduled row) then
       (if tr_schedule_kind row = Some ''once'' then TrigScheduleOnce else TrigScheduleRecurring)
     else if tr_triggered_by row = Some ''ha_action'' then TrigHaAction
     else if tr_triggered_by row = Some ''api'' then TrigApi
     else if tr_triggered_by row = Some ''schedule'' then
       (if tr_trigger_detail row = Some ''once'' then TrigScheduleOnce else TrigScheduleRecurring)
     else TrigUser)"

definition isScheduledCancelBeforeStart :: "trigger_row \<Rightarrow> bool" where
  "isScheduledCancelBeforeStart row =
    (if tr_state row \<noteq> Some ''cancelled'' then False
     else if truthy_num (tr_started_at row) then False
     else if truthy_str (tr_assigned_hostname row) then False
     else classifyTrigger row = TrigScheduleOnce \<or> classifyTrigger row = TrigScheduleRecurring)"

record trigger_badge =
  tb_icon :: string
  tb_label :: string
  tb_title :: string

definition getTriggerBadge :: "trigger_row \<Rightarrow> trigger_badge" where
  "getTriggerBadge row =
    (case classifyTrigger row of
       TrigHaAction \<Rightarrow> \<lparr>tb_icon = ''HomeIcon'', tb_label = ''HA action'',
         tb_title = ''Triggered by a Home Assistant service action (esphome_fleet.compile)''\<rparr>
     | TrigApi \<Rightarrow> \<lparr>tb_icon = ''Terminal'', tb_label = ''API'',
         tb_title = ''Triggered by a direct API call (server-token Bearer, not the HA integration)''\<rparr>
     | TrigScheduleOnce \<Rightarrow> \<lparr>tb_icon = ''Calendar'', tb_label = ''Once'', tb_title = ''Triggered by a one-time schedule''\<rparr>
     | TrigScheduleRecurring \<Rightarrow> \<lparr>tb_icon = ''Clock'', tb_label = ''Recurring'',
         tb_title = ''Triggered by a recurring cron schedule''\<rparr>
     | TrigUser \<Rightarrow> \<lparr>tb_icon = ''User'', tb_label = ''Manual'', tb_title = ''Manual action (from the Fleet UI)''\<rparr>)"

section \<open>Selection reasons\<close>

record selection_display =
  sl_label :: string
  sl_shortLabel :: string
  sl_title :: string

text \<open>The typographic characters of the titles, as UTF-8 bytes.\<close>

definition times_sign :: string where "times_sign = [CHR 0xC3, CHR 0x97]"
definition minus_sign :: string where "minus_sign = [CHR 0xE2, CHR 0x88, CHR 0x92]"

definition formatSelectionReason :: "string option \<Rightarrow> selection_display option" where
  "formatSelectionReason reason =
    (if \<not> truthy_str reason then None
     else
       (let r = the reason in
        if r = ''pinned_to_worker'' then
          Some \<lparr>sl_label = ''Pinned to worker'', sl_shortLabel = ''Pinned'',
            sl_title = ''Operator pinned this job to the worker from the Upgrade modal '' @ em_dash @ '' scheduling ignored.''\<rparr>
        else if r = ''only_online_worker'' then
          Some \<lparr>sl_label = ''Only worker online'', sl_shortLabel = ''Only online'',
            sl_title = ''This was the only online, eligible worker when the job was claimed.''\<rparr>
        else if r = ''only_eligible_worker'' then
          Some \<lparr>sl_label = ''Only eligible by tag'', sl_shortLabel = ''Only eligible'',
            sl_title = ''Other workers were online but the routing rules disqualified them for this device '' @ em_dash
              @ '' this worker'' @ apostrophe @ ''s tags were the only ones that satisfied the rule.''\<rparr>
        else if r = ''fewer_jobs_than_others'' then
          Some \<lparr>sl_label = ''Least busy worker'', sl_shortLabel = ''Least busy'',
            sl_title = ''This worker had fewer active jobs than every other candidate when it claimed the job.''\<rparr>
        else if r = ''higher_perf_score'' then
          Some \<lparr>sl_label = ''Fastest worker available'', sl_shortLabel = ''Fastest'',
            sl_title = ''Tied on active-job count with the other candidates, but had the highest effective perf score (perf ''
              @ times_sign @ '' (1 '' @ minus_sign @ '' cpu load)).''\<rparr>
        else if r = ''first_available'' then
          Some \<lparr>sl_label = ''First to poll'', sl_shortLabel = ''First to poll'',
            sl_title = ''Multiple workers were equally eligible; this one polled the /claim endpoint first.''\<rparr>
        else Some \<lparr>sl_label = r, sl_shortLabel = r, sl_title = ''Unknown selection reason: '' @ r\<rparr>))"

section \<open>The server's columns\<close>

text \<open>\<open>_triggered_by\<close> of the server, on the flags of a job.\<close>

definition py_triggered_by :: "bool \<Rightarrow> bool \<Rightarrow> bool \<Rightarrow> string option \<Rightarrow> string \<times> string option" where
  "py_triggered_by ha_action api_triggered scheduled schedule_kind =
    (if ha_action then (''ha_action'', None)
     else if api_triggered then (''api'', None)
     else if scheduled then (''schedule'', schedule_kind)
     else (''user'', None))"

definition queue_row :: "bool \<Rightarrow> bool \<Rightarrow> bool \<Rightarrow> string option \<Rightarrow> trigger_row" where
  "queue_row ha api sched kind =
    \<lparr>tr_ha_action = Some ha, tr_api_triggered = Some api, tr_scheduled = Some sched, tr_schedule_kind = kind,
     tr_triggered_by = None, tr_trigger_detail = None, tr_state = None, tr_started_at = None,
     tr_assigned_hostname = None\<rparr>"

definition history_columns :: "string \<times> string option \<Rightarrow> trigger_row" where
  "history_columns cols =
    \<lparr>tr_ha_action = None, tr_api_triggered = None, tr_scheduled = None, tr_schedule_kind = None,
     tr_triggered_by = Some (fst cols), tr_trigger_detail = snd cols, tr_state = None, tr_started_at = None,
     tr_assigned_hostname = None\<rparr>"

section \<open>Properties\<close>

text \<open>The live queue and the history agree: for every combination of a job's flags, the row the
  server writes to the history is classified and shown exactly as the live row was.\<close>
theorem history_shows_same_trigger:
  "getTriggerBadge (history_columns (py_triggered_by ha api sched kind)) = getTriggerBadge (queue_row ha api sched kind)
   \<and> classifyTrigger (history_columns (py_triggered_by ha api sched kind)) = classifyTrigger (queue_row ha api sched kind)"
proof -
  have "classifyTrigger (history_columns (py_triggered_by ha api sched kind)) = classifyTrigger (queue_row ha api sched kind)"
    by (cases ha; cases api; cases sched)
      (simp_all add: classifyTrigger_def history_columns_def queue_row_def py_triggered_by_def truthy_bool_def)
  then show ?thesis by (simp add: getTriggerBadge_def)
qed

definition cancelled_row :: trigger_row where
  "cancelled_row = (history_columns (''schedule'', Some ''once''))\<lparr>tr_state := Some ''cancelled'', tr_started_at := Some 0\<rparr>"

lemma cancelled_before_start: "isScheduledCancelBeforeStart cancelled_row"
  by (simp add: isScheduledCancelBeforeStart_def cancelled_row_def history_columns_def truthy_num_def truthy_str_def
      classifyTrigger_def truthy_bool_def)

end
