(* ===== verification/Cron_Schedules.thy ===== *)
theory Cron_Schedules
  imports Fleet_Prelude
begin

text \<open>
  Cron expressions: \<open>formatCronHuman\<close> of \<open>utils/cron.ts\<close>, which prints a 5-field expression for
  the tables, and \<open>buildCron\<close> / \<open>parseCron\<close> of \<open>components/UpgradeModal.tsx\<close>, which turn the
  picker's fields into an expression and back. A number that can be \<open>NaN\<close> is an
  \<^typ>\<open>int option\<close>.
\<close>

section \<open>Definitions\<close>

definition show_num :: "int option \<Rightarrow> string" where
  "show_num n = (case n of None \<Rightarrow> ''NaN'' | Some i \<Rightarrow> show_int i)"

text \<open>
  \<open>Number(s)\<close> on the pieces of a time input's value: the empty string is 0, a signed run of
  digits its value. Other numeric spellings (fractions, exponents, hex) do not occur in the
  value of a time input nor in what \<open>parseCron\<close> writes, and read as \<open>NaN\<close> here.
\<close>

definition js_number :: "string \<Rightarrow> int option" where
  "js_number s =
    (let t = trim s;
         u = (case t of c # r \<Rightarrow> if c = CHR ''-'' \<or> c = CHR ''+'' then r else t | [] \<Rightarrow> [])
     in if t = [] then Some 0
        else if u \<noteq> [] \<and> list_all is_digit u then parse_int t
        else None)"

definition hh_mm :: "int \<Rightarrow> int \<Rightarrow> string" where
  "hh_mm h m = pad2 h @ '':'' @ pad2 m"

definition dayNames :: "string list" where
  "dayNames = [''Sun'', ''Mon'', ''Tue'', ''Wed'', ''Thu'', ''Fri'', ''Sat'']"

definition day_name :: "string \<Rightarrow> string" where
  "day_name dow =
    (case parse_int dow of
       Some i \<Rightarrow> if 0 \<le> i \<and> i < 7 then dayNames ! nat i else dow
     | None \<Rightarrow> dow)"

definition ordinal_suffix :: "string \<Rightarrow> string" where
  "ordinal_suffix mday =
    (if mday = ''1'' then ''st'' else if mday = ''2'' then ''nd'' else if mday = ''3'' then ''rd'' else ''th'')"

definition formatCronHuman :: "string option \<Rightarrow> string option" where
  "formatCronHuman cron_opt =
    (if \<not> truthy_str cron_opt then None
     else let cron = the cron_opt; parts = split_ws (trim cron) in
       if length parts \<noteq> 5 then Some cron
       else let mi = parts ! 0; hour = parts ! 1; mday = parts ! 2; dow = parts ! 4 in
         if mi = ''0'' \<and> starts_with hour ''*/'' then
           (let n = parse_int (drop 2 hour)
            in if n = Some 1 then Some ''Hourly'' else Some (''Every '' @ show_num n @ ''h''))
         else if mday = ''*'' \<and> dow = ''*'' \<and> \<not> has_char hour (CHR ''/'') \<and> \<not> has_char mi (CHR ''/'') then
           (case (parse_int hour, parse_int mi) of
              (Some h, Some m) \<Rightarrow> Some (''Daily '' @ hh_mm h m)
            | _ \<Rightarrow> Some cron)
         else if mday = ''*'' \<and> dow \<noteq> ''*'' \<and> \<not> has_char hour (CHR ''/'') then
           (case (parse_int hour, parse_int mi) of
              (Some h, Some m) \<Rightarrow> Some (day_name dow @ '' '' @ hh_mm h m)
            | _ \<Rightarrow> Some cron)
         else if mday \<noteq> ''*'' \<and> dow = ''*'' \<and> \<not> has_char hour (CHR ''/'') then
           (case (parse_int hour, parse_int mi) of
              (Some h, Some m) \<Rightarrow> Some (mday @ ordinal_suffix mday @ '' '' @ hh_mm h m)
            | _ \<Rightarrow> Some cron)
         else Some cron)"

definition buildCron :: "string \<Rightarrow> int option \<Rightarrow> string \<Rightarrow> string \<Rightarrow> string" where
  "buildCron interval every time dow =
    (let parts = map js_number (split_on (CHR '':'') time);
         hh = parts ! 0;
         mm = (if 1 < length parts then parts ! 1 else None);
         minute = nullish mm 0;
         hour = nullish hh 2
     in if interval = ''hours'' then
          (if every = Some 1 then show_int minute @ '' * * * *''
           else show_int minute @ '' */'' @ show_num every @ '' * * *'')
        else if interval = ''days'' then
          (if every = Some 1 then show_int minute @ '' '' @ show_int hour @ '' * * *''
           else show_int minute @ '' '' @ show_int hour @ '' */'' @ show_num every @ '' * *'')
        else if interval = ''weeks'' then show_int minute @ '' '' @ show_int hour @ '' * * '' @ dow
        else show_int minute @ '' '' @ show_int hour @ '' * * *'')"

record cron_fields =
  cf_interval :: string
  cf_every :: "int option"
  cf_time :: string
  cf_dow :: string

definition parseCron :: "string \<Rightarrow> cron_fields option" where
  "parseCron cron =
    (let parts = split_ws (trim cron) in
     if length parts \<noteq> 5 then None
     else let mi = parts ! 0; hour = parts ! 1; mday = parts ! 2; dow = parts ! 4 in
     case parse_int mi of None \<Rightarrow> None
     | Some minute \<Rightarrow>
       if starts_with hour ''*/'' \<and> mday = ''*'' \<and> dow = ''*'' then
         Some \<lparr>cf_interval = ''hours'', cf_every = parse_int (drop 2 hour),
               cf_time = ''00:'' @ pad2 minute, cf_dow = ''0''\<rparr>
       else if hour = ''*'' \<and> mday = ''*'' \<and> dow = ''*'' then
         Some \<lparr>cf_interval = ''hours'', cf_every = Some 1, cf_time = ''00:'' @ pad2 minute, cf_dow = ''0''\<rparr>
       else case parse_int hour of None \<Rightarrow> None
       | Some h \<Rightarrow>
         if dow = ''*'' then
           (if mday = ''*'' then
              Some \<lparr>cf_interval = ''days'', cf_every = Some 1, cf_time = hh_mm h minute, cf_dow = ''0''\<rparr>
            else if starts_with mday ''*/'' then
              Some \<lparr>cf_interval = ''days'', cf_every = parse_int (drop 2 mday), cf_time = hh_mm h minute, cf_dow = ''0''\<rparr>
            else None)
         else if mday = ''*'' then
           Some \<lparr>cf_interval = ''weeks'', cf_every = Some 1, cf_time = hh_mm h minute, cf_dow = dow\<rparr>
         else None)"

section \<open>The text of a cron expression and its fields\<close>

abbreviation cron_text :: "string list \<Rightarrow> string" where
  "cron_text ws \<equiv> join_with '' '' ws"

text \<open>A field that survives splitting at white space: not empty and without white space.\<close>

definition cron_word :: "string \<Rightarrow> bool" where
  "cron_word w \<longleftrightarrow> w \<noteq> [] \<and> (\<forall>c \<in> set w. \<not> is_ws c)"

lemma hd_cron_text:
  "cron_word w \<Longrightarrow> cron_text (w # ws) \<noteq> [] \<and> \<not> is_ws (hd (cron_text (w # ws)))"
  by (cases ws) (auto simp: cron_word_def neq_Nil_conv)

lemma last_cron_text:
  "ws \<noteq> [] \<Longrightarrow> list_all cron_word ws \<Longrightarrow> cron_text ws \<noteq> [] \<and> \<not> is_ws (last (cron_text ws))"
proof (induction ws)
  case (Cons w ws)
  then show ?case by (cases ws) (auto simp: cron_word_def)
qed simp

lemma trim_cron_text:
  assumes "ws \<noteq> []" and "list_all cron_word ws"
  shows "trim (cron_text ws) = cron_text ws"
proof -
  let ?t = "cron_text ws"
  have h: "?t \<noteq> []" "\<not> is_ws (hd ?t)"
    using assms hd_cron_text [of "hd ws" "tl ws"] by (cases ws; simp)+
  have l: "\<not> is_ws (last ?t)" using assms last_cron_text by blast
  have "dropWhile is_ws ?t = ?t" using h by (simp add: dropWhile_eq_self_iff)
  moreover have "dropWhile is_ws (rev ?t) = rev ?t" using h l by (simp add: dropWhile_eq_self_iff hd_rev)
  ultimately show ?thesis by (simp add: trim_def)
qed

lemma split_ws_cron_text:
  "ws \<noteq> [] \<Longrightarrow> list_all cron_word ws \<Longrightarrow> split_ws (cron_text ws) = ws"
proof (induction ws)
  case (Cons w ws)
  show ?case
  proof (cases ws)
    case Nil
    with Cons.prems show ?thesis by (simp add: split_ws_no_ws cron_word_def)
  next
    case (Cons v vs)
    have s: "cron_text ws \<noteq> []" "\<not> is_ws (hd (cron_text ws))"
      using Cons Cons.prems hd_cron_text [of v vs] by simp_all
    have "split_ws (w @ CHR '' '' # cron_text ws) = w # split_ws (cron_text ws)"
      by (rule split_ws_step) (use s Cons.prems in \<open>auto simp: cron_word_def\<close>)
    with Cons Cons.IH Cons.prems show ?thesis by simp
  qed
qed simp

lemma cron_parts:
  "ws \<noteq> [] \<Longrightarrow> list_all cron_word ws \<Longrightarrow> split_ws (trim (cron_text ws)) = ws"
  by (simp add: trim_cron_text split_ws_cron_text)

lemma cron_word_show_int [simp]: "0 \<le> i \<Longrightarrow> cron_word (show_int i)"
  using digit_not_special by (auto simp: cron_word_def show_int_def dest: show_nat_digitD)

lemma cron_word_star [simp]: "cron_word ''*''"
  by (simp add: cron_word_def is_ws_def)

lemma cron_word_step [simp]: "0 \<le> i \<Longrightarrow> cron_word (''*/'' @ show_int i)"
  using cron_word_show_int [of i] by (auto simp: cron_word_def is_ws_def)

lemma show_int_digits: "0 \<le> i \<Longrightarrow> c \<in> set (show_int i) \<Longrightarrow> is_digit c"
  by (auto simp: show_int_def dest: show_nat_digitD)

lemma show_int_nonempty [simp]: "show_int i \<noteq> []"
  by (simp add: show_int_def)

lemma show_int_not_star: "0 \<le> i \<Longrightarrow> \<not> starts_with (show_int i) (CHR ''*'' # s) \<and> show_int i \<noteq> CHR ''*'' # s
    \<and> CHR ''/'' \<notin> set (show_int i)"
proof -
  assume i: "0 \<le> i"
  obtain c r where s: "show_int i = c # r" using show_int_nonempty by (cases "show_int i") auto
  then have "is_digit c" using show_int_digits [OF i, of c] by simp
  then have "c \<noteq> CHR ''*''" using digit_not_special by blast
  moreover have "CHR ''/'' \<notin> set (show_int i)"
    using show_int_digits [OF i] digit_not_special by blast
  ultimately show ?thesis using s by (simp add: starts_with_def)
qed

text \<open>A time \<open>hh:mm\<close> reads back as the two numbers.\<close>

lemma js_number_pad2: "0 \<le> i \<Longrightarrow> js_number (pad2 i) = Some i"
proof -
  assume i: "0 \<le> i"
  have d: "\<forall>c \<in> set (pad2 i). is_digit c" using pad2_digits [OF i] by blast
  have ws: "\<forall>c \<in> set (pad2 i). \<not> is_ws c" using d digit_not_special by blast
  obtain c r where cr: "pad2 i = c # r" using pad2_nonempty by (cases "pad2 i") auto
  then have "c \<noteq> CHR ''-'' \<and> c \<noteq> CHR ''+''" using d digit_not_special by auto
  with cr d i show ?thesis
    using trim_no_ws [OF ws] parse_int_pad2 [OF i] by (simp add: js_number_def Let_def list_all_iff)
qed

lemma split_time:
  assumes "0 \<le> h" and "0 \<le> m"
  shows "map js_number (split_on (CHR '':'') (hh_mm h m)) = [Some h, Some m]"
proof -
  have "CHR '':'' \<notin> set (pad2 h)" "CHR '':'' \<notin> set (pad2 m)"
    using assms pad2_digits digit_not_special by blast+
  then have "split_on (CHR '':'') (hh_mm h m) = [pad2 h, pad2 m]"
    by (simp add: hh_mm_def split_on_append split_on_no_sep)
  with assms show ?thesis by (simp add: js_number_pad2)
qed

section \<open>What the picker builds\<close>

text \<open>
  The picker's state is canonical when the fields its interval does not use have the values the
  dialog resets them to; \<open>picker_fields\<close> is the state for an interval, a step, a time and a day.
\<close>

definition picker_fields :: "string \<Rightarrow> int \<Rightarrow> int \<Rightarrow> int \<Rightarrow> string \<Rightarrow> cron_fields" where
  "picker_fields interval every h m dow =
    (if interval = ''hours'' then
       \<lparr>cf_interval = ''hours'', cf_every = Some every, cf_time = hh_mm 0 m, cf_dow = ''0''\<rparr>
     else if interval = ''weeks'' then
       \<lparr>cf_interval = ''weeks'', cf_every = Some 1, cf_time = hh_mm h m, cf_dow = dow\<rparr>
     else
       \<lparr>cf_interval = ''days'', cf_every = Some every, cf_time = hh_mm h m, cf_dow = ''0''\<rparr>)"

definition build_fields :: "cron_fields \<Rightarrow> string" where
  "build_fields f = buildCron (cf_interval f) (cf_every f) (cf_time f) (cf_dow f)"

lemma buildCron_words:
  assumes "0 \<le> h" "0 \<le> m"
  shows "buildCron ''hours'' (Some 1) (hh_mm h m) dow = cron_text [show_int m, ''*'', ''*'', ''*'', ''*'']"
    and "n \<noteq> 1 \<Longrightarrow> buildCron ''hours'' (Some n) (hh_mm h m) dow = cron_text [show_int m, ''*/'' @ show_int n, ''*'', ''*'', ''*'']"
    and "buildCron ''days'' (Some 1) (hh_mm h m) dow = cron_text [show_int m, show_int h, ''*'', ''*'', ''*'']"
    and "n \<noteq> 1 \<Longrightarrow> buildCron ''days'' (Some n) (hh_mm h m) dow = cron_text [show_int m, show_int h, ''*/'' @ show_int n, ''*'', ''*'']"
    and "buildCron ''weeks'' e (hh_mm h m) dow = cron_text [show_int m, show_int h, ''*'', ''*'', dow]"
  using split_time [OF assms] by (simp_all add: buildCron_def Let_def show_num_def)

lemma pad2_zero: "pad2 0 = ''00''"
  by code_simp

lemma star_step: "starts_with (''*/'' @ s) ''*/''" "drop 2 (''*/'' @ s) = s"
  by (simp_all add: starts_with_def)

lemma parse_hours:
  assumes "0 \<le> m" "0 \<le> n"
  shows "parseCron (cron_text [show_int m, ''*/'' @ show_int n, ''*'', ''*'', ''*'']) =
      Some \<lparr>cf_interval = ''hours'', cf_every = Some n, cf_time = hh_mm 0 m, cf_dow = ''0''\<rparr>"
    and "parseCron (cron_text [show_int m, ''*'', ''*'', ''*'', ''*'']) =
      Some \<lparr>cf_interval = ''hours'', cf_every = Some 1, cf_time = hh_mm 0 m, cf_dow = ''0''\<rparr>"
proof -
  have "split_ws (trim (cron_text [show_int m, ''*/'' @ show_int n, ''*'', ''*'', ''*''])) =
      [show_int m, ''*/'' @ show_int n, ''*'', ''*'', ''*'']"
    by (rule cron_parts) (use assms cron_word_step [of n] in simp_all)
  then show "parseCron (cron_text [show_int m, ''*/'' @ show_int n, ''*'', ''*'', ''*'']) =
      Some \<lparr>cf_interval = ''hours'', cf_every = Some n, cf_time = hh_mm 0 m, cf_dow = ''0''\<rparr>"
    using star_step [of "show_int n"] by (simp add: parseCron_def Let_def hh_mm_def pad2_zero)
  have "split_ws (trim (cron_text [show_int m, ''*'', ''*'', ''*'', ''*''])) =
      [show_int m, ''*'', ''*'', ''*'', ''*'']"
    by (rule cron_parts) (use assms in simp_all)
  then show "parseCron (cron_text [show_int m, ''*'', ''*'', ''*'', ''*'']) =
      Some \<lparr>cf_interval = ''hours'', cf_every = Some 1, cf_time = hh_mm 0 m, cf_dow = ''0''\<rparr>"
    by (simp add: parseCron_def Let_def hh_mm_def pad2_zero starts_with_def)
qed

lemma parse_days:
  assumes "0 \<le> m" "0 \<le> h" "0 \<le> n"
  shows "parseCron (cron_text [show_int m, show_int h, ''*/'' @ show_int n, ''*'', ''*'']) =
      Some \<lparr>cf_interval = ''days'', cf_every = Some n, cf_time = hh_mm h m, cf_dow = ''0''\<rparr>"
    and "parseCron (cron_text [show_int m, show_int h, ''*'', ''*'', ''*'']) =
      Some \<lparr>cf_interval = ''days'', cf_every = Some 1, cf_time = hh_mm h m, cf_dow = ''0''\<rparr>"
proof -
  note ns = show_int_not_star [OF assms(2)]
  have "split_ws (trim (cron_text [show_int m, show_int h, ''*/'' @ show_int n, ''*'', ''*''])) =
      [show_int m, show_int h, ''*/'' @ show_int n, ''*'', ''*'']"
    by (rule cron_parts) (use assms cron_word_step [of n] in simp_all)
  then show "parseCron (cron_text [show_int m, show_int h, ''*/'' @ show_int n, ''*'', ''*'']) =
      Some \<lparr>cf_interval = ''days'', cf_every = Some n, cf_time = hh_mm h m, cf_dow = ''0''\<rparr>"
    using star_step [of "show_int n"] ns by (simp add: parseCron_def Let_def)
  have "split_ws (trim (cron_text [show_int m, show_int h, ''*'', ''*'', ''*''])) =
      [show_int m, show_int h, ''*'', ''*'', ''*'']"
    by (rule cron_parts) (use assms in simp_all)
  then show "parseCron (cron_text [show_int m, show_int h, ''*'', ''*'', ''*'']) =
      Some \<lparr>cf_interval = ''days'', cf_every = Some 1, cf_time = hh_mm h m, cf_dow = ''0''\<rparr>"
    using ns by (simp add: parseCron_def Let_def)
qed

lemma parse_weeks:
  assumes "0 \<le> m" "0 \<le> h" "cron_word dow" "dow \<noteq> ''*''"
  shows "parseCron (cron_text [show_int m, show_int h, ''*'', ''*'', dow]) =
      Some \<lparr>cf_interval = ''weeks'', cf_every = Some 1, cf_time = hh_mm h m, cf_dow = dow\<rparr>"
proof -
  have "split_ws (trim (cron_text [show_int m, show_int h, ''*'', ''*'', dow])) =
      [show_int m, show_int h, ''*'', ''*'', dow]"
    by (rule cron_parts) (use assms in simp_all)
  then show ?thesis
    using show_int_not_star [OF assms(2)] assms(4) by (simp add: parseCron_def Let_def)
qed

text \<open>The picker's three intervals, each with its steps of one and of more.\<close>

definition picker_ok :: "string \<Rightarrow> int \<Rightarrow> int \<Rightarrow> int \<Rightarrow> string \<Rightarrow> bool" where
  "picker_ok interval every h m dow \<longleftrightarrow> interval \<in> {''hours'', ''days'', ''weeks''} \<and> 1 \<le> every
     \<and> 0 \<le> h \<and> 0 \<le> m \<and> cron_word dow \<and> dow \<noteq> ''*''"

lemma picker_cases:
  assumes "picker_ok interval every h m dow"
  obtains (hours1) "interval = ''hours''" "every = 1"
    | (hours) "interval = ''hours''" "every \<noteq> 1"
    | (days1) "interval = ''days''" "every = 1"
    | (days) "interval = ''days''" "every \<noteq> 1"
    | (weeks) "interval = ''weeks''"
  using assms unfolding picker_ok_def by blast

lemma parse_build:
  assumes ok: "picker_ok interval every h m dow"
  shows "parseCron (buildCron interval (Some every) (hh_mm h m) dow) = Some (picker_fields interval every h m dow)"
proof -
  from ok have nn: "0 \<le> h" "0 \<le> m" "0 \<le> every" and d: "cron_word dow" "dow \<noteq> ''*''"
    by (simp_all add: picker_ok_def)
  note w = buildCron_words [OF nn(1,2)]
  from ok show ?thesis
  proof (cases rule: picker_cases)
    case hours1
    then show ?thesis unfolding hours1 w parse_hours(2) [OF nn(2) nn(3)] by (simp add: picker_fields_def)
  next
    case hours
    then show ?thesis
      unfolding hours(1) w(2) [OF hours(2)] parse_hours(1) [OF nn(2,3)] by (simp add: picker_fields_def)
  next
    case days1
    then show ?thesis unfolding days1 w parse_days(2) [OF nn(2,1,3)] by (simp add: picker_fields_def)
  next
    case days
    then show ?thesis
      unfolding days(1) w(4) [OF days(2)] parse_days(1) [OF nn(2,1,3)] by (simp add: picker_fields_def)
  next
    case weeks
    then show ?thesis unfolding weeks w(5) parse_weeks [OF nn(2,1) d] by (simp add: picker_fields_def)
  qed
qed

lemma build_picker_fields:
  assumes ok: "picker_ok interval every h m dow"
  shows "build_fields (picker_fields interval every h m dow) = buildCron interval (Some every) (hh_mm h m) dow"
proof -
  from ok have nn: "0 \<le> h" "0 \<le> m" by (simp_all add: picker_ok_def)
  note w = buildCron_words [OF nn] and z = buildCron_words [OF order_refl nn(2)]
  from ok show ?thesis
  proof (cases rule: picker_cases)
    case hours1
    then show ?thesis unfolding hours1 w by (simp add: picker_fields_def build_fields_def z)
  next
    case hours
    then show ?thesis unfolding hours(1) w(2) [OF hours(2)] by (simp add: picker_fields_def build_fields_def z)
  next
    case days1
    then show ?thesis unfolding days1 w by (simp add: picker_fields_def build_fields_def w)
  next
    case days
    then show ?thesis unfolding days(1) w(4) [OF days(2)] by (simp add: picker_fields_def build_fields_def w)
  next
    case weeks
    then show ?thesis unfolding weeks w(5) by (simp add: picker_fields_def build_fields_def w)
  qed
qed

section \<open>Properties\<close>

text \<open>C6: reading an expression the schedule picker built gives back the picker's fields (the
  ones its interval uses, the others at their defaults), for every interval, step, time of day
  and day of the week.\<close>
theorem parse_build_cron:
  assumes "interval \<in> {''hours'', ''days'', ''weeks''}" and "1 \<le> every" and "0 \<le> h" and "0 \<le> m"
    and "cron_word dow" and "dow \<noteq> ''*''"
  shows "parseCron (buildCron interval (Some every) (hh_mm h m) dow) = Some (picker_fields interval every h m dow)"
  by (rule parse_build) (use assms in \<open>simp add: picker_ok_def\<close>)

theorem parse_build_cron_witness:
  "buildCron ''days'' (Some 3) (hh_mm 2 30) ''0'' = ''30 2 */3 * *''
   \<and> parseCron (buildCron ''days'' (Some 3) (hh_mm 2 30) ''0'') = Some (picker_fields ''days'' 3 2 30 ''0'')"
proof
  show "buildCron ''days'' (Some 3) (hh_mm 2 30) ''0'' = ''30 2 */3 * *''" by code_simp
  show "parseCron (buildCron ''days'' (Some 3) (hh_mm 2 30) ''0'') = Some (picker_fields ''days'' 3 2 30 ''0'')"
    by (rule parse_build_cron) (simp_all add: cron_word_def is_ws_def)
qed

text \<open>The table text of a daily or weekly expression of the picker names the day and shows the
  24-hour time padded to two digits.\<close>
theorem formatCronHuman_picker:
  assumes "0 \<le> h" and "0 \<le> m" and "0 \<le> d" and "d < 7"
  shows "formatCronHuman (Some (buildCron ''days'' (Some 1) (hh_mm h m) dow)) = Some (''Daily '' @ hh_mm h m)
    \<and> formatCronHuman (Some (buildCron ''weeks'' e (hh_mm h m) (show_int d))) =
        Some (dayNames ! nat d @ '' '' @ hh_mm h m)"
proof
  note w = buildCron_words [OF assms(1,2)]
  note nh = show_int_not_star [OF assms(1)] and nm = show_int_not_star [OF assms(2)]
    and nd = show_int_not_star [OF assms(3)]
  have "split_ws (trim (cron_text [show_int m, show_int h, ''*'', ''*'', ''*''])) =
      [show_int m, show_int h, ''*'', ''*'', ''*'']"
    by (rule cron_parts) (use assms in simp_all)
  then show "formatCronHuman (Some (buildCron ''days'' (Some 1) (hh_mm h m) dow)) = Some (''Daily '' @ hh_mm h m)"
    unfolding w using nh nm by (simp add: formatCronHuman_def Let_def has_char_def)
  have "split_ws (trim (cron_text [show_int m, show_int h, ''*'', ''*'', show_int d])) =
      [show_int m, show_int h, ''*'', ''*'', show_int d]"
    by (rule cron_parts) (use assms in simp_all)
  then show "formatCronHuman (Some (buildCron ''weeks'' e (hh_mm h m) (show_int d))) =
      Some (dayNames ! nat d @ '' '' @ hh_mm h m)"
    unfolding w using nh nm nd assms(3,4) by (simp add: formatCronHuman_def Let_def has_char_def day_name_def)
qed

theorem formatCronHuman_picker_witness:
  "formatCronHuman (Some (buildCron ''days'' (Some 1) (hh_mm 2 5) ''0'')) = Some ''Daily 02:05''
   \<and> formatCronHuman (Some (buildCron ''weeks'' (Some 1) (hh_mm 2 5) (show_int 3))) = Some ''Wed 02:05''"
proof -
  have "hh_mm 2 5 = ''02:05''" "dayNames ! nat 3 = ''Wed''" by code_simp+
  then show ?thesis using formatCronHuman_picker [of 2 5 3 "''0''" "Some 1"] by simp
qed

text \<open>Expressions the display misreads. It prints a weekday range as its first day, ignores
  the month field, prints every 3rd day (which the picker itself can build) as a malformed
  ordinal, and writes 21th, 22th and 23th; reading an expression back into the picker drops the
  month field, so saving a yearly schedule again would make it daily.\<close>
theorem cron_misreadings:
  "formatCronHuman (Some ''0 2 * * 1-5'') = Some ''Mon 02:00''
   \<and> formatCronHuman (Some ''0 2 1 6 *'') = formatCronHuman (Some ''0 2 1 * *'')
   \<and> formatCronHuman (Some (buildCron ''days'' (Some 3) ''02:00'' ''0'')) = Some ''*/3th 02:00''
   \<and> formatCronHuman (Some ''0 2 21 * *'') = Some ''21th 02:00''
   \<and> map_option build_fields (parseCron ''0 2 * 6 *'') = Some ''0 2 * * *''"
  by (intro conjI; code_simp)

end
