(* ===== verification/Queue_Tab.thy ===== *)
theory Queue_Tab
  imports Job_State Job_Origin Text_Format Cron_Schedules
begin

text \<open>
  \<open>components/QueueTab.tsx\<close> and \<open>components/queue/QueueRowMenu.tsx\<close> with the device section it
  shares (\<open>components/devices/DeviceMenuSection.tsx\<close>): the order and the filter of the rows, the
  cells, the row's actions and hamburger menu, the comparison that decides when a memoised menu is
  drawn again, and the toolbar. An element is described by what it shows and what a click calls.
  The state checks of \<open>ha-addon/server/job_queue.py\<close> are mirrored at the end, to say which clicks
  the server honours. The arguments are \<open>to_ms\<close> (\<open>new Date(iso).getTime()\<close> of a server timestamp)
  and the \<open>platform\<close> of \<open>Text_Format\<close>.
\<close>

section \<open>Order and filter\<close>

definition STATE_ORDER :: "string \<Rightarrow> rat option" where
  "STATE_ORDER =
     map_of [(''working'', 0), (''pending'', 1), (''blocked'', 3 / 2), (''timed_out'', 2), (''failed'', 3),
             (''cancelled'', 4), (''success'', 5)]"

definition stateSort :: "(string \<Rightarrow> int) \<Rightarrow> job \<Rightarrow> job \<Rightarrow> rat" where
  "stateSort to_ms a b =
    (let orderA = nullish (STATE_ORDER (j_state a)) 9; orderB = nullish (STATE_ORDER (j_state b)) 9
     in if orderA \<noteq> orderB then orderA - orderB
        else of_int (to_ms (j_created_at b) - to_ms (j_created_at a)))"

text \<open>The sign of the comparator's result, which is all that sorting looks at.\<close>

definition sign :: "rat \<Rightarrow> int" where
  "sign x = (if x < 0 then -1 else if x = 0 then 0 else 1)"

definition sorted_queue :: "(string \<Rightarrow> int) \<Rightarrow> job list \<Rightarrow> job list" where
  "sorted_queue to_ms = sort_by (\<lambda>a b. sign (stateSort to_ms a b))"

definition targetNameMap :: "target list \<Rightarrow> string \<Rightarrow> string option" where
  "targetNameMap targets =
    foldl (\<lambda>m t. m(t_target t \<mapsto>
        str_or (t_friendly_name t) (str_or (t_device_name t) (stripYaml (Some (t_target t))))))
      Map.empty targets"

definition device_label :: "target list \<Rightarrow> job \<Rightarrow> string" where
  "device_label targets job = str_or (targetNameMap targets (j_target job)) (stripYaml (Some (j_target job)))"

definition filteredQueue :: "target list \<Rightarrow> string \<Rightarrow> job list \<Rightarrow> job list" where
  "filteredQueue targets flt queue =
    (if flt = [] then queue
     else let q = to_lower flt in
       filter (\<lambda>j. includes_str (to_lower (str_or (targetNameMap targets (j_target j)) [])) q
                 \<or> includes_str (to_lower (j_target j)) q
                 \<or> includes_str (j_state j) q
                 \<or> includes_str (to_lower (str_or (j_assigned_hostname j) [])) q) queue)"

section \<open>Cells\<close>

datatype state_cell =
    BlockedButton badge string string
  | StateBadge badge bool

text \<open>\<open>BlockedButton\<close> has the tooltip and the rule a click opens, \<open>StateBadge\<close> the follow-up mark.\<close>

definition state_cell_of :: "job \<Rightarrow> state_cell" where
  "state_cell_of job =
    (let badge = getJobBadge job in
     case (if j_state job = ''blocked'' then j_blocked_reason job else None) of
       Some r \<Rightarrow> BlockedButton badge
         (''Blocked by rule '' @ [CHR 39] @ br_rule_name r @ [CHR 39] @ '' '' @ em_dash @ '' no online worker matches ''
            @ br_summary r @ ''. Click to edit the rule.'') (br_rule_id r)
     | None \<Rightarrow> StateBadge badge (truthy_bool (j_is_followup job) \<and> j_state job = ''pending''))"

record worker_cell =
  wc_schedule :: "string option"
  wc_pin :: "string option"
  wc_host :: string
  wc_slot :: "(string \<times> string) option"
  wc_pinned_hint :: "string option"

definition find_worker :: "worker list \<Rightarrow> string option \<Rightarrow> worker option" where
  "find_worker workers cid =
    (if truthy_str cid then find (\<lambda>c. w_client_id c = the cid) workers else None)"

text \<open>\<open>a || b\<close> on optional strings.\<close>

definition or_str :: "string option \<Rightarrow> string option \<Rightarrow> string option" where
  "or_str a b = (if truthy_str a then a else b)"

definition slot_total :: "worker option \<Rightarrow> int" where
  "slot_total w = (case w of None \<Rightarrow> 1 | Some c \<Rightarrow>
     (case w_max_parallel_jobs c of None \<Rightarrow> 1 | Some n \<Rightarrow> if n = 0 then 1 else n))"

definition worker_cell_of :: "worker list \<Rightarrow> job \<Rightarrow> worker_cell" where
  "worker_cell_of workers job =
    (let assigned = find_worker workers (j_assigned_client_id job);
         pinned = find_worker workers (j_pinned_client_id job);
         baseHostname = or_str (j_assigned_hostname job) (map_option w_hostname assigned);
         slotTotal = slot_total assigned;
         showSlot = truthy_str baseHostname \<and> j_worker_id job \<noteq> None \<and> 1 < slotTotal;
         pinnedHostname = or_str (map_option w_hostname pinned) (j_assigned_hostname job);
         showHint = truthy_str pinnedHostname \<and> truthy_str (j_pinned_client_id job) \<and> j_state job = ''pending''
     in \<lparr>wc_schedule =
           (if truthy_bool (j_scheduled job)
            then Some (if j_schedule_kind job = Some ''once'' then ''Triggered by one-time schedule''
                       else ''Triggered by recurring schedule'') else None),
         wc_pin =
           (if truthy_str (j_pinned_client_id job)
            then Some (if truthy_str pinnedHostname then ''Pinned to '' @ the pinnedHostname @ '' via Upgrade modal''
                       else ''Pinned to a specific worker via Upgrade modal'') else None),
         wc_host = str_or baseHostname em_dash,
         wc_slot =
           (if showSlot then
              Some (''slot '' @ show_int (the (j_worker_id job)),
                    ''Build slot '' @ show_int (the (j_worker_id job)) @ '' of '' @ show_int slotTotal @ '' on this worker.'')
            else None),
         wc_pinned_hint = (if showHint \<and> \<not> truthy_str (j_assigned_hostname job) then pinnedHostname else None)\<rparr>)"

definition target_of :: "target list \<Rightarrow> job \<Rightarrow> target option" where
  "target_of targets job = find (\<lambda>t. t_target t = j_target job) targets"

text \<open>The ESPHome version and whether it is the device's pinned one.\<close>

definition version_cell :: "target list \<Rightarrow> job \<Rightarrow> string \<times> bool" where
  "version_cell targets job =
    (str_or (j_esphome_version job) em_dash,
     (case target_of targets job of
        None \<Rightarrow> False
      | Some t \<Rightarrow> truthy_str (t_pinned_version t) \<and> t_pinned_version t = j_esphome_version job))"

datatype intent_line = PinnedIntent | TagIntent string "string list"

definition op_label :: "routing_clause_op \<Rightarrow> string" where
  "op_label p = (if p = AllOf then ''all of'' else if p = AnyOf then ''any of'' else ''none of'')"

definition intent_of :: "job \<Rightarrow> intent_line option" where
  "intent_of job =
    (if truthy_str (j_pinned_client_id job) then Some PinnedIntent
     else case j_worker_tag_filter job of
       None \<Rightarrow> None
     | Some f \<Rightarrow> if 0 < length (rc_tags f) then Some (TagIntent (op_label (rc_op f)) (rc_tags f)) else None)"

text \<open>\<^const>\<open>None\<close> is the muted dash of a row with neither line.\<close>

definition selection_cell :: "job \<Rightarrow> (intent_line option \<times> selection_display option) option" where
  "selection_cell job =
    (let intent = intent_of job; reason = formatSelectionReason (j_selection_reason job)
     in if intent = None \<and> reason = None then None else Some (intent, reason))"

text \<open>The short hash, the tooltip and the diff a click opens; the column is absent without versioning.\<close>

definition hash_cell :: "bool \<Rightarrow> job \<Rightarrow> (string \<times> string \<times> (string \<times> string)) option option" where
  "hash_cell versioning job =
    (if \<not> versioning then None
     else Some (if \<not> truthy_str (j_config_hash job) then None
       else let h = the (j_config_hash job) in
         Some (take 7 h, ''Config git HEAD at compile time: '' @ h @ [CHR 10] @ ''Click to see what'' @ [CHR 39]
                 @ ''s changed since this compile.'', (j_target job, h))))"

definition job_trigger_row :: "job \<Rightarrow> trigger_row" where
  "job_trigger_row job =
    \<lparr>tr_ha_action = j_ha_action job, tr_api_triggered = j_api_triggered job, tr_scheduled = j_scheduled job,
     tr_schedule_kind = j_schedule_kind job, tr_triggered_by = None, tr_trigger_detail = None,
     tr_state = Some (j_state job), tr_started_at = None, tr_assigned_hostname = j_assigned_hostname job\<rparr>"

definition once_opts :: intl_opts where
  "once_opts = \<lparr>io_hour12 = None, io_fields = [(''year'', ''numeric''), (''month'', ''2-digit''), (''day'', ''2-digit''),
     (''hour'', ''2-digit''), (''minute'', ''2-digit'')]\<rparr>"

definition middot :: string where "middot = [CHR 0xC2, CHR 0xB7]"

text \<open>The label, the muted affix and the tooltip.\<close>

definition triggered_cell ::
  "platform \<Rightarrow> fmt_prefs \<Rightarrow> (string \<Rightarrow> int) \<Rightarrow> target list \<Rightarrow> job \<Rightarrow> string \<times> string option \<times> string" where
  "triggered_cell pf st to_ms targets job =
    (let badge = getTriggerBadge (job_trigger_row job); t = target_of targets job in
     if truthy_bool (j_scheduled job) \<and> j_schedule_kind job = Some ''once'' then
       (let when = (case t of None \<Rightarrow> None | Some x \<Rightarrow> t_schedule_once x) in
        if truthy_str when then
          (tb_label badge, Some (''@ '' @ fmtDateTime pf st (pf_local pf (of_int (to_ms (the when)))) (Some once_opts)),
           ''Triggered by one-time schedule fired at '' @ the when)
        else (tb_label badge, None, tb_title badge))
     else if truthy_bool (j_scheduled job) then
       (let cron = (case t of None \<Rightarrow> None | Some x \<Rightarrow> t_schedule x);
            tz = (case t of None \<Rightarrow> None | Some x \<Rightarrow> t_schedule_tz x);
            human = formatCronHuman cron;
            tips = [tb_title badge] @ (if truthy_str cron then [''cron: '' @ the cron] else [])
                     @ (if truthy_str tz then [''tz: '' @ the tz] else [])
        in (tb_label badge, (if truthy_str human then Some (middot @ '' '' @ the human) else None),
            join_with ('' '' @ middot @ '' '') tips))
     else (tb_label badge, None, tb_title badge))"

text \<open>The time shown, the full date of the tooltip and the age below.\<close>

definition created_cell ::
  "platform \<Rightarrow> fmt_prefs \<Rightarrow> (string \<Rightarrow> int) \<Rightarrow> int \<Rightarrow> job \<Rightarrow> string \<times> string \<times> string" where
  "created_cell pf st to_ms now job =
    (let ms = to_ms (j_created_at job); d = pf_local pf (of_int ms)
     in (fmtTimeOfDay pf st d None, fmtDateTime pf st d None, timeAgo now (Some ms)))"

datatype finish_cell = Elapsed string | NoFinish | Finished string string "string option"

definition finished_cell ::
  "platform \<Rightarrow> fmt_prefs \<Rightarrow> (string \<Rightarrow> int) \<Rightarrow> int \<Rightarrow> job \<Rightarrow> finish_cell" where
  "finished_cell pf st to_ms now job =
    (let created = to_ms (j_created_at job) in
     if isJobInProgress job then Elapsed (fmtDuration (Some (of_int (now - created) / 1000)))
     else if \<not> truthy_str (j_finished_at job) then NoFinish
     else let finished = to_ms (the (j_finished_at job));
              wall = (of_int (finished - created) / 1000 :: rat);
              d = pf_local pf (of_int finished)
          in Finished (fmtTimeOfDay pf st d None) (fmtDateTime pf st d None)
               (if 0 \<le> wall then Some (fmtDuration (Some wall)) else None))"

section \<open>The hamburger menu\<close>

definition variantLabel :: "string \<Rightarrow> string" where
  "variantLabel v =
    (if v = ''factory'' then ''Factory image'' else if v = ''ota'' then ''OTA image''
     else if v = ''firmware'' then ''Firmware'' else v)"

datatype menu_action =
    CancelJob string | EditYaml string | LiveLogs string | CompileHistory string
  | RestartDevice string | CopyApiKey string | PingDevice string | InstallToAddress string

datatype menu_item =
    MenuLabel string
  | MenuSeparator
  | MenuItem string bool "string option" menu_action
  | MenuLink string string

definition ellipsis :: string where "ellipsis = [CHR 0xE2, CHR 0x80, CHR 0xA6]"

definition no_restart_title :: string where
  "no_restart_title = ''No restart button in this device'' @ [CHR 39] @ ''s YAML '' @ em_dash
     @ '' add '' @ [CHR 96] @ ''button: [{platform: restart}]'' @ [CHR 96] @ '' to enable.''"

definition no_key_title :: string where
  "no_key_title = ''This device has no '' @ [CHR 96] @ ''api:'' @ [CHR 96]
     @ '' block with an encryption key. Add '' @ [CHR 96] @ ''api: { encryption: { key: ... } }'' @ [CHR 96] @ '' to enable.''"

definition deviceMenuSection :: "string \<Rightarrow> bool \<Rightarrow> target \<Rightarrow> menu_item list" where
  "deviceMenuSection label withEdit t =
    (let f = t_target t; restart = truthy_bool (t_has_restart_button t); key = truthy_bool (t_has_api_key t) in
     [MenuLabel label,
      MenuItem ''Live Logs'' True None (LiveLogs f),
      MenuItem (''Compile history'' @ ellipsis) True None (CompileHistory f),
      MenuItem ''Restart'' restart (if restart then None else Some no_restart_title) (RestartDevice f),
      MenuItem ''Copy API Key'' key (if key then None else Some no_key_title) (CopyApiKey f),
      MenuItem (''Ping device'' @ ellipsis) True None (PingDevice f),
      MenuItem (''Install to address'' @ ellipsis) True None (InstallToAddress f)]
     @ (if withEdit then [MenuItem ''Edit YAML'' True None (EditYaml f)] else []))"

record menu_props =
  mp_job :: job
  mp_target :: "target option"
  mp_inProgress :: bool
  mp_canDownload :: bool
  mp_variants :: "string list"
  mp_open :: bool

definition firmware_href :: "string \<Rightarrow> string \<Rightarrow> string \<Rightarrow> string" where
  "firmware_href jid variant rest = ''./ui/api/jobs/'' @ jid @ ''/firmware?variant='' @ variant @ rest"

definition job_group :: "menu_props \<Rightarrow> menu_item list" where
  "job_group p =
    (if mp_inProgress p \<or> mp_target p = None then
       [MenuLabel ''Job'']
       @ (if mp_inProgress p then [MenuItem ''Cancel'' True None (CancelJob (j_id (mp_job p)))] else [])
       @ (if mp_target p = None then [MenuItem ''Edit YAML'' True None (EditYaml (j_target (mp_job p)))] else [])
     else [])"

definition download_group :: "menu_props \<Rightarrow> menu_item list" where
  "download_group p =
    (if mp_canDownload p \<and> 0 < length (mp_variants p) then
       (if mp_inProgress p then [MenuSeparator] else [])
       @ [MenuLabel ''Download firmware'']
       @ map (\<lambda>v. MenuLink (variantLabel v @ '' (.bin)'') (firmware_href (j_id (mp_job p)) v [])) (mp_variants p)
       @ map (\<lambda>v. MenuLink (variantLabel v @ '' (.bin.gz)'') (firmware_href (j_id (mp_job p)) v ''&gz=1'')) (mp_variants p)
     else [])"

definition device_group :: "menu_props \<Rightarrow> menu_item list" where
  "device_group p =
    (case mp_target p of
       None \<Rightarrow> []
     | Some t \<Rightarrow>
        (if mp_inProgress p \<or> (mp_canDownload p \<and> 0 < length (mp_variants p)) then [MenuSeparator] else [])
        @ deviceMenuSection ''Device'' True t)"

definition queueRowMenu :: "menu_props \<Rightarrow> bool \<times> menu_item list" where
  "queueRowMenu p = (mp_open p, job_group p @ download_group p @ device_group p)"

text \<open>\<open>propsEqual\<close>, the comparison given to \<open>memo\<close>: when it holds the old menu is kept.\<close>

definition propsEqual :: "menu_props \<Rightarrow> menu_props \<Rightarrow> bool" where
  "propsEqual prev next =
    (if mp_open prev \<noteq> mp_open next then False
     else if mp_inProgress prev \<noteq> mp_inProgress next then False
     else if mp_canDownload prev \<noteq> mp_canDownload next then False
     else if length (mp_variants prev) \<noteq> length (mp_variants next) then False
     else if list_ex (\<lambda>(v, w). v \<noteq> w) (zip (mp_variants prev) (mp_variants next)) then False
     else if j_id (mp_job prev) \<noteq> j_id (mp_job next) then False
     else if j_target (mp_job prev) \<noteq> j_target (mp_job next) then False
     else case (mp_target prev, mp_target next) of
       (None, None) \<Rightarrow> True
     | (Some a, Some b) \<Rightarrow>
         t_target a = t_target b
         \<and> t_has_restart_button a = t_has_restart_button b
         \<and> t_has_api_key a = t_has_api_key b
     | _ \<Rightarrow> False)"

section \<open>The actions of a row\<close>

record row_actions =
  ra_rerun :: "string option"
  ra_clear :: bool
  ra_log :: bool
  ra_menu :: menu_props

definition actions_cell :: "target list \<Rightarrow> string option \<Rightarrow> job \<Rightarrow> row_actions" where
  "actions_cell targets menuOpenJobId job =
    (let canDownload = j_state job = ''success'' \<and> truthy_bool (j_has_firmware job);
         variants = (case j_firmware_variants job of
             Some vs \<Rightarrow> if 0 < length vs then vs else if canDownload then [''firmware''] else []
           | None \<Rightarrow> if canDownload then [''firmware''] else [])
     in \<lparr>ra_rerun =
           (if isJobRetryable job then Some (if isJobSuccessful job then ''success'' else ''warn'') else None),
         ra_clear = isJobFinished job,
         ra_log = (j_state job \<noteq> ''pending''),
         ra_menu = \<lparr>mp_job = job, mp_target = target_of targets job, mp_inProgress = isJobInProgress job,
           mp_canDownload = canDownload, mp_variants = variants, mp_open = (menuOpenJobId = Some (j_id job))\<rparr>\<rparr>)"

section \<open>The toolbar\<close>

record queue_tab =
  qt_filter :: string
  qt_rowSelection :: "string list"
  qt_historyOpen :: bool
  qt_actionMenuOpenJobId :: "string option"

datatype queue_event =
    TypeFilter string
  | RowSelectionChange "string list"
  | MenuOpenChange string bool
  | HistoryOpenChange bool

fun queue_step :: "queue_event \<Rightarrow> queue_tab \<Rightarrow> queue_tab" where
  "queue_step (TypeFilter s) st = st\<lparr>qt_filter := s\<rparr>"
| "queue_step (RowSelectionChange ids) st = st\<lparr>qt_rowSelection := ids\<rparr>"
| "queue_step (MenuOpenChange jid opened) st = st\<lparr>qt_actionMenuOpenJobId := (if opened then Some jid else None)\<rparr>"
| "queue_step (HistoryOpenChange opened) st = st\<lparr>qt_historyOpen := opened\<rparr>"

definition selectedIds :: "target list \<Rightarrow> job list \<Rightarrow> queue_tab \<Rightarrow> string list" where
  "selectedIds targets queue st =
    map j_id (filter (\<lambda>j. j_id j \<in> set (qt_rowSelection st)) (filteredQueue targets (qt_filter st) queue))"

text \<open>The ids a toolbar entry hands to its callback; \<^const>\<open>None\<close> when it is not called.\<close>

definition handleCancelSelected :: "target list \<Rightarrow> job list \<Rightarrow> queue_tab \<Rightarrow> string list option" where
  "handleCancelSelected targets queue st =
    (let ids = selectedIds targets queue st in if 0 < length ids then Some ids else None)"

definition handleRetrySelected :: "target list \<Rightarrow> job list \<Rightarrow> queue_tab \<Rightarrow> string list option" where
  "handleRetrySelected targets queue st =
    (let retryable = filter (\<lambda>i. case find (\<lambda>j. j_id j = i) queue of None \<Rightarrow> False | Some job \<Rightarrow> isJobRetryable job)
           (selectedIds targets queue st)
     in if 0 < length retryable then Some retryable else None)"

definition handleClearSelected :: "target list \<Rightarrow> job list \<Rightarrow> queue_tab \<Rightarrow> string list option" where
  "handleClearSelected targets queue st =
    (let ids = selectedIds targets queue st in if 0 < length ids then Some ids else None)"

record toolbar_state =
  tl_rerunFailed :: bool
  tl_rerunSelected :: bool
  tl_cancelSelected :: bool
  tl_clearSelected :: bool
  tl_clearSucceeded :: bool
  tl_clearFinished :: bool
  tl_clearAll :: bool

definition toolbar :: "target list \<Rightarrow> job list \<Rightarrow> queue_tab \<Rightarrow> toolbar_state" where
  "toolbar targets queue st =
    \<lparr>tl_rerunFailed = list_ex isJobFailed queue,
     tl_rerunSelected = (length queue \<noteq> 0),
     tl_cancelSelected = (length queue \<noteq> 0),
     tl_clearSelected = (length (selectedIds targets queue st) \<noteq> 0),
     tl_clearSucceeded = list_ex isJobSuccessful queue,
     tl_clearFinished = list_ex isJobFinished queue,
     tl_clearAll = (length queue \<noteq> 0)\<rparr>"

section \<open>The server's side\<close>

text \<open>
  The states of \<open>JobState\<close> and the checks of \<open>cancel\<close>, \<open>retry\<close>, \<open>remove_jobs\<close> and \<open>clear\<close> in
  \<open>ha-addon/server/job_queue.py\<close>.
\<close>

definition JOB_STATES :: "string list" where
  "JOB_STATES = [''pending'', ''working'', ''blocked'', ''success'', ''failed'', ''timed_out'', ''cancelled'']"

definition TERMINAL :: "string list" where
  "TERMINAL = [''success'', ''failed'', ''timed_out'', ''cancelled'']"

definition py_cancel_accepts :: "job \<Rightarrow> bool" where
  "py_cancel_accepts job \<longleftrightarrow> j_state job \<in> set [''pending'', ''working'', ''blocked'']"

definition py_retry_accepts :: "job \<Rightarrow> bool" where
  "py_retry_accepts job \<longleftrightarrow>
    j_state job \<in> set [''failed'', ''timed_out'', ''cancelled'']
    \<or> (j_state job = ''success'' \<and> j_ota_result job = Some ''failed'') \<or> j_state job = ''success''"

definition py_remove_accepts :: "job \<Rightarrow> bool" where
  "py_remove_accepts job \<longleftrightarrow> j_state job \<in> set TERMINAL"

definition py_clear_takes :: "string list \<Rightarrow> bool \<Rightarrow> job \<Rightarrow> bool" where
  "py_clear_takes states requireOtaSuccess job \<longleftrightarrow>
    j_state job \<in> set (filter (\<lambda>s. s \<in> set TERMINAL) states)
    \<and> \<not> (requireOtaSuccess \<and> j_ota_result job = Some ''failed'')"

section \<open>Lemmas\<close>

definition rank :: "job \<Rightarrow> rat" where
  "rank job = nullish (STATE_ORDER (j_state job)) 9"

definition before_in_queue :: "(string \<Rightarrow> int) \<Rightarrow> job \<Rightarrow> job \<Rightarrow> bool" where
  "before_in_queue to_ms a b \<longleftrightarrow>
    rank a < rank b \<or> (rank a = rank b \<and> to_ms (j_created_at b) \<le> to_ms (j_created_at a))"

lemma sign_simps [simp]: "sign x \<le> 0 \<longleftrightarrow> x \<le> 0" "0 \<le> sign x \<longleftrightarrow> 0 \<le> x" "sign x = 0 \<longleftrightarrow> x = 0"
  by (auto simp: sign_def)

lemma stateSort_le: "stateSort to_ms a b \<le> 0 \<longleftrightarrow> before_in_queue to_ms a b"
  by (auto simp: stateSort_def before_in_queue_def rank_def Let_def)

lemma stateSort_ge: "0 \<le> stateSort to_ms a b \<longleftrightarrow> before_in_queue to_ms b a"
  by (auto simp: stateSort_def before_in_queue_def rank_def Let_def)

interpretation queue_order: js_comparator "\<lambda>a b. sign (stateSort to_ms a b)" for to_ms
  by unfold_locales (auto simp: stateSort_le stateSort_ge before_in_queue_def)

lemma find_id:
  assumes "distinct (map j_id queue)" and "job \<in> set queue"
  shows "find (\<lambda>j. j_id j = j_id job) queue = Some job"
  using assms
proof (induction queue)
  case (Cons j js)
  then have "j_id j \<noteq> j_id job" if "j \<noteq> job" using that by force
  with Cons show ?case by auto
qed simp

lemma filteredQueue_subset: "set (filteredQueue targets flt queue) \<subseteq> set queue"
  by (auto simp: filteredQueue_def Let_def)

lemma list_ex_zip_neq: "length xs = length ys \<Longrightarrow> \<not> list_ex (\<lambda>(v, w). v \<noteq> w) (zip xs ys) \<Longrightarrow> xs = ys"
  by (induction xs ys rule: list_induct2) auto

lemma propsEqualD:
  assumes "propsEqual p q"
  shows "mp_open p = mp_open q" "mp_inProgress p = mp_inProgress q" "mp_canDownload p = mp_canDownload q"
    "mp_variants p = mp_variants q" "j_id (mp_job p) = j_id (mp_job q)" "j_target (mp_job p) = j_target (mp_job q)"
    "(mp_target p = None \<and> mp_target q = None) \<or> (\<exists>a b. mp_target p = Some a \<and> mp_target q = Some b
       \<and> t_target a = t_target b \<and> t_has_restart_button a = t_has_restart_button b \<and> t_has_api_key a = t_has_api_key b)"
  using assms list_ex_zip_neq [of "mp_variants p" "mp_variants q"]
  unfolding propsEqual_def by (simp_all split: if_splits option.splits)

lemma deviceMenuSection_cong:
  "t_target a = t_target b \<Longrightarrow> t_has_restart_button a = t_has_restart_button b
   \<Longrightarrow> t_has_api_key a = t_has_api_key b \<Longrightarrow> deviceMenuSection l e a = deviceMenuSection l e b"
  by (simp add: deviceMenuSection_def)

text \<open>A row with only an id, a file and a state, to build examples from.\<close>

definition bare_job :: "string \<Rightarrow> string \<Rightarrow> string \<Rightarrow> job" where
  "bare_job jid f st =
    \<lparr>j_state = st, j_ota_result = None, j_validate_only = None, j_download_only = None, j_server_ota = None,
     j_ota_only = None, j_status_text = None, j_id = jid, j_target = f, j_esphome_version = None,
     j_assigned_client_id = None, j_assigned_hostname = None, j_worker_id = None, j_pinned_client_id = None,
     j_is_followup = None, j_scheduled = None, j_schedule_kind = None, j_ha_action = None, j_api_triggered = None,
     j_config_hash = None, j_run_id = None, j_selection_reason = None, j_duration_seconds = None,
     j_assigned_at = None, j_created_at = ''2026-07-01T00:00:00Z'', j_finished_at = None, j_has_firmware = None,
     j_firmware_variants = None, j_log = None, j_blocked_reason = None, j_worker_tag_filter = None\<rparr>"

lemmas bare_job_simps [simp] = bare_job_def

section \<open>Properties\<close>

text \<open>Sorted by state the queue is a rearrangement of the same jobs in which working jobs come
  first, then pending, blocked, timed out, failed, cancelled and successful ones, and among jobs of
  one state the newer come first; jobs created at the same instant keep the server's order.\<close>
theorem queue_state_order:
  "sorted_wrt (before_in_queue to_ms) (sorted_queue to_ms queue)
   \<and> set (sorted_queue to_ms queue) = set queue \<and> length (sorted_queue to_ms queue) = length queue
   \<and> filter (\<lambda>j. j_state j = s \<and> to_ms (j_created_at j) = t) (sorted_queue to_ms queue)
       = filter (\<lambda>j. j_state j = s \<and> to_ms (j_created_at j) = t) queue"
proof -
  have "sorted_wrt (before_in_queue to_ms) (sorted_queue to_ms queue)"
    using queue_order.sorted_sort_by [of to_ms queue] by (simp add: sorted_queue_def stateSort_le)
  moreover have "filter (\<lambda>j. j_state j = s \<and> to_ms (j_created_at j) = t) (sorted_queue to_ms queue)
       = filter (\<lambda>j. j_state j = s \<and> to_ms (j_created_at j) = t) queue"
    unfolding sorted_queue_def by (rule queue_order.sort_by_stable) (simp add: stateSort_def)
  ultimately show ?thesis by (simp add: sorted_queue_def)
qed

text \<open>The row menu is never stale. Whenever the comparison given to \<open>memo\<close> keeps the menu drawn
  for the previous poll, drawing it from the new job and target would give the same entries, links
  and actions.\<close>
theorem memo_keeps_menu:
  assumes "propsEqual prev next"
  shows "queueRowMenu prev = queueRowMenu next"
proof -
  note eq = propsEqualD [OF assms]
  from eq(7) show ?thesis
  proof
    assume "mp_target prev = None \<and> mp_target next = None"
    then show ?thesis using eq by (simp add: queueRowMenu_def job_group_def download_group_def device_group_def)
  next
    assume "\<exists>a b. mp_target prev = Some a \<and> mp_target next = Some b
       \<and> t_target a = t_target b \<and> t_has_restart_button a = t_has_restart_button b \<and> t_has_api_key a = t_has_api_key b"
    then obtain a b where "mp_target prev = Some a" "mp_target next = Some b"
      and "deviceMenuSection ''Device'' True a = deviceMenuSection ''Device'' True b"
      using deviceMenuSection_cong by blast
    then show ?thesis using eq by (simp add: queueRowMenu_def job_group_def download_group_def device_group_def)
  qed
qed

text \<open>C9: the row buttons and the server. For a job in any state the server knows, Rerun is offered
  only where the server will rerun and Clear only where it will remove; Cancel is offered exactly
  for the jobs the server will cancel and for the compiled ones whose flash has not reported
  back.\<close>
theorem row_buttons_honoured:
  assumes "j_state job \<in> set JOB_STATES" and "acts = actions_cell targets menu job"
  shows "(ra_rerun acts \<noteq> None \<longrightarrow> py_retry_accepts job) \<and> (ra_clear acts \<longrightarrow> py_remove_accepts job)
    \<and> (MenuItem ''Cancel'' True None (CancelJob (j_id job)) \<in> set (snd (queueRowMenu (ra_menu acts)))
       \<longleftrightarrow> py_cancel_accepts job \<or> (j_state job = ''success'' \<and> isJobInProgress job))"
proof -
  have "MenuItem ''Cancel'' True None (CancelJob (j_id job)) \<in> set (snd (queueRowMenu (ra_menu acts)))
      \<longleftrightarrow> isJobInProgress job"
    by (auto simp: assms(2) actions_cell_def Let_def queueRowMenu_def job_group_def download_group_def device_group_def
        deviceMenuSection_def split: option.splits)
  then show ?thesis using assms
    by (auto simp: actions_cell_def Let_def JOB_STATES_def TERMINAL_def py_retry_accepts_def py_remove_accepts_def
        py_cancel_accepts_def job_pred_defs)
qed

text \<open>Rerun Selected hands over exactly the jobs that are checked, pass the search filter and
  have finished; it never asks to rerun a hidden row or one in flight.\<close>
theorem rerun_selected_exact:
  assumes "distinct (map j_id queue)" and "handleRetrySelected targets queue st = Some ids"
  shows "ids = map j_id (filter (\<lambda>j. isJobFinished j \<and> j_id j \<in> set (qt_rowSelection st))
           (filteredQueue targets (qt_filter st) queue)) \<and> ids \<noteq> []"
proof -
  have "filter (\<lambda>i. case find (\<lambda>j. j_id j = i) queue of None \<Rightarrow> False | Some job \<Rightarrow> isJobRetryable job) (map j_id js)
    = map j_id (filter isJobFinished js)" if "set js \<subseteq> set queue" for js
    using that by (induction js) (auto simp: find_id [OF assms(1)] isJobRetryable_def)
  from this [of "filter (\<lambda>j. j_id j \<in> set (qt_rowSelection st)) (filteredQueue targets (qt_filter st) queue)"]
  show ?thesis using assms(2) filteredQueue_subset [of targets "qt_filter st" queue]
    by (auto simp: handleRetrySelected_def selectedIds_def Let_def filter_filter conj_commute split: if_splits)
qed

text \<open>
  A compiled job that waits for its flash is the one kind of row without a working button: its
  only entry is Cancel, which the server ignores, while Clear All Finished would take it.
\<close>

definition flashing_job :: job where
  "flashing_job = bare_job ''j1'' ''kitchen.yaml'' ''success''"

theorem flashing_row_has_no_working_button:
  "isJobInProgress flashing_job \<and> \<not> py_cancel_accepts flashing_job
   \<and> ra_rerun (actions_cell [] None flashing_job) = None \<and> \<not> ra_clear (actions_cell [] None flashing_job)
   \<and> py_clear_takes TERMINAL False flashing_job"
  by (simp add: flashing_job_def actions_cell_def job_pred_defs py_cancel_accepts_def py_clear_takes_def TERMINAL_def)

section \<open>Witnesses\<close>

definition poll_menu :: "string option \<Rightarrow> menu_props" where
  "poll_menu version = \<lparr>mp_job = bare_job ''j1'' ''kitchen.yaml'' ''working'',
     mp_target = Some ((bare_target ''kitchen.yaml'')\<lparr>t_running_version := version\<rparr>),
     mp_inProgress = True, mp_canDownload = False, mp_variants = [], mp_open = True\<rparr>"

theorem memo_keeps_menu_witness:
  "queueRowMenu (poll_menu (Some ''2026.5.0'')) = queueRowMenu (poll_menu (Some ''2026.6.0''))"
  by (rule memo_keeps_menu) (simp add: propsEqual_def poll_menu_def bare_target_def)

theorem row_buttons_witness:
  "ra_rerun (actions_cell [] None (bare_job ''j1'' ''kitchen.yaml'' ''failed'')) = Some ''warn''
   \<and> py_retry_accepts (bare_job ''j1'' ''kitchen.yaml'' ''failed'')"
  using row_buttons_honoured [of "bare_job ''j1'' ''kitchen.yaml'' ''failed''"
      "actions_cell [] None (bare_job ''j1'' ''kitchen.yaml'' ''failed'')" "[]" None]
  by (simp add: JOB_STATES_def actions_cell_def job_pred_defs)

definition two_jobs :: "job list" where
  "two_jobs = [bare_job ''j1'' ''kitchen.yaml'' ''failed'', bare_job ''j2'' ''garage.yaml'' ''working'']"

definition both_checked :: queue_tab where
  "both_checked = \<lparr>qt_filter = [], qt_rowSelection = [''j1'', ''j2''], qt_historyOpen = False, qt_actionMenuOpenJobId = None\<rparr>"

theorem rerun_selected_witness:
  "handleRetrySelected [] two_jobs both_checked = Some [''j1'']"
proof -
  obtain ids where r: "handleRetrySelected [] two_jobs both_checked = Some ids"
    by (simp add: handleRetrySelected_def selectedIds_def filteredQueue_def two_jobs_def both_checked_def job_pred_defs)
  then have "ids = [''j1'']"
    using rerun_selected_exact [OF _ r]
    by (simp add: filteredQueue_def two_jobs_def both_checked_def job_pred_defs)
  with r show ?thesis by simp
qed

end
