(* ===== verification/Tag_Editors.thy ===== *)
theory Tag_Editors
  imports Fleet_Types
begin

text \<open>
  The chip editors: \<open>components/ui/tag-chip-input.tsx\<close>, the single and bulk tag dialogs
  (\<open>TagsEditDialog.tsx\<close>, \<open>BulkTagsEditDialog.tsx\<close>), the clause row of \<open>RoutingRuleBuilder.tsx\<close> and
  the pill bar \<open>TagFilterBar.tsx\<close>. Each editor is its React state, the events of its JSX and a
  step function. The locale \<open>chip_box\<close> states what committing a typed tag must do; the three
  editors, which each have their own copy of that code, are its interpretations.
\<close>

section \<open>Chips\<close>

datatype chip_key = EnterKey | CommaKey | BackspaceKey | EscapeKey | OtherKey

definition chips_ok :: "string list \<Rightarrow> bool" where
  "chips_ok tags \<longleftrightarrow> distinct tags \<and> list_all (\<lambda>t. t \<noteq> [] \<and> trim t = t) tags"

text \<open>The dropdown: tags of the pool not taken yet that contain the typed text, twelve at most.\<close>

definition matching :: "string list \<Rightarrow> string \<Rightarrow> string list \<Rightarrow> string list" where
  "matching taken input pool =
    (let q = to_lower (trim input)
     in take 12 (filter (\<lambda>s. q = [] \<or> includes_str (to_lower s) q) (filter (\<lambda>s. s \<notin> set taken) pool)))"

section \<open>TagChipInput\<close>

record chip_input =
  ci_input :: string
  ci_focused :: bool

definition addTag :: "string \<Rightarrow> string list \<times> chip_input \<Rightarrow> string list \<times> chip_input" where
  "addTag raw s =
    (let (tags, st) = s; v = trim raw
     in if v = [] then (tags, st)
        else ((if v \<in> set tags then tags else tags @ [v]), st\<lparr>ci_input := []\<rparr>))"

definition removeTag :: "string \<Rightarrow> string list \<times> chip_input \<Rightarrow> string list \<times> chip_input" where
  "removeTag t s = (let (tags, st) = s in (filter (\<lambda>x. x \<noteq> t) tags, st))"

datatype chip_event = ChipFocus | ChipBlur | ChipType string | ChipKey chip_key | ChipRemove string | ChipPick string

text \<open>The second component of the result is whether \<open>onSubmit\<close> was called.\<close>

fun chip_step :: "bool \<Rightarrow> chip_event \<Rightarrow> string list \<times> chip_input \<Rightarrow> (string list \<times> chip_input) \<times> bool" where
  "chip_step hasSubmit ChipFocus (tags, st) = ((tags, st\<lparr>ci_focused := True\<rparr>), False)"
| "chip_step hasSubmit ChipBlur (tags, st) = ((tags, st\<lparr>ci_focused := False\<rparr>), False)"
| "chip_step hasSubmit (ChipType v) (tags, st) = ((tags, st\<lparr>ci_input := v\<rparr>), False)"
| "chip_step hasSubmit (ChipKey k) (tags, st) =
     (if k = EnterKey \<or> k = CommaKey then
        (if trim (ci_input st) \<noteq> [] then (addTag (ci_input st) (tags, st), False)
         else ((tags, st), hasSubmit))
      else if k = BackspaceKey \<and> ci_input st = [] \<and> tags \<noteq> [] then ((butlast tags, st), False)
      else if k = EscapeKey then ((tags, st\<lparr>ci_focused := False\<rparr>), False)
      else ((tags, st), False))"
| "chip_step hasSubmit (ChipRemove t) (tags, st) = (removeTag t (tags, st), False)"
| "chip_step hasSubmit (ChipPick t) (tags, st) = (addTag t (tags, st), False)"

definition chip_filtered :: "string list \<Rightarrow> string list \<Rightarrow> chip_input \<Rightarrow> string list" where
  "chip_filtered suggestions tags st = matching tags (ci_input st) suggestions"

definition dropdown_open :: "string list \<Rightarrow> string list \<Rightarrow> chip_input \<Rightarrow> bool" where
  "dropdown_open suggestions tags st \<longleftrightarrow>
    ci_focused st \<and> trim (ci_input st) \<noteq> [] \<and> chip_filtered suggestions tags st \<noteq> []"

section \<open>The clause row of the rule builder\<close>

datatype clause_event = ClauseOp routing_clause_op | ClauseChip chip_event

definition clause_addTag :: "string \<Rightarrow> routing_clause \<times> chip_input \<Rightarrow> routing_clause \<times> chip_input" where
  "clause_addTag raw s =
    (let (cl, st) = s; v = trim raw
     in if v = [] \<or> v \<in> set (rc_tags cl) then (cl, st)
        else (cl\<lparr>rc_tags := rc_tags cl @ [v]\<rparr>, st\<lparr>ci_input := []\<rparr>))"

definition clause_removeTag :: "string \<Rightarrow> routing_clause \<Rightarrow> routing_clause" where
  "clause_removeTag t cl = cl\<lparr>rc_tags := filter (\<lambda>x. x \<noteq> t) (rc_tags cl)\<rparr>"

fun clause_step :: "clause_event \<Rightarrow> routing_clause \<times> chip_input \<Rightarrow> routing_clause \<times> chip_input" where
  "clause_step (ClauseOp p) (cl, st) = (cl\<lparr>rc_op := p\<rparr>, st)"
| "clause_step (ClauseChip ChipFocus) (cl, st) = (cl, st\<lparr>ci_focused := True\<rparr>)"
| "clause_step (ClauseChip ChipBlur) (cl, st) = (cl, st\<lparr>ci_focused := False\<rparr>)"
| "clause_step (ClauseChip (ChipType v)) (cl, st) = (cl, st\<lparr>ci_input := v\<rparr>)"
| "clause_step (ClauseChip (ChipKey k)) (cl, st) =
     (if k = EnterKey \<or> k = CommaKey then
        (if trim (ci_input st) \<noteq> [] then clause_addTag (ci_input st) (cl, st) else (cl, st))
      else if k = BackspaceKey \<and> ci_input st = [] \<and> rc_tags cl \<noteq> [] then
        (clause_removeTag (last (rc_tags cl)) cl, st)
      else if k = EscapeKey then (cl, st\<lparr>ci_focused := False\<rparr>)
      else (cl, st))"
| "clause_step (ClauseChip (ChipRemove t)) (cl, st) = (clause_removeTag t cl, st)"
| "clause_step (ClauseChip (ChipPick t)) (cl, st) = clause_addTag t (cl, st)"

section \<open>TagsEditDialog\<close>

record tags_dialog =
  td_open :: bool
  td_tags :: "string list"
  td_chip :: chip_input
  td_saving :: bool
  td_error :: "string option"

text \<open>\<open>TdRender\<close> is a render by the parent with its current \<open>open\<close> and \<open>initial\<close>.\<close>

datatype tags_event = TdRender bool "string list" | TdChip chip_event | TdSave | TdSaved | TdFailed "string option" | TdCancel

definition tags_handleSave :: "tags_dialog \<Rightarrow> tags_dialog" where
  "tags_handleSave d = d\<lparr>td_saving := True, td_error := None\<rparr>"

fun tags_step :: "tags_event \<Rightarrow> tags_dialog \<Rightarrow> tags_dialog" where
  "tags_step (TdRender opn initial) d =
     (if opn \<noteq> td_open d \<and> opn then d\<lparr>td_open := True, td_tags := initial, td_error := None\<rparr>
      else d\<lparr>td_open := opn\<rparr>)"
| "tags_step (TdChip e) d =
     (let ((tags, chip), submit) = chip_step True e (td_tags d, td_chip d);
          d' = d\<lparr>td_tags := tags, td_chip := chip\<rparr>
      in if submit \<and> \<not> td_saving d' then tags_handleSave d' else d')"
| "tags_step TdSave d = (if td_saving d then d else tags_handleSave d)"
| "tags_step TdSaved d = d\<lparr>td_open := False, td_saving := False\<rparr>"
| "tags_step (TdFailed msg) d = d\<lparr>td_error := Some (nullish msg ''Failed to save tags''), td_saving := False\<rparr>"
| "tags_step TdCancel d = (if td_saving d then d else d\<lparr>td_open := False\<rparr>)"

section \<open>BulkTagsEditDialog\<close>

text \<open>\<open>bd_removing\<close> is a JavaScript set: distinct, in insertion order.\<close>

record bulk_dialog =
  bd_open :: bool
  bd_removing :: "string list"
  bd_adding :: "string list"
  bd_chip :: chip_input
  bd_saving :: bool
  bd_error :: "string option"

record tag_diff =
  df_add :: "string list"
  df_remove :: "string list"

definition toggleRemove :: "string \<Rightarrow> bulk_dialog \<Rightarrow> bulk_dialog" where
  "toggleRemove t d = d\<lparr>bd_removing :=
    (if t \<in> set (bd_removing d) then filter (\<lambda>x. x \<noteq> t) (bd_removing d) else bd_removing d @ [t])\<rparr>"

definition addAdding :: "string \<Rightarrow> bulk_dialog \<Rightarrow> bulk_dialog" where
  "addAdding raw d =
    (let v = trim raw
     in if v = [] then d
        else d\<lparr>bd_adding := (if v \<in> set (bd_adding d) then bd_adding d else bd_adding d @ [v]),
               bd_chip := (bd_chip d)\<lparr>ci_input := []\<rparr>\<rparr>)"

definition removeAdding :: "string \<Rightarrow> bulk_dialog \<Rightarrow> bulk_dialog" where
  "removeAdding t d = d\<lparr>bd_adding := filter (\<lambda>x. x \<noteq> t) (bd_adding d)\<rparr>"

definition bulk_filtered :: "string list \<Rightarrow> string list \<Rightarrow> bulk_dialog \<Rightarrow> string list" where
  "bulk_filtered suggestions common d = matching (common @ bd_adding d) (ci_input (bd_chip d)) suggestions"

definition bulk_dirty :: "bulk_dialog \<Rightarrow> bool" where
  "bulk_dirty d \<longleftrightarrow> bd_adding d \<noteq> [] \<or> bd_removing d \<noteq> [] \<or> trim (ci_input (bd_chip d)) \<noteq> []"

definition finalAdd :: "string list \<Rightarrow> bulk_dialog \<Rightarrow> string list" where
  "finalAdd common d =
    (let trimmed = trim (ci_input (bd_chip d))
     in if trimmed \<noteq> [] \<and> trimmed \<notin> set (bd_adding d) \<and> trimmed \<notin> set common
        then bd_adding d @ [trimmed] else bd_adding d)"

text \<open>The diff passed to \<open>onSave\<close>, when it is called.\<close>

definition bulk_handleSave :: "string list \<Rightarrow> bulk_dialog \<Rightarrow> bulk_dialog \<times> tag_diff option" where
  "bulk_handleSave common d =
    (let fin = finalAdd common d
     in if fin = [] \<and> bd_removing d = [] then (d\<lparr>bd_error := Some ''No changes to apply''\<rparr>, None)
        else (d\<lparr>bd_saving := True, bd_error := None\<rparr>, Some \<lparr>df_add = fin, df_remove = bd_removing d\<rparr>))"

datatype bulk_event =
    BdRender bool | BdToggle string | BdFocus | BdBlur | BdType string | BdKey chip_key | BdRemove string
  | BdPick string | BdApply | BdSaved | BdFailed "string option" | BdCancel

fun bulk_step :: "string list \<Rightarrow> bulk_event \<Rightarrow> bulk_dialog \<Rightarrow> bulk_dialog \<times> tag_diff option" where
  "bulk_step common (BdRender opn) d =
     (if opn \<noteq> bd_open d \<and> opn
      then (d\<lparr>bd_open := True, bd_removing := [], bd_adding := [], bd_chip := (bd_chip d)\<lparr>ci_input := []\<rparr>, bd_error := None\<rparr>, None)
      else (d\<lparr>bd_open := opn\<rparr>, None))"
| "bulk_step common (BdToggle t) d = ((if t \<in> set common then toggleRemove t d else d), None)"
| "bulk_step common BdFocus d = (d\<lparr>bd_chip := (bd_chip d)\<lparr>ci_focused := True\<rparr>\<rparr>, None)"
| "bulk_step common BdBlur d = (d\<lparr>bd_chip := (bd_chip d)\<lparr>ci_focused := False\<rparr>\<rparr>, None)"
| "bulk_step common (BdType v) d = (d\<lparr>bd_chip := (bd_chip d)\<lparr>ci_input := v\<rparr>\<rparr>, None)"
| "bulk_step common (BdKey k) d =
     (if k = EnterKey \<or> k = CommaKey then
        (if trim (ci_input (bd_chip d)) \<noteq> [] then (addAdding (ci_input (bd_chip d)) d, None)
         else if \<not> bd_saving d \<and> bulk_dirty d then bulk_handleSave common d else (d, None))
      else if k = BackspaceKey \<and> ci_input (bd_chip d) = [] \<and> bd_adding d \<noteq> []
        then (d\<lparr>bd_adding := butlast (bd_adding d)\<rparr>, None)
      else if k = EscapeKey then (d\<lparr>bd_chip := (bd_chip d)\<lparr>ci_focused := False\<rparr>\<rparr>, None)
      else (d, None))"
| "bulk_step common (BdRemove t) d = (removeAdding t d, None)"
| "bulk_step common (BdPick t) d = (addAdding t d, None)"
| "bulk_step common BdApply d =
     (if bd_saving d \<or> \<not> bulk_dirty d then (d, None) else bulk_handleSave common d)"
| "bulk_step common BdSaved d = (d\<lparr>bd_open := False, bd_saving := False\<rparr>, None)"
| "bulk_step common (BdFailed msg) d =
     (d\<lparr>bd_error := Some (nullish msg ''Failed to save tags''), bd_saving := False\<rparr>, None)"
| "bulk_step common BdCancel d = ((if bd_saving d then d else d\<lparr>bd_open := False\<rparr>), None)"

section \<open>TagFilterBar\<close>

record tag_count =
  tc_tag :: string
  tc_count :: nat

definition filter_toggle :: "string \<Rightarrow> string list \<Rightarrow> string list" where
  "filter_toggle t selected =
    (if t \<in> set selected then filter (\<lambda>x. x \<noteq> t) selected else selected @ [t])"

text \<open>The bar as rendered: each pill with whether it is selected, and whether \<open>Clear\<close> shows.\<close>

definition filter_bar :: "tag_count list \<Rightarrow> string list \<Rightarrow> ((tag_count \<times> bool) list \<times> bool) option" where
  "filter_bar tags selected =
    (if tags = [] then None
     else Some (map (\<lambda>p. (p, tc_tag p \<in> set selected)) tags, selected \<noteq> []))"

section \<open>The contract of a chip box\<close>

lemma dropWhile_rev_keep:
  assumes "dropWhile P xs = xs"
  shows "dropWhile P (rev (dropWhile P (rev xs))) = rev (dropWhile P (rev xs))"
proof (cases "rev (dropWhile P (rev xs))")
  case Nil
  then show ?thesis by (simp only: dropWhile.simps)
next
  case (Cons y ys)
  have "xs = rev (dropWhile P (rev xs)) @ rev (takeWhile P (rev xs))"
    by (metis rev_append rev_rev_ident takeWhile_dropWhile_id)
  with Cons have "\<exists>zs. xs = y # zs" by (metis append_Cons)
  with assms have "\<not> P y" by (auto simp: dropWhile_eq_self_iff)
  with Cons show ?thesis by (simp only: dropWhile.simps if_False)
qed

lemma trim_trim [simp]: "trim (trim s) = trim s"
proof -
  have "dropWhile is_ws (trim s) = trim s"
    unfolding trim_def by (rule dropWhile_rev_keep) simp
  then show ?thesis by (simp add: trim_def [of "trim s"]) (simp add: trim_def)
qed

locale chip_box =
  fixes commit :: "string \<Rightarrow> string list \<Rightarrow> string list"
  assumes commit_tags: "commit raw tags = (if trim raw = [] \<or> trim raw \<in> set tags then tags else tags @ [trim raw])"
begin

lemma commit_ok: "chips_ok tags \<Longrightarrow> chips_ok (commit raw tags)"
  by (auto simp: chips_ok_def commit_tags)

lemma commit_adds: "trim raw \<noteq> [] \<Longrightarrow> trim raw \<in> set (commit raw tags)"
  by (simp add: commit_tags)

lemma commit_twice: "commit raw (commit raw tags) = commit raw tags"
  by (simp add: commit_tags)

lemma commit_keeps: "set tags \<subseteq> set (commit raw tags)"
  by (auto simp: commit_tags)

lemma commit_then_remove: "trim raw \<notin> set tags \<Longrightarrow> filter (\<lambda>x. x \<noteq> trim raw) (commit raw tags) = tags"
  by (auto simp: commit_tags filter_id_conv)

end

lemma chips_ok_filter: "chips_ok tags \<Longrightarrow> chips_ok (filter P tags)"
  by (simp add: chips_ok_def list_all_iff)

lemma chips_ok_butlast: "chips_ok tags \<Longrightarrow> chips_ok (butlast tags)"
  by (auto simp: chips_ok_def list_all_iff distinct_butlast dest: in_set_butlastD)

interpretation input_box: chip_box "\<lambda>raw tags. fst (addTag raw (tags, st))" for st
  by unfold_locales (simp add: addTag_def Let_def)

interpretation clause_box: chip_box "\<lambda>raw tags. rc_tags (fst (clause_addTag raw (cl\<lparr>rc_tags := tags\<rparr>, st)))" for cl st
  by unfold_locales (simp add: clause_addTag_def Let_def)

interpretation bulk_box: chip_box "\<lambda>raw tags. bd_adding (addAdding raw (d\<lparr>bd_adding := tags\<rparr>))" for d
  by unfold_locales (simp add: addAdding_def Let_def)

section \<open>Invariants of the editors\<close>

lemma chip_step_ok:
  assumes "chips_ok (fst s)"
  shows "chips_ok (fst (fst (chip_step b e s)))"
proof -
  obtain tags st where s: "s = (tags, st)" by (cases s)
  show ?thesis using assms
    by (cases e) (simp_all add: s removeTag_def chips_ok_filter chips_ok_butlast input_box.commit_ok)
qed

lemma clause_step_ok:
  assumes "chips_ok (rc_tags (fst s))"
  shows "chips_ok (rc_tags (fst (clause_step e s)))"
proof -
  obtain cl st where s: "s = (cl, st)" by (cases s)
  have add: "chips_ok (rc_tags (fst (clause_addTag raw (cl, st))))" for raw
    using clause_box.commit_ok [of "rc_tags cl" raw cl st] assms s by simp
  show ?thesis
  proof (cases e)
    case (ClauseChip x)
    then show ?thesis using assms add
      by (cases x) (simp_all add: s clause_removeTag_def chips_ok_filter)
  qed (use assms s in simp)
qed

definition bulk_inv :: "string list \<Rightarrow> bulk_dialog \<Rightarrow> bool" where
  "bulk_inv common d \<longleftrightarrow> chips_ok (bd_adding d) \<and> distinct (bd_removing d) \<and> set (bd_removing d) \<subseteq> set common"

lemma addAdding_ok: "bulk_inv common d \<Longrightarrow> bulk_inv common (addAdding raw d)"
  using bulk_box.commit_ok [of "bd_adding d" raw d]
  by (simp add: bulk_inv_def) (simp add: addAdding_def Let_def)

lemma toggleRemove_ok: "bulk_inv common d \<Longrightarrow> t \<in> set common \<Longrightarrow> bulk_inv common (toggleRemove t d)"
  by (auto simp: bulk_inv_def toggleRemove_def)

lemma bulk_handleSave_ok: "bulk_inv common d \<Longrightarrow> bulk_inv common (fst (bulk_handleSave common d))"
  by (simp add: bulk_inv_def bulk_handleSave_def Let_def)

lemma bulk_step_ok: "bulk_inv common d \<Longrightarrow> bulk_inv common (fst (bulk_step common e d))"
proof (cases e)
  case (BdRender opn)
  then show "bulk_inv common d \<Longrightarrow> ?thesis" by (simp add: bulk_inv_def chips_ok_def)
next
  case (BdKey k)
  then show "bulk_inv common d \<Longrightarrow> ?thesis"
    by (simp add: addAdding_ok bulk_handleSave_ok) (simp add: bulk_inv_def chips_ok_butlast)
next
  case (BdRemove t)
  then show "bulk_inv common d \<Longrightarrow> ?thesis" by (simp add: bulk_inv_def removeAdding_def chips_ok_filter)
qed (simp_all add: addAdding_ok toggleRemove_ok bulk_handleSave_ok, simp_all add: bulk_inv_def)

lemma finalAdd_ok: "chips_ok (bd_adding d) \<Longrightarrow> chips_ok (finalAdd common d)"
  by (auto simp: finalAdd_def Let_def chips_ok_def)

inductive bulk_run :: "string list \<Rightarrow> bulk_dialog \<Rightarrow> bulk_dialog \<Rightarrow> tag_diff list \<Rightarrow> bool" for common where
  bulk_done: "bulk_run common d d []"
| bulk_more: "bulk_step common e d = (d1, out) \<Longrightarrow> bulk_run common d1 d2 outs \<Longrightarrow>
    bulk_run common d d2 (case out of None \<Rightarrow> outs | Some x \<Rightarrow> x # outs)"

lemma bulk_out_ok:
  assumes "bulk_inv common d" and "bulk_step common e d = (d1, Some x)"
  shows "chips_ok (df_add x) \<and> distinct (df_remove x) \<and> set (df_remove x) \<subseteq> set common
    \<and> \<not> (df_add x = [] \<and> df_remove x = [])"
proof -
  have "bulk_handleSave common d = (d1, Some x)"
    using assms(2) by (cases e) (auto split: if_splits)
  then have "x = \<lparr>df_add = finalAdd common d, df_remove = bd_removing d\<rparr>"
    and "\<not> (finalAdd common d = [] \<and> bd_removing d = [])"
    by (auto simp: bulk_handleSave_def Let_def split: if_splits)
  with assms(1) finalAdd_ok [of d common] show ?thesis by (simp add: bulk_inv_def)
qed

lemma bulk_run_ok:
  assumes "bulk_run common d d' outs" and "bulk_inv common d"
  shows "\<forall>x \<in> set outs. chips_ok (df_add x) \<and> distinct (df_remove x) \<and> set (df_remove x) \<subseteq> set common
    \<and> \<not> (df_add x = [] \<and> df_remove x = [])"
  using assms
proof (induction rule: bulk_run.induct)
  case (bulk_more e d d1 out d2 outs)
  then have "bulk_inv common d1" using bulk_step_ok [of common d e] by simp
  with bulk_more bulk_out_ok [of common d e d1] show ?case by (auto split: option.splits)
qed simp

section \<open>Properties\<close>

text \<open>C28: whatever the user does in a chip editor, typing, pasting, picking suggestions, erasing, in any
  order, the tags stay distinct, non-empty and without surrounding spaces, in the shared chip
  input and in a routing clause alike.\<close>
theorem chip_events_keep_ok:
  assumes "chips_ok tags" and "chips_ok (rc_tags cl)"
  shows "chips_ok (fst (foldl (\<lambda>s e. fst (chip_step b e s)) (tags, st) es))
    \<and> chips_ok (rc_tags (fst (foldl (\<lambda>s e. clause_step e s) (cl, st) ces)))"
proof -
  have "chips_ok (fst s) \<Longrightarrow> chips_ok (fst (foldl (\<lambda>s e. fst (chip_step b e s)) s es))" for s
    by (induction es arbitrary: s) (simp_all add: chip_step_ok)
  moreover have "chips_ok (rc_tags (fst s)) \<Longrightarrow> chips_ok (rc_tags (fst (foldl (\<lambda>s e. clause_step e s) s ces)))" for s
    by (induction ces arbitrary: s) (simp_all add: clause_step_ok)
  ultimately show ?thesis using assms by simp
qed

definition idle_chip :: chip_input where
  "idle_chip = \<lparr>ci_input = [], ci_focused = False\<rparr>"

theorem chip_events_witness:
  "chips_ok (fst (foldl (\<lambda>s e. fst (chip_step True e s)) ([''prod''], idle_chip)
     [ChipFocus, ChipType '' kitchen '', ChipKey CommaKey, ChipPick ''prod'', ChipKey BackspaceKey]))
   \<and> foldl (\<lambda>s e. fst (chip_step True e s)) ([''prod''], idle_chip)
     [ChipFocus, ChipType '' kitchen '', ChipKey CommaKey] = ([''prod'', ''kitchen''], \<lparr>ci_input = [], ci_focused = True\<rparr>)"
proof -
  have "chips_ok [''prod'']" "chips_ok (rc_tags \<lparr>rc_op = AllOf, rc_tags = []\<rparr>)" by code_simp+
  from conjunct1 [OF chip_events_keep_ok [OF this, where b = True and st = idle_chip
      and es = "[ChipFocus, ChipType '' kitchen '', ChipKey CommaKey, ChipPick ''prod'', ChipKey BackspaceKey]"]]
  have a: "chips_ok (fst (foldl (\<lambda>s e. fst (chip_step True e s)) ([''prod''], idle_chip)
     [ChipFocus, ChipType '' kitchen '', ChipKey CommaKey, ChipPick ''prod'', ChipKey BackspaceKey]))" .
  have b: "foldl (\<lambda>s e. fst (chip_step True e s)) ([''prod''], idle_chip)
     [ChipFocus, ChipType '' kitchen '', ChipKey CommaKey] = ([''prod'', ''kitchen''], \<lparr>ci_input = [], ci_focused = True\<rparr>)"
    by code_simp
  show ?thesis by (rule conjI [OF a b])
qed

text \<open>Every diff the bulk dialog hands to its caller, in any run of events after it was opened, adds
  distinct trimmed tags, removes only tags that all selected devices share, and is not empty.\<close>
theorem bulk_diffs_ok:
  assumes "bulk_step common (BdRender True) d0 = (d, out)" and "\<not> bd_open d0"
    and "bulk_run common d d' dfs"
  shows "list_all (\<lambda>x. chips_ok (df_add x) \<and> distinct (df_remove x) \<and> set (df_remove x) \<subseteq> set common
      \<and> \<not> (df_add x = [] \<and> df_remove x = [])) dfs"
proof -
  have "bulk_inv common d" using assms(1,2) by (auto simp: bulk_inv_def chips_ok_def)
  from bulk_run_ok [OF assms(3) this] show ?thesis by (simp add: list_all_iff)
qed

definition closed_bulk :: bulk_dialog where
  "closed_bulk = \<lparr>bd_open = False, bd_removing = [''old''], bd_adding = [''stale''], bd_chip = idle_chip,
     bd_saving = False, bd_error = None\<rparr>"

definition opened_bulk :: bulk_dialog where
  "opened_bulk = fst (bulk_step [''prod''] (BdRender True) closed_bulk)"

theorem bulk_diffs_witness:
  "list_all (\<lambda>x. chips_ok (df_add x) \<and> distinct (df_remove x) \<and> set (df_remove x) \<subseteq> set [''prod'']
      \<and> \<not> (df_add x = [] \<and> df_remove x = [])) [\<lparr>df_add = [''lab''], df_remove = [''prod'']\<rparr>]"
proof -
  let ?c = "[''prod'']"
  let ?d1 = "fst (bulk_step ?c (BdToggle ''prod'') opened_bulk)"
  let ?d2 = "fst (bulk_step ?c (BdType '' lab'') ?d1)"
  let ?d3 = "fst (bulk_step ?c BdApply ?d2)"
  have s3: "bulk_step ?c BdApply ?d2 = (?d3, Some \<lparr>df_add = [''lab''], df_remove = [''prod'']\<rparr>)" by code_simp
  have s1: "bulk_step ?c (BdToggle ''prod'') opened_bulk = (?d1, None)" by code_simp
  have s2: "bulk_step ?c (BdType '' lab'') ?d1 = (?d2, None)" by code_simp
  from bulk_more [OF s3 bulk_done] have "bulk_run ?c ?d2 ?d3 [\<lparr>df_add = [''lab''], df_remove = [''prod'']\<rparr>]"
    by (simp only: option.case)
  from bulk_more [OF s2 this] have "bulk_run ?c ?d1 ?d3 [\<lparr>df_add = [''lab''], df_remove = [''prod'']\<rparr>]"
    by (simp only: option.case)
  from bulk_more [OF s1 this] have run: "bulk_run ?c opened_bulk ?d3 [\<lparr>df_add = [''lab''], df_remove = [''prod'']\<rparr>]"
    by (simp only: option.case)
  have opened: "bulk_step ?c (BdRender True) closed_bulk = (opened_bulk, None)" by code_simp
  have closed: "\<not> bd_open closed_bulk" by code_simp
  from bulk_diffs_ok [OF opened closed run] show ?thesis .
qed

text \<open>A poll never wipes an edit: while the dialog is open, any number of renders by the parent, each
  with its own fresh tag list, leaves the edited tags, the typed text and the error as they are;
  opening it again starts from the parent's list.\<close>
theorem polls_keep_edits:
  assumes "td_open d"
  shows "foldl (\<lambda>d i. tags_step (TdRender True i) d) d initials = d
    \<and> td_tags (tags_step (TdRender True i) (tags_step (TdRender False j) d)) = i"
proof -
  have "tags_step (TdRender True j) d = d" for j using assms by (cases d) simp
  then have "foldl (\<lambda>d i. tags_step (TdRender True i) d) d initials = d"
    by (induction initials) (simp_all del: tags_step.simps)
  with assms show ?thesis by simp
qed

theorem polls_keep_edits_witness:
  "foldl (\<lambda>d i. tags_step (TdRender True i) d)
     \<lparr>td_open = True, td_tags = [''new''], td_chip = idle_chip, td_saving = False, td_error = None\<rparr> [[], [''old'']]
   = \<lparr>td_open = True, td_tags = [''new''], td_chip = idle_chip, td_saving = False, td_error = None\<rparr>"
  by (rule conjunct1 [OF polls_keep_edits]) simp

lemma filter_toggle_set: "set (filter_toggle t sel) = (if t \<in> set sel then set sel - {t} else insert t (set sel))"
  by (auto simp: filter_toggle_def)

lemma filter_toggle_twice: "set (filter_toggle t (filter_toggle t sel)) = set sel"
  by (auto simp: filter_toggle_set)

end
