(* ===== verification/Device_Actions.thy ===== *)
theory Device_Actions
  imports Tag_Editors
begin

text \<open>
  The bulk actions of the Devices tab (\<open>components/devices/DeviceTableActions.tsx\<close>) and the drift
  helper (\<open>components/devices/drift.ts\<close>). An action is given what each server call will do
  (\<open>outcome\<close>) and returns the calls it makes, in the order of the selection, with the toasts and
  the refresh that follow. A device's tags are one comma-separated string in its YAML.
\<close>

section \<open>Tag strings\<close>

fun parse_parts :: "string list \<Rightarrow> string list \<Rightarrow> string list" where
  "parse_parts out [] = out"
| "parse_parts out (part # parts) =
     (let t = trim part in if t = [] \<or> t \<in> set out then parse_parts out parts else parse_parts (out @ [t]) parts)"

definition parseTags :: "string option \<Rightarrow> string list" where
  "parseTags s = (if \<not> truthy_str s then [] else parse_parts [] (split_on (CHR '','') (the s)))"

definition tags_value :: "string list \<Rightarrow> string option" where
  "tags_value tags = (if 0 < length tags then Some (join_with '','' tags) else None)"

definition find_target :: "string \<Rightarrow> target list \<Rightarrow> target option" where
  "find_target name targets = find (\<lambda>x. t_target x = name) targets"

definition tags_of :: "string \<Rightarrow> target list \<Rightarrow> string list" where
  "tags_of name targets = parseTags (case find_target name targets of None \<Rightarrow> None | Some t \<Rightarrow> t_tags t)"

section \<open>What the selection allows\<close>

definition editableTagTargets :: "target list \<Rightarrow> string list \<Rightarrow> string list" where
  "editableTagTargets targets selected =
    (let archivedSet = map t_target (filter (\<lambda>t. truthy_bool (t_archived t)) targets)
     in filter (\<lambda>name. name \<notin> set archivedSet) selected)"

definition archivedSelectedCount :: "target list \<Rightarrow> string list \<Rightarrow> nat" where
  "archivedSelectedCount targets selected = length selected - length (editableTagTargets targets selected)"

definition selectedTargetObjs :: "target list \<Rightarrow> string list \<Rightarrow> target list" where
  "selectedTargetObjs targets selected = List.map_filter (\<lambda>name. find_target name targets) selected"

definition allSelectedActive :: "target list \<Rightarrow> string list \<Rightarrow> bool" where
  "allSelectedActive targets selected \<longleftrightarrow>
    0 < length selected \<and> list_all (\<lambda>t. \<not> truthy_bool (t_archived t)) (selectedTargetObjs targets selected)"

definition allSelectedArchived :: "target list \<Rightarrow> string list \<Rightarrow> bool" where
  "allSelectedArchived targets selected \<longleftrightarrow>
    0 < length selected \<and> list_all (\<lambda>t. truthy_bool (t_archived t)) (selectedTargetObjs targets selected)"

definition plural :: "nat \<Rightarrow> string" where
  "plural n = (if n = 1 then [] else ''s'')"

definition archiveSelectedTitle :: "target list \<Rightarrow> string list \<Rightarrow> string" where
  "archiveSelectedTitle targets selected =
    (if selected = [] then ''Check one or more devices in the table first''
     else if \<not> allSelectedActive targets selected then
       ''Mixed or all-archived selection '' @ em_dash @ '' only active devices can be archived''
     else ''Archive '' @ show_nat (length selected) @ '' device'' @ plural (length selected))"

section \<open>Actions\<close>

datatype toast_tone = ToastKindInfo | ToastKindSuccess | ToastKindError
datatype ui_effect = Toast string toast_tone | Refresh

definition fan_out_toast :: "string \<Rightarrow> nat \<Rightarrow> nat \<Rightarrow> ui_effect" where
  "fan_out_toast verb ok failed =
    (if failed = 0 then Toast (verb @ '' '' @ show_nat ok @ '' device'' @ plural ok) ToastKindSuccess
     else Toast (verb @ '' '' @ show_nat ok @ '', '' @ show_nat failed @ '' failed'') ToastKindError)"

definition handleArchiveSelected :: "(string \<Rightarrow> bool) \<Rightarrow> target list \<Rightarrow> string list \<Rightarrow> string list \<times> ui_effect list" where
  "handleArchiveSelected outcome targets selected =
    (if \<not> allSelectedActive targets selected then ([], [])
     else (let ok = length (filter outcome selected)
           in (selected, [fan_out_toast ''Archived'' ok (length selected - ok), Refresh])))"

definition handleUnarchiveSelected :: "(string \<Rightarrow> bool) \<Rightarrow> target list \<Rightarrow> string list \<Rightarrow> string list \<times> ui_effect list" where
  "handleUnarchiveSelected outcome targets selected =
    (if \<not> allSelectedArchived targets selected then ([], [])
     else (let ok = length (filter outcome selected)
           in (selected, [fan_out_toast ''Unarchived'' ok (length selected - ok), Refresh])))"

definition dirtyTargets :: "target list \<Rightarrow> string list" where
  "dirtyTargets targets = map t_target (filter (\<lambda>t. truthy_bool (t_has_uncommitted_changes t)) targets)"

record commit_all =
  ca_open :: bool
  ca_message :: string
  ca_busy :: bool

definition openCommitAll :: "target list \<Rightarrow> commit_all \<Rightarrow> commit_all" where
  "openCommitAll targets st =
    (if dirtyTargets targets = [] then st else st\<lparr>ca_message := [], ca_open := True\<rparr>)"

text \<open>A call of \<open>commitFile\<close> resolves with its \<open>committed\<close> flag or rejects (\<^const>\<open>None\<close>). The state given
  back is the one after the last call has settled.\<close>

definition handleCommitAll :: "(string \<Rightarrow> bool option) \<Rightarrow> target list \<Rightarrow> commit_all
    \<Rightarrow> commit_all \<times> (string \<times> string option) list \<times> ui_effect list" where
  "handleCommitAll outcome targets st =
    (let dirty = dirtyTargets targets in
     if ca_busy st \<or> dirty = [] then (st, [], [])
     else
       (let message = (if trim (ca_message st) \<noteq> [] then Some (trim (ca_message st)) else None);
            committed = length (filter (\<lambda>t. outcome t = Some True) dirty);
            failed = length (filter (\<lambda>t. outcome t = None) dirty);
            note = (if failed = 0 \<and> committed = length dirty then
                      Toast (''Committed '' @ show_nat committed @ '' file'' @ plural committed) ToastKindSuccess
                    else if 0 < committed then
                      Toast (''Committed '' @ show_nat committed @ '', '' @ show_nat failed @ '' failed'')
                        (if 0 < failed then ToastKindError else ToastKindInfo)
                    else Toast ''No files committed'' ToastKindError)
        in (st\<lparr>ca_open := False, ca_message := [], ca_busy := False\<rparr>,
            map (\<lambda>t. (t, message)) dirty, [note, Refresh])))"

section \<open>Bulk tags\<close>

record tags_aggregate =
  ag_common :: "string list"
  ag_partial :: "string list"
  ag_suggestions :: "string list"

fun common_of :: "string list list \<Rightarrow> string list" where
  "common_of [] = []"
| "common_of (first # rest) = sort (foldl (\<lambda>acc l. filter (\<lambda>t. t \<in> set l) acc) (remdups first) rest)"

definition tagsAggregate :: "target list \<Rightarrow> worker list \<Rightarrow> string list \<Rightarrow> tags_aggregate" where
  "tagsAggregate targets workers editable =
    (let selectedTags = map (\<lambda>name. tags_of name targets) editable;
         common = common_of selectedTags
     in \<lparr>ag_common = common,
         ag_partial = sort (filter (\<lambda>t. t \<notin> set common) (remdups (concat selectedTags))),
         ag_suggestions = sorted_pool (concat (map (\<lambda>tg. parseTags (t_tags tg)) targets)
            @ concat (map (\<lambda>w. nullish (w_tags w) []) workers))\<rparr>)"

definition next_tags :: "string list \<Rightarrow> tag_diff \<Rightarrow> string list" where
  "next_tags existing diff =
    filter (\<lambda>x. x \<notin> set (df_remove diff)) existing @ filter (\<lambda>x. x \<notin> set existing) (df_add diff)"

text \<open>The calls of \<open>updateTargetMeta\<close>, and what follows when all of them resolve.\<close>

definition applyBulkTagDiff :: "target list \<Rightarrow> string list \<Rightarrow> tag_diff \<Rightarrow> (string \<times> string option) list \<times> ui_effect list" where
  "applyBulkTagDiff targets selected diff =
    (let editable = editableTagTargets targets selected;
         n = length editable;
         skipped = archivedSelectedCount targets selected;
         suffix' = (if 0 < skipped then '' ('' @ show_nat skipped @ '' archived skipped)'' else [])
     in (map (\<lambda>name. (name, tags_value (next_tags (tags_of name targets) diff))) editable,
         [Toast (''Updated tags on '' @ show_nat n @ '' device'' @ plural n @ suffix') ToastKindSuccess, Refresh]))"

section \<open>Removing schedules\<close>

text \<open>\<open>failure\<close> is the message a call rejects with, if it does; of several the first of the list stands for
  the first to reject.\<close>

definition handleRemoveScheduleSelected :: "(string \<Rightarrow> string option) \<Rightarrow> target list \<Rightarrow> string list \<Rightarrow> string list \<times> ui_effect list" where
  "handleRemoveScheduleSelected failure targets selected =
    (let scheduled = filter (\<lambda>name. case find_target name targets of None \<Rightarrow> False
                       | Some t \<Rightarrow> truthy_str (t_schedule t) \<or> truthy_str (t_schedule_once t)) selected in
     if scheduled = [] then ([], [Toast ''No selected devices have a schedule'' ToastKindInfo])
     else (scheduled,
       (case List.map_filter failure scheduled of
          [] \<Rightarrow> [Toast (''Removed schedule from '' @ show_nat (length scheduled) @ '' device(s)'') ToastKindSuccess, Refresh]
        | msg # _ \<Rightarrow> [Toast (''Remove failed: '' @ msg) ToastKindError])))"

section \<open>Drift\<close>

definition hasDriftedConfig :: "('a target_scheme) \<Rightarrow> bool" where
  "hasDriftedConfig t \<longleftrightarrow>
    t_config_drifted_since_flash t = Some True
    \<or> (t_config_drifted_since_flash t = None \<and> t_config_modified t = Some True)"

definition driftTooltip :: "('a target_scheme) \<Rightarrow> string option" where
  "driftTooltip t =
    (if t_config_drifted_since_flash t = Some True then
       Some (''YAML has changed since this device was last flashed '' @ em_dash @ '' Upgrade to apply.'')
     else if t_config_drifted_since_flash t = None \<and> t_config_modified t = Some True then
       Some ''YAML has uncommitted local changes (git status).''
     else None)"

section \<open>Lemmas\<close>

lemma parse_parts_ok: "chips_ok out \<Longrightarrow> chips_ok (parse_parts out ps)"
  by (induction ps arbitrary: out) (auto simp: Let_def chips_ok_def)

lemma parseTags_ok: "chips_ok (parseTags s)"
  by (simp add: parseTags_def parse_parts_ok chips_ok_def [of "[]"])

lemma parse_parts_id:
  "chips_ok (out @ ps) \<Longrightarrow> parse_parts out ps = out @ ps"
  by (induction ps arbitrary: out) (auto simp: Let_def chips_ok_def)

lemma set_trim: "set (trim s) \<subseteq> set s"
  by (auto simp: trim_def) (metis set_dropWhileD set_rev)

lemma parse_parts_chars: "x \<in> set (parse_parts out ps) \<Longrightarrow> x \<in> set out \<or> (\<exists>p \<in> set ps. x = trim p)"
proof (induction ps arbitrary: out)
  case (Cons a ps)
  from Cons.IH [of out] Cons.IH [of "out @ [trim a]"] Cons.prems show ?case
    by (auto simp: Let_def split: if_splits)
qed simp

lemma parseTags_no_comma: "x \<in> set (parseTags s) \<Longrightarrow> CHR '','' \<notin> set x"
proof -
  assume x: "x \<in> set (parseTags s)"
  then obtain p where "p \<in> set (split_on (CHR '','') (the s))" "x = trim p"
    by (auto simp: parseTags_def split: if_splits dest: parse_parts_chars)
  then show ?thesis using split_on_parts set_trim by blast
qed

definition no_commas :: "string list \<Rightarrow> bool" where
  "no_commas tags \<longleftrightarrow> list_all (\<lambda>t. CHR '','' \<notin> set t) tags"

lemma parseTags_tags_value:
  assumes "chips_ok tags" and "no_commas tags"
  shows "parseTags (tags_value tags) = tags"
proof (cases "tags = []")
  case False
  have "join_with '','' tags \<noteq> []"
    using False assms(1) by (cases tags; cases "tl tags") (auto simp: chips_ok_def)
  moreover have "split_on (CHR '','') (join_with '','' tags) = tags"
    using split_on_join [of tags "CHR '',''"] False assms(2) by (simp add: no_commas_def list_all_iff)
  ultimately show ?thesis
    using False parse_parts_id [of "[]" tags] assms(1) by (simp add: parseTags_def tags_value_def)
qed (simp add: parseTags_def tags_value_def)

lemma next_tags_ok: "chips_ok existing \<Longrightarrow> chips_ok (df_add diff) \<Longrightarrow> chips_ok (next_tags existing diff)"
  by (auto simp: chips_ok_def next_tags_def list_all_iff)

lemma next_tags_set: "set (next_tags existing diff) = (set existing - set (df_remove diff)) \<union> (set (df_add diff) - set existing)"
  by (auto simp: next_tags_def)

lemma foldl_inter: "set (foldl (\<lambda>acc l. filter (\<lambda>t. t \<in> set l) acc) xs ls) = set xs \<inter> (\<Inter>l \<in> set ls. set l)"
  by (induction ls arbitrary: xs) auto

lemma set_common_of: "ls \<noteq> [] \<Longrightarrow> set (common_of ls) = (\<Inter>l \<in> set ls. set l)"
  by (cases ls) (simp_all add: foldl_inter)

lemma foldl_filter_distinct: "distinct xs \<Longrightarrow> distinct (foldl (\<lambda>acc l. filter (\<lambda>t. t \<in> set l) acc) xs ls)"
  by (induction ls arbitrary: xs) simp_all

lemma distinct_common_of: "distinct (common_of ls)"
  by (cases ls) (simp_all add: foldl_filter_distinct)

section \<open>Properties\<close>

text \<open>Tags survive storage. Any tag list an editor can hold whose tags have no comma is read back from
  the stored string exactly, in order; whatever string is stored, what is read is a clean list
  that is stored back without change.\<close>
theorem tags_storage_roundtrip:
  assumes "chips_ok tags" and "no_commas tags"
  shows "parseTags (tags_value tags) = tags
    \<and> chips_ok (parseTags s) \<and> parseTags (tags_value (parseTags s)) = parseTags s"
proof -
  have "no_commas (parseTags s)" using parseTags_no_comma by (auto simp: no_commas_def list_all_iff)
  with assms show ?thesis by (simp add: parseTags_tags_value parseTags_ok)
qed

theorem tags_storage_witness: "parseTags (tags_value [''lab'', ''first floor'']) = [''lab'', ''first floor'']"
  by (rule conjunct1 [OF tags_storage_roundtrip]) code_simp+

text \<open>A tag with a comma, which pasting the text into the editor and pressing Enter produces, does not
  survive: saved as one tag it comes back as two.\<close>
theorem pasted_comma_splits:
  "fst (fst (chip_step True (ChipKey EnterKey) (fst (chip_step True (ChipType ''lab,prod'') ([], idle_chip))))) = [''lab,prod'']
   \<and> chips_ok [''lab,prod''] \<and> parseTags (tags_value [''lab,prod'']) = [''lab'', ''prod'']"
proof -
  have a: "fst (fst (chip_step True (ChipKey EnterKey) (fst (chip_step True (ChipType ''lab,prod'') ([], idle_chip))))) = [''lab,prod'']"
    by code_simp
  have b: "chips_ok [''lab,prod'']" by code_simp
  have c: "parseTags (tags_value [''lab,prod'']) = [''lab'', ''prod'']" by code_simp
  show ?thesis by (intro conjI a b c)
qed


text \<open>What the bulk dialog shows: the common tags are those every selected device has, the partial
  ones those some but not all have, both sorted and without repeats.\<close>
theorem bulk_tags_shown:
  assumes "editable \<noteq> []"
  shows "set (ag_common (tagsAggregate targets workers editable)) = (\<Inter>n \<in> set editable. set (tags_of n targets))
    \<and> set (ag_partial (tagsAggregate targets workers editable))
        = (\<Union>n \<in> set editable. set (tags_of n targets)) - (\<Inter>n \<in> set editable. set (tags_of n targets))
    \<and> distinct (ag_common (tagsAggregate targets workers editable) @ ag_partial (tagsAggregate targets workers editable))"
proof -
  let ?ls = "map (\<lambda>name. tags_of name targets) editable"
  have "set (common_of ?ls) = (\<Inter>n \<in> set editable. set (tags_of n targets))"
    using set_common_of [of ?ls] assms by simp
  then show ?thesis using distinct_common_of [of ?ls] by (auto simp: tagsAggregate_def Let_def)
qed

text \<open>A selection of known devices enables at most one of \<open>Archive\<close> and \<open>Unarchive\<close>, an action that
  is enabled calls the server once for every selected device, and one that is not enabled makes
  no call at all.\<close>
theorem archive_actions_exclusive:
  assumes "list_all (\<lambda>name. find_target name targets \<noteq> None) selected"
  shows "\<not> (allSelectedActive targets selected \<and> allSelectedArchived targets selected)
    \<and> fst (handleArchiveSelected outcome targets selected) = (if allSelectedActive targets selected then selected else [])
    \<and> fst (handleUnarchiveSelected outcome targets selected) = (if allSelectedArchived targets selected then selected else [])"
proof -
  have "\<not> (allSelectedActive targets selected \<and> allSelectedArchived targets selected)"
  proof
    assume both: "allSelectedActive targets selected \<and> allSelectedArchived targets selected"
    then obtain n ns where "selected = n # ns" by (cases selected) (auto simp: allSelectedActive_def)
    with assms obtain t where "find_target n targets = Some t" by auto
    with \<open>selected = n # ns\<close> have "t \<in> set (selectedTargetObjs targets selected)"
      by (simp add: selectedTargetObjs_def List.map_filter_simps)
    with both show False by (auto simp: allSelectedActive_def allSelectedArchived_def list_all_iff)
  qed
  then show ?thesis by (simp add: handleArchiveSelected_def handleUnarchiveSelected_def Let_def)
qed

definition lab_targets :: "target list" where
  "lab_targets = [(bare_target ''a.yaml'')\<lparr>t_tags := Some ''lab, prod''\<rparr>, (bare_target ''b.yaml'')\<lparr>t_tags := Some ''lab''\<rparr>,
     (bare_target ''c.yaml'')\<lparr>t_archived := Some True\<rparr>]"


theorem bulk_tags_shown_witness:
  "set (ag_common (tagsAggregate lab_targets [] [''a.yaml'', ''b.yaml''])) = {''lab''}"
proof -
  have "[''a.yaml'', ''b.yaml''] \<noteq> []" by simp
  note conjunct1 [OF bulk_tags_shown [OF this, of lab_targets "[]"]]
  also have "(\<Inter>n \<in> set [''a.yaml'', ''b.yaml'']. set (tags_of n lab_targets)) = {''lab''}"
  proof -
    have "tags_of ''a.yaml'' lab_targets = [''lab'', ''prod'']" "tags_of ''b.yaml'' lab_targets = [''lab'']" by code_simp+
    then show ?thesis by simp
  qed
  finally show ?thesis .
qed

theorem archive_actions_witness:
  "handleArchiveSelected (\<lambda>n. n = ''a.yaml'') lab_targets [''a.yaml'', ''b.yaml'']
     = ([''a.yaml'', ''b.yaml''], [Toast ''Archived 1, 1 failed'' ToastKindError, Refresh])
   \<and> \<not> (allSelectedActive lab_targets [''a.yaml'', ''b.yaml''] \<and> allSelectedArchived lab_targets [''a.yaml'', ''b.yaml''])"
proof (rule conjI)
  show "handleArchiveSelected (\<lambda>n. n = ''a.yaml'') lab_targets [''a.yaml'', ''b.yaml'']
     = ([''a.yaml'', ''b.yaml''], [Toast ''Archived 1, 1 failed'' ToastKindError, Refresh])" by code_simp
  have "list_all (\<lambda>name. find_target name lab_targets \<noteq> None) [''a.yaml'', ''b.yaml'']" by code_simp
  from conjunct1 [OF archive_actions_exclusive [OF this]]
  show "\<not> (allSelectedActive lab_targets [''a.yaml'', ''b.yaml''] \<and> allSelectedArchived lab_targets [''a.yaml'', ''b.yaml''])" .
qed

end
