(* ===== verification/Device_Menu.thy ===== *)
theory Device_Menu
  imports Queue_Tab Device_Actions
begin

text \<open>
  The actions of a device row: \<open>components/devices/ActionsCell.tsx\<close> and
  \<open>components/devices/DeviceContextMenu.tsx\<close>, both behind \<open>memo\<close> with their own comparison, and the
  pin handlers of \<open>DevicesTab.tsx\<close>. The locale \<open>memo\<close> is the contract of such a comparison: equal
  properties must draw the same thing. It is interpreted on the two components here and on the
  queue's row menu.
\<close>

section \<open>Memoised components\<close>

text \<open>The properties a memoised component was last drawn with, after a sequence of renders.\<close>

fun memo_run :: "('p \<Rightarrow> 'p \<Rightarrow> bool) \<Rightarrow> 'p \<Rightarrow> 'p list \<Rightarrow> 'p" where
  "memo_run eq drawn [] = drawn"
| "memo_run eq drawn (p # ps) = memo_run eq (if eq drawn p then drawn else p) ps"

locale memo =
  fixes eq :: "'p \<Rightarrow> 'p \<Rightarrow> bool" and view :: "'p \<Rightarrow> 'v"
  assumes eq_view: "eq p q \<Longrightarrow> view p = view q"
begin

lemma never_stale: "view (memo_run eq p ps) = view (last (p # ps))"
proof (induction ps arbitrary: p)
  case (Cons q qs)
  show ?case
  proof (cases qs)
    case Nil
    then show ?thesis using eq_view [of p q] by simp
  next
    case (Cons r rs)
    then show ?thesis using Cons.IH [of "if eq p q then p else q"] by simp
  qed
qed simp

end

section \<open>The row menu\<close>

datatype config_action =
    UnpinVersion string | PinVersion string | RenameDevice string | DuplicateDevice string | ConfigHistory string
  | ViewRendered string | CommitChanges string | ArchiveDevice string | DeleteDevice string
  | UnarchiveDevice string | PermanentlyDelete string

datatype context_item =
    SharedItem menu_item
  | ConfigSeparator
  | ConfigLabel string
  | ConfigItem string bool "string option" config_action

definition versioning_off_title :: string where
  "versioning_off_title = ''Config versioning is off '' @ em_dash @ '' enable it in Settings to record a history.''"

definition archived_menu :: "target \<Rightarrow> context_item list" where
  "archived_menu t =
    [ConfigLabel ''Archived'',
     ConfigItem ''Unarchive'' True None (UnarchiveDevice (t_target t)),
     ConfigItem (''Permanently delete'' @ ellipsis) True None (PermanentlyDelete (t_target t))]"

definition config_group :: "bool \<Rightarrow> target \<Rightarrow> context_item list" where
  "config_group versioningEnabled t =
    (let f = t_target t in
     [ConfigLabel ''Config'',
      (if truthy_str (t_pinned_version t)
       then ConfigItem (''Unpin ESPHome version ('' @ the (t_pinned_version t) @ '')'') True None (UnpinVersion f)
       else ConfigItem ''Pin ESPHome version to current'' True None (PinVersion f)),
      ConfigItem ''Rename'' True None (RenameDevice f),
      ConfigItem (''Duplicate'' @ ellipsis) True None (DuplicateDevice f),
      ConfigItem (''Config history'' @ ellipsis) versioningEnabled
        (if versioningEnabled then None else Some versioning_off_title) (ConfigHistory f),
      ConfigItem (''View rendered config'' @ ellipsis) True None (ViewRendered f)]
     @ (if versioningEnabled \<and> truthy_bool (t_has_uncommitted_changes t)
        then [ConfigItem (''Commit changes'' @ ellipsis) True None (CommitChanges f)] else [])
     @ [ConfigItem ''Archive'' True None (ArchiveDevice f),
        ConfigItem ''Delete'' True None (DeleteDevice f)])"

record context_props =
  cp_target :: target
  cp_open :: bool

definition deviceContextMenu :: "bool \<Rightarrow> context_props \<Rightarrow> bool \<times> context_item list" where
  "deviceContextMenu versioningEnabled p =
    (let t = cp_target p in
     (cp_open p,
      if truthy_bool (t_archived t) then archived_menu t
      else map SharedItem (deviceMenuSection ''Device'' False t) @ [ConfigSeparator] @ config_group versioningEnabled t))"

definition context_propsEqual :: "context_props \<Rightarrow> context_props \<Rightarrow> bool" where
  "context_propsEqual prev next =
    (if cp_open prev \<noteq> cp_open next then False
     else let a = cp_target prev; b = cp_target next in
       t_target a = t_target b
       \<and> t_has_restart_button a = t_has_restart_button b
       \<and> t_has_api_key a = t_has_api_key b
       \<and> t_pinned_version a = t_pinned_version b
       \<and> t_has_uncommitted_changes a = t_has_uncommitted_changes b
       \<and> t_archived a = t_archived b)"

section \<open>The actions cell\<close>

record cell_props =
  ac_target :: target
  ac_inFlight :: bool
  ac_menuOpen :: bool

datatype upgrade_variant = UpgradeSuccess | UpgradeSecondary

record actions_view =
  av_upgrade :: "(upgrade_variant \<times> string option \<times> string) option"
  av_edit :: "string option"
  av_menu :: "bool \<times> context_item list"

definition in_flight_title :: string where
  "in_flight_title = ''A build is already running. Click to queue the next compile (will use the latest YAML at the time it starts).''"

definition drifted_title :: string where
  "drifted_title = ''Config has changed since this device was last flashed '' @ em_dash @ '' Upgrade to apply.''"

definition upgradeVariant :: "target \<Rightarrow> upgrade_variant" where
  "upgradeVariant t = (if truthy_bool (t_needs_update t) \<or> hasDriftedConfig t then UpgradeSuccess else UpgradeSecondary)"

definition upgradeTitle :: "bool \<Rightarrow> target \<Rightarrow> string option" where
  "upgradeTitle inFlight t =
    (if inFlight then Some in_flight_title
     else if hasDriftedConfig t \<and> \<not> truthy_bool (t_needs_update t) then Some (nullish (driftTooltip t) drifted_title)
     else None)"

definition actionsCell :: "bool \<Rightarrow> cell_props \<Rightarrow> actions_view" where
  "actionsCell versioningEnabled p =
    (let t = ac_target p; menu = deviceContextMenu versioningEnabled \<lparr>cp_target = t, cp_open = ac_menuOpen p\<rparr> in
     if truthy_bool (t_archived t) then \<lparr>av_upgrade = None, av_edit = None, av_menu = menu\<rparr>
     else \<lparr>av_upgrade = Some (upgradeVariant t, upgradeTitle (ac_inFlight p) t, t_target t),
           av_edit = Some (t_target t), av_menu = menu\<rparr>)"

definition cell_propsEqual :: "cell_props \<Rightarrow> cell_props \<Rightarrow> bool" where
  "cell_propsEqual prev next =
    (if ac_inFlight prev \<noteq> ac_inFlight next then False
     else if ac_menuOpen prev \<noteq> ac_menuOpen next then False
     else let a = ac_target prev; b = ac_target next in
       t_target a = t_target b
       \<and> t_needs_update a = t_needs_update b
       \<and> t_has_restart_button a = t_has_restart_button b
       \<and> t_has_api_key a = t_has_api_key b
       \<and> t_pinned_version a = t_pinned_version b
       \<and> t_has_uncommitted_changes a = t_has_uncommitted_changes b
       \<and> t_config_drifted_since_flash a = t_config_drifted_since_flash b
       \<and> t_config_modified a = t_config_modified b
       \<and> t_archived a = t_archived b)"

section \<open>Pinning\<close>

text \<open>\<open>answer\<close> is what the server call does: the message it rejects with, if it does.\<close>

definition handlePin :: "target list \<Rightarrow> (string \<times> string \<Rightarrow> string option) \<Rightarrow> string \<Rightarrow> (string \<times> string) list \<times> ui_effect" where
  "handlePin targets answer f =
    (let t = find_target f targets;
         version = (case t of None \<Rightarrow> None
                    | Some x \<Rightarrow> if truthy_str (t_running_version x) then t_running_version x else t_server_version x)
     in if \<not> truthy_str version then ([], Toast ''No version available to pin to'' ToastKindError)
        else let v = the version in
          ([(f, v)],
           case answer (f, v) of
             None \<Rightarrow> Toast (''Pinned '' @ stripYaml (Some f) @ '' to '' @ v) ToastKindSuccess
           | Some err \<Rightarrow> Toast (''Pin failed: '' @ err) ToastKindError))"

definition handleUnpin :: "(string \<Rightarrow> string option) \<Rightarrow> string \<Rightarrow> ui_effect" where
  "handleUnpin answer f =
    (case answer f of
       None \<Rightarrow> Toast (''Unpinned '' @ stripYaml (Some f)) ToastKindSuccess
     | Some err \<Rightarrow> Toast (''Unpin failed: '' @ err) ToastKindError)"

text \<open>Restoring and removing an archived row; the second result says whether the lists are refreshed.\<close>

definition handleUnarchive :: "(string \<Rightarrow> string option) \<Rightarrow> string \<Rightarrow> ui_effect list" where
  "handleUnarchive answer f =
    (case answer f of
       None \<Rightarrow> [Toast (''Restored '' @ stripYaml (Some f)) ToastKindSuccess, Refresh]
     | Some err \<Rightarrow> [Toast (''Unarchive failed: '' @ err) ToastKindError])"

record permanent_delete =
  pd_target :: "string option"
  pd_busy :: bool

definition handlePermanentDeleteConfirm ::
  "(string \<Rightarrow> string option) \<Rightarrow> permanent_delete \<Rightarrow> permanent_delete \<times> string list \<times> ui_effect list" where
  "handlePermanentDeleteConfirm answer st =
    (if \<not> truthy_str (pd_target st) then (st, [], [])
     else let f = the (pd_target st) in
       case answer f of
         None \<Rightarrow> (\<lparr>pd_target = None, pd_busy = False\<rparr>, [f],
                  [Toast (''Permanently deleted '' @ stripYaml (Some f)) ToastKindSuccess, Refresh])
       | Some err \<Rightarrow> (st\<lparr>pd_busy := False\<rparr>, [f], [Toast (''Delete failed: '' @ err) ToastKindError]))"

section \<open>The comparisons meet the contract\<close>

lemma config_group_cong:
  "t_target a = t_target b \<Longrightarrow> t_pinned_version a = t_pinned_version b
   \<Longrightarrow> t_has_uncommitted_changes a = t_has_uncommitted_changes b \<Longrightarrow> config_group v a = config_group v b"
  by (simp only: config_group_def)

lemma context_menu_cong:
  assumes "t_target a = t_target b" "t_has_restart_button a = t_has_restart_button b" "t_has_api_key a = t_has_api_key b"
    "t_pinned_version a = t_pinned_version b" "t_has_uncommitted_changes a = t_has_uncommitted_changes b"
    "t_archived a = t_archived b"
  shows "deviceContextMenu v \<lparr>cp_target = a, cp_open = m\<rparr> = deviceContextMenu v \<lparr>cp_target = b, cp_open = m\<rparr>"
  using config_group_cong [OF assms(1,4,5), of v] deviceMenuSection_cong [OF assms(1-3), of "''Device''" False]
  by (simp add: deviceContextMenu_def archived_menu_def assms(1,6))

interpretation context_memo: memo context_propsEqual "deviceContextMenu v" for v
proof
  fix p q assume "context_propsEqual p q"
  then show "deviceContextMenu v p = deviceContextMenu v q"
    using context_menu_cong [of "cp_target p" "cp_target q" v "cp_open p"]
    by (cases p; cases q) (auto simp: context_propsEqual_def Let_def split: if_splits)
qed

lemma drift_cong:
  "t_config_drifted_since_flash a = t_config_drifted_since_flash b \<Longrightarrow> t_config_modified a = t_config_modified b
   \<Longrightarrow> hasDriftedConfig a = hasDriftedConfig b \<and> driftTooltip a = driftTooltip b"
  by (simp add: hasDriftedConfig_def driftTooltip_def)

interpretation cell_memo: memo cell_propsEqual "actionsCell v" for v
proof
  fix p q assume eq: "cell_propsEqual p q"
  let ?a = "ac_target p" and ?b = "ac_target q"
  have same: "ac_inFlight p = ac_inFlight q" "ac_menuOpen p = ac_menuOpen q" "t_target ?a = t_target ?b"
    "t_needs_update ?a = t_needs_update ?b" "t_archived ?a = t_archived ?b"
    using eq by (auto simp: cell_propsEqual_def Let_def split: if_splits)
  have drift: "hasDriftedConfig ?a = hasDriftedConfig ?b \<and> driftTooltip ?a = driftTooltip ?b"
    using eq by (intro drift_cong) (auto simp: cell_propsEqual_def Let_def split: if_splits)
  have menu: "deviceContextMenu v \<lparr>cp_target = ?a, cp_open = m\<rparr> = deviceContextMenu v \<lparr>cp_target = ?b, cp_open = m\<rparr>" for m
    using eq by (intro context_menu_cong) (auto simp: cell_propsEqual_def Let_def split: if_splits)
  show "actionsCell v p = actionsCell v q"
    by (simp add: actionsCell_def upgradeVariant_def upgradeTitle_def same drift menu Let_def)
qed

interpretation queue_memo: memo propsEqual queueRowMenu
proof
  fix p q assume "propsEqual p q"
  note eq = propsEqualD [OF this]
  have "device_group p = device_group q"
    using eq by (auto simp: device_group_def dest: deviceMenuSection_cong)
  then show "queueRowMenu p = queueRowMenu q"
    using eq by (auto simp: queueRowMenu_def job_group_def download_group_def)
qed

section \<open>Properties\<close>

text \<open>The cell drawn behind \<open>memo\<close> is never stale: after any sequence of polls, its buttons, their
  colours and titles, and the menu, are what drawing the latest row afresh would give.\<close>
theorem device_row_never_stale:
  "actionsCell versioning (memo_run cell_propsEqual p ps) = actionsCell versioning (last (p # ps))"
  by (rule cell_memo.never_stale)

fun offered :: "context_item \<Rightarrow> config_action list" where
  "offered (ConfigItem _ _ _ a) = [a]"
| "offered (SharedItem _) = []"
| "offered ConfigSeparator = []"
| "offered (ConfigLabel _) = []"

lemma offered_shared [simp]: "concat (map offered (map SharedItem xs)) = []"
  by (induction xs) simp_all

text \<open>What a row offers: an archived row can only be restored or removed for good; any other row
  never offers these two.\<close>
theorem archived_row_actions:
  "concat (map offered (snd (deviceContextMenu versioning p))) =
     (let t = cp_target p; f = t_target t in
      if truthy_bool (t_archived t) then [UnarchiveDevice f, PermanentlyDelete f]
      else [if truthy_str (t_pinned_version t) then UnpinVersion f else PinVersion f, RenameDevice f, DuplicateDevice f,
            ConfigHistory f, ViewRendered f]
         @ (if versioning \<and> truthy_bool (t_has_uncommitted_changes t) then [CommitChanges f] else [])
         @ [ArchiveDevice f, DeleteDevice f])"
proof (cases "truthy_bool (t_archived (cp_target p))")
  case True
  then show ?thesis by (simp add: deviceContextMenu_def archived_menu_def Let_def)
next
  case False
  have "concat (map offered (config_group versioning (cp_target p))) =
     (let t = cp_target p; f = t_target t in
      [if truthy_str (t_pinned_version t) then UnpinVersion f else PinVersion f, RenameDevice f, DuplicateDevice f,
            ConfigHistory f, ViewRendered f]
         @ (if versioning \<and> truthy_bool (t_has_uncommitted_changes t) then [CommitChanges f] else [])
         @ [ArchiveDevice f, DeleteDevice f])"
    by (simp add: config_group_def Let_def)
  with False show ?thesis by (simp add: deviceContextMenu_def Let_def del: map_map)
qed

section \<open>What a kept cell remembers\<close>

text \<open>
  The comparison leaves the handlers out, so a kept cell also keeps the handlers of the render it was
  drawn in; \<open>onPin\<close> closes over the device list of that render.
\<close>

record drawn_row =
  dr_props :: cell_props
  dr_targets :: "target list"

definition row_render :: "target list \<Rightarrow> cell_props \<Rightarrow> drawn_row \<Rightarrow> drawn_row" where
  "row_render targets p row =
    (if cell_propsEqual (dr_props row) p then row else \<lparr>dr_props = p, dr_targets = targets\<rparr>)"

definition press_pin :: "(string \<times> string \<Rightarrow> string option) \<Rightarrow> drawn_row \<Rightarrow> (string \<times> string) list \<times> ui_effect" where
  "press_pin answer row = handlePin (dr_targets row) answer (t_target (ac_target (dr_props row)))"

definition running :: "string \<Rightarrow> target" where
  "running v = (bare_target ''kitchen.yaml'')\<lparr>t_running_version := Some v, t_needs_update := Some True\<rparr>"

definition open_row :: "target \<Rightarrow> cell_props" where
  "open_row t = \<lparr>ac_target = t, ac_inFlight = False, ac_menuOpen = True\<rparr>"

text \<open>A poll that arrives while the menu is open and shows another running version does not reach the
  Pin item: the old version is pinned.\<close>
theorem open_menu_pins_old_version:
  "let row = \<lparr>dr_props = open_row (running ''2026.1.0''), dr_targets = [running ''2026.1.0'']\<rparr>;
       row' = row_render [running ''2026.2.0''] (open_row (running ''2026.2.0'')) row
   in fst (press_pin (\<lambda>_. None) row') = [(''kitchen.yaml'', ''2026.1.0'')]
    \<and> fst (handlePin [running ''2026.2.0''] (\<lambda>_. None) ''kitchen.yaml'') = [(''kitchen.yaml'', ''2026.2.0'')]"
  by code_simp

end
