(* ===== verification/Device_Columns.thy ===== *)
theory Device_Columns
  imports Device_Menu Cron_Schedules
begin

text \<open>
  The columns of the Devices table: \<open>components/devices/useDeviceColumns.tsx\<close> (what each cell shows
  and the key its column sorts by), \<open>components/StatusDot.tsx\<close>, and the rows of devices without a
  configuration (\<open>UnmanagedRow\<close> of \<open>components/DevicesTab.tsx\<close>). A cell is its visible text with its
  tooltip, link or action; a dash stands for an unknown value.
\<close>

section \<open>Status dots\<close>

datatype dot_status = DotOnline | DotOffline | DotChecking | DotPaused | DotUpgrading | DotArchived

definition dot_class :: "dot_status \<Rightarrow> string" where
  "dot_class st =
    (if st = DotChecking then ''dot dot-checking''
     else if st = DotUpgrading then ''dot dot-upgrading''
     else if st = DotOnline then ''dot dot-online''
     else if st = DotArchived then ''dot dot-archived''
     else ''dot dot-offline'')"

definition dot_text :: "dot_status \<Rightarrow> string option \<Rightarrow> string" where
  "dot_text st label = nullish label
    (if st = DotChecking then ''Checking...''
     else if st = DotUpgrading then ''Upgrading...''
     else if st = DotOnline then ''Online''
     else if st = DotPaused then ''Paused''
     else if st = DotArchived then ''Archived''
     else ''Offline'')"

record status_dot =
  sd_class :: string
  sd_text :: string
  sd_muted :: bool

definition statusDot :: "dot_status \<Rightarrow> string option \<Rightarrow> status_dot" where
  "statusDot st label = \<lparr>sd_class = dot_class st, sd_text = dot_text st label, sd_muted = st \<in> {DotPaused, DotArchived}\<rparr>"

section \<open>Texts\<close>

fun formatNetworkType :: "network_type option \<Rightarrow> string option" where
  "formatNetworkType (Some Wifi) = Some ''WiFi''"
| "formatNetworkType (Some Ethernet) = Some ''Ethernet''"
| "formatNetworkType (Some Thread) = Some ''Thread''"
| "formatNetworkType None = None"

fun network_string :: "network_type \<Rightarrow> string" where
  "network_string Wifi = ''wifi''"
| "network_string Ethernet = ''ethernet''"
| "network_string Thread = ''thread''"

fun formatAddressSource :: "address_source option \<Rightarrow> string option" where
  "formatAddressSource (Some Mdns) = Some ''via mDNS''"
| "formatAddressSource (Some WifiUseAddress) = Some ''wifi.use_address''"
| "formatAddressSource (Some EthernetUseAddress) = Some ''ethernet.use_address''"
| "formatAddressSource (Some OpenthreadUseAddress) = Some ''openthread.use_address''"
| "formatAddressSource (Some WifiStaticIp) = Some ''wifi static_ip''"
| "formatAddressSource (Some EthernetStaticIp) = Some ''ethernet static_ip''"
| "formatAddressSource (Some Arp) = Some ''via ARP''"
| "formatAddressSource (Some MdnsDefault) = None"
| "formatAddressSource None = None"

section \<open>Cells\<close>

record name_cell =
  nc_name :: string
  nc_archived_title :: "string option"
  nc_recurring_title :: "string option"
  nc_once_title :: "string option"
  nc_uncommitted :: "config_action option"
  nc_filename :: string

definition device_name_cell :: "int \<Rightarrow> target \<Rightarrow> name_cell" where
  "device_name_cell now t =
    \<lparr>nc_name = str_or (t_friendly_name t) (str_or (t_device_name t) (stripYaml (Some (t_target t)))),
     nc_archived_title =
       (if truthy_bool (t_archived t)
        then Some (if truthy_num (t_archived_at t) then ''Archived '' @ fmtEpochRelative now (t_archived_at t) else ''Archived'')
        else None),
     nc_recurring_title =
       (if truthy_str (t_schedule t) \<and> truthy_bool (t_schedule_enabled t)
        then Some (''Recurring schedule: '' @ the (t_schedule t)) else None),
     nc_once_title = (if truthy_str (t_schedule_once t) then Some (''One-time schedule: '' @ the (t_schedule_once t)) else None),
     nc_uncommitted = (if truthy_bool (t_has_uncommitted_changes t) then Some (ConfigHistory (t_target t)) else None),
     nc_filename = stripYaml (Some (t_target t))\<rparr>"

text \<open>The tags with the target whose editor a click opens, if it does.\<close>

definition tags_cell :: "target \<Rightarrow> string list \<times> string option" where
  "tags_cell t = (parseTags (t_tags t), if truthy_bool (t_archived t) then None else Some (t_target t))"

definition status_key :: "(string \<Rightarrow> job option) \<Rightarrow> target \<Rightarrow> string" where
  "status_key activeJobs row =
    (if truthy_bool (t_archived row) then ''e-archived''
     else if activeJobs (t_target row) \<noteq> None then ''a-upgrading''
     else case t_online row of
       None \<Rightarrow> ''b-unknown''
     | Some online \<Rightarrow> if online then ''c-online'' else ''d-offline'')"

text \<open>The dot, its tooltip and the time last seen.\<close>

definition status_view ::
  "(string \<Rightarrow> int option) \<Rightarrow> int \<Rightarrow> (string \<Rightarrow> job option) \<Rightarrow> target \<Rightarrow> status_dot \<times> string option \<times> string option" where
  "status_view to_ms now activeJobs t =
    (let lastSeen = (if truthy_str (t_last_seen t) then Some (timeAgo now (to_ms (the (t_last_seen t)))) else None) in
     if truthy_bool (t_archived t) then (statusDot DotArchived None, None, None)
     else case activeJobs (t_target t) of
       Some job \<Rightarrow>
        (let statusText = str_or (j_status_text job)
               (if j_state job = ''pending'' then ''Pending'' @ ellipsis else ''Compiling'' @ ellipsis)
         in (statusDot DotUpgrading (Some statusText), Some statusText, None))
     | None \<Rightarrow>
        (case t_online t of
           None \<Rightarrow> (statusDot DotChecking None, None, None)
         | Some online \<Rightarrow> (statusDot (if online then DotOnline else DotOffline) None, None, lastSeen)))"

text \<open>\<^const>\<open>None\<close> is the dash, otherwise \<open>Yes\<close> with its link.\<close>

definition ha_cell :: "browser_window option \<Rightarrow> bool option \<Rightarrow> string option \<Rightarrow> string option option" where
  "ha_cell win configured deviceId =
    (if \<not> truthy_bool configured then None
     else if truthy_str deviceId then Some (haDeepLink win (''/config/devices/device/'' @ the deviceId))
     else Some None)"

text \<open>The text, the link and the label of the address source.\<close>

definition ip_cell :: "bool \<Rightarrow> target \<Rightarrow> string \<times> string option \<times> string option" where
  "ip_cell streamerMode t =
    (if \<not> streamerMode \<and> truthy_bool (t_has_web_server t) \<and> truthy_bool (t_online t) \<and> truthy_str (t_ip_address t)
     then (the (t_ip_address t), Some (''http://'' @ the (t_ip_address t)), formatAddressSource (t_address_source t))
     else (str_or (t_ip_address t) em_dash, None, formatAddressSource (t_address_source t)))"

definition net_key :: "target \<Rightarrow> string" where
  "net_key row =
    (case t_network_type row of None \<Rightarrow> ''zzz'' | Some n \<Rightarrow> network_string n) @ ''-''
      @ (if truthy_bool (t_network_static_ip row) then ''0'' else ''1'') @ ''-''
      @ (if truthy_bool (t_network_matter row) then ''0'' else ''1'')"

text \<open>The label with its marks, and the tooltip; \<^const>\<open>None\<close> is the dash.\<close>

definition net_cell :: "target \<Rightarrow> (string \<times> string) option" where
  "net_cell t =
    (case formatNetworkType (t_network_type t) of
       None \<Rightarrow> None
     | Some label \<Rightarrow>
        (let facts = [label, if truthy_bool (t_network_static_ip t) then ''Static'' else ''DHCP'']
               @ (if truthy_bool (t_network_ipv6 t) then [''IPv6''] else [])
               @ (if truthy_bool (t_network_ap_fallback t) then [''AP fallback''] else [])
               @ (if truthy_bool (t_network_matter t) then [''Matter''] else [])
         in Some (label @ (if truthy_bool (t_network_static_ip t) then middot @ ''S'' else [])
                   @ (if truthy_bool (t_network_matter t) then middot @ ''M'' else []),
                 join_with ('' '' @ middot @ '' '') facts)))"

definition ipconfig_key :: "target \<Rightarrow> string" where
  "ipconfig_key row =
    (if t_network_type row = None then []
     else (if truthy_bool (t_network_static_ip row) then ''static'' else ''dhcp'') @ ''-''
       @ (if truthy_bool (t_network_ipv6 row) then ''6'' else ''4''))"

definition ipconfig_cell :: "target \<Rightarrow> string option" where
  "ipconfig_cell t =
    (if t_network_type t = None then None
     else Some ((if truthy_bool (t_network_static_ip t) then ''Static'' else ''DHCP'')
       @ (if truthy_bool (t_network_ipv6 t) then middot @ '' IPv6'' else [])))"

text \<open>Chip family, board and tooltip.\<close>

definition esp_cell :: "target \<Rightarrow> (string \<times> string option \<times> string) option" where
  "esp_cell t =
    (if \<not> truthy_str (t_esp_type t) then None
     else let esp = the (t_esp_type t) in
       if truthy_str (t_board t)
       then Some (esp, t_board t, ''Chip family + PlatformIO board from the resolved YAML: '' @ esp @ '' on '' @ the (t_board t))
       else Some (esp, None, ''Chip family from the resolved YAML: '' @ esp))"

definition ble_key :: "target \<Rightarrow> string" where
  "ble_key row =
    (case t_bluetooth_proxy row of None \<Rightarrow> ''off'' | Some BtOff \<Rightarrow> ''off'' | Some BtPassive \<Rightarrow> ''passive'' | Some BtActive \<Rightarrow> ''active'')"

definition ble_cell :: "target \<Rightarrow> string option" where
  "ble_cell t =
    (case t_bluetooth_proxy t of
       None \<Rightarrow> None | Some BtOff \<Rightarrow> None | Some BtPassive \<Rightarrow> Some ''Passive'' | Some BtActive \<Rightarrow> Some ''Active'')"

record schedule_cell =
  sc_cron :: "string option"
  sc_paused :: bool
  sc_once :: "string option"
  sc_title :: string

definition bullet :: string where "bullet = [CHR 0xE2, CHR 0x80, CHR 0xA2]"

definition schedule_view :: "platform \<Rightarrow> (string \<Rightarrow> rat) \<Rightarrow> target \<Rightarrow> schedule_cell option" where
  "schedule_view pf to_ms t =
    (if \<not> truthy_str (t_schedule t) \<and> \<not> truthy_str (t_schedule_once t) then None
     else
       (let enabled = (t_schedule_enabled t \<noteq> Some False);
            tzLabel = '' ('' @ str_or (t_schedule_tz t) ''UTC'' @ '')'';
            cronHuman = (if truthy_str (t_schedule t) then formatCronHuman (t_schedule t) else None);
            onceWhen = (if truthy_str (t_schedule_once t)
                        then Some (pf_string pf (pf_local pf (to_ms (the (t_schedule_once t)))) no_opts) else None);
            titleParts =
              (if truthy_str (t_schedule t)
               then [the (t_schedule t) @ tzLabel @ (if enabled then [] else '' (paused)'')] else [])
              @ (if truthy_str (t_schedule_once t) then [''One-time: '' @ the (t_schedule_once t)] else [])
        in Some \<lparr>sc_cron = (if truthy_str cronHuman then cronHuman else None), sc_paused = (\<not> enabled),
                 sc_once = (if truthy_str onceWhen then onceWhen else None),
                 sc_title = join_with ('' '' @ bullet @ '' '') titleParts @ '' '' @ em_dash @ '' click to edit''\<rparr>))"

definition last_compiled_key :: "target \<Rightarrow> rat" where
  "last_compiled_key row = (case t_last_compile row of None \<Rightarrow> 0 | Some lc \<Rightarrow> lc_at lc)"

fun final_string :: "final_state \<Rightarrow> string" where
  "final_string FinSuccess = ''success''"
| "final_string FinFailed = ''failed''"
| "final_string FinCancelled = ''cancelled''"
| "final_string FinTimedOut = ''timed_out''"

text \<open>The text, the badge and the tooltip.\<close>

definition last_compiled_cell :: "platform \<Rightarrow> fmt_prefs \<Rightarrow> int \<Rightarrow> target \<Rightarrow> (string \<times> badge option \<times> string) option" where
  "last_compiled_cell pf st now t =
    (case t_last_compile t of
       None \<Rightarrow> None
     | Some lc \<Rightarrow>
        (let fromDevice = (lc_source lc = FromDevice);
             bdg = (if fromDevice then None
                    else Some (getJobBadge \<lparr>j_state = final_string (lc_state lc), j_ota_result = lc_ota_result lc,
                      j_validate_only = Some (lc_validate_only lc), j_download_only = Some (lc_download_only lc),
                      j_server_ota = None, j_ota_only = None, j_status_text = None\<rparr>));
             rel = fmtEpochRelative now (Some (lc_at lc));
             iso = fmtEpochAbsolute pf st (Some (lc_at lc))
         in Some (if fromDevice then ''~'' @ rel else rel, bdg,
               if fromDevice then iso @ '' '' @ em_dash @ '' reported by the device'' @ [CHR 39] @ ''s running firmware (no compile history on this server)''
               else iso @ '' '' @ middot @ '' '' @ final_string (lc_state lc)
                 @ (if truthy_str (lc_ota_result lc) then '' / ota='' @ the (lc_ota_result lc) else []))))"

text \<open>The version, the pin's tooltip and the drift note's tooltip.\<close>

definition running_cell :: "target \<Rightarrow> string \<times> string option \<times> string option option" where
  "running_cell t =
    (str_or (t_running_version t) em_dash,
     (if truthy_str (t_pinned_version t) then Some (''Pinned ESPHome version: '' @ the (t_pinned_version t)) else None),
     (if hasDriftedConfig t then Some (driftTooltip t) else None))"

definition project_text :: "target \<Rightarrow> string" where
  "project_text row =
    (if truthy_str (t_project_name row)
     then (if truthy_str (t_project_version row) then the (t_project_name row) @ '' '' @ the (t_project_version row)
           else the (t_project_name row))
     else [])"

text \<open>The key of each column sorted by text, by its column id.\<close>

definition sort_key :: "(string \<Rightarrow> job option) \<Rightarrow> string \<Rightarrow> target \<Rightarrow> string option" where
  "sort_key activeJobs c row =
    map_of
      [(''device'', stripYaml (Some (t_target row))),
       (''status'', status_key activeJobs row),
       (''ha'', if truthy_bool (t_ha_configured row) then ''yes'' else []),
       (''ip'', str_or (t_ip_address row) []),
       (''mac'', str_or (t_mac_address row) []),
       (''net'', net_key row),
       (''ipconfig'', ipconfig_key row),
       (''ap'', if truthy_bool (t_network_ap_fallback row) then ''yes'' else []),
       (''esp'', str_or (t_esp_type row) []),
       (''ble'', ble_key row),
       (''schedule'', str_or (t_schedule row) (str_or (t_schedule_once row) [])),
       (''running'', str_or (t_running_version row) []),
       (''area'', str_or (t_area row) []),
       (''comment'', str_or (t_comment row) []),
       (''project'', project_text row)] c"

section \<open>Column order\<close>

text \<open>The columns in the order of the definition, and the cells \<open>UnmanagedRow\<close> draws.\<close>

definition TABLE_COLUMNS :: "string list" where
  "TABLE_COLUMNS =
    [''select'', ''device'', ''tags'', ''status'', ''ha'', ''ip'', ''mac'', ''net'', ''ipconfig'', ''ap'', ''esp'', ''ble'',
     ''schedule'', ''last_compiled'', ''running'', ''area'', ''comment'', ''project'', ''actions'']"

definition always_shown :: "string \<Rightarrow> bool" where
  "always_shown c \<longleftrightarrow> c \<in> set [''select'', ''device'', ''actions'']"

definition header_columns :: "(string \<Rightarrow> bool) \<Rightarrow> string list" where
  "header_columns isVisible = filter (\<lambda>c. always_shown c \<or> isVisible c) TABLE_COLUMNS"

definition unmanaged_columns :: "(string \<Rightarrow> bool) \<Rightarrow> string list" where
  "unmanaged_columns isVisible =
    [''select'', ''device'']
    @ filter isVisible [''tags'', ''status'', ''ha'', ''ip'', ''net'', ''ipconfig'', ''ap'', ''schedule'', ''running'',
        ''area'', ''comment'', ''project'']
    @ [''actions'']"

text \<open>The status, Home Assistant and address cells of such a row.\<close>

definition unmanaged_status :: "device \<Rightarrow> status_dot" where
  "unmanaged_status d = (if truthy_bool (d_online d) then statusDot DotOnline None else statusDot DotOffline None)"

definition unmanaged_ip :: "device \<Rightarrow> string \<times> string option" where
  "unmanaged_ip d =
    (let sourceLabel = formatAddressSource (d_address_source d) in
     (str_or (d_ip_address d) em_dash,
      if truthy_str sourceLabel \<or> truthy_bool (d_ha_configured d)
      then Some (join_with ('' '' @ middot @ '' '')
             (map the (filter truthy_str [sourceLabel, if truthy_bool (d_ha_configured d) then Some ''in HA'' else None])))
      else None))"

section \<open>Properties\<close>

text \<open>A row without a configuration has the same cells as the header exactly when none of the columns
  for MAC, platform, BLE proxy and last compilation is shown; otherwise its later cells stand under
  the wrong headings.\<close>
theorem unmanaged_row_aligned_iff:
  "unmanaged_columns isVisible = header_columns isVisible
     \<longleftrightarrow> \<not> list_ex isVisible [''mac'', ''esp'', ''ble'', ''last_compiled'']"
proof -
  have len: "length (header_columns isVisible) = length (unmanaged_columns isVisible)
      + length (filter isVisible [''mac'', ''esp'', ''ble'', ''last_compiled''])"
    by (simp add: header_columns_def unmanaged_columns_def TABLE_COLUMNS_def always_shown_def)
  show ?thesis
  proof
    assume "unmanaged_columns isVisible = header_columns isVisible"
    with len have "filter isVisible [''mac'', ''esp'', ''ble'', ''last_compiled''] = []" by simp
    then show "\<not> list_ex isVisible [''mac'', ''esp'', ''ble'', ''last_compiled'']"
      by (simp split: if_splits)
  next
    assume "\<not> list_ex isVisible [''mac'', ''esp'', ''ble'', ''last_compiled'']"
    then show "unmanaged_columns isVisible = header_columns isVisible"
      by (simp add: header_columns_def unmanaged_columns_def TABLE_COLUMNS_def always_shown_def)
  qed
qed

text \<open>Sorting by status groups the rows as they are shown: two rows have the same status key exactly
  when their dots have the same class, whatever the queue and the poll say.\<close>
theorem status_key_matches_dot:
  "status_key activeJobs a = status_key activeJobs b
     \<longleftrightarrow> sd_class (fst (status_view to_ms now activeJobs a)) = sd_class (fst (status_view to_ms now activeJobs b))"
proof -
  define cls where "cls = (\<lambda>t. fst (status_view to_ms now activeJobs t))"
  have k: "(status_key activeJobs t, sd_class (cls t)) \<in>
      set [(''e-archived'', ''dot dot-archived''), (''a-upgrading'', ''dot dot-upgrading''), (''b-unknown'', ''dot dot-checking''),
           (''c-online'', ''dot dot-online''), (''d-offline'', ''dot dot-offline'')]" for t
    by (simp add: cls_def status_key_def status_view_def statusDot_def dot_class_def Let_def split: option.split)
  show ?thesis using k [of a] k [of b] unfolding cls_def by auto
qed

end
