(* ===== verification/Devices_Tab.thy ===== *)
theory Devices_Tab
  imports Device_Columns
begin

text \<open>
  The Devices tab (\<open>components/DevicesTab.tsx\<close>): the stored choice of columns, the devices without a
  configuration, the tag pool and the filters, the order of the rows, the bulk upgrade menu and the
  pickers. \<open>localStorage\<close> holds parsed JSON values here, so \<open>JSON.parse\<close> of what \<open>JSON.stringify\<close>
  wrote is that value. \<open>localeCompare\<close> is an argument; the order theorems ask of it what
  \<open>js_comparator\<close> states.
\<close>

section \<open>Choice of columns\<close>

definition OPTIONAL_COLUMNS :: "(string \<times> bool) list" where
  "OPTIONAL_COLUMNS =
    [(''tags'', True), (''status'', True), (''ha'', True), (''ip'', True), (''mac'', False), (''net'', True),
     (''ipconfig'', False), (''ap'', False), (''esp'', False), (''ble'', False), (''schedule'', True),
     (''last_compiled'', False), (''running'', True), (''area'', False), (''comment'', False), (''project'', False)]"

definition default_columns :: "(string \<times> bool) list \<Rightarrow> (string \<times> bool) list" where
  "default_columns columns = columns"

definition stored_choice :: "(string \<times> bool) list \<Rightarrow> json list \<Rightarrow> json list \<Rightarrow> (string \<times> bool) list" where
  "stored_choice columns known visible =
    map (\<lambda>(c, d). (c, if JStr c \<in> set known then JStr c \<in> set visible else d)) columns"

text \<open>\<open>loadColumnVisibility\<close>, given what the storage holds; every malformed value gives the defaults.\<close>

definition loadColumnVisibility :: "(string \<times> bool) list \<Rightarrow> json option \<Rightarrow> (string \<times> bool) list" where
  "loadColumnVisibility columns stored =
    (case stored of
       Some (JArr xs) \<Rightarrow> stored_choice columns xs xs
     | Some (JObj entries) \<Rightarrow>
        (case map_of entries ''known'' of
           Some (JArr known) \<Rightarrow>
            (case map_of entries ''visible'' of
               Some (JArr visible) \<Rightarrow> stored_choice columns known visible
             | None \<Rightarrow> stored_choice columns known []
             | Some JNull \<Rightarrow> stored_choice columns known []
             | Some (JStr s) \<Rightarrow> stored_choice columns known (map (\<lambda>ch. JStr [ch]) s)
             | _ \<Rightarrow> default_columns columns)
         | _ \<Rightarrow> default_columns columns)
     | _ \<Rightarrow> default_columns columns)"

definition saveColumnVisibility :: "(string \<times> bool) list \<Rightarrow> (string \<Rightarrow> bool option) \<Rightarrow> json" where
  "saveColumnVisibility columns state =
    JObj [(''known'', JArr (map (\<lambda>(c, _). JStr c) columns)),
          (''visible'', JArr (map (\<lambda>(c, _). JStr c) (filter (\<lambda>(c, _). state c \<noteq> Some False) columns)))]"

section \<open>Devices without a configuration\<close>

text \<open>The second \<open>replace\<close> of the source looks for spaces the first one has already replaced.\<close>

definition replace_char :: "char \<Rightarrow> char \<Rightarrow> string \<Rightarrow> string" where
  "replace_char a b s = map (\<lambda>c. if c = a then b else c) s"

definition managed_names_of :: "target \<Rightarrow> string list" where
  "managed_names_of t =
    (if truthy_str (t_device_name t)
     then [replace_char (CHR '' '') (CHR ''_'') (replace_char (CHR '' '') (CHR ''-'') (to_lower (the (t_device_name t))))]
     else []) @ [to_lower (stripYaml (Some (t_target t)))]"

definition managedDeviceNames :: "target list \<Rightarrow> string set" where
  "managedDeviceNames targets = set (concat (map managed_names_of targets))"

definition managedIPs :: "target list \<Rightarrow> string set" where
  "managedIPs targets = {the (t_ip_address t) | t. t \<in> set targets \<and> truthy_str (t_ip_address t)}"

definition is_unmanaged :: "target list \<Rightarrow> device \<Rightarrow> bool" where
  "is_unmanaged targets d \<longleftrightarrow>
    \<not> truthy_str (d_compile_target d)
    \<and> to_lower (d_name d) \<notin> managedDeviceNames targets
    \<and> \<not> (truthy_str (d_ip_address d)
         \<and> list_ex (\<lambda>t. truthy_str (t_ip_address t) \<and> t_ip_address t = d_ip_address d) targets)"

definition unmanaged :: "(string \<Rightarrow> string \<Rightarrow> int) \<Rightarrow> target list \<Rightarrow> device list \<Rightarrow> device list" where
  "unmanaged localeCompare targets devices =
    sort_by (\<lambda>a b. localeCompare (d_name a) (d_name b)) (filter (is_unmanaged targets) devices)"

section \<open>Tags and filters\<close>

text \<open>The tags of a row as the filters split them: unlike \<open>parseTags\<close>, repeats are kept.\<close>

definition split_tags :: "string option \<Rightarrow> string list" where
  "split_tags s = filter (\<lambda>x. x \<noteq> []) (map trim (split_on (CHR '','') (str_or s [])))"

fun count_tag :: "string \<Rightarrow> tag_count list \<Rightarrow> tag_count list" where
  "count_tag x [] = [\<lparr>tc_tag = x, tc_count = 1\<rparr>]"
| "count_tag x (c # cs) = (if tc_tag c = x then c\<lparr>tc_count := tc_count c + 1\<rparr> # cs else c # count_tag x cs)"

definition shown_tags :: "bool \<Rightarrow> target list \<Rightarrow> string list" where
  "shown_tags showArchived targets =
    concat (map (\<lambda>t. if truthy_bool (t_archived t) \<and> \<not> showArchived then []
                     else if truthy_str (t_tags t) then split_tags (t_tags t) else []) targets)"

definition tagPool :: "(string \<Rightarrow> string \<Rightarrow> int) \<Rightarrow> bool \<Rightarrow> target list \<Rightarrow> tag_count list" where
  "tagPool localeCompare showArchived targets =
    sort_by (\<lambda>a b. localeCompare (tc_tag a) (tc_tag b)) (fold count_tag (shown_tags showArchived targets) [])"

definition matchesFilter :: "string \<Rightarrow> string option list \<Rightarrow> bool" where
  "matchesFilter flt texts =
    (if flt = [] then True
     else list_ex (\<lambda>f. case f of None \<Rightarrow> False | Some s \<Rightarrow> includes_str (to_lower s) (to_lower flt)) texts)"

definition online_word :: "bool option \<Rightarrow> string" where
  "online_word o' = (case o' of None \<Rightarrow> ''unknown'' | Some b \<Rightarrow> if b then ''online'' else ''offline'')"

definition search_fields :: "target \<Rightarrow> string option list" where
  "search_fields t =
    [t_friendly_name t, t_device_name t, Some (stripYaml (Some (t_target t))), Some (t_target t), Some (online_word (t_online t)),
     t_ip_address t, t_running_version t, t_area t, t_comment t, t_project_name t, t_tags t]"

record table_filter =
  tf_text :: string
  tf_tags :: "string list"
  tf_archived :: bool

definition row_shown :: "table_filter \<Rightarrow> target \<Rightarrow> bool" where
  "row_shown v t \<longleftrightarrow>
    (tf_archived v \<or> \<not> truthy_bool (t_archived t))
    \<and> list_all (\<lambda>x. x \<in> set (split_tags (t_tags t))) (tf_tags v)
    \<and> matchesFilter (tf_text v) (search_fields t)"

text \<open>\<open>filteredTargets\<close>, with its steps in the order of the code.\<close>

definition filteredTargets :: "(string \<Rightarrow> string \<Rightarrow> int) \<Rightarrow> table_filter \<Rightarrow> target list \<Rightarrow> target list" where
  "filteredTargets localeCompare v targets =
    (let visible = (if tf_archived v then targets else filter (\<lambda>t. \<not> truthy_bool (t_archived t)) targets);
         sorted = sort_by (\<lambda>a b. localeCompare (t_target a) (t_target b)) visible;
         tagged = (if tf_tags v = [] then sorted
                   else filter (\<lambda>t. list_all (\<lambda>x. x \<in> set (split_tags (t_tags t))) (tf_tags v)) sorted)
     in if tf_text v = [] then tagged
        else filter (\<lambda>t. matchesFilter (tf_text v) (search_fields t)) tagged)"

definition unmanaged_fields :: "device \<Rightarrow> string option list" where
  "unmanaged_fields d =
    [Some (d_name d), Some (stripYaml (Some (d_name d))), Some (if truthy_bool (d_online d) then ''online'' else ''offline''),
     d_ip_address d, d_running_version d]"

definition filteredUnmanaged ::
  "(string \<Rightarrow> string \<Rightarrow> int) \<Rightarrow> table_filter \<Rightarrow> target list \<Rightarrow> device list \<Rightarrow> device list" where
  "filteredUnmanaged localeCompare v targets devices =
    (if tf_tags v \<noteq> [] then []
     else if tf_text v = [] then unmanaged localeCompare targets devices
     else filter (\<lambda>d. matchesFilter (tf_text v) (unmanaged_fields d)) (unmanaged localeCompare targets devices))"

text \<open>The rows of the table body: active ones as sorted, archived ones by archiving time, newest first.\<close>

definition table_rows :: "target list \<Rightarrow> target list" where
  "table_rows allRows =
    filter (\<lambda>t. \<not> truthy_bool (t_archived t)) allRows
    @ sort_by (\<lambda>a b. sign (nullish (t_archived_at b) 0 - nullish (t_archived_at a) 0))
        (filter (\<lambda>t. truthy_bool (t_archived t)) allRows)"

section \<open>Bulk upgrades\<close>

datatype upgrade_menu = UpgradeAll | UpgradeOnline | UpgradeOutdated | UpgradeChanged

fun menu_predicate :: "upgrade_menu \<Rightarrow> target \<Rightarrow> bool" where
  "menu_predicate UpgradeAll t \<longleftrightarrow> \<not> truthy_bool (t_archived t)"
| "menu_predicate UpgradeOnline t \<longleftrightarrow> \<not> truthy_bool (t_archived t) \<and> t_online t \<noteq> Some False"
| "menu_predicate UpgradeOutdated t \<longleftrightarrow> \<not> truthy_bool (t_archived t) \<and> truthy_bool (t_needs_update t)"
| "menu_predicate UpgradeChanged t \<longleftrightarrow> \<not> truthy_bool (t_archived t) \<and> hasDriftedConfig t"

fun menu_word :: "upgrade_menu \<Rightarrow> string" where
  "menu_word UpgradeAll = ''all''"
| "menu_word UpgradeOnline = ''online''"
| "menu_word UpgradeOutdated = ''outdated''"
| "menu_word UpgradeChanged = ''changed''"

definition menu_label :: "upgrade_menu \<Rightarrow> nat \<Rightarrow> string" where
  "menu_label m n =
    (if m = UpgradeAll then ''all '' @ show_nat n @ '' device'' @ plural n
     else show_nat n @ '' '' @ menu_word m @ '' device'' @ plural n)"

text \<open>Whether the item is enabled, and the targets and name a click hands to \<open>onUpgradeMany\<close>.\<close>

definition upgrade_item :: "upgrade_menu \<Rightarrow> target list \<Rightarrow> bool \<times> (string list \<times> string) option" where
  "upgrade_item m targets =
    (let names = map t_target (filter (menu_predicate m) targets) in
     (list_ex (menu_predicate m) targets,
      if 0 < length names then Some (names, menu_label m (length names)) else None))"

text \<open>The selected rows the table still has, in its order.\<close>

definition selectedTargets :: "(string \<Rightarrow> bool) \<Rightarrow> target list \<Rightarrow> string list" where
  "selectedTargets rowSelection rows = filter rowSelection (map t_target rows)"

definition handleUpgradeSelected :: "string list \<Rightarrow> (string list \<times> string) option" where
  "handleUpgradeSelected selected =
    (if length selected = 0 then None
     else Some (selected, show_nat (length selected) @ '' selected device'' @ plural (length selected)))"

section \<open>Pickers\<close>

text \<open>The rows of the duplicate picker: the label, the file and what a click duplicates.\<close>

definition duplicate_rows :: "(string \<Rightarrow> string \<Rightarrow> int) \<Rightarrow> target list \<Rightarrow> (string \<times> string) list" where
  "duplicate_rows localeCompare targets =
    map (\<lambda>t. (str_or (t_friendly_name t) (str_or (t_device_name t) (t_target t)), t_target t))
      (sort_by (\<lambda>a b. localeCompare (str_or (t_friendly_name a) (t_target a)) (str_or (t_friendly_name b) (t_target b))) targets)"

text \<open>The tags dialog: subject, initial tags and suggestions; \<open>onSave\<close> sends \<^const>\<open>None\<close> for no tags.\<close>

definition tags_dialog_props :: "target list \<Rightarrow> worker list \<Rightarrow> string \<Rightarrow> (string \<times> string list \<times> string list) option" where
  "tags_dialog_props targets workers f =
    (case find_target f targets of
       None \<Rightarrow> None
     | Some t \<Rightarrow> Some (''Device '' @ stripYaml (Some (t_target t)), split_tags (t_tags t),
         sorted_pool (concat (map (\<lambda>dt. if truthy_str (t_tags dt) then split_tags (t_tags dt) else []) targets)
           @ concat (map (\<lambda>w. nullish (w_tags w) []) workers))))"

definition onSave_tags :: "(string \<times> string option \<Rightarrow> string option) \<Rightarrow> string \<Rightarrow> string list \<Rightarrow> string + ui_effect list" where
  "onSave_tags answer f tags =
    (case answer (f, tags_value tags) of
       Some err \<Rightarrow> Inl err
     | None \<Rightarrow> Inr [Refresh, Toast (''Saved tags for '' @ stripYaml (Some f)) ToastKindSuccess])"

section \<open>Lemmas\<close>

lemma split_tags_trimmed: "x \<in> set (split_tags s) \<Longrightarrow> x \<noteq> []"
  by (auto simp: split_tags_def)

lemma set_count_tag: "tc_tag ` set (count_tag x cs) = insert x (tc_tag ` set cs)"
  by (induction x cs rule: count_tag.induct) auto

lemma distinct_count_tag:
  "distinct (map tc_tag cs) \<Longrightarrow> distinct (map tc_tag (count_tag x cs))"
proof (induction x cs rule: count_tag.induct)
  case (2 x c cs)
  then show ?case by (auto simp: set_count_tag)
qed simp

lemma count_tag_counts:
  assumes "distinct (map tc_tag cs)"
  shows "map_of (map (\<lambda>c. (tc_tag c, tc_count c)) (count_tag x cs)) y =
    (if y = x then Some (nullish (map_of (map (\<lambda>c. (tc_tag c, tc_count c)) cs) x) 0 + 1)
     else map_of (map (\<lambda>c. (tc_tag c, tc_count c)) cs) y)"
  using assms by (induction x cs rule: count_tag.induct) auto

lemma fold_count_tag:
  assumes "distinct (map tc_tag cs)"
  shows "distinct (map tc_tag (fold count_tag xs cs))
    \<and> map_of (map (\<lambda>c. (tc_tag c, tc_count c)) (fold count_tag xs cs)) y =
       (case map_of (map (\<lambda>c. (tc_tag c, tc_count c)) cs) y of
          None \<Rightarrow> if y \<in> set xs then Some (count_list xs y) else None
        | Some n \<Rightarrow> Some (n + count_list xs y))"
  using assms
proof (induction xs arbitrary: cs)
  case (Cons x xs)
  have "distinct (map tc_tag (count_tag x cs))" using Cons.prems by (rule distinct_count_tag)
  from Cons.IH [OF this] show ?case
    by (auto simp: count_tag_counts [OF Cons.prems] split: option.splits)
qed (auto split: option.splits)

lemma tagPool_tags: "tc_tag ` set (tagPool lc showArchived targets) = set (shown_tags showArchived targets)"
proof -
  have "tc_tag ` set (fold count_tag xs cs) = set xs \<union> tc_tag ` set cs" for xs cs
    by (induction xs arbitrary: cs) (auto simp: set_count_tag)
  then show ?thesis by (simp add: tagPool_def)
qed

lemma filteredTargets_set: "set (filteredTargets lc v targets) = {t \<in> set targets. row_shown v t}"
  by (auto simp: filteredTargets_def row_shown_def Let_def matchesFilter_def)

lemma length_filter_insert: "length (filter p (insert_by cmp x ys)) = length (filter p (x # ys))"
  by (induction ys) auto

lemma length_filter_sort: "length (filter p (sort_by cmp xs)) = length (filter p xs)"
  by (induction xs) (simp_all add: sort_by_def length_filter_insert)

lemma row_shown_tag:
  assumes "row_shown v t" "x \<in> set (tf_tags v)" "t \<in> set targets"
  shows "x \<in> set (shown_tags (tf_archived v) targets)"
proof -
  have x: "x \<in> set (split_tags (t_tags t))" using assms(1,2) by (auto simp: row_shown_def list_all_iff)
  then have "truthy_str (t_tags t)"
    by (cases "t_tags t") (auto simp: split_tags_def str_or_def truthy_str_def split: if_splits)
  moreover have "\<not> (truthy_bool (t_archived t) \<and> \<not> tf_archived v)" using assms(1) by (auto simp: row_shown_def)
  ultimately show ?thesis using x assms(3) by (force simp: shown_tags_def)
qed

section \<open>Properties\<close>

text \<open>The choice of columns survives a reload and an update: what one version saved, a version with any
  other list of columns reads back exactly for the columns the saving one had, while a column it did
  not have starts at its own default.\<close>
theorem columns_choice_survives:
  "loadColumnVisibility new (Some (saveColumnVisibility old state)) =
     map (\<lambda>(c, d). (c, if c \<in> fst ` set old then state c \<noteq> Some False else d)) new"
  by (force simp: loadColumnVisibility_def saveColumnVisibility_def stored_choice_def case_prod_unfold image_iff)

text \<open>The table shows exactly the devices that pass all filters (archived ones only when asked for,
  every selected tag, the search text), each as often as it is listed, ordered by file name.\<close>
theorem filtered_rows_exact:
  assumes "js_comparator lc"
  shows "set (filteredTargets lc v targets) = {t \<in> set targets. row_shown v t}
    \<and> length (filteredTargets lc v targets) = length (filter (row_shown v) targets)
    \<and> sorted_wrt (\<lambda>a b. lc (t_target a) (t_target b) \<le> 0) (filteredTargets lc v targets)"
proof -
  let ?cmp = "\<lambda>a b. lc (t_target a) (t_target b)"
  have cmp: "js_comparator ?cmp" using assms by (simp add: js_comparator_def) blast
  define vis where "vis = filter (\<lambda>t. tf_archived v \<or> \<not> truthy_bool (t_archived t)) targets"
  define p where "p = (\<lambda>t. list_all (\<lambda>x. x \<in> set (split_tags (t_tags t))) (tf_tags v) \<and> matchesFilter (tf_text v) (search_fields t))"
  have eq: "filteredTargets lc v targets = filter p (sort_by ?cmp vis)"
    by (cases "tf_archived v") (auto simp: filteredTargets_def Let_def vis_def p_def matchesFilter_def intro!: filter_cong)
  have "filter p vis = filter (row_shown v) targets"
    by (auto simp: vis_def p_def row_shown_def intro!: filter_cong)
  then show ?thesis
    using js_comparator.sorted_sort_by [OF cmp, of vis] filteredTargets_set [of lc v targets]
    by (simp add: eq length_filter_sort sorted_wrt_filter)
qed

definition kitchen_lab :: "target list" where
  "kitchen_lab =
    [(bare_target ''lab.yaml'')\<lparr>t_tags := Some ''prod''\<rparr>, bare_target ''kitchen.yaml'',
     (bare_target ''attic.yaml'')\<lparr>t_tags := Some ''old'', t_archived := Some True\<rparr>]"

definition by_length :: "string \<Rightarrow> string \<Rightarrow> int" where
  "by_length a b = int (length a) - int (length b)"

lemma by_length_comparator: "js_comparator by_length"
  by unfold_locales (auto simp: by_length_def)

lemma filtered_rows_witness:
  "set (filteredTargets by_length \<lparr>tf_text = ''LAB'', tf_tags = [''prod''], tf_archived = False\<rparr> kitchen_lab)
     = {t \<in> set kitchen_lab. row_shown \<lparr>tf_text = ''LAB'', tf_tags = [''prod''], tf_archived = False\<rparr> t}"
  using filtered_rows_exact [OF by_length_comparator] by blast

text \<open>A selected tag that no listed device carries any more hides every row, with or without a
  configuration, although the pill bar no longer offers that tag: the selection outlives the tag,
  also across reloads, and when no tag is left the bar with its Clear button is gone too.\<close>
theorem stale_tag_hides_all:
  assumes "x \<in> set (tf_tags v)" and "x \<notin> tc_tag ` set (tagPool lc (tf_archived v) targets)"
  shows "filteredTargets lc v targets = [] \<and> filteredUnmanaged lc v targets devices = []"
proof -
  have "{t \<in> set targets. row_shown v t} = {}"
    using assms row_shown_tag unfolding tagPool_tags by blast
  then have "set (filteredTargets lc v targets) = {}" by (simp only: filteredTargets_set)
  then have "filteredTargets lc v targets = []" by simp
  then show ?thesis using assms(1) by (auto simp: filteredUnmanaged_def)
qed

definition stale_filter :: table_filter where
  "stale_filter = \<lparr>tf_text = [], tf_tags = [''lab''], tf_archived = False\<rparr>"

lemma no_pool: "tagPool by_length False [bare_target ''kitchen.yaml''] = []"
  by code_simp

lemma stale_tag_witness:
  "filteredTargets by_length stale_filter [bare_target ''kitchen.yaml''] = []
   \<and> filter_bar (tagPool by_length False [bare_target ''kitchen.yaml'']) (tf_tags stale_filter) = None"
  using stale_tag_hides_all [of "''lab''" stale_filter by_length "[bare_target ''kitchen.yaml'']"]
  by (simp add: stale_filter_def no_pool filter_bar_def)

text \<open>The pills: every tag of the listed devices once, with the number of its occurrences in their tag
  strings.\<close>
theorem pool_counts:
  "set (tagPool lc showArchived targets) =
     {\<lparr>tc_tag = x, tc_count = count_list (shown_tags showArchived targets) x\<rparr> | x. x \<in> set (shown_tags showArchived targets)}"
proof -
  let ?xs = "shown_tags showArchived targets"
  let ?pool = "fold count_tag ?xs []"
  have d: "distinct (map fst (map (\<lambda>c. (tc_tag c, tc_count c)) ?pool))"
    using fold_count_tag [of "[]" ?xs] by (simp add: comp_def)
  have m: "map_of (map (\<lambda>c. (tc_tag c, tc_count c)) ?pool) y = (if y \<in> set ?xs then Some (count_list ?xs y) else None)" for y
    using fold_count_tag [of "[]" ?xs y] by simp
  have mem: "c \<in> set ?pool \<longleftrightarrow> map_of (map (\<lambda>c. (tc_tag c, tc_count c)) ?pool) (tc_tag c) = Some (tc_count c)" for c :: tag_count
  proof -
    let ?pair = "\<lambda>c :: tag_count. (tc_tag c, tc_count c)"
    have "inj ?pair" by (auto intro!: injI tag_count.equality)
    from inj_image_mem_iff [OF this, of c "set ?pool"] show ?thesis
      unfolding map_of_eq_Some_iff [OF d] set_map by blast
  qed
  have pool: "c \<in> set ?pool \<longleftrightarrow> tc_tag c \<in> set ?xs \<and> tc_count c = count_list ?xs (tc_tag c)" for c :: tag_count
    unfolding mem m by auto
  show ?thesis
  proof (rule set_eqI)
    fix c :: tag_count
    have "c \<in> {\<lparr>tc_tag = x, tc_count = count_list ?xs x\<rparr> | x. x \<in> set ?xs}
        \<longleftrightarrow> tc_tag c \<in> set ?xs \<and> tc_count c = count_list ?xs (tc_tag c)"
      by (cases c) auto
    then show "c \<in> set (tagPool lc showArchived targets)
        \<longleftrightarrow> c \<in> {\<lparr>tc_tag = x, tc_count = count_list ?xs x\<rparr> | x. x \<in> set ?xs}"
      unfolding tagPool_def set_sort_by pool by blast
  qed
qed

text \<open>The bulk upgrade menu: an item is enabled exactly when a click does something, and then it hands
  over exactly the devices its name says, never an archived one.\<close>
theorem upgrade_items_exact:
  "(case upgrade_item m targets of
      (enabled, None) \<Rightarrow> \<not> enabled
    | (enabled, Some (names, label)) \<Rightarrow> enabled \<and> set names = t_target ` {t \<in> set targets. menu_predicate m t})
   \<and> {t \<in> set targets. menu_predicate m t \<and> truthy_bool (t_archived t)} = {}"
proof -
  have "\<not> (menu_predicate m t \<and> truthy_bool (t_archived t))" for t
    by (cases m) auto
  then show ?thesis
    by (auto simp: upgrade_item_def Let_def list_ex_iff filter_empty_conv split: if_splits)
qed

text \<open>Upgrade Selected has no such guard: with archived rows shown and selected it hands them over and
  counts them in the name of the request, though the server will leave them out.\<close>
theorem upgrade_selected_takes_archived:
  "let rows = filteredTargets by_length \<lparr>tf_text = [], tf_tags = [], tf_archived = True\<rparr> kitchen_lab
   in handleUpgradeSelected (selectedTargets (\<lambda>f. f \<in> set [''attic.yaml'', ''lab.yaml'']) rows)
        = Some ([''lab.yaml'', ''attic.yaml''], ''2 selected devices'')"
  by code_simp

text \<open>A discovered device whose name has an underscore where its configuration's name has a space is
  listed a second time, as one without a configuration: the second replacement never finds a space.\<close>
theorem underscore_name_listed_twice:
  "let t = (bare_target ''lr.yaml'')\<lparr>t_device_name := Some ''Living Room''\<rparr>;
       d = \<lparr>d_name = ''living_room'', d_mac_address = None, d_ip_address = None, d_running_version = None,
         d_online = Some True, d_compile_target = None, d_last_seen = None, d_compilation_time = None,
         d_address_source = None, d_ha_configured = None, d_ha_connected = None, d_ha_device_id = None\<rparr>
   in unmanaged by_length [t] [d] = [d]"
  by code_simp

text \<open>The table body: the active rows in the order of the table, then the archived ones by the time they
  were archived, the newest first.\<close>
theorem table_rows_order:
  "filter (\<lambda>t. \<not> truthy_bool (t_archived t)) (table_rows rows) = filter (\<lambda>t. \<not> truthy_bool (t_archived t)) rows
   \<and> (\<exists>arch. table_rows rows = filter (\<lambda>t. \<not> truthy_bool (t_archived t)) rows @ arch
        \<and> set arch = {t \<in> set rows. truthy_bool (t_archived t)}
        \<and> sorted_wrt (\<lambda>a b. nullish (t_archived_at b) 0 \<le> nullish (t_archived_at a) 0) arch)"
proof -
  let ?cmp = "\<lambda>a b. sign (nullish (t_archived_at b) 0 - nullish (t_archived_at a) 0)"
  let ?arch = "sort_by ?cmp (filter (\<lambda>t. truthy_bool (t_archived t)) rows)"
  have "js_comparator ?cmp" by unfold_locales auto
  from js_comparator.sorted_sort_by [OF this]
  have "sorted_wrt (\<lambda>a b. nullish (t_archived_at b) 0 \<le> nullish (t_archived_at a) 0) ?arch" by simp
  moreover have "filter (\<lambda>t. \<not> truthy_bool (t_archived t)) ?arch = []"
    by (auto simp: filter_empty_conv)
  ultimately show ?thesis by (auto simp: table_rows_def)
qed

end
