(* ===== verification/Workers_Tab.thy ===== *)
theory Workers_Tab
  imports Devices_Tab
begin

text \<open>
  The Workers tab (\<open>components/WorkersTab.tsx\<close>): the platform, version and slot cells, the debounced
  slot control, the tag pool and the filters, and the rows, one per build slot. Mirrors of the server's
  checks (\<open>api.py\<close>, \<open>ui_api.py\<close>, \<open>registry.py\<close>) stand beside the cells that anticipate them. The
  locale \<open>pill_filter\<close> is the contract of a table filtered by tag pills, kept by this tab and by the
  Devices tab. Sorting by column is the table library: an argument.
\<close>

section \<open>Printing numbers\<close>

text \<open>
  \<open>x.toFixed(k)\<close>, and the text of a number in a template. Every fraction the modelled code prints is a
  decimal with a few places (the workers round what they report), which prints with exactly the
  places it needs; a number needing more than 17 is cut there.
\<close>

definition fixed_digits :: "nat \<Rightarrow> nat \<Rightarrow> string" where
  "fixed_digits k n =
    (let ds = pad_start (Suc k) (CHR ''0'') (show_nat n); i = length ds - k
     in if k = 0 then ds else take i ds @ ''.'' @ drop i ds)"

definition to_fixed :: "nat \<Rightarrow> rat \<Rightarrow> string" where
  "to_fixed k x =
    (if x < 0 then ''-'' @ fixed_digits k (nat (js_round (- x * 10 ^ k))) else fixed_digits k (nat (js_round (x * 10 ^ k))))"

fun dec_places :: "nat \<Rightarrow> rat \<Rightarrow> nat" where
  "dec_places 0 x = 0"
| "dec_places (Suc n) x = (if of_int \<lfloor>x\<rfloor> = x then 0 else Suc (dec_places n (10 * x)))"

definition num_text :: "rat \<Rightarrow> string" where
  "num_text x = to_fixed (dec_places 17 x) x"

section \<open>The platform cell\<close>

datatype tone = Muted | Warn | Danger

record platform_line =
  pl_key :: string
  pl_text :: string
  pl_tone :: tone
  pl_title :: "string option"

definition plain_line :: "string \<Rightarrow> string option \<Rightarrow> platform_line list" where
  "plain_line key s = (if truthy_str s then [\<lparr>pl_key = key, pl_text = the s, pl_tone = Muted, pl_title = None\<rparr>] else [])"

definition dotted :: "string list \<Rightarrow> string" where
  "dotted parts = join_with ('' '' @ middot @ '' '') parts"

definition hw_parts :: "system_info \<Rightarrow> string list" where
  "hw_parts si =
    (if truthy_str (sy_cpu_arch si) then [the (sy_cpu_arch si)] else [])
    @ (if truthy_num (sy_cpu_cores si) then [show_int (the (sy_cpu_cores si)) @ '' cores''] else [])
    @ (if truthy_str (sy_total_memory si) then [the (sy_total_memory si)] else [])"

definition metric_parts :: "system_info \<Rightarrow> string list" where
  "metric_parts si =
    (case sy_perf_score si of None \<Rightarrow> [] | Some x \<Rightarrow> [''Score: '' @ num_text x])
    @ (case sy_cpu_usage si of None \<Rightarrow> [] | Some x \<Rightarrow> [''CPU: '' @ num_text x @ ''%''])"

definition disk_line :: "system_info \<Rightarrow> platform_line list" where
  "disk_line si =
    (if truthy_str (sy_disk_free si) \<and> truthy_str (sy_disk_total si) then
       (let free = the (sy_disk_free si); total = the (sy_disk_total si); used = nullish (sy_disk_used_pct si) 0
        in [\<lparr>pl_key = ''disk'',
             pl_text = ''Disk: '' @ free @ '' / '' @ total
               @ (case sy_disk_used_pct si of None \<Rightarrow> [] | Some u \<Rightarrow> '' ('' @ num_text (100 - u) @ ''% free)''),
             pl_tone = (if used > 90 then Danger else if used > 80 then Warn else Muted),
             pl_title = Some (''Build volume: '' @ free @ '' free of '' @ total @ '' (''
               @ (case sy_disk_used_pct si of None \<Rightarrow> ''?'' | Some u \<Rightarrow> num_text u) @ ''% used)'')\<rparr>])
     else [])"

definition cache_line :: "system_info \<Rightarrow> platform_line list" where
  "cache_line si =
    (case sy_cached_targets si of None \<Rightarrow> []
     | Some n \<Rightarrow>
        (let cacheStr = (case sy_cache_size_mb si of None \<Rightarrow> [] | Some mb \<Rightarrow> '' ('' @ num_text mb @ '' MB)'')
         in [\<lparr>pl_key = ''cache'',
              pl_text = ''Cache: '' @ show_int n @ '' target'' @ (if n \<noteq> 1 then ''s'' else []) @ cacheStr,
              pl_tone = Muted,
              pl_title = Some (''Build cache: '' @ show_int n @ '' target(s) cached'' @ cacheStr)\<rparr>]))"

definition GIB :: int where
  "GIB = 1024 ^ 3"

definition quota_line :: "system_info \<Rightarrow> platform_line list" where
  "quota_line si =
    (case (sy_disk_usage_bytes si, sy_disk_quota_bytes si) of
       (Some usage, Some quota) \<Rightarrow>
        (if 0 < quota then
           (let usageGb = of_int usage / of_int GIB; quotaGb = of_int quota / of_int GIB;
                pct = (of_int usage / of_int quota) * 100;
                sizes = to_fixed 1 usageGb @ '' / '' @ to_fixed 0 quotaGb @ '' GiB''
            in [\<lparr>pl_key = ''quota'', pl_text = ''Quota: '' @ sizes,
                 pl_tone = (if pct \<ge> 100 then Danger else if pct > 80 then Warn else Muted),
                 pl_title = Some (''Disk quota: '' @ sizes @ '' ('' @ to_fixed 0 pct @ ''% used)'')\<rparr>])
         else [])
     | _ \<Rightarrow> [])"

definition workerPlatformHtml :: "system_info \<Rightarrow> platform_line list option" where
  "workerPlatformHtml si =
    (let lines =
       plain_line ''os'' (sy_os_version si) @ plain_line ''cpu'' (sy_cpu_model si)
       @ (if hw_parts si \<noteq> [] then [\<lparr>pl_key = ''hw'', pl_text = dotted (hw_parts si), pl_tone = Muted, pl_title = None\<rparr>] else [])
       @ (if metric_parts si \<noteq> []
          then [\<lparr>pl_key = ''metrics'', pl_text = dotted (metric_parts si), pl_tone = Muted,
                 pl_title = Some (''Perf score (SHA256 benchmark) '' @ middot @ '' CPU utilization'')\<rparr>]
          else [])
       @ disk_line si @ cache_line si @ quota_line si
     in if lines = [] then None else Some lines)"

section \<open>The version cell\<close>

definition imageIsStale :: "string option \<Rightarrow> string option \<Rightarrow> bool" where
  "imageIsStale reported minimum =
    (if \<not> truthy_str minimum then False
     else case reported of None \<Rightarrow> True
     | Some v \<Rightarrow>
        (case (parse_int v, parse_int (the minimum)) of
           (Some r, Some m) \<Rightarrow> r < m
         | _ \<Rightarrow> False))"

definition up_arrow :: string where "up_arrow = [CHR 0xE2, CHR 0x86, CHR 0x91]"
definition right_arrow :: string where "right_arrow = [CHR 0xE2, CHR 0x86, CHR 0x92]"

definition image_stale_title :: "string option \<Rightarrow> string option \<Rightarrow> string option \<Rightarrow> string" where
  "image_stale_title imageVer minImageVer hostname =
    ''Worker image out of date '' @ ''(IMAGE_VERSION='' @ nullish imageVer ''pre-LIB.0''
    @ '', server requires '' @ nullish minImageVer ''undefined'' @ ''). ''
    @ ''Source-code auto-updates are disabled until the image is refreshed.'' @ [CHR 0x0A, CHR 0x0A]
    @ ''Refresh in-place (same token, same slots):'' @ [CHR 0x0A]
    @ ''  docker pull ghcr.io/weirded/esphome-dist-client:latest'' @ [CHR 0x0A]
    @ ''  docker restart '' @ str_or hostname ''<your-worker-container>'' @ [CHR 0x0A, CHR 0x0A]
    @ ''Full re-install (new token / changed host platform / stepping past MIN_IMAGE_VERSION): ''
    @ ''click this badge to open Connect Worker and copy a fresh snippet.'' @ [CHR 0x0A, CHR 0x0A]
    @ ''Details: DOCS '' @ right_arrow @ '' Keeping workers up to date.''"

record client_version_cell =
  vc_text :: "string option"
  vc_tone :: tone
  vc_title :: "string option"
  vc_badge :: "string option"

definition clientVersionCell ::
  "string option \<Rightarrow> string option \<Rightarrow> string option \<Rightarrow> string option \<Rightarrow> string option \<Rightarrow> client_version_cell" where
  "clientVersionCell ver scv imageVer minImageVer hostname =
    (let imageStale = imageIsStale imageVer minImageVer;
         badge = (if imageStale then Some (image_stale_title imageVer minImageVer hostname) else None);
         isOutdated = truthy_str scv \<and> ver \<noteq> scv
     in if \<not> truthy_str ver
        then \<lparr>vc_text = None, vc_tone = Muted, vc_title = None, vc_badge = badge\<rparr>
        else \<lparr>vc_text = Some (the ver @ (if isOutdated then '' '' @ up_arrow else [])),
               vc_tone = (if imageStale then Danger else if isOutdated then Warn else Muted),
               vc_title = (if isOutdated then Some (''Source outdated '' @ em_dash @ '' server: '' @ the scv) else None),
               vc_badge = badge\<rparr>)"

section \<open>The slot control\<close>

text \<open>
  The pending value and its timer (the value to send and when). The timer of a control that was
  removed still fires, so the control is its two fields alone; times are in milliseconds.
\<close>

record slot_control =
  sc_local :: "int option"
  sc_timer :: "(int \<times> nat) option"

definition slot_idle :: slot_control where
  "slot_idle = \<lparr>sc_local = None, sc_timer = None\<rparr>"

definition slot_change :: "nat \<Rightarrow> int \<Rightarrow> int \<Rightarrow> slot_control \<Rightarrow> slot_control" where
  "slot_change now slots delta s =
    (let v = max 0 (min 32 (nullish (sc_local s) slots + delta))
     in s\<lparr>sc_local := Some v, sc_timer := Some (v, now + 600)\<rparr>)"

text \<open>The timer's callback when its time has come: the values handed to \<open>onSet\<close>.\<close>

definition slot_due :: "nat \<Rightarrow> slot_control \<Rightarrow> int list \<times> slot_control" where
  "slot_due now s =
    (case sc_timer s of
       Some (v, fires) \<Rightarrow> if fires \<le> now then ([v], s\<lparr>sc_local := None, sc_timer := None\<rparr>) else ([], s)
     | None \<Rightarrow> ([], s))"

text \<open>Clicks with their time, the worker's slot count at that time and the step.\<close>

fun slot_run :: "(nat \<times> int \<times> int) list \<Rightarrow> slot_control \<Rightarrow> int list \<times> slot_control" where
  "slot_run [] s = ([], s)"
| "slot_run ((now, slots, delta) # es) s =
    (let (sent, s1) = slot_due now s; (rest, s2) = slot_run es (slot_change now slots delta s1)
     in (sent @ rest, s2))"

record slot_view =
  sv_text :: string
  sv_minus_disabled :: bool

definition slotControl :: "int \<Rightarrow> int option \<Rightarrow> slot_control \<Rightarrow> slot_view" where
  "slotControl slots requested s =
    (let displayed = nullish (sc_local s) slots;
         pending = (if sc_local s \<noteq> None then sc_local s
                    else if requested \<noteq> None \<and> requested \<noteq> Some slots then requested else None)
     in \<lparr>sv_text = (case pending of
            Some p \<Rightarrow> if p \<noteq> displayed then show_int slots @ right_arrow @ show_int p else show_int displayed
          | None \<Rightarrow> show_int displayed),
         sv_minus_disabled = displayed \<le> 0\<rparr>)"

section \<open>Tags, filters and order\<close>

definition LOCAL_WORKER_HOSTNAME :: string where
  "LOCAL_WORKER_HOSTNAME = ''local-worker''"

definition is_local :: "worker \<Rightarrow> bool" where
  "is_local c \<longleftrightarrow> w_hostname c = LOCAL_WORKER_HOSTNAME"

definition worker_slots :: "worker \<Rightarrow> int" where
  "worker_slots c = nullish (w_max_parallel_jobs c) 0"

definition getWorkerSortValue :: "worker \<Rightarrow> string \<Rightarrow> string" where
  "getWorkerSortValue w colId =
    (if colId = ''hostname'' then w_hostname w
     else if colId = ''status'' then
       (if worker_slots w = 0 then ''paused'' else if w_online w then ''online'' else ''offline'')
     else if colId = ''version'' then str_or (w_client_version w) []
     else [])"

definition worker_tags :: "worker \<Rightarrow> string list" where
  "worker_tags w = nullish (w_tags w) []"

definition worker_tagPool :: "(string \<Rightarrow> string \<Rightarrow> int) \<Rightarrow> worker list \<Rightarrow> tag_count list" where
  "worker_tagPool localeCompare workers =
    sort_by (\<lambda>a b. localeCompare (tc_tag a) (tc_tag b)) (fold count_tag (concat (map worker_tags workers)) [])"

definition worker_matches :: "string \<Rightarrow> worker \<Rightarrow> bool" where
  "worker_matches q w \<longleftrightarrow>
    includes_str (to_lower (w_hostname w)) q
    \<or> includes_str (to_lower (str_or (Option.bind (w_system_info w) sy_os_version) [])) q
    \<or> includes_str (to_lower (str_or (Option.bind (w_system_info w) sy_cpu_model) [])) q
    \<or> includes_str (to_lower (str_or (w_client_version w) [])) q
    \<or> list_ex (\<lambda>t. includes_str (to_lower t) q) (worker_tags w)"

definition filteredWorkers :: "string list \<Rightarrow> string \<Rightarrow> worker list \<Rightarrow> worker list" where
  "filteredWorkers tagFilter flt workers =
    (let tagged = (if tagFilter = [] then workers
                   else filter (\<lambda>w. list_all (\<lambda>t. t \<in> set (worker_tags w)) tagFilter) workers)
     in if flt = [] then tagged else filter (worker_matches (to_lower flt)) tagged)"

definition pin_local :: "worker list \<Rightarrow> worker list" where
  "pin_local ws = filter is_local ws @ filter (\<lambda>w. \<not> is_local w) ws"

section \<open>Rows\<close>

definition delete_blocked_reason :: "worker \<Rightarrow> string option" where
  "delete_blocked_reason c =
    (if is_local c then Some (''The built-in worker can'' @ [CHR 39] @ ''t be deleted'')
     else if w_online c then Some (''Stop the worker first '' @ em_dash @ '' a running worker re-registers on its next heartbeat'')
     else None)"

datatype worker_action = ViewLogs | RequestDiagnostics | CleanCache | SetDiskQuota | DeleteWorker

text \<open>The items of the row menu; a disabled one has its reason.\<close>

definition worker_menu :: "worker \<Rightarrow> (worker_action \<times> string option) list" where
  "worker_menu c =
    [(ViewLogs, None)]
    @ (if w_online c then [(RequestDiagnostics, None), (CleanCache, None)] else [])
    @ [(SetDiskQuota, None), (DeleteWorker, delete_blocked_reason c)]"

definition worker_status :: "worker \<Rightarrow> dot_status" where
  "worker_status c = (if worker_slots c = 0 then DotPaused else if w_online c then DotOnline else DotOffline)"

text \<open>The job of a slot: the first working job of the queue on it; a job without a slot number is on slot 1.\<close>

definition on_slot :: "worker \<Rightarrow> int \<Rightarrow> job \<Rightarrow> bool" where
  "on_slot c slot j \<longleftrightarrow>
    j_assigned_client_id j = Some (w_client_id c)
    \<and> (j_worker_id j = Some slot \<or> slot = 1 \<and> j_worker_id j = None)
    \<and> j_state j = ''working''"

definition slot_job :: "job list \<Rightarrow> worker \<Rightarrow> int \<Rightarrow> job option" where
  "slot_job queue c slot = (if 0 < worker_slots c then find (on_slot c slot) queue else None)"

datatype job_cell = PausedCell | JobCell string badge | IdleCell

definition job_cell_of :: "job list \<Rightarrow> worker \<Rightarrow> int \<Rightarrow> job_cell" where
  "job_cell_of queue c slot =
    (if worker_slots c = 0 then PausedCell
     else case slot_job queue c slot of
       Some j \<Rightarrow> JobCell (stripYaml (Some (j_target j))) (getJobBadge j)
     | None \<Rightarrow> IdleCell)"

definition drop_ago :: "string \<Rightarrow> string" where
  "drop_ago s = (if ends_with s '' ago'' then take (length s - 4) s else s)"

datatype uptime_line = OfflineFor string string | UpFor string

definition uptime_of :: "int \<Rightarrow> (string \<Rightarrow> int option) \<Rightarrow> (string \<Rightarrow> string) \<Rightarrow> worker \<Rightarrow> uptime_line option" where
  "uptime_of now to_ms toLocale c =
    (if \<not> w_online c \<and> truthy_str (w_last_seen c) then
       (let seen = the (w_last_seen c)
        in Some (OfflineFor (drop_ago (timeAgo now (to_ms seen))) (''Last heartbeat: '' @ toLocale seen)))
     else if w_online c \<and> truthy_str (Option.bind (w_system_info c) sy_uptime)
       then Some (UpFor (the (Option.bind (w_system_info c) sy_uptime)))
     else None)"

text \<open>The tooltip of the disk-full badge.\<close>

definition health_block :: "worker \<Rightarrow> string option" where
  "health_block c =
    (if w_health_blocked_reason c = Some ''disk_full'' then
       Some (''Auto-paused: worker disk is full. ''
         @ (case Option.bind (w_system_info c) sy_disk_used_pct of
              Some u \<Rightarrow> ''Currently '' @ num_text u @ ''% used'' | None \<Rightarrow> ''Disk usage above 95%'')
         @ (if truthy_str (Option.bind (w_system_info c) sy_disk_free)
            then '', '' @ the (Option.bind (w_system_info c) sy_disk_free) @ '' free'' else [])
         @ ''. Won'' @ [CHR 39] @ ''t claim new jobs until usage drops to 90% or below '' @ em_dash
         @ '' use Clean cache to recover, or grow the host'' @ [CHR 39] @ ''s disk.'')
     else None)"

record worker_detail =
  wd_tags :: "string list"
  wd_platform :: "platform_line list option"
  wd_status :: dot_status
  wd_uptime :: "uptime_line option"
  wd_health :: "string option"
  wd_version :: client_version_cell
  wd_reinstall :: worker_preset
  wd_menu :: "(worker_action \<times> string option) list"

record tab_env =
  te_now :: int
  te_to_ms :: "string \<Rightarrow> int option"
  te_toLocale :: "string \<Rightarrow> string"
  te_server_version :: "string option"
  te_min_image :: "string option"

definition reinstall_preset :: "worker \<Rightarrow> worker_preset" where
  "reinstall_preset c =
    \<lparr>wp_hostname = Some (w_hostname c), wp_max_parallel_jobs = w_max_parallel_jobs c,
     wp_host_platform = Option.bind (w_system_info c) sy_os_version\<rparr>"

definition worker_detail_of :: "tab_env \<Rightarrow> worker \<Rightarrow> worker_detail" where
  "worker_detail_of v c =
    \<lparr>wd_tags = worker_tags c,
     wd_platform = Option.bind (w_system_info c) workerPlatformHtml,
     wd_status = worker_status c,
     wd_uptime = uptime_of (te_now v) (te_to_ms v) (te_toLocale v) c,
     wd_health = health_block c,
     wd_version = clientVersionCell (w_client_version c) (te_server_version v) (w_image_version c) (te_min_image v)
       (Some (w_hostname c)),
     wd_reinstall = reinstall_preset c,
     wd_menu = worker_menu c\<rparr>"

record worker_row =
  wr_worker :: string
  wr_slot :: int
  wr_name :: string
  wr_slot_line :: "(string \<times> string) option"
  wr_job :: job_cell
  wr_detail :: "worker_detail option"
  wr_dimmed :: bool
  wr_builtin :: bool

definition worker_row_of :: "tab_env \<Rightarrow> job list \<Rightarrow> worker \<Rightarrow> int \<Rightarrow> worker_row" where
  "worker_row_of v queue c slot =
    (let slots = worker_slots c in
     \<lparr>wr_worker = w_client_id c, wr_slot = slot, wr_name = w_hostname c,
      wr_slot_line = (if 1 < slots
        then Some (''slot '' @ show_int slot,
                   ''Build slot '' @ show_int slot @ '' of '' @ show_int slots @ '' on this worker.'')
        else None),
      wr_job = job_cell_of queue c slot,
      wr_detail = (if slot = 1 then Some (worker_detail_of v c) else None),
      wr_dimmed = (slots = 0), wr_builtin = is_local c\<rparr>)"

definition rows_of_worker :: "tab_env \<Rightarrow> job list \<Rightarrow> worker \<Rightarrow> worker_row list" where
  "rows_of_worker v queue c = map (worker_row_of v queue c) [1 .. max (worker_slots c) 1]"

text \<open>The rows for the workers as the table library sorted them; the body has a message only without workers.\<close>

definition worker_rows :: "tab_env \<Rightarrow> job list \<Rightarrow> worker list \<Rightarrow> worker_row list" where
  "worker_rows v queue ordered = concat (map (rows_of_worker v queue) (pin_local ordered))"

definition workers_body :: "tab_env \<Rightarrow> job list \<Rightarrow> worker list \<Rightarrow> worker list \<Rightarrow> string + worker_row list" where
  "workers_body v queue workers ordered =
    (if workers = [] then Inl (''No workers registered '' @ em_dash @ '' click \"+ Connect Worker\" to add one'')
     else Inr (worker_rows v queue ordered))"

definition HEADER_ORDER :: "string list" where
  "HEADER_ORDER = [''hostname'', ''tags'', ''platform'', ''status'', ''currentJob'', ''version'', ''slots'', ''actions'']"

text \<open>\<open>Clean All Caches\<close>: its tooltip when disabled.\<close>

definition clean_all_item :: "worker list \<Rightarrow> string option" where
  "clean_all_item workers = (if list_ex w_online workers then None else Some ''No workers are online'')"

text \<open>The tags dialog and its save: the worker's tags go to the server, then the list is read again.\<close>

definition worker_tags_dialog :: "worker list \<Rightarrow> target list \<Rightarrow> string \<Rightarrow> (string \<times> string list \<times> string list) option" where
  "worker_tags_dialog workers targets i =
    (case find (\<lambda>x. w_client_id x = i) workers of
       None \<Rightarrow> None
     | Some w \<Rightarrow> Some (''Worker '' @ w_hostname w, worker_tags w,
         sorted_pool (concat (map worker_tags workers)
           @ concat (map (\<lambda>t. if truthy_str (t_tags t) then split_tags (t_tags t) else []) targets))))"

section \<open>The server's side\<close>

text \<open>\<open>int(s)\<close> of Python for the texts a worker reports: digits with an optional sign, white space around them.\<close>

definition py_int :: "string \<Rightarrow> int option" where
  "py_int s =
    (let t = trim s;
         u = (case t of [] \<Rightarrow> [] | c # r \<Rightarrow> if c = CHR ''-'' \<or> c = CHR ''+'' then r else t)
     in if u \<noteq> [] \<and> list_all is_digit u then parse_int t else None)"

definition py_image_version_ok :: "string \<Rightarrow> string option \<Rightarrow> bool" where
  "py_image_version_ok minimum reported =
    (case reported of None \<Rightarrow> False
     | Some v \<Rightarrow> (case (py_int v, py_int minimum) of (Some r, Some m) \<Rightarrow> m \<le> r | _ \<Rightarrow> False))"

text \<open>The status of \<open>DELETE /ui/api/workers/{id}\<close>, and whether the slot and quota routes take a value.\<close>

definition py_remove_worker :: "worker list \<Rightarrow> string \<Rightarrow> nat" where
  "py_remove_worker ws i =
    (case find (\<lambda>w. w_client_id w = i) ws of
       None \<Rightarrow> 404
     | Some w \<Rightarrow> if w_online w then 409 else 200)"

definition py_slots_ok :: "int \<Rightarrow> bool" where
  "py_slots_ok n \<longleftrightarrow> \<not> (n < 0 \<or> n > 32)"

section \<open>Lemmas\<close>

lemma filteredWorkers_eq:
  "filteredWorkers sel q ws =
    filter (\<lambda>w. set sel \<subseteq> set (worker_tags w) \<and> (q \<noteq> [] \<longrightarrow> worker_matches (to_lower q) w)) ws"
  by (auto simp: filteredWorkers_def list_all_iff subset_iff intro!: filter_cong)

text \<open>The contract of a table filtered by pills: a shown row is a listed one, carries every selected
  tag, and its tags are in the pool the pills offer.\<close>

locale pill_filter =
  fixes shown :: "string list \<Rightarrow> 'row list \<Rightarrow> 'row list"
    and row_tags :: "'row \<Rightarrow> string list"
    and pool :: "'row list \<Rightarrow> tag_count list"
  assumes shown_carries: "r \<in> set (shown sel rows) \<Longrightarrow> set sel \<subseteq> set (row_tags r)"
    and pool_offers: "r \<in> set (shown sel rows) \<Longrightarrow> set (row_tags r) \<subseteq> tc_tag ` set (pool rows)"
begin

lemma stale_selection: "x \<in> set sel \<Longrightarrow> x \<notin> tc_tag ` set (pool rows) \<Longrightarrow> shown sel rows = []"
proof (rule ccontr)
  assume x: "x \<in> set sel" "x \<notin> tc_tag ` set (pool rows)" and ne: "shown sel rows \<noteq> []"
  then obtain r where r: "r \<in> set (shown sel rows)" by (cases "shown sel rows") auto
  from shown_carries [OF r] pool_offers [OF r] x show False by blast
qed

lemma stale_without_pills: "sel \<noteq> [] \<Longrightarrow> pool rows = [] \<Longrightarrow> shown sel rows = []"
  using stale_selection [of "hd sel" sel rows] by simp

end

lemma worker_pool_tags: "tc_tag ` set (worker_tagPool lc ws) = (\<Union>w \<in> set ws. set (worker_tags w))"
proof -
  have "tc_tag ` set (fold count_tag xs cs) = set xs \<union> tc_tag ` set cs" for xs cs
    by (induction xs arbitrary: cs) (auto simp: set_count_tag)
  then show ?thesis by (simp add: worker_tagPool_def)
qed

interpretation worker_pills: pill_filter "\<lambda>sel. filteredWorkers sel q" worker_tags "worker_tagPool lc" for q lc
  by unfold_locales (auto simp: filteredWorkers_eq worker_pool_tags)

interpretation device_pills: pill_filter
  "\<lambda>sel. filteredTargets lc \<lparr>tf_text = q, tf_tags = sel, tf_archived = archived\<rparr>"
  "\<lambda>t. split_tags (t_tags t)" "tagPool lc archived" for lc q archived
proof unfold_locales
  fix t sel and rows :: "target list"
  assume t: "t \<in> set (filteredTargets lc \<lparr>tf_text = q, tf_tags = sel, tf_archived = archived\<rparr> rows)"
  then show "set sel \<subseteq> set (split_tags (t_tags t))"
    by (auto simp: filteredTargets_set row_shown_def list_all_iff)
  have "t_tags t \<noteq> None \<and> t_tags t \<noteq> Some []" if "x \<in> set (split_tags (t_tags t))" for x
    using that by (cases "t_tags t") (auto simp: split_tags_def)
  with t show "set (split_tags (t_tags t)) \<subseteq> tc_tag ` set (tagPool lc archived rows)"
    by (force simp: filteredTargets_set row_shown_def tagPool_tags shown_tags_def truthy_str_iff)
qed

lemma find_iff: "find P xs = None \<longleftrightarrow> (\<forall>x \<in> set xs. \<not> P x)"
  by (auto simp: find_None_iff)

lemma slot_change_local [simp]: "sc_local (slot_change now slots d s) = Some (max 0 (min 32 (nullish (sc_local s) slots + d)))"
  and slot_change_timer [simp]: "sc_timer (slot_change now slots d s) = Some (max 0 (min 32 (nullish (sc_local s) slots + d)), now + 600)"
  by (simp_all add: slot_change_def Let_def)

text \<open>Clicks that each come less than 600 ms after the one before.\<close>

fun quick :: "nat \<Rightarrow> (nat \<times> int \<times> int) list \<Rightarrow> bool" where
  "quick t [] = True"
| "quick t ((now, _, _) # es) = (t \<le> now \<and> now < t + 600 \<and> quick now es)"

definition clamp_add :: "int \<Rightarrow> int \<Rightarrow> int" where
  "clamp_add v d = max 0 (min 32 (v + d))"

lemma slot_run_quick:
  assumes "sc_local s = Some v" and "sc_timer s = Some (v, t + 600)" and "quick t es"
  shows "\<exists>s'. slot_run es s = ([], s')
    \<and> sc_local s' = Some (foldl clamp_add v (map (\<lambda>e. snd (snd e)) es))
    \<and> sc_timer s' = Some (foldl clamp_add v (map (\<lambda>e. snd (snd e)) es), last (t # map fst es) + 600)"
  using assms
proof (induction es arbitrary: s v t)
  case (Cons e es)
  obtain now slots d where e: "e = (now, slots, d)" by (metis prod_cases3)
  let ?s = "slot_change now slots d s"
  have due: "slot_due now s = ([], s)"
    using Cons.prems e by (simp add: slot_due_def)
  have "sc_local ?s = Some (clamp_add v d)" "sc_timer ?s = Some (clamp_add v d, now + 600)" "quick now es"
    using Cons.prems e by (simp_all add: clamp_add_def)
  from Cons.IH [OF this] obtain s' where "slot_run es ?s = ([], s')"
    "sc_local s' = Some (foldl clamp_add (clamp_add v d) (map (\<lambda>e. snd (snd e)) es))"
    "sc_timer s' = Some (foldl clamp_add (clamp_add v d) (map (\<lambda>e. snd (snd e)) es), last (now # map fst es) + 600)"
    by blast
  then show ?case by (simp add: e due)
qed simp

lemma clamp_range: "0 \<le> clamp_add v d \<and> clamp_add v d \<le> 32"
  by (simp add: clamp_add_def)

lemma foldl_clamp_range:
  "0 \<le> v \<and> v \<le> 32 \<Longrightarrow> 0 \<le> foldl clamp_add v ds \<and> foldl clamp_add v ds \<le> 32"
  by (induction ds arbitrary: v) (simp_all add: clamp_range)

section \<open>Properties\<close>

definition bare_worker :: "string \<Rightarrow> string \<Rightarrow> worker" where
  "bare_worker i name =
    \<lparr>w_client_id = i, w_hostname = name, w_online = True, w_disabled = False, w_max_parallel_jobs = Some 2,
     w_requested_max_parallel_jobs = None, w_client_version = None, w_image_version = None, w_system_info = None,
     w_current_job_id = None, w_last_seen = None, w_health_blocked_reason = None, w_tags = None,
     w_disk_quota_bytes = None, w_disk_quota_override_bytes = None, w_default_worker_disk_quota_bytes = None\<rparr>"

text \<open>C32: A burst of clicks on the slot buttons, each less than 600 ms after the one before, sends one request
  600 ms after the last click and none earlier, whatever slot counts the polls deliver meanwhile; its value
  is the count at the first click with every step applied and kept within 0 and 32, which the server
  accepts.\<close>
theorem slot_burst_one_request:
  assumes "quick now es"
  shows "\<exists>s v. slot_run ((now, slots, d) # es) slot_idle = ([], s)
    \<and> v = foldl clamp_add (clamp_add slots d) (map (\<lambda>e. snd (snd e)) es) \<and> py_slots_ok v
    \<and> slot_due (last (now # map fst es) + 599) s = ([], s)
    \<and> slot_due (last (now # map fst es) + 600) s = ([v], slot_idle)"
proof -
  let ?s = "slot_change now slots d slot_idle" and ?v = "foldl clamp_add (clamp_add slots d) (map (\<lambda>e. snd (snd e)) es)"
  have "sc_local ?s = Some (clamp_add slots d)" "sc_timer ?s = Some (clamp_add slots d, now + 600)"
    by (simp_all add: slot_idle_def clamp_add_def)
  from slot_run_quick [OF this assms] obtain s where s: "slot_run es ?s = ([], s)" "sc_local s = Some ?v"
    "sc_timer s = Some (?v, last (now # map fst es) + 600)" by blast
  have "py_slots_ok ?v" using foldl_clamp_range [OF clamp_range] by (simp add: py_slots_ok_def not_less)
  moreover have "slot_run ((now, slots, d) # es) slot_idle = ([], s)"
    using s(1) by (simp add: slot_due_def slot_idle_def)
  ultimately show ?thesis using s(2,3) by (auto simp: slot_due_def slot_idle_def)
qed

lemma slot_burst_witness:
  "\<exists>s. slot_run [(0, 2, 1), (300, 2, 1), (800, 3, -1)] slot_idle = ([], s) \<and> slot_due 1400 s = ([3], slot_idle)"
  using slot_burst_one_request [of 0 "[(300, 2, 1), (800, 3, -1)]" 2 1] by (auto simp: clamp_add_def)

text \<open>A click after the request was sent, but before the worker restarted with the new count, counts from
  the old count: a second press of the plus button shows \<open>n\<close> and one more as requested, and sends the same request again.\<close>
theorem late_click_repeats_request:
  assumes "0 \<le> n" and "n < 32" and "600 \<le> later"
  shows "fst (slot_run [(0, n, 1), (later, n, 1)] slot_idle) = [n + 1]
    \<and> fst (slot_due (later + 600) (snd (slot_run [(0, n, 1), (later, n, 1)] slot_idle))) = [n + 1]
    \<and> sv_text (slotControl n (Some (n + 1)) slot_idle) = show_int n @ right_arrow @ show_int (n + 1)"
  using assms by (simp add: slot_due_def slot_idle_def slotControl_def Let_def slot_change_def)

lemma late_click_witness:
  "fst (slot_run [(0, 2, 1), (5000, 2, 1)] slot_idle) = [3]
   \<and> fst (slot_due 5600 (snd (slot_run [(0, 2, 1), (5000, 2, 1)] slot_idle))) = [3]"
  using late_click_repeats_request [of 2 5000] by simp

text \<open>The image badge agrees with the server on version numbers: it shows exactly for the workers the
  server sends no new client code to. A report that is no number the server also takes for out of date,
  but the badge does not show.\<close>
theorem image_badge_mirrors_server:
  assumes "reported = None \<or> (\<exists>n. reported = Some (show_nat n))"
  shows "(imageIsStale reported (Some (show_nat m)) \<longleftrightarrow> \<not> py_image_version_ok (show_nat m) reported)
    \<and> \<not> imageIsStale (Some ''dev'') (Some (show_nat m)) \<and> \<not> py_image_version_ok (show_nat m) (Some ''dev'')"
proof (intro conjI)
  have py: "py_int (show_nat n) = Some (int n)" for n
  proof -
    obtain c r where cr: "show_nat n = c # r" by (cases "show_nat n") auto
    have d: "\<forall>c \<in> set (show_nat n). is_digit c" by simp
    then have t: "trim (show_nat n) = show_nat n" by (intro trim_no_ws) (use digit_not_special in blast)
    have "is_digit c" using d cr by simp
    then have "c \<noteq> CHR ''-'' \<and> c \<noteq> CHR ''+''" using digit_not_special by blast
    then show ?thesis
      unfolding py_int_def t using d by (simp add: cr list_all_iff) (simp flip: cr)
  qed
  show "imageIsStale reported (Some (show_nat m)) \<longleftrightarrow> \<not> py_image_version_ok (show_nat m) reported"
    using assms by (auto simp: imageIsStale_def py_image_version_ok_def py)
  have dev: "parse_int ''dev'' = None" "py_int ''dev'' = None" by code_simp+
  show "\<not> imageIsStale (Some ''dev'') (Some (show_nat m))" "\<not> py_image_version_ok (show_nat m) (Some ''dev'')"
    by (simp_all add: imageIsStale_def py_image_version_ok_def dev)
qed

lemma image_badge_witness:
  "(imageIsStale (Some (show_nat 6)) (Some (show_nat 7)) \<longleftrightarrow> \<not> py_image_version_ok (show_nat 7) (Some (show_nat 6)))
   \<and> imageIsStale None (Some (show_nat 7))"
  using image_badge_mirrors_server [of "Some (show_nat 6)" 7] by (auto simp: imageIsStale_def)

text \<open>Delete is enabled exactly for the workers the server would delete, save the built-in one, which is
  never deleted from the tab.\<close>
theorem delete_item_honoured:
  assumes "c \<in> set ws" and "distinct (map w_client_id ws)"
  shows "(DeleteWorker, None) \<in> set (worker_menu c) \<longleftrightarrow> \<not> is_local c \<and> py_remove_worker ws (w_client_id c) = 200"
proof -
  have "find (\<lambda>w. w_client_id w = w_client_id c) ws = Some c"
    using assms by (induction ws) (auto simp: image_iff)
  then show ?thesis
    by (auto simp: worker_menu_def delete_blocked_reason_def py_remove_worker_def)
qed

lemma delete_item_witness:
  "(DeleteWorker, None) \<in> set (worker_menu ((bare_worker ''a'' ''nas'')\<lparr>w_online := False\<rparr>))
   \<longleftrightarrow> \<not> is_local ((bare_worker ''a'' ''nas'')\<lparr>w_online := False\<rparr>)
     \<and> py_remove_worker [(bare_worker ''a'' ''nas'')\<lparr>w_online := False\<rparr>] ''a'' = 200"
  using delete_item_honoured [of "(bare_worker ''a'' ''nas'')\<lparr>w_online := False\<rparr>" "[(bare_worker ''a'' ''nas'')\<lparr>w_online := False\<rparr>]"]
  by (simp add: bare_worker_def)

text \<open>A worker has one row per build slot, and one when it has none; a row is idle exactly when no working
  job of the queue runs on that slot, and otherwise shows the first such job.\<close>
theorem slot_rows_exact:
  assumes "0 \<le> worker_slots c"
  shows "map wr_slot (rows_of_worker v queue c) = [1 .. max (worker_slots c) 1]
    \<and> (\<forall>r \<in> set (rows_of_worker v queue c).
         (wr_job r = PausedCell \<longleftrightarrow> worker_slots c = 0)
         \<and> (wr_job r = IdleCell \<longleftrightarrow> worker_slots c \<noteq> 0 \<and> (\<forall>j \<in> set queue. \<not> on_slot c (wr_slot r) j)))"
proof -
  have job: "(job_cell_of queue c k = PausedCell \<longleftrightarrow> worker_slots c = 0)
      \<and> (job_cell_of queue c k = IdleCell \<longleftrightarrow> worker_slots c \<noteq> 0 \<and> (\<forall>j \<in> set queue. \<not> on_slot c k j))" for k
    using assms find_iff [of "on_slot c k" queue]
    by (cases "find (on_slot c k) queue") (auto simp: job_cell_of_def slot_job_def)
  have "wr_slot (worker_row_of v queue c k) = k" "wr_job (worker_row_of v queue c k) = job_cell_of queue c k" for k
    by (simp_all add: worker_row_of_def Let_def)
  with job show ?thesis by (simp add: rows_of_worker_def comp_def)
qed

lemma slot_rows_witness:
  "\<forall>v queue. map wr_slot (rows_of_worker v queue (bare_worker ''a'' ''nas'')) = [1 .. 2]"
  using slot_rows_exact [of "bare_worker ''a'' ''nas''"] by (simp add: worker_slots_def bare_worker_def)

text \<open>Tag pills that no listed row carries any more empty the table, on this tab as on the Devices tab:
  both selections are kept across reloads, and with no tag left the bar that could clear them is gone,
  as is any message.\<close>
theorem stale_pill_empties_workers:
  assumes "sel \<noteq> []" and "worker_tagPool lc ws = []"
  shows "filteredWorkers sel q ws = [] \<and> filter_bar (worker_tagPool lc ws) sel = None
    \<and> (ws \<noteq> [] \<longrightarrow> workers_body v queue ws (filteredWorkers sel q ws) = Inr [])"
  using worker_pills.stale_without_pills [OF assms] assms(2)
  by (auto simp: filter_bar_def workers_body_def worker_rows_def pin_local_def)

lemma stale_pill_workers_witness:
  "filteredWorkers [''fast''] [] [bare_worker ''a'' ''nas''] = []"
proof -
  have "worker_tagPool by_length [bare_worker ''a'' ''nas''] = []" by code_simp
  from stale_pill_empties_workers [OF _ this, of "[''fast'']"] show ?thesis by blast
qed

text \<open>The quota line is red exactly at or over the quota, yellow above four fifths of it.\<close>
theorem quota_tones:
  assumes "sy_disk_usage_bytes si = Some usage" and "sy_disk_quota_bytes si = Some quota" and "0 < quota"
  shows "map pl_tone (quota_line si) =
    [if quota \<le> usage then Danger else if 4 * quota < 5 * usage then Warn else Muted]"
proof -
  have scale: "100 \<le> x * 100 \<longleftrightarrow> 1 \<le> x" "80 < x * 100 \<longleftrightarrow> 4 / 5 < x" for x :: rat by linarith+
  have "of_int usage / of_int quota * 100 \<ge> (100 :: rat) \<longleftrightarrow> quota \<le> usage"
    unfolding scale using assms(3) by (simp add: le_divide_eq)
  moreover have "of_int usage / of_int quota * 100 > (80 :: rat) \<longleftrightarrow> 4 * quota < 5 * usage"
  proof -
    have "of_int usage / of_int quota * 100 > (80 :: rat) \<longleftrightarrow> 4 * of_int quota < 5 * (of_int usage :: rat)"
      unfolding scale using assms(3) by (simp add: less_divide_eq mult.commute)
    also have "\<dots> \<longleftrightarrow> 4 * quota < 5 * usage" by (metis (no_types) of_int_less_iff of_int_mult of_int_numeral)
    finally show ?thesis .
  qed
  ultimately show ?thesis using assms by (simp add: quota_line_def Let_def)
qed

definition some_info :: system_info where
  "some_info =
    \<lparr>sy_os_version = None, sy_cpu_model = None, sy_cpu_arch = None, sy_cpu_cores = None, sy_total_memory = None,
     sy_uptime = None, sy_perf_score = None, sy_cpu_usage = Some (25 / 2), sy_disk_total = None, sy_disk_free = None,
     sy_disk_used_pct = None, sy_cached_targets = None, sy_cache_size_mb = None, sy_disk_usage_bytes = Some 9,
     sy_disk_quota_bytes = Some 10, sy_last_eviction_freed_bytes = None\<rparr>"

lemma quota_tones_witness: "map pl_tone (quota_line some_info) = [Warn]"
  using quota_tones [of some_info 9 10] by (simp add: some_info_def)

lemma metric_text_example: "metric_parts some_info = [''CPU: 12.5%'']"
  by code_simp

end
