(* ===== verification/Routing_Rules.thy ===== *)
theory Routing_Rules
  imports Fleet_Types
begin

text \<open>
  \<open>utils/routing.ts\<close>: the evaluation of routing rules on tag sets, and the counts of the rule
  editor's live preview. The file calls itself a mirror of the server's \<open>server/routing.py\<close>;
  the Python functions are modelled beside it and the two are proved to agree. The locale
  \<open>clause_semantics\<close> is what the rule editor and the upgrade dialog rely on.
\<close>

section \<open>The client's evaluator\<close>

definition evaluateClause :: "routing_clause \<Rightarrow> string set \<Rightarrow> bool" where
  "evaluateClause clause tagSet =
    (case rc_op clause of
       AllOf \<Rightarrow> list_all (\<lambda>t. t \<in> tagSet) (rc_tags clause)
     | AnyOf \<Rightarrow> list_ex (\<lambda>t. t \<in> tagSet) (rc_tags clause)
     | NoneOf \<Rightarrow> \<not> list_ex (\<lambda>t. t \<in> tagSet) (rc_tags clause)
     | UnknownOp _ \<Rightarrow> False)"

definition matchesSide :: "routing_clause list \<Rightarrow> string set \<Rightarrow> bool" where
  "matchesSide clauses tagSet = list_all (\<lambda>c. evaluateClause c tagSet) clauses"

definition evaluateRule :: "routing_rule \<Rightarrow> string list \<Rightarrow> string list \<Rightarrow> bool" where
  "evaluateRule rule deviceTags workerTags =
    (if \<not> matchesSide (rr_device_match rule) (set deviceTags) then True
     else matchesSide (rr_worker_match rule) (set workerTags))"

definition isEligible :: "string list \<Rightarrow> string list \<Rightarrow> routing_rule list \<Rightarrow> bool" where
  "isEligible deviceTags workerTags rules = list_all (\<lambda>r. evaluateRule r deviceTags workerTags) rules"

record rule_impact =
  ri_constrainedDevices :: nat
  ri_eligibleWorkers :: nat
  ri_totalDevices :: nat
  ri_totalWorkers :: nat

text \<open>The two counting loops; a device and a worker enter with their tag lists.\<close>

fun count_loop :: "routing_clause list \<Rightarrow> string list list \<Rightarrow> nat \<Rightarrow> nat" where
  "count_loop side [] n = n"
| "count_loop side (d # ds) n = count_loop side ds (if matchesSide side (set d) then n + 1 else n)"

definition previewRuleImpact :: "routing_rule \<Rightarrow> string list list \<Rightarrow> string list list \<Rightarrow> rule_impact" where
  "previewRuleImpact rule devices onlineWorkers =
    \<lparr>ri_constrainedDevices = count_loop (rr_device_match rule) devices 0,
     ri_eligibleWorkers = count_loop (rr_worker_match rule) onlineWorkers 0,
     ri_totalDevices = length devices,
     ri_totalWorkers = length onlineWorkers\<rparr>"

section \<open>The server's evaluator\<close>

datatype routing_rule_error = UnknownOperator string

fun py_all :: "('a \<Rightarrow> routing_rule_error + bool) \<Rightarrow> 'a list \<Rightarrow> routing_rule_error + bool" where
  "py_all f [] = Inr True"
| "py_all f (x # xs) =
     (case f x of Inl e \<Rightarrow> Inl e | Inr b \<Rightarrow> if b then py_all f xs else Inr False)"

definition py_evaluate_clause :: "routing_clause \<Rightarrow> string set \<Rightarrow> routing_rule_error + bool" where
  "py_evaluate_clause clause tag_set =
    (case rc_op clause of
       AllOf \<Rightarrow> Inr (list_all (\<lambda>t. t \<in> tag_set) (rc_tags clause))
     | AnyOf \<Rightarrow> Inr (list_ex (\<lambda>t. t \<in> tag_set) (rc_tags clause))
     | NoneOf \<Rightarrow> Inr (\<not> list_ex (\<lambda>t. t \<in> tag_set) (rc_tags clause))
     | UnknownOp s \<Rightarrow> Inl (UnknownOperator s))"

definition py_matches_side :: "routing_clause list \<Rightarrow> string set \<Rightarrow> routing_rule_error + bool" where
  "py_matches_side clauses tag_set = py_all (\<lambda>c. py_evaluate_clause c tag_set) clauses"

definition py_evaluate_rule :: "routing_rule \<Rightarrow> string list \<Rightarrow> string list \<Rightarrow> routing_rule_error + bool" where
  "py_evaluate_rule rule device_tags worker_tags =
    (case py_matches_side (rr_device_match rule) (set device_tags) of
       Inl e \<Rightarrow> Inl e
     | Inr b \<Rightarrow> if \<not> b then Inr True else py_matches_side (rr_worker_match rule) (set worker_tags))"

definition py_is_eligible :: "string list \<Rightarrow> string list \<Rightarrow> routing_rule list \<Rightarrow> routing_rule_error + bool" where
  "py_is_eligible device_tags worker_tags rules =
    py_all (\<lambda>r. py_evaluate_rule r device_tags worker_tags) rules"

section \<open>The contract of the evaluator\<close>

locale clause_semantics =
  fixes eval :: "routing_clause \<Rightarrow> string set \<Rightarrow> bool"
  assumes all_of: "eval \<lparr>rc_op = AllOf, rc_tags = ts\<rparr> S \<longleftrightarrow> set ts \<subseteq> S"
    and any_of: "eval \<lparr>rc_op = AnyOf, rc_tags = ts\<rparr> S \<longleftrightarrow> set ts \<inter> S \<noteq> {}"
    and none_of: "eval \<lparr>rc_op = NoneOf, rc_tags = ts\<rparr> S \<longleftrightarrow> set ts \<inter> S = {}"
    and unknown: "\<not> eval \<lparr>rc_op = UnknownOp s, rc_tags = ts\<rparr> S"
begin

lemma eval_cases:
  "eval c S \<longleftrightarrow>
     (case rc_op c of AllOf \<Rightarrow> set (rc_tags c) \<subseteq> S | AnyOf \<Rightarrow> set (rc_tags c) \<inter> S \<noteq> {}
      | NoneOf \<Rightarrow> set (rc_tags c) \<inter> S = {} | UnknownOp _ \<Rightarrow> False)"
  using all_of [of "rc_tags c" S] any_of [of "rc_tags c" S] none_of [of "rc_tags c" S]
    unknown [of _ "rc_tags c" S]
  by (cases c; cases "rc_op c") auto

lemma none_not_any:
  "eval \<lparr>rc_op = NoneOf, rc_tags = ts\<rparr> S \<longleftrightarrow> \<not> eval \<lparr>rc_op = AnyOf, rc_tags = ts\<rparr> S"
  by (simp add: any_of none_of)

lemma positive_mono:
  "rc_op c \<in> {AllOf, AnyOf} \<Longrightarrow> eval c S \<Longrightarrow> S \<subseteq> T \<Longrightarrow> eval c T"
  unfolding eval_cases by (auto simp: disjoint_iff) blast

text \<open>A worker matching an \<open>all of\<close> filter matches every \<open>all of\<close> clause over some of its tags.\<close>

lemma all_of_covers:
  "eval \<lparr>rc_op = AllOf, rc_tags = ts\<rparr> S \<Longrightarrow> rc_op c = AllOf \<Longrightarrow> set (rc_tags c) \<subseteq> set ts \<Longrightarrow> eval c S"
  unfolding eval_cases by auto

end

interpretation js_clause: clause_semantics evaluateClause
  by unfold_locales (auto simp: evaluateClause_def list_all_iff list_ex_iff)

section \<open>Lemmas\<close>

definition known_clause :: "routing_clause \<Rightarrow> bool" where
  "known_clause c \<longleftrightarrow> rc_op c \<in> {AllOf, AnyOf, NoneOf}"

definition known_rule :: "routing_rule \<Rightarrow> bool" where
  "known_rule r \<longleftrightarrow> list_all known_clause (rr_device_match r) \<and> list_all known_clause (rr_worker_match r)"

lemma py_all_Inr: "list_all (\<lambda>x. f x = Inr (g x)) xs \<Longrightarrow> py_all f xs = Inr (list_all g xs)"
  by (induction xs) auto

lemma py_clause_known: "known_clause c \<Longrightarrow> py_evaluate_clause c S = Inr (evaluateClause c S)"
  by (auto simp: known_clause_def py_evaluate_clause_def evaluateClause_def)

lemma py_side_known: "list_all known_clause cs \<Longrightarrow> py_matches_side cs S = Inr (matchesSide cs S)"
  unfolding py_matches_side_def matchesSide_def
  by (rule py_all_Inr) (auto simp: list_all_iff py_clause_known)

lemma py_rule_known: "known_rule r \<Longrightarrow> py_evaluate_rule r dt wt = Inr (evaluateRule r dt wt)"
  by (simp add: known_rule_def py_evaluate_rule_def evaluateRule_def py_side_known)

lemma matchesSide_iff: "matchesSide cs S \<longleftrightarrow> (\<forall>c \<in> set cs. evaluateClause c S)"
  by (simp add: matchesSide_def list_all_iff)

lemma evaluateRule_iff:
  "evaluateRule r dt wt \<longleftrightarrow> (matchesSide (rr_device_match r) (set dt) \<longrightarrow> matchesSide (rr_worker_match r) (set wt))"
  by (simp add: evaluateRule_def)

lemma count_loop_eq: "count_loop side ds n = n + length (filter (\<lambda>d. matchesSide side (set d)) ds)"
  by (induction ds arbitrary: n) auto

section \<open>Properties\<close>

text \<open>C3: on rules whose operators the server accepts, the client's eligibility check computes
  what the server's does, which then raises no error.\<close>
theorem client_mirrors_server:
  assumes "list_all known_rule rules"
  shows "py_is_eligible deviceTags workerTags rules = Inr (isEligible deviceTags workerTags rules)"
  unfolding py_is_eligible_def isEligible_def
  by (rule py_all_Inr) (use assms in \<open>auto simp: list_all_iff py_rule_known\<close>)

text \<open>
  The rule of the tests: kitchen devices need kitchen workers.
\<close>

definition kitchen_rule :: routing_rule where
  "kitchen_rule = \<lparr>rr_id = ''kitchen'', rr_name = ''Kitchen'', rr_severity = Required,
     rr_device_match = [\<lparr>rc_op = AllOf, rc_tags = [''kitchen'']\<rparr>],
     rr_worker_match = [\<lparr>rc_op = AnyOf, rc_tags = [''kitchen'', ''any'']\<rparr>]\<rparr>"

theorem client_mirrors_server_witness:
  "py_is_eligible [''kitchen''] [''linux''] [kitchen_rule] = Inr False
   \<and> py_is_eligible [''garage''] [''linux''] [kitchen_rule] = Inr True"
  using client_mirrors_server [of "[kitchen_rule]" "[''kitchen'']" "[''linux'']"]
    client_mirrors_server [of "[kitchen_rule]" "[''garage'']" "[''linux'']"]
  by (simp add: known_rule_def known_clause_def kitchen_rule_def isEligible_def evaluateRule_def
      matchesSide_def evaluateClause_def)

text \<open>A worker is eligible for a device exactly when it satisfies the worker side of every rule
  whose device side the device satisfies; so only the set of rules matters, and dropping rules
  keeps every eligible worker eligible.\<close>
theorem eligibility_spec:
  "(isEligible dt wt rules \<longleftrightarrow>
     (\<forall>r \<in> set rules. (\<forall>c \<in> set (rr_device_match r). evaluateClause c (set dt)) \<longrightarrow>
        (\<forall>c \<in> set (rr_worker_match r). evaluateClause c (set wt))))
   \<and> (set rules' \<subseteq> set rules \<longrightarrow> isEligible dt wt rules \<longrightarrow> isEligible dt wt rules')"
  by (auto simp: isEligible_def list_all_iff evaluateRule_iff matchesSide_iff)

theorem eligibility_witness:
  "isEligible [''kitchen''] [''kitchen''] [] \<and> \<not> isEligible [''kitchen''] [''linux''] [kitchen_rule]"
proof -
  have "isEligible [''kitchen''] [''kitchen''] [kitchen_rule]"
    "\<not> isEligible [''kitchen''] [''linux''] [kitchen_rule]" by code_simp+
  then show ?thesis using eligibility_spec [of "[''kitchen'']" "[''kitchen'']" "[kitchen_rule]" "[]"] by simp
qed

text \<open>The preview's numbers are the numbers of devices the rule applies to and of online workers
  its worker side accepts, out of the totals it reports; when every online worker is counted
  the rule blocks no pair, and when none is it blocks every worker for each counted device.\<close>
theorem preview_counts:
  assumes "p = previewRuleImpact rule devices workers"
  shows "ri_constrainedDevices p = length (filter (\<lambda>d. matchesSide (rr_device_match rule) (set d)) devices)
    \<and> ri_eligibleWorkers p = length (filter (\<lambda>w. matchesSide (rr_worker_match rule) (set w)) workers)
    \<and> ri_constrainedDevices p \<le> ri_totalDevices p \<and> ri_eligibleWorkers p \<le> ri_totalWorkers p
    \<and> (ri_eligibleWorkers p = ri_totalWorkers p \<longrightarrow>
         (\<forall>d \<in> set devices. \<forall>w \<in> set workers. evaluateRule rule d w))
    \<and> (ri_eligibleWorkers p = 0 \<longrightarrow>
         (\<forall>d \<in> set devices. matchesSide (rr_device_match rule) (set d) \<longrightarrow>
            (\<forall>w \<in> set workers. \<not> evaluateRule rule d w)))"
proof -
  have all: "length (filter P ws) = length ws \<longleftrightarrow> (\<forall>w \<in> set ws. P w)" for P and ws :: "string list list"
    by (metis filter_True length_filter_less less_irrefl_nat)
  show ?thesis
    unfolding assms
    by (auto simp: previewRuleImpact_def count_loop_eq all filter_empty_conv evaluateRule_iff)
qed

theorem preview_counts_witness:
  "ri_constrainedDevices (previewRuleImpact kitchen_rule [[''kitchen''], [''den'']] [[''linux'']]) = 1
   \<and> ri_eligibleWorkers (previewRuleImpact kitchen_rule [[''kitchen''], [''den'']] [[''linux'']]) = 0"
  using preview_counts [OF refl, of kitchen_rule "[[''kitchen''], [''den'']]" "[[''linux'']]"]
  by (simp add: kitchen_rule_def matchesSide_def evaluateClause_def)

end
