(* ===== verification/Esphome_Versions.thy ===== *)
theory Esphome_Versions
  imports Fleet_Types
begin

text \<open>
  ESPHome version strings: the beta test, the comparison and the list filter of
  \<open>components/EsphomeVersionDropdown.tsx\<close>, and the copies of them in
  \<open>components/UpgradeModal.tsx\<close>. The comparison is interpreted in \<open>js_comparator\<close>.
\<close>

section \<open>Definitions\<close>

text \<open>\<open>/\d(a|b|rc|dev)\d/i.test(v)\<close>: a digit, a pre-release mark in any case, a digit.\<close>

definition beta_marks :: "string list" where
  "beta_marks = [''a'', ''b'', ''rc'', ''dev'']"

fun digit_at_start :: "string \<Rightarrow> bool" where
  "digit_at_start [] = False"
| "digit_at_start (c # _) = is_digit c"

fun isBeta :: "string \<Rightarrow> bool" where
  "isBeta [] = False"
| "isBeta (c # s) =
     (is_digit c \<and> list_ex (\<lambda>m. starts_with (to_lower s) m \<and> digit_at_start (drop (length m) s)) beta_marks
      \<or> isBeta s)"

definition INSTALLABLE_FLOOR :: string where
  "INSTALLABLE_FLOOR = ''2023.7.0''"

text \<open>\<open>v.split(/[a-z]/i)[0].split('.').map(p => parseInt(p, 10) || 0)\<close>.\<close>

definition parse_version :: "string \<Rightarrow> int list" where
  "parse_version v =
    map (\<lambda>p. nullish (parse_int p) 0) (split_on (CHR ''.'') (takeWhile (\<lambda>c. \<not> is_alpha c) v))"

definition part_at :: "int list \<Rightarrow> nat \<Rightarrow> int" where
  "part_at xs i = (if i < length xs then xs ! i else 0)"

text \<open>The loop returns the first non-zero difference and 0 after the last position.\<close>

definition first_nonzero :: "int list \<Rightarrow> int" where
  "first_nonzero ds = (case dropWhile (\<lambda>d. d = 0) ds of [] \<Rightarrow> 0 | d # _ \<Rightarrow> d)"

definition compareEsphomeVersion :: "string \<Rightarrow> string \<Rightarrow> int" where
  "compareEsphomeVersion a b =
    (let av = parse_version a; bv = parse_version b; len = max (length av) (length bv)
     in first_nonzero (map (\<lambda>i. part_at av i - part_at bv i) [0..<len]))"

definition isInstallable :: "string \<Rightarrow> bool" where
  "isInstallable v \<longleftrightarrow> 0 \<le> compareEsphomeVersion v INSTALLABLE_FLOOR"

text \<open>The dropdown filters in up to three passes.\<close>

definition dropdown_filtered :: "string list \<Rightarrow> bool \<Rightarrow> bool \<Rightarrow> string \<Rightarrow> string list" where
  "dropdown_filtered available showBetas installableOnly search =
    (let l1 = (if \<not> showBetas then filter (\<lambda>v. \<not> isBeta v) available else available);
         l2 = (if installableOnly then filter isInstallable l1 else l1);
         l3 = (if search \<noteq> [] then filter (\<lambda>v. includes_str (to_lower v) (to_lower search)) l2 else l2)
     in l3)"

text \<open>The upgrade dialog lists the default version first, then every other version once.\<close>

fun add_versions :: "string list \<Rightarrow> string list \<Rightarrow> string list" where
  "add_versions acc [] = acc"
| "add_versions acc (v # vs) =
     add_versions (if v \<noteq> [] \<and> v \<notin> set acc then acc @ [v] else acc) vs"

definition versionList :: "string option \<Rightarrow> string list \<Rightarrow> string list" where
  "versionList dflt versions =
    add_versions (if truthy_str dflt then [the dflt] else []) versions"

definition modal_filtered :: "string list \<Rightarrow> bool \<Rightarrow> bool \<Rightarrow> string \<Rightarrow> string list" where
  "modal_filtered versions showBetas installableOnly versionSearch =
    filter (\<lambda>v. if \<not> showBetas \<and> isBeta v then False
                else if installableOnly \<and> \<not> isInstallable v then False
                else if versionSearch \<noteq> [] \<and> \<not> includes_str (to_lower v) (to_lower versionSearch) then False
                else True) versions"

section \<open>The comparison as a lexicographic order\<close>

lemma first_nonzero_cons [simp]:
  "first_nonzero [] = 0" "first_nonzero (d # ds) = (if d = 0 then first_nonzero ds else d)"
  by (simp_all add: first_nonzero_def)

lemma first_nonzero_nth:
  "first_nonzero ds = 0 \<longleftrightarrow> (\<forall>i < length ds. ds ! i = 0)"
  "0 < first_nonzero ds \<longleftrightarrow> (\<exists>i < length ds. (\<forall>j < i. ds ! j = 0) \<and> 0 < ds ! i)"
proof -
  show "first_nonzero ds = 0 \<longleftrightarrow> (\<forall>i < length ds. ds ! i = 0)"
    by (induction ds) (auto simp: nth_Cons split: nat.splits)
  show "0 < first_nonzero ds \<longleftrightarrow> (\<exists>i < length ds. (\<forall>j < i. ds ! j = 0) \<and> 0 < ds ! i)"
  proof (induction ds)
    case (Cons d ds)
    show ?case
    proof (cases "d = 0")
      case True
      have "(\<exists>i < length (d # ds). (\<forall>j < i. (d # ds) ! j = 0) \<and> 0 < (d # ds) ! i)
          \<longleftrightarrow> (\<exists>i < length ds. (\<forall>j < i. ds ! j = 0) \<and> 0 < ds ! i)" (is "?L \<longleftrightarrow> ?R")
      proof
        assume ?L
        then obtain i where i: "i < length (d # ds)" "\<forall>j < i. (d # ds) ! j = 0" "0 < (d # ds) ! i" by blast
        then obtain k where "i = Suc k" using True by (cases i) auto
        with i have "k < length ds" "\<forall>j < k. ds ! j = 0" "0 < ds ! k" by fastforce+
        then show ?R by blast
      next
        assume ?R
        then obtain k where "k < length ds" "\<forall>j < k. ds ! j = 0" "0 < ds ! k" by blast
        then show ?L using True by (intro exI [of _ "Suc k"]) (auto simp: less_Suc_eq_0_disj)
      qed
      with True Cons.IH show ?thesis by simp
    next
      case False
      then show ?thesis
        by (auto intro: exI [of _ 0]) (metis neq0_conv nth_Cons_0)
    qed
  qed simp
qed

text \<open>A version read as an infinite sequence of parts, 0 after its last one.\<close>

abbreviation vpart :: "string \<Rightarrow> nat \<Rightarrow> int" where
  "vpart v \<equiv> part_at (parse_version v)"

definition first_above :: "(nat \<Rightarrow> int) \<Rightarrow> (nat \<Rightarrow> int) \<Rightarrow> bool" where
  "first_above f g \<longleftrightarrow> (\<exists>i. (\<forall>j < i. f j = g j) \<and> g i < f i)"

lemma compare_pos: "0 < compareEsphomeVersion a b \<longleftrightarrow> first_above (vpart a) (vpart b)"
proof -
  define n where "n = max (length (parse_version a)) (length (parse_version b))"
  define ds where "ds = map (\<lambda>i. vpart a i - vpart b i) [0..<n]"
  have len: "length ds = n" and nth: "\<And>i. i < n \<Longrightarrow> ds ! i = vpart a i - vpart b i"
    by (simp_all add: ds_def)
  have out: "vpart a i = 0 \<and> vpart b i = 0" if "n \<le> i" for i
    using that by (auto simp: part_at_def n_def)
  have "0 < compareEsphomeVersion a b \<longleftrightarrow> 0 < first_nonzero ds"
    by (simp add: compareEsphomeVersion_def Let_def ds_def n_def)
  also have "\<dots> \<longleftrightarrow> (\<exists>i < n. (\<forall>j < i. ds ! j = 0) \<and> 0 < ds ! i)"
    unfolding first_nonzero_nth len ..
  also have "\<dots> \<longleftrightarrow> (\<exists>i < n. (\<forall>j < i. vpart a j = vpart b j) \<and> vpart b i < vpart a i)"
    using nth by (intro ex_cong conj_cong refl all_cong) auto
  also have "\<dots> \<longleftrightarrow> first_above (vpart a) (vpart b)"
    unfolding first_above_def using out by (metis less_irrefl not_less)
  finally show ?thesis .
qed

lemma compare_swap: "compareEsphomeVersion a b = - compareEsphomeVersion b a"
proof -
  have neg: "first_nonzero (map uminus ds) = - first_nonzero ds" for ds :: "int list"
    by (induction ds) auto
  let ?len = "max (length (parse_version a)) (length (parse_version b))"
  have "map (\<lambda>i. vpart a i - vpart b i) [0..<?len] = map uminus (map (\<lambda>i. vpart b i - vpart a i) [0..<?len])"
    by simp
  then show ?thesis
    unfolding compareEsphomeVersion_def Let_def by (simp only: neg max.commute [of "length (parse_version b)"])
qed

lemma first_above_trans:
  assumes "first_above f g" and "first_above g h"
  shows "first_above f h"
proof -
  obtain i where i: "\<forall>k < i. f k = g k" "g i < f i" using assms(1) by (auto simp: first_above_def)
  obtain j where j: "\<forall>k < j. g k = h k" "h j < g j" using assms(2) by (auto simp: first_above_def)
  have "\<forall>k < min i j. f k = h k" using i j by simp
  moreover have "h (min i j) < f (min i j)"
    using i j by (cases i j rule: linorder_cases) (auto simp: min_def)
  ultimately show ?thesis unfolding first_above_def by blast
qed

lemma first_above_total:
  assumes "f \<noteq> g"
  shows "first_above f g \<or> first_above g f"
proof -
  from assms obtain i where i: "f i \<noteq> g i" by auto
  define k where "k = (LEAST i. f i \<noteq> g i)"
  have ne: "f k \<noteq> g k" unfolding k_def by (rule LeastI [of _ i]) (rule i)
  have eq: "f j = g j" if "j < k" for j
    using not_less_Least [of j "\<lambda>i. f i \<noteq> g i"] that unfolding k_def by simp
  show ?thesis
  proof (cases "g k < f k")
    case True
    with eq have "first_above f g" unfolding first_above_def by blast
    then show ?thesis ..
  next
    case False
    with ne have "f k < g k" by simp
    moreover have "\<forall>j < k. g j = f j" using eq by simp
    ultimately have "first_above g f" unfolding first_above_def by blast
    then show ?thesis ..
  qed
qed

lemma compare_nonpos: "compareEsphomeVersion a b \<le> 0 \<longleftrightarrow> first_above (vpart b) (vpart a) \<or> vpart a = vpart b"
proof -
  have irrefl: "\<not> first_above f f" for f by (simp add: first_above_def)
  have "\<not> (first_above f g \<and> first_above g f)" for f g
    using first_above_trans [of f g f] irrefl by blast
  then have "\<not> first_above (vpart a) (vpart b) \<longleftrightarrow> first_above (vpart b) (vpart a) \<or> vpart a = vpart b"
    using first_above_total [of "vpart a" "vpart b"] irrefl by metis
  moreover have "compareEsphomeVersion a b \<le> 0 \<longleftrightarrow> \<not> 0 < compareEsphomeVersion a b" by auto
  ultimately show ?thesis unfolding compare_pos by blast
qed

interpretation version_order: js_comparator compareEsphomeVersion
proof unfold_locales
  fix a b c
  show "compareEsphomeVersion a b \<le> 0 \<longleftrightarrow> 0 \<le> compareEsphomeVersion b a"
    using compare_swap [of a b] by simp
  show "compareEsphomeVersion a b \<le> 0 \<Longrightarrow> compareEsphomeVersion b c \<le> 0 \<Longrightarrow> compareEsphomeVersion a c \<le> 0"
    unfolding compare_nonpos using first_above_trans by metis
qed

lemma add_versions_props:
  "distinct acc \<Longrightarrow> distinct (add_versions acc vs) \<and> set (add_versions acc vs) = set acc \<union> {v \<in> set vs. v \<noteq> []}
     \<and> (\<exists>rest. add_versions acc vs = acc @ rest)"
proof (induction vs arbitrary: acc)
  case (Cons v vs)
  show ?case
  proof (cases "v \<noteq> [] \<and> v \<notin> set acc")
    case True
    with Cons.prems have "distinct (acc @ [v])" by simp
    from Cons.IH [OF this] True show ?thesis by (auto)
  next
    case False
    with Cons.IH [OF Cons.prems] show ?thesis by auto
  qed
qed simp

section \<open>Properties\<close>

text \<open>The version comparison is a total preorder, so sorting with it yields an ordered
  permutation and the installable versions are closed upwards: a version that compares at
  least as high as an installable one is installable.\<close>
theorem version_compare_order:
  "compareEsphomeVersion a b = - compareEsphomeVersion b a
   \<and> (compareEsphomeVersion a b \<le> 0 \<longrightarrow> compareEsphomeVersion b c \<le> 0 \<longrightarrow> compareEsphomeVersion a c \<le> 0)
   \<and> sorted_wrt (\<lambda>v w. compareEsphomeVersion v w \<le> 0) (sort_by compareEsphomeVersion vs)
   \<and> (isInstallable a \<longrightarrow> 0 \<le> compareEsphomeVersion b a \<longrightarrow> isInstallable b)"
proof -
  have "isInstallable b" if "isInstallable a" "0 \<le> compareEsphomeVersion b a"
    using that version_order.cmp_trans [of INSTALLABLE_FLOOR a b]
      version_order.cmp_swap [of INSTALLABLE_FLOOR] version_order.cmp_swap [of a b]
    by (simp add: isInstallable_def)
  then show ?thesis
    using compare_swap [of a b] version_order.cmp_trans [of a b c] version_order.sorted_sort_by [of vs] by blast
qed

theorem version_compare_witness:
  "isInstallable ''2024.6.0'' \<and> isInstallable ''2024.6.0b1'' \<and> \<not> isInstallable ''2023.6.5''"
proof -
  have "isInstallable ''2024.6.0''" "0 \<le> compareEsphomeVersion ''2024.6.0b1'' ''2024.6.0''"
    "\<not> isInstallable ''2023.6.5''" by code_simp+
  then show ?thesis
    using version_compare_order [of "''2024.6.0''" "''2024.6.0b1''" "''2024.6.0b1''" "[]"] by blast
qed

text \<open>The version picker of the upgrade dialog and the header's dropdown show the same versions
  for the same list and filter settings, and the dialog's list offers the default version first
  and every non-empty version exactly once.\<close>
theorem version_lists_agree:
  "modal_filtered vs showBetas installableOnly search = dropdown_filtered vs showBetas installableOnly search
   \<and> distinct (versionList dflt vs)
   \<and> set (versionList dflt vs) = {v \<in> set vs. v \<noteq> []} \<union> (if truthy_str dflt then {the dflt} else {})
   \<and> (truthy_str dflt \<longrightarrow> versionList dflt vs \<noteq> [] \<and> hd (versionList dflt vs) = the dflt)"
proof -
  have "modal_filtered vs showBetas installableOnly search = dropdown_filtered vs showBetas installableOnly search"
    by (auto simp: modal_filtered_def dropdown_filtered_def Let_def intro!: filter_cong)
  moreover have "distinct (if truthy_str dflt then [the dflt] else [])" by simp
  note add_versions_props [OF this, of vs]
  ultimately show ?thesis by (auto simp: versionList_def)
qed

theorem version_lists_witness:
  "hd (versionList (Some ''2024.6.0'') [''2024.5.0'', ''2024.6.0'', '''']) = ''2024.6.0''"
  using version_lists_agree [of "[''2024.5.0'', ''2024.6.0'', '''']" True True "''''" "Some ''2024.6.0''"] by simp

end
