(* ===== verification/Upgrade_Modal.thy ===== *)
theory Upgrade_Modal
  imports Cron_Schedules Routing_Rules Esphome_Versions
begin

text \<open>
  \<open>components/UpgradeModal.tsx\<close>: the dialog's state, what each control does to it, the
  routing-rule conflict check and the call \<open>handleConfirm\<close> makes. Platform functions the
  dialog uses are arguments: the local calendar fields and ISO text of a date
  (\<open>to_local\<close>, \<open>to_iso\<close>, \<^const>\<open>None\<close> for an invalid date), the locale's string order and the
  browser's time zone.
\<close>

section \<open>Props and state\<close>

datatype default_mode = DefaultNow | DefaultSchedule
datatype upgrade_action = UpgradeNow | DownloadNow | ScheduleRecurring | ScheduleOnce
datatype worker_mode = WorkerAny | WorkerSpecific | WorkerTag
datatype version_mode = VersionCurrent | VersionOther
datatype cron_mode = Friendly | CronText
datatype modal_mode = ModeNow | ModeSchedule

record rerun_seed =
  sd_pinnedClientId :: "string option"
  sd_workerTagFilter :: "routing_clause option"
  sd_esphomeVersion :: "string option"
  sd_action :: "upgrade_action option"

record local_time =
  lt_year :: int
  lt_month :: int
  lt_day :: int
  lt_hours :: int
  lt_minutes :: int

record upgrade_props =
  up_displayName :: string
  up_workers :: "worker list"
  up_esphomeVersions :: "string list"
  up_defaultEsphomeVersion :: "string option"
  up_pinnedVersion :: "string option"
  up_currentSchedule :: "string option"
  up_currentOnce :: "string option"
  up_defaultMode :: default_mode
  up_scheduleOnly :: bool
  up_seed :: "rerun_seed option"
  up_affectedTargetTags :: "string list list"

record modal_state =
  md_selectedWorker :: string
  md_workerMode :: worker_mode
  md_tagFilterOp :: routing_clause_op
  md_tagFilterTags :: "string list"
  md_selectedVersion :: string
  md_versionSearch :: string
  md_showBetas :: bool
  md_installableOnly :: bool
  md_versionMode :: version_mode
  md_action :: upgrade_action
  md_interval :: string
  md_every :: "int option"
  md_time :: string
  md_dow :: string
  md_rawCron :: string
  md_cronMode :: cron_mode
  md_onceDate :: string

section \<open>Opening the dialog\<close>

definition opt_bind :: "'a option \<Rightarrow> ('a \<Rightarrow> 'b option) \<Rightarrow> 'b option" where
  "opt_bind x f = (case x of None \<Rightarrow> None | Some v \<Rightarrow> f v)"

lemma opt_bind_simps [simp]: "opt_bind None f = None" "opt_bind (Some v) f = f v"
  by (simp_all add: opt_bind_def)

definition eligibleWorkers :: "(string \<Rightarrow> string \<Rightarrow> int) \<Rightarrow> worker list \<Rightarrow> worker list" where
  "eligibleWorkers localeCompare workers =
    sort_by (\<lambda>a b. localeCompare (w_hostname a) (w_hostname b))
      (filter (\<lambda>w. w_online w \<and> \<not> w_disabled w \<and> 0 < nullish (w_max_parallel_jobs w) 0) workers)"

definition initialWorkerMode :: "rerun_seed option \<Rightarrow> worker_mode" where
  "initialWorkerMode seed =
    (if truthy_str (opt_bind seed sd_pinnedClientId) then WorkerSpecific
     else case opt_bind seed sd_workerTagFilter of
       Some f \<Rightarrow> if rc_tags f \<noteq> [] then WorkerTag else WorkerAny
     | None \<Rightarrow> WorkerAny)"

definition workerTagPool :: "worker list \<Rightarrow> string list" where
  "workerTagPool workers = sorted_pool (concat (map (\<lambda>w. nullish (w_tags w) []) workers))"

definition initialVersionMode :: "string \<Rightarrow> string option \<Rightarrow> version_mode" where
  "initialVersionMode selectedVersion defaultVersion =
    (if selectedVersion \<noteq> [] \<and> Some selectedVersion \<noteq> defaultVersion then VersionOther else VersionCurrent)"

definition initialAction :: "upgrade_props \<Rightarrow> upgrade_action" where
  "initialAction p =
    (if up_scheduleOnly p then (if truthy_str (up_currentOnce p) then ScheduleOnce else ScheduleRecurring)
     else if up_defaultMode p = DefaultSchedule then
       (if truthy_str (up_currentOnce p) then ScheduleOnce else ScheduleRecurring)
     else if opt_bind (up_seed p) sd_action = Some DownloadNow then DownloadNow
     else UpgradeNow)"

definition toLocalInput :: "local_time \<Rightarrow> string" where
  "toLocalInput d =
    show_int (lt_year d) @ ''-'' @ pad2 (lt_month d + 1) @ ''-'' @ pad2 (lt_day d)
      @ ''T'' @ pad2 (lt_hours d) @ '':'' @ pad2 (lt_minutes d)"

text \<open>\<open>to_local (Some iso)\<close> is \<open>new Date(iso)\<close> and \<open>to_local None\<close> the current time, in local fields.\<close>

definition open_modal :: "(string option \<Rightarrow> local_time) \<Rightarrow> upgrade_props \<Rightarrow> modal_state" where
  "open_modal to_local p =
    (let seed = up_seed p;
         selectedVersion = nullish (opt_bind seed sd_esphomeVersion) (nullish (up_pinnedVersion p) []);
         seedCron = nullish (up_currentSchedule p) [];
         parsed = (if seedCron \<noteq> [] then parseCron seedCron else None)
     in \<lparr>md_selectedWorker = nullish (opt_bind seed sd_pinnedClientId) [],
         md_workerMode = initialWorkerMode seed,
         md_tagFilterOp = nullish (map_option rc_op (opt_bind seed sd_workerTagFilter)) AllOf,
         md_tagFilterTags = nullish (map_option rc_tags (opt_bind seed sd_workerTagFilter)) [],
         md_selectedVersion = selectedVersion,
         md_versionSearch = [],
         md_showBetas = False,
         md_installableOnly = True,
         md_versionMode = initialVersionMode selectedVersion (up_defaultEsphomeVersion p),
         md_action = initialAction p,
         md_interval = nullish (map_option cf_interval parsed) ''days'',
         md_every = (case parsed of None \<Rightarrow> Some 1 | Some f \<Rightarrow> cf_every f),
         md_time = nullish (map_option cf_time parsed) ''02:00'',
         md_dow = nullish (map_option cf_dow parsed) ''0'',
         md_rawCron = seedCron,
         md_cronMode = (if parsed \<noteq> None \<or> \<not> truthy_str (up_currentSchedule p) then Friendly else CronText),
         md_onceDate = toLocalInput (to_local (if truthy_str (up_currentOnce p) then up_currentOnce p else None))\<rparr>)"

section \<open>The controls\<close>

datatype modal_event =
    SetAction upgrade_action
  | SetWorkerMode worker_mode
  | SelectWorker string
  | SetTagOp routing_clause_op
  | SetTags "string list"
  | PickCurrentVersion
  | PickOtherVersion
  | SearchVersions string
  | PickVersion string
  | SetShowBetas bool
  | SetInstallableOnly bool
  | ToggleCronMode
  | TypeEvery string
  | SetInterval string
  | SetDow string
  | SetTime string
  | TypeCron string
  | SetOnceDate string

text \<open>\<open>Math.max(1, parseInt(value, 10) || 1)\<close>.\<close>

definition clamp_every :: "string \<Rightarrow> int" where
  "clamp_every value = max 1 (case parse_int value of None \<Rightarrow> 1 | Some n \<Rightarrow> if n = 0 then 1 else n)"

fun modal_step :: "modal_event \<Rightarrow> modal_state \<Rightarrow> modal_state" where
  "modal_step (SetAction a) st = st\<lparr>md_action := a\<rparr>"
| "modal_step (SetWorkerMode m) st = st\<lparr>md_workerMode := m\<rparr>"
| "modal_step (SelectWorker w) st = st\<lparr>md_selectedWorker := w\<rparr>"
| "modal_step (SetTagOp p) st = st\<lparr>md_tagFilterOp := p\<rparr>"
| "modal_step (SetTags ts) st = st\<lparr>md_tagFilterTags := ts\<rparr>"
| "modal_step PickCurrentVersion st = st\<lparr>md_versionMode := VersionCurrent, md_selectedVersion := []\<rparr>"
| "modal_step PickOtherVersion st = st\<lparr>md_versionMode := VersionOther\<rparr>"
| "modal_step (SearchVersions s) st = st\<lparr>md_versionSearch := s\<rparr>"
| "modal_step (PickVersion v) st = st\<lparr>md_selectedVersion := v\<rparr>"
| "modal_step (SetShowBetas b) st = st\<lparr>md_showBetas := b\<rparr>"
| "modal_step (SetInstallableOnly b) st = st\<lparr>md_installableOnly := b\<rparr>"
| "modal_step ToggleCronMode st = st\<lparr>md_cronMode := (if md_cronMode st = Friendly then CronText else Friendly)\<rparr>"
| "modal_step (TypeEvery v) st = st\<lparr>md_every := Some (clamp_every v)\<rparr>"
| "modal_step (SetInterval i) st = st\<lparr>md_interval := i\<rparr>"
| "modal_step (SetDow d) st = st\<lparr>md_dow := d\<rparr>"
| "modal_step (SetTime t) st = st\<lparr>md_time := t\<rparr>"
| "modal_step (TypeCron c) st = st\<lparr>md_rawCron := c\<rparr>"
| "modal_step (SetOnceDate d) st = st\<lparr>md_onceDate := d\<rparr>"

definition modal_mode_of :: "modal_state \<Rightarrow> modal_mode" where
  "modal_mode_of st = (if md_action st \<in> {ScheduleRecurring, ScheduleOnce} then ModeSchedule else ModeNow)"

definition now_download :: "modal_state \<Rightarrow> bool" where
  "now_download st \<longleftrightarrow> md_action st = DownloadNow"

definition effectiveCron :: "modal_state \<Rightarrow> string" where
  "effectiveCron st =
    (if md_cronMode st = CronText then trim (md_rawCron st)
     else buildCron (md_interval st) (md_every st) (md_time st) (md_dow st))"

definition hasExistingSchedule :: "upgrade_props \<Rightarrow> bool" where
  "hasExistingSchedule p \<longleftrightarrow> truthy_str (up_currentSchedule p) \<or> truthy_str (up_currentOnce p)"

definition shouldUpdatePin :: "upgrade_props \<Rightarrow> modal_state \<Rightarrow> bool" where
  "shouldUpdatePin p st \<longleftrightarrow>
    truthy_str (up_pinnedVersion p) \<and> md_selectedVersion st \<noteq> [] \<and> Some (md_selectedVersion st) \<noteq> up_pinnedVersion p"

definition scheduleVersion :: "modal_state \<Rightarrow> string option" where
  "scheduleVersion st = (if md_selectedVersion st \<noteq> [] then Some (md_selectedVersion st) else None)"

section \<open>Routing-rule conflicts\<close>

definition clauseSatisfiesAllOf :: "routing_clause \<Rightarrow> routing_clause_op \<Rightarrow> string list \<Rightarrow> bool" where
  "clauseSatisfiesAllOf clause candidateOp candidateTags =
    (if candidateOp = AllOf \<and> rc_op clause = AllOf
     then list_all (\<lambda>t. t \<in> set candidateTags) (rc_tags clause)
     else False)"

definition tagFilterCanSatisfyRuleClause ::
  "worker list \<Rightarrow> routing_clause \<Rightarrow> routing_clause_op \<Rightarrow> string list \<Rightarrow> bool" where
  "tagFilterCanSatisfyRuleClause eligible clause candidateOp candidateTags =
    (if clauseSatisfiesAllOf clause candidateOp candidateTags then True
     else let candidateClause = \<lparr>rc_op = candidateOp, rc_tags = candidateTags\<rparr> in
       list_ex (\<lambda>w. let wt = set (nullish (w_tags w) []) in
         evaluateClause candidateClause wt \<and> evaluateClause clause wt) eligible)"

text \<open>The nested loops over the affected targets and the rules, pushing each conflict.\<close>

definition conflict_pairs :: "(routing_rule \<Rightarrow> bool) \<Rightarrow> routing_rule list \<Rightarrow> string list list \<Rightarrow> (routing_rule \<times> nat) list" where
  "conflict_pairs ok rules affected =
    concat (map (\<lambda>(idx, dt).
      map (\<lambda>r. (r, idx))
        (filter (\<lambda>r. list_all (\<lambda>c. evaluateClause c (set dt)) (rr_device_match r) \<and> \<not> ok r) rules))
      (enumerate 0 affected))"

definition conflictingRules ::
  "(string \<Rightarrow> string \<Rightarrow> int) \<Rightarrow> upgrade_props \<Rightarrow> routing_rule list option \<Rightarrow> modal_state \<Rightarrow> (routing_rule \<times> nat) list" where
  "conflictingRules localeCompare p routingRules st =
    (if modal_mode_of st \<noteq> ModeNow then []
     else case routingRules of None \<Rightarrow> []
     | Some rules \<Rightarrow>
       if rules = [] then []
       else case md_workerMode st of
         WorkerAny \<Rightarrow> []
       | WorkerSpecific \<Rightarrow>
           (case find (\<lambda>x. w_client_id x = md_selectedWorker st) (up_workers p) of
              None \<Rightarrow> []
            | Some w \<Rightarrow>
                (let wt = set (nullish (w_tags w) [])
                 in conflict_pairs (\<lambda>r. list_all (\<lambda>c. evaluateClause c wt) (rr_worker_match r))
                      rules (up_affectedTargetTags p)))
       | WorkerTag \<Rightarrow>
           if md_tagFilterTags st = [] then []
           else conflict_pairs (\<lambda>r. list_all
                  (\<lambda>c. tagFilterCanSatisfyRuleClause (eligibleWorkers localeCompare (up_workers p)) c
                    (md_tagFilterOp st) (md_tagFilterTags st)) (rr_worker_match r))
                rules (up_affectedTargetTags p))"

definition hasConflict ::
  "(string \<Rightarrow> string \<Rightarrow> int) \<Rightarrow> upgrade_props \<Rightarrow> routing_rule list option \<Rightarrow> modal_state \<Rightarrow> bool" where
  "hasConflict localeCompare p routingRules st \<longleftrightarrow> conflictingRules localeCompare p routingRules st \<noteq> []"

section \<open>Confirming\<close>

record upgrade_params =
  pr_pinnedClientId :: "string option"
  pr_esphomeVersion :: "string option"
  pr_updatePin :: "string option"
  pr_downloadOnly :: bool
  pr_workerTagFilter :: "routing_clause option"
  pr_bypassRoutingRules :: "bool option"

datatype modal_call =
    OnUpgradeNow upgrade_params
  | OnSaveOnce string "string option"
  | OnSaveSchedule string "string option" string

datatype modal_error = InvalidDate

definition now_params :: "upgrade_props \<Rightarrow> bool \<Rightarrow> modal_state \<Rightarrow> upgrade_params" where
  "now_params p conflict st =
    \<lparr>pr_pinnedClientId =
       (if md_workerMode st = WorkerSpecific \<and> md_selectedWorker st \<noteq> [] then Some (md_selectedWorker st) else None),
     pr_esphomeVersion =
       (if md_selectedVersion st \<noteq> [] \<and> Some (md_selectedVersion st) \<noteq> up_defaultEsphomeVersion p
        then Some (md_selectedVersion st) else None),
     pr_updatePin =
       (if \<not> now_download st \<and> shouldUpdatePin p st then Some (md_selectedVersion st) else None),
     pr_downloadOnly = now_download st,
     pr_workerTagFilter =
       (if md_workerMode st = WorkerTag \<and> md_tagFilterTags st \<noteq> []
        then Some \<lparr>rc_op = md_tagFilterOp st, rc_tags = md_tagFilterTags st\<rparr> else None),
     pr_bypassRoutingRules = (if conflict then Some True else None)\<rparr>"

definition handleConfirm ::
  "(string \<Rightarrow> string option) \<Rightarrow> string \<Rightarrow> upgrade_props \<Rightarrow> bool \<Rightarrow> modal_state \<Rightarrow> modal_error + modal_call" where
  "handleConfirm to_iso browser_tz p conflict st =
    (if modal_mode_of st = ModeNow then Inr (OnUpgradeNow (now_params p conflict st))
     else if md_action st = ScheduleOnce then
       (case to_iso (md_onceDate st) of
          None \<Rightarrow> Inl InvalidDate
        | Some utc \<Rightarrow> Inr (OnSaveOnce utc (scheduleVersion st)))
     else Inr (OnSaveSchedule (effectiveCron st) (scheduleVersion st) browser_tz))"

section \<open>What the dialog shows\<close>

definition modal_title :: "upgrade_props \<Rightarrow> modal_state \<Rightarrow> string" where
  "modal_title p st =
    (case md_action st of
       ScheduleRecurring \<Rightarrow> ''Schedule Recurring Upgrade''
     | ScheduleOnce \<Rightarrow> ''Schedule Upgrade''
     | DownloadNow \<Rightarrow> ''Download''
     | UpgradeNow \<Rightarrow> ''Upgrade'') @ '' '' @ em_dash @ '' '' @ up_displayName p"

definition confirm_disabled :: "modal_state \<Rightarrow> bool" where
  "confirm_disabled st \<longleftrightarrow>
    (modal_mode_of st = ModeSchedule \<and> md_action st = ScheduleOnce \<and> md_onceDate st = [])
    \<or> (modal_mode_of st = ModeNow \<and> md_workerMode st = WorkerSpecific \<and> md_selectedWorker st = [])
    \<or> (modal_mode_of st = ModeNow \<and> md_workerMode st = WorkerTag \<and> md_tagFilterTags st = [])"

definition confirm_label :: "bool \<Rightarrow> modal_state \<Rightarrow> string" where
  "confirm_label conflict st =
    (case md_action st of
       UpgradeNow \<Rightarrow> if conflict then ''Upgrade & override rules'' else ''Upgrade''
     | DownloadNow \<Rightarrow> if conflict then ''Download & override rules'' else ''Compile & Download''
     | ScheduleRecurring \<Rightarrow> ''Save Schedule''
     | ScheduleOnce \<Rightarrow> ''Save Schedule'')"

text \<open>The names the conflict banner lists: each rule once, in the order it first conflicts.\<close>

fun first_occurrences :: "'a list \<Rightarrow> 'a list \<Rightarrow> 'a list" where
  "first_occurrences seen [] = []"
| "first_occurrences seen (x # xs) =
     (if x \<in> set seen then first_occurrences seen xs else x # first_occurrences (x # seen) xs)"

definition banner_names :: "(routing_rule \<times> nat) list \<Rightarrow> string list" where
  "banner_names conflicts =
    map (\<lambda>i. case find (\<lambda>(r, _). rr_id r = i) conflicts of
           Some (r, _) \<Rightarrow> if rr_name r \<noteq> [] then rr_name r else i | None \<Rightarrow> i)
      (first_occurrences [] (map (\<lambda>(r, _). rr_id r) conflicts))"

datatype modal_section = ChoiceSection | PinWarning | ConflictBanner | CronToggle | FriendlyFields | RawCronField
  | OnceField | CronPreview | RemoveSchedule

definition visible_sections :: "upgrade_props \<Rightarrow> bool \<Rightarrow> modal_state \<Rightarrow> modal_section list" where
  "visible_sections p conflict st =
    (let now = modal_mode_of st = ModeNow; sched = modal_mode_of st = ModeSchedule;
         once = md_action st = ScheduleOnce; friendly = md_cronMode st = Friendly;
         choice = \<not> up_scheduleOnly p
     in (if choice then [ChoiceSection] else [])
        @ (if choice \<and> shouldUpdatePin p st \<and> now then [PinWarning] else [])
        @ (if choice \<and> conflict \<and> now then [ConflictBanner] else [])
        @ (if sched \<and> \<not> once then [CronToggle] else [])
        @ (if sched then (if once then [OnceField] else if friendly then [FriendlyFields] else [RawCronField]) else [])
        @ (if sched \<and> \<not> once \<and> friendly then [CronPreview] else [])
        @ (if sched \<and> hasExistingSchedule p then [RemoveSchedule] else []))"

section \<open>Lemmas\<close>

lemma modal_mode_cases:
  "modal_mode_of st = ModeNow \<longleftrightarrow> md_action st = UpgradeNow \<or> md_action st = DownloadNow"
  "modal_mode_of st = ModeSchedule \<longleftrightarrow> md_action st = ScheduleRecurring \<or> md_action st = ScheduleOnce"
  by (cases "md_action st"; simp add: modal_mode_of_def)+

lemma conflict_pairs_empty:
  "conflict_pairs ok rules affected = [] \<longleftrightarrow>
     (\<forall>dt \<in> set affected. \<forall>r \<in> set rules. matchesSide (rr_device_match r) (set dt) \<longrightarrow> ok r)"
proof -
  have "conflict_pairs ok rules affected = [] \<longleftrightarrow>
      (\<forall>(i, dt) \<in> set (enumerate 0 affected). \<forall>r \<in> set rules. matchesSide (rr_device_match r) (set dt) \<longrightarrow> ok r)"
    by (auto simp: conflict_pairs_def filter_empty_conv matchesSide_def)
  also have "\<dots> \<longleftrightarrow> (\<forall>dt \<in> snd ` set (enumerate 0 affected). \<forall>r \<in> set rules. matchesSide (rr_device_match r) (set dt) \<longrightarrow> ok r)"
    by (simp add: case_prod_unfold)
  also have "snd ` set (enumerate 0 affected) = set affected"
    using map_snd_enumerate [of 0 affected] by (metis set_map)
  finally show ?thesis .
qed

lemma set_eligibleWorkers:
  "set (eligibleWorkers lc ws) = {w \<in> set ws. w_online w \<and> \<not> w_disabled w \<and> 0 < nullish (w_max_parallel_jobs w) 0}"
  by (auto simp: eligibleWorkers_def)

lemma list_all_matchesSide: "list_all (\<lambda>c. evaluateClause c S) cs = matchesSide cs S"
  by (simp add: matchesSide_def)

text \<open>One worker that the filter and the clause accept makes the clause satisfiable.\<close>

lemma tag_filter_witness:
  assumes "w \<in> set eligible"
    and "evaluateClause \<lparr>rc_op = candidateOp, rc_tags = candidateTags\<rparr> (set (nullish (w_tags w) []))"
    and "evaluateClause c (set (nullish (w_tags w) []))"
  shows "tagFilterCanSatisfyRuleClause eligible c candidateOp candidateTags"
  using assms by (auto simp: tagFilterCanSatisfyRuleClause_def Let_def list_ex_iff)

section \<open>Properties\<close>

text \<open>Opening the dialog on a recurring schedule the picker built and pressing Save without a
  change saves the same cron expression, with the version shown as the pin choice.\<close>
theorem reopen_and_save_same_cron:
  assumes "picker_ok interval every h m dow"
    and cron: "up_currentSchedule p = Some (buildCron interval (Some every) (hh_mm h m) dow)"
    and "up_currentOnce p = None" and "up_defaultMode p = DefaultSchedule"
  shows "handleConfirm to_iso tz p conflict (open_modal to_local p) =
    Inr (OnSaveSchedule (buildCron interval (Some every) (hh_mm h m) dow)
          (scheduleVersion (open_modal to_local p)) tz)"
proof -
  let ?cron = "buildCron interval (Some every) (hh_mm h m) dow"
  note pb = parse_build [OF assms(1)]
  have ne: "?cron \<noteq> []" using pb by (auto simp: parseCron_def split_ws.simps [of "[]"])
  have act: "md_action (open_modal to_local p) = ScheduleRecurring"
    using assms(3,4) by (simp add: open_modal_def Let_def initialAction_def)
  have "effectiveCron (open_modal to_local p) = build_fields (picker_fields interval every h m dow)"
    using ne pb by (simp add: effectiveCron_def open_modal_def Let_def cron build_fields_def)
  then show ?thesis
    using act build_picker_fields [OF assms(1)] by (simp add: handleConfirm_def modal_mode_of_def)
qed

definition sample_props :: upgrade_props where
  "sample_props = \<lparr>up_displayName = ''Garage'', up_workers = [], up_esphomeVersions = [],
     up_defaultEsphomeVersion = Some ''2024.6.0'', up_pinnedVersion = None,
     up_currentSchedule = Some ''0 4 * * 6'', up_currentOnce = None, up_defaultMode = DefaultSchedule,
     up_scheduleOnly = False, up_seed = None, up_affectedTargetTags = []\<rparr>"

theorem reopen_and_save_witness:
  "handleConfirm Some ''UTC'' sample_props False (open_modal (\<lambda>_. \<lparr>lt_year = 2026, lt_month = 0, lt_day = 1, lt_hours = 0, lt_minutes = 0\<rparr>) sample_props)
     = Inr (OnSaveSchedule ''0 4 * * 6'' None ''UTC'')"
proof -
  let ?loc = "\<lambda>_::string option. \<lparr>lt_year = 2026, lt_month = 0, lt_day = 1, lt_hours = 0, lt_minutes = 0\<rparr>"
  have b: "buildCron ''weeks'' (Some 1) (hh_mm 4 0) ''6'' = ''0 4 * * 6''" by code_simp
  have ok: "picker_ok ''weeks'' 1 4 0 ''6''" by (simp add: picker_ok_def cron_word_def is_ws_def)
  have "scheduleVersion (open_modal ?loc sample_props) = None"
    by (simp add: scheduleVersion_def open_modal_def Let_def sample_props_def)
  then show ?thesis
    using reopen_and_save_same_cron [OF ok, of sample_props Some "''UTC''" False ?loc]
    by (simp add: b) (simp add: sample_props_def)
qed

text \<open>Confirming an enabled immediate action sends exactly the worker choice of the selected
  radio: neither constraint for any worker, only the pin for a specific one, only a non-empty
  tag filter for a tag expression; and it asks the server to bypass the routing rules exactly
  when a conflict was showing.\<close>
theorem confirm_worker_choice:
  assumes "modal_mode_of st = ModeNow" and "\<not> confirm_disabled st"
  shows "\<exists>q. handleConfirm to_iso tz p conflict st = Inr (OnUpgradeNow q)
    \<and> (pr_bypassRoutingRules q = Some True \<longleftrightarrow> conflict)
    \<and> (case md_workerMode st of
         WorkerAny \<Rightarrow> pr_pinnedClientId q = None \<and> pr_workerTagFilter q = None
       | WorkerSpecific \<Rightarrow> pr_pinnedClientId q = Some (md_selectedWorker st) \<and> md_selectedWorker st \<noteq> []
           \<and> pr_workerTagFilter q = None
       | WorkerTag \<Rightarrow> pr_pinnedClientId q = None
           \<and> pr_workerTagFilter q = Some \<lparr>rc_op = md_tagFilterOp st, rc_tags = md_tagFilterTags st\<rparr>
           \<and> md_tagFilterTags st \<noteq> [])"
  using assms
  by (intro exI [of _ "now_params p conflict st"])
    (auto simp: handleConfirm_def now_params_def confirm_disabled_def split: worker_mode.splits)

definition now_state :: modal_state where
  "now_state = \<lparr>md_selectedWorker = ''w1'', md_workerMode = WorkerSpecific, md_tagFilterOp = AllOf,
     md_tagFilterTags = [], md_selectedVersion = [], md_versionSearch = [], md_showBetas = False,
     md_installableOnly = True, md_versionMode = VersionCurrent, md_action = UpgradeNow,
     md_interval = ''days'', md_every = Some 1, md_time = ''02:00'', md_dow = ''0'', md_rawCron = [],
     md_cronMode = Friendly, md_onceDate = ''2026-01-01T00:00''\<rparr>"

theorem confirm_worker_choice_witness:
  "\<exists>q. handleConfirm Some ''UTC'' sample_props True now_state = Inr (OnUpgradeNow q)
    \<and> pr_pinnedClientId q = Some ''w1'' \<and> pr_bypassRoutingRules q = Some True"
proof -
  have n: "modal_mode_of now_state = ModeNow" "\<not> confirm_disabled now_state"
    by (simp_all add: now_state_def modal_mode_of_def confirm_disabled_def)
  show ?thesis using confirm_worker_choice [OF n, of Some "''UTC''" sample_props True]
    by (auto simp: now_state_def)
qed

text \<open>C2: with a specific worker chosen, the dialog reports a conflict exactly when that worker is
  not eligible, under the routing rules, for one of the targets being upgraded.\<close>
theorem specific_conflict_iff_ineligible:
  assumes "modal_mode_of st = ModeNow" and "md_workerMode st = WorkerSpecific"
    and "find (\<lambda>x. w_client_id x = md_selectedWorker st) (up_workers p) = Some w"
  shows "hasConflict lc p (Some rules) st \<longleftrightarrow>
    (\<exists>dt \<in> set (up_affectedTargetTags p). \<not> isEligible dt (nullish (w_tags w) []) rules)"
  using assms
  by (auto simp: hasConflict_def conflictingRules_def Let_def conflict_pairs_empty list_all_matchesSide
      isEligible_def list_all_iff evaluateRule_iff)

definition linux_worker :: worker where
  "linux_worker = \<lparr>w_client_id = ''w1'', w_hostname = ''box'', w_online = True, w_disabled = False,
     w_max_parallel_jobs = Some 2, w_requested_max_parallel_jobs = None, w_client_version = None,
     w_image_version = None, w_system_info = None, w_current_job_id = None, w_last_seen = None,
     w_health_blocked_reason = None, w_tags = Some [''linux''], w_disk_quota_bytes = None,
     w_disk_quota_override_bytes = None, w_default_worker_disk_quota_bytes = None\<rparr>"

theorem specific_conflict_witness:
  "hasConflict (\<lambda>_ _. 0) (sample_props\<lparr>up_workers := [linux_worker], up_affectedTargetTags := [[''kitchen'']]\<rparr>)
     (Some [kitchen_rule]) now_state"
proof -
  let ?p = "sample_props\<lparr>up_workers := [linux_worker], up_affectedTargetTags := [[''kitchen'']]\<rparr>"
  have m: "modal_mode_of now_state = ModeNow" "md_workerMode now_state = WorkerSpecific"
    and f: "find (\<lambda>x. w_client_id x = md_selectedWorker now_state) (up_workers ?p) = Some linux_worker"
    by (simp_all add: now_state_def modal_mode_of_def linux_worker_def)
  have "\<not> isEligible [''kitchen''] [''linux''] [kitchen_rule]" by code_simp
  then show ?thesis
    using specific_conflict_iff_ineligible [OF m f, of "\<lambda>_ _. 0" "[kitchen_rule]"]
    by (simp add: linux_worker_def)
qed

text \<open>C25: with a tag expression there are no false alarms: if some online, enabled worker matches the
  expression and is eligible for every target being upgraded, no conflict is reported.\<close>
theorem tag_conflict_no_false_alarm:
  assumes "md_workerMode st = WorkerTag"
    and "w \<in> set (eligibleWorkers lc (up_workers p))"
    and "evaluateClause \<lparr>rc_op = md_tagFilterOp st, rc_tags = md_tagFilterTags st\<rparr> (set (nullish (w_tags w) []))"
    and "\<forall>dt \<in> set (up_affectedTargetTags p). isEligible dt (nullish (w_tags w) []) rules"
  shows "\<not> hasConflict lc p (Some rules) st"
  using assms tag_filter_witness [OF assms(2,3)]
  by (auto simp: hasConflict_def conflictingRules_def conflict_pairs_empty isEligible_def list_all_iff
      evaluateRule_iff matchesSide_iff)

text \<open>
  The converse fails: the check looks for a worker per clause, so two workers that each satisfy
  one clause of a rule hide that no worker satisfies the rule.
\<close>

definition two_clause_rule :: routing_rule where
  "two_clause_rule = kitchen_rule\<lparr>rr_worker_match :=
     [\<lparr>rc_op = AllOf, rc_tags = [''gpu'']\<rparr>, \<lparr>rc_op = AllOf, rc_tags = [''fast'']\<rparr>]\<rparr>"

definition split_props :: upgrade_props where
  "split_props = sample_props\<lparr>
     up_workers := [linux_worker\<lparr>w_tags := Some [''x'', ''gpu'']\<rparr>,
                    linux_worker\<lparr>w_client_id := ''w2'', w_tags := Some [''x'', ''fast'']\<rparr>],
     up_affectedTargetTags := [[''kitchen'']]\<rparr>"

definition tag_state :: modal_state where
  "tag_state = now_state\<lparr>md_workerMode := WorkerTag, md_tagFilterOp := AnyOf, md_tagFilterTags := [''x'']\<rparr>"

theorem tag_conflict_witness:
  "\<not> hasConflict (\<lambda>_ _. 0) split_props (Some [kitchen_rule\<lparr>rr_worker_match := [\<lparr>rc_op = AllOf, rc_tags = [''gpu'']\<rparr>]\<rparr>]) tag_state"
proof -
  let ?w = "linux_worker\<lparr>w_tags := Some [''x'', ''gpu'']\<rparr>"
  have m: "md_workerMode tag_state = WorkerTag" by (simp add: tag_state_def)
  have e: "?w \<in> set (eligibleWorkers (\<lambda>_ _. 0) (up_workers split_props))"
    by (simp add: set_eligibleWorkers split_props_def linux_worker_def)
  show ?thesis
    by (rule tag_conflict_no_false_alarm [OF m e])
      (simp_all add: tag_state_def split_props_def linux_worker_def kitchen_rule_def evaluateClause_def
        isEligible_def evaluateRule_def matchesSide_def)
qed

text \<open>A missed conflict: every online worker the expression accepts is ineligible for the target,
  and the dialog reports no conflict, since it looks for a satisfying worker clause by clause.\<close>
theorem tag_conflict_missed:
  "\<not> hasConflict (\<lambda>_ _. 0) split_props (Some [two_clause_rule]) tag_state
   \<and> eligibleWorkers (\<lambda>_ _. 0) (up_workers split_props) \<noteq> []
   \<and> list_all (\<lambda>w. \<not> isEligible [''kitchen''] (nullish (w_tags w) []) [two_clause_rule])
        (eligibleWorkers (\<lambda>_ _. 0) (up_workers split_props))"
  by (auto simp: hasConflict_def conflictingRules_def conflict_pairs_empty set_eligibleWorkers
      tagFilterCanSatisfyRuleClause_def clauseSatisfiesAllOf_def eligibleWorkers_def sort_by_def
      split_props_def tag_state_def now_state_def two_clause_rule_def kitchen_rule_def linux_worker_def
      modal_mode_of_def evaluateClause_def isEligible_def evaluateRule_def matchesSide_def Let_def)

text \<open>Rerunning a job: a dialog opened with a job's worker constraint, version and kind and
  confirmed at once asks for the same constraint, version and kind (the version is left out
  when it is the server's default).\<close>
theorem rerun_same_params:
  assumes "up_seed p = Some \<lparr>sd_pinnedClientId = pin, sd_workerTagFilter = filt, sd_esphomeVersion = Some v, sd_action = Some act\<rparr>"
    and "act \<in> {UpgradeNow, DownloadNow}" and "up_scheduleOnly p = False" and "up_defaultMode p = DefaultNow"
    and "v \<noteq> []" and "pin \<noteq> Some []" and "pin = None \<or> filt = None"
    and "\<forall>f. filt = Some f \<longrightarrow> rc_tags f \<noteq> []"
  shows "\<exists>q. handleConfirm to_iso tz p conflict (open_modal to_local p) = Inr (OnUpgradeNow q)
    \<and> pr_pinnedClientId q = pin \<and> pr_workerTagFilter q = filt
    \<and> pr_downloadOnly q = (act = DownloadNow)
    \<and> pr_esphomeVersion q = (if up_defaultEsphomeVersion p = Some v then None else Some v)"
proof (intro exI [of _ "now_params p conflict (open_modal to_local p)"] conjI)
  have act: "md_action (open_modal to_local p) = act"
    using assms(1-4) by (auto simp: open_modal_def Let_def initialAction_def)
  then show "handleConfirm to_iso tz p conflict (open_modal to_local p) =
      Inr (OnUpgradeNow (now_params p conflict (open_modal to_local p)))"
    using assms(2) by (auto simp: handleConfirm_def modal_mode_of_def)
  show "pr_downloadOnly (now_params p conflict (open_modal to_local p)) = (act = DownloadNow)"
    using act by (simp add: now_params_def now_download_def)
  show "pr_pinnedClientId (now_params p conflict (open_modal to_local p)) = pin"
    using assms(1,6,7) by (cases pin; cases filt) (auto simp: now_params_def open_modal_def Let_def initialWorkerMode_def)
  show "pr_workerTagFilter (now_params p conflict (open_modal to_local p)) = filt"
    using assms(1,6,7,8) by (cases pin; cases filt) (auto simp: now_params_def open_modal_def Let_def initialWorkerMode_def)
  show "pr_esphomeVersion (now_params p conflict (open_modal to_local p)) =
      (if up_defaultEsphomeVersion p = Some v then None else Some v)"
    using assms(1,5) by (auto simp: now_params_def open_modal_def Let_def)
qed

definition rerun_props :: upgrade_props where
  "rerun_props = sample_props\<lparr>up_defaultMode := DefaultNow,
     up_seed := Some \<lparr>sd_pinnedClientId = Some ''w1'', sd_workerTagFilter = None,
       sd_esphomeVersion = Some ''2024.5.0'', sd_action = Some DownloadNow\<rparr>\<rparr>"

theorem rerun_same_params_witness:
  "\<exists>q. handleConfirm Some ''UTC'' rerun_props False
      (open_modal (\<lambda>_. \<lparr>lt_year = 2026, lt_month = 0, lt_day = 1, lt_hours = 0, lt_minutes = 0\<rparr>) rerun_props) = Inr (OnUpgradeNow q)
    \<and> pr_pinnedClientId q = Some ''w1'' \<and> pr_downloadOnly q \<and> pr_esphomeVersion q = Some ''2024.5.0''"
  using rerun_same_params [of rerun_props "Some ''w1''" None "''2024.5.0''" DownloadNow Some "''UTC''" False
      "\<lambda>_. \<lparr>lt_year = 2026, lt_month = 0, lt_day = 1, lt_hours = 0, lt_minutes = 0\<rparr>"]
  by (auto simp: rerun_props_def sample_props_def)

text \<open>The step the user types is always at least 1, but in the weekly interval it has no effect:
  the dialog's \<open>Every n week(s)\<close> saves the same weekly cron for every \<open>n\<close>.\<close>
theorem weekly_step_ignored:
  "1 \<le> clamp_every typed
   \<and> (md_interval st = ''weeks'' \<longrightarrow> effectiveCron (modal_step (TypeEvery typed) st) = effectiveCron st)"
  by (simp add: clamp_every_def effectiveCron_def buildCron_def Let_def)

theorem weekly_step_witness:
  "effectiveCron (modal_step (TypeEvery ''3'') (now_state\<lparr>md_interval := ''weeks''\<rparr>)) = ''0 2 * * 0''"
proof -
  have "effectiveCron (now_state\<lparr>md_interval := ''weeks''\<rparr>) = ''0 2 * * 0''" by code_simp
  then show ?thesis using weekly_step_ignored [of "''3''" "now_state\<lparr>md_interval := ''weeks''\<rparr>"]
    by (simp add: now_state_def)
qed

end
