(* ===== verification/App_Actions.thy ===== *)
theory App_Actions
  imports Api_Endpoints Upgrade_Modal Device_Actions Queue_Tab
begin

text \<open>
  \<open>App.tsx\<close>: the handlers the tabs and dialogs call. A handler takes the polled lists as its
  closure does, runs its API calls through the client state of \<open>Api_Transport\<close> and leaves what the
  user sees: toasts, the tab, the open dialogs, the lists asked to revalidate (\<open>mutate\<close>) and the
  files handed to the browser. \<open>Promise.all\<close> is run in list order: every call is made, the first
  rejection is the one reported. At the end the handlers are composed with the upgrade dialog and
  with mirrors of the server's rules in \<open>ha-addon/server\<close>.
\<close>

section \<open>State\<close>

datatype tab_name = DevicesT | QueueT | WorkersT | SchedulesT

datatype toast_kind = InfoToast | SuccessToast | ErrToast

text \<open>\<open>FailToast p e\<close> is the error toast with text \<open>p + e.message\<close>.\<close>

datatype toast = Toast toast_kind string | FailToast string js_error

record upgrade_ctx =
  uc_targets :: "string list"
  uc_displayName :: string
  uc_defaultMode :: default_mode
  uc_seed :: "rerun_seed option"

record app =
  ap_activeTab :: tab_name
  ap_sessionTab :: "string option"
  ap_upgradeModalTarget :: "upgrade_ctx option"
  ap_logJobId :: "string option"
  ap_logWorkerId :: "string option"
  ap_logWatch :: "(string \<times> bool) option"
  ap_deviceLogTarget :: "string option"
  ap_deviceLogAwaitBoot :: bool
  ap_editorTarget :: "string option"
  ap_unsavedNewTargets :: "string set"
  ap_client :: client
  ap_toasts :: "toast list"
  ap_mutated :: "string list"
  ap_downloads :: "(string \<times> string) list"

record polled =
  po_targets :: "target list"
  po_devices :: "device list"
  po_workers :: "worker list"
  po_queue :: "job list"

definition addToast :: "toast \<Rightarrow> app \<Rightarrow> app" where
  "addToast t a = a\<lparr>ap_toasts := ap_toasts a @ [t]\<rparr>"

definition mutate :: "string \<Rightarrow> app \<Rightarrow> app" where
  "mutate key a = a\<lparr>ap_mutated := ap_mutated a @ [key]\<rparr>"

text \<open>\<open>try { x = await m; ok(x) } catch (err) { fail(err) }\<close>.\<close>

definition attempt :: "'a api \<Rightarrow> (js_error \<Rightarrow> app \<Rightarrow> app) \<Rightarrow> ('a \<Rightarrow> app \<Rightarrow> app) \<Rightarrow> app \<Rightarrow> app" where
  "attempt m fail ok a =
    (case m (ap_client a) of
       (Inl e, c) \<Rightarrow> fail e (a\<lparr>ap_client := c\<rparr>)
     | (Inr x, c) \<Rightarrow> ok x (a\<lparr>ap_client := c\<rparr>))"

definition fail_with :: "string \<Rightarrow> js_error \<Rightarrow> app \<Rightarrow> app" where
  "fail_with p e = addToast (FailToast p e)"

definition fail_plain :: "string \<Rightarrow> js_error \<Rightarrow> app \<Rightarrow> app" where
  "fail_plain msg e = addToast (Toast ErrToast msg)"

definition success :: "string \<Rightarrow> app \<Rightarrow> app" where
  "success msg = addToast (Toast SuccessToast msg)"

fun promise_all :: "unit api list \<Rightarrow> unit api" where
  "promise_all [] c = (Inr (), c)"
| "promise_all (m # ms) c =
     (case m c of (r, c1) \<Rightarrow> case promise_all ms c1 of (rs, c2) \<Rightarrow>
        ((case r of Inl e \<Rightarrow> Inl e | Inr _ \<Rightarrow> rs), c2))"

definition ignore :: "'a api \<Rightarrow> unit api" where
  "ignore m = api_bind m (\<lambda>_. api_return ())"

section \<open>Tabs\<close>

definition displayQueue :: "job list \<Rightarrow> job list" where
  "displayQueue queue = filter (\<lambda>j. \<not> truthy_bool (j_validate_only j)) queue"

definition count :: "('a \<Rightarrow> bool) \<Rightarrow> 'a list \<Rightarrow> nat" where
  "count P xs = length (filter P xs)"

definition getTabCount :: "tab_name \<Rightarrow> target list \<Rightarrow> device list \<Rightarrow> job list \<Rightarrow> worker list \<Rightarrow> string" where
  "getTabCount tab targets devices queue workers =
    (case tab of
       DevicesT \<Rightarrow>
        (let unmanaged = filter (\<lambda>d. \<not> truthy_str (d_compile_target d)) devices;
             totalOnline = count (\<lambda>t. truthy_bool (t_online t)) targets + count (\<lambda>d. truthy_bool (d_online d)) unmanaged;
             totalKnown = count (\<lambda>t. t_online t \<noteq> None) targets + length unmanaged
         in if totalKnown \<noteq> 0 then show_nat totalOnline @ ''/'' @ show_nat totalKnown
            else if length targets \<noteq> 0 then show_nat (length targets) else [])
     | QueueT \<Rightarrow>
        (let active = count (\<lambda>j. j_state j \<in> set [''pending'', ''working'']) queue;
             failed = count (\<lambda>j. j_state j \<in> set [''failed'', ''timed_out'']) queue
         in if active \<noteq> 0 then show_nat active @ '' active''
            else if failed \<noteq> 0 then show_nat failed @ '' failed''
            else if length queue \<noteq> 0 then show_nat (length queue) @ '' done''
            else ''0'')
     | WorkersT \<Rightarrow> show_nat (count w_online workers) @ ''/'' @ show_nat (length workers)
     | SchedulesT \<Rightarrow> show_nat (count (\<lambda>t. truthy_str (t_schedule t) \<or> truthy_str (t_schedule_once t)) targets))"

fun tab_string :: "tab_name \<Rightarrow> string" where
  "tab_string DevicesT = ''devices''"
| "tab_string QueueT = ''queue''"
| "tab_string WorkersT = ''workers''"
| "tab_string SchedulesT = ''schedules''"

definition valid_tab :: "string option \<Rightarrow> tab_name option" where
  "valid_tab s = (if truthy_str s then find (\<lambda>t. tab_string t = the s) [DevicesT, QueueT, WorkersT, SchedulesT] else None)"

text \<open>The query is that of the page, \<^const>\<open>None\<close> outside a browser or for a malformed URL.\<close>

definition initialTab :: "params option \<Rightarrow> string option \<Rightarrow> tab_name" where
  "initialTab query stored =
    (case (case query of None \<Rightarrow> None | Some ps \<Rightarrow> valid_tab (params_get ''tab'' ps)) of
       Some t \<Rightarrow> t
     | None \<Rightarrow> (case valid_tab stored of Some t \<Rightarrow> t | None \<Rightarrow> DevicesT))"

text \<open>The URL is only rewritten, which the client sees as its page query.\<close>

definition switchTab :: "tab_name \<Rightarrow> app \<Rightarrow> app" where
  "switchTab name a =
    a\<lparr>ap_activeTab := name, ap_sessionTab := Some (tab_string name),
      ap_client := (ap_client a)\<lparr>cl_page_query := params_set ''tab'' (tab_string name) (cl_page_query (ap_client a))\<rparr>\<rparr>"

definition activeJobsByTarget :: "job list \<Rightarrow> string \<Rightarrow> job option" where
  "activeJobsByTarget queue =
    foldl (\<lambda>m j. if j_state j = ''pending'' \<or> j_state j = ''working'' then m(j_target j \<mapsto> j) else m)
      Map.empty (displayQueue queue)"

definition isUnauthenticated :: "js_error option list \<Rightarrow> bool" where
  "isUnauthenticated errs = list_ex (\<lambda>e. case e of None \<Rightarrow> False | Some x \<Rightarrow> isUnauthorizedError x) errs"

section \<open>Opening the upgrade dialog\<close>

definition display_name :: "target list \<Rightarrow> string \<Rightarrow> string" where
  "display_name targets f =
    str_or (case find_target f targets of None \<Rightarrow> None | Some t \<Rightarrow> t_friendly_name t) (stripYaml (Some f))"

definition handleOpenUpgradeModal :: "target list \<Rightarrow> string \<Rightarrow> default_mode \<Rightarrow> app \<Rightarrow> app" where
  "handleOpenUpgradeModal targets f mode a =
    a\<lparr>ap_upgradeModalTarget := Some \<lparr>uc_targets = [f], uc_displayName = display_name targets f,
        uc_defaultMode = mode, uc_seed = None\<rparr>\<rparr>"

definition handleOpenUpgradeModalMany :: "string list \<Rightarrow> string \<Rightarrow> default_mode \<Rightarrow> app \<Rightarrow> app" where
  "handleOpenUpgradeModalMany fs name mode a =
    (if length fs = 0 then a
     else a\<lparr>ap_upgradeModalTarget := Some \<lparr>uc_targets = fs, uc_displayName = name, uc_defaultMode = mode, uc_seed = None\<rparr>\<rparr>)"

definition rerunSingleJobViaModal :: "target list \<Rightarrow> job \<Rightarrow> app \<Rightarrow> app" where
  "rerunSingleJobViaModal targets job a =
    a\<lparr>ap_upgradeModalTarget := Some \<lparr>uc_targets = [j_target job], uc_displayName = display_name targets (j_target job),
        uc_defaultMode = DefaultNow,
        uc_seed = Some \<lparr>sd_pinnedClientId = j_pinned_client_id job, sd_workerTagFilter = j_worker_tag_filter job,
          sd_esphomeVersion = j_esphome_version job,
          sd_action = Some (if truthy_bool (j_download_only job) then DownloadNow else UpgradeNow)\<rparr>\<rparr>\<rparr>"

text \<open>The props the dialog is mounted with.\<close>

definition modal_props :: "polled \<Rightarrow> esphome_versions \<Rightarrow> upgrade_ctx \<Rightarrow> upgrade_props" where
  "modal_props po ev ctx =
    (let t = (if 1 < length (uc_targets ctx) then None
              else case uc_targets ctx of [] \<Rightarrow> None | f # _ \<Rightarrow> find_target f (po_targets po))
     in \<lparr>up_displayName = uc_displayName ctx,
         up_workers = po_workers po,
         up_esphomeVersions = ev_available ev,
         up_defaultEsphomeVersion = (case ev_selected ev of Some v \<Rightarrow> Some v | None \<Rightarrow> ev_detected ev),
         up_pinnedVersion = opt_bind t t_pinned_version,
         up_currentSchedule = opt_bind t t_schedule,
         up_currentOnce = opt_bind t t_schedule_once,
         up_defaultMode = uc_defaultMode ctx,
         up_scheduleOnly = False,
         up_seed = uc_seed ctx,
         up_affectedTargetTags = map (\<lambda>name. tags_of name (po_targets po)) (uc_targets ctx)\<rparr>)"

section \<open>Starting an upgrade\<close>

definition op_string :: "routing_clause_op \<Rightarrow> string" where
  "op_string p = (case p of AllOf \<Rightarrow> ''all_of'' | AnyOf \<Rightarrow> ''any_of'' | NoneOf \<Rightarrow> ''none_of'' | UnknownOp s \<Rightarrow> s)"

definition filter_arg :: "routing_clause \<Rightarrow> tag_filter_arg" where
  "filter_arg f = \<lparr>tf_op = op_string (rc_op f), tf_tags = rc_tags f\<rparr>"

text \<open>\<open>s.replace('_', ' ')\<close>: the first underscore only.\<close>

fun replace_first :: "char \<Rightarrow> char \<Rightarrow> string \<Rightarrow> string" where
  "replace_first x y [] = []"
| "replace_first x y (c # s) = (if c = x then y # s else c # replace_first x y s)"

definition queued_message :: "worker list \<Rightarrow> upgrade_params \<Rightarrow> upgrade_ctx \<Rightarrow> string" where
  "queued_message workers params ctx =
    (let versionSuffix = (if truthy_str (pr_esphomeVersion params)
           then '' (ESPHome '' @ the (pr_esphomeVersion params) @ '')'' else []);
         workerSuffix = (if truthy_str (pr_pinnedClientId params)
           then '' on '' @ (case find (\<lambda>w. w_client_id w = the (pr_pinnedClientId params)) workers of
                Some w \<Rightarrow> w_hostname w | None \<Rightarrow> the (pr_pinnedClientId params))
           else case pr_workerTagFilter params of
             Some f \<Rightarrow> '' (workers '' @ replace_first (CHR ''_'') (CHR '' '') (op_string (rc_op f)) @ '' [''
                        @ join_with '', '' (rc_tags f) @ ''])''
           | None \<Rightarrow> []);
         pinSuffix = (if truthy_str (pr_updatePin params) \<and> length (uc_targets ctx) = 1
           then '' (pin updated to '' @ the (pr_updatePin params) @ '')'' else []);
         verb = (if pr_downloadOnly params then ''Compile-and-download queued for'' else ''Queued'')
     in verb @ '' '' @ uc_displayName ctx @ workerSuffix @ versionSuffix @ pinSuffix)"

text \<open>The job whose log is opened: by run id, or the one the server found already queued.\<close>

definition started_job :: "json option \<Rightarrow> json option \<Rightarrow> string \<Rightarrow> job list \<Rightarrow> job option" where
  "started_job run_id enqueued f fresh =
    (case (if js_truthy run_id then find (\<lambda>j. Some (JStr (nullish (j_run_id j) [])) = run_id \<and> j_run_id j \<noteq> None \<and> j_target j = f) fresh
           else None) of
       Some j \<Rightarrow> Some j
     | None \<Rightarrow> if enqueued = Some (JNum 0)
         then find (\<lambda>j. j_target j = f \<and> \<not> truthy_bool (j_validate_only j) \<and> isJobInProgress j) fresh else None)"

definition open_job_log :: "job \<Rightarrow> app \<Rightarrow> app" where
  "open_job_log job a = a\<lparr>ap_logWatch := Some (j_id job, True), ap_logWorkerId := None, ap_logJobId := Some (j_id job)\<rparr>"

text \<open>The last part of \<open>handleUpgradeConfirm\<close>; \<open>fresh\<close> is what \<open>mutateQueue\<close> resolves with.\<close>

definition after_compile ::
  "worker list \<Rightarrow> job list option \<Rightarrow> upgrade_params \<Rightarrow> upgrade_ctx \<Rightarrow> json \<Rightarrow> app \<Rightarrow> app" where
  "after_compile workers fresh params ctx resp a =
    (let a1 = mutate ''queue'' (mutate ''devices'' (switchTab QueueT (success (queued_message workers params ctx) a))) in
     case (uc_targets ctx, fresh) of
       ([f], Some q) \<Rightarrow>
         attempt (api_bind (js_field resp ''run_id'') (\<lambda>r. api_bind (js_field resp ''enqueued'') (\<lambda>n. api_return (r, n))))
           (fail_with ''Error: '')
           (\<lambda>(r, n) a2. case started_job r n f q of None \<Rightarrow> a2 | Some job \<Rightarrow> open_job_log job a2) a1
     | _ \<Rightarrow> a1)"

definition compile_request :: "upgrade_params \<Rightarrow> upgrade_ctx \<Rightarrow> json api" where
  "compile_request params ctx =
    compile (TargetList (uc_targets ctx)) (pr_pinnedClientId params) (pr_esphomeVersion params)
      (Some (pr_downloadOnly params)) (map_option filter_arg (pr_workerTagFilter params)) (pr_bypassRoutingRules params) None"

definition handleUpgradeConfirm :: "worker list \<Rightarrow> job list option \<Rightarrow> upgrade_params \<Rightarrow> app \<Rightarrow> app" where
  "handleUpgradeConfirm workers fresh params a =
    (case ap_upgradeModalTarget a of
       None \<Rightarrow> a
     | Some ctx \<Rightarrow>
        (let a1 = a\<lparr>ap_upgradeModalTarget := None\<rparr>;
             queue_it = attempt (compile_request params ctx) (fail_with ''Error: '') (after_compile workers fresh params ctx)
         in case uc_targets ctx of
              [f] \<Rightarrow> if truthy_str (pr_updatePin params)
                     then attempt (pinTargetVersion f (the (pr_updatePin params))) (fail_with ''Error: '') (\<lambda>_. queue_it) a1
                     else queue_it a1
            | _ \<Rightarrow> queue_it a1))"

section \<open>Schedules\<close>

definition applyScheduleVersion :: "string \<Rightarrow> string option \<Rightarrow> string option \<Rightarrow> unit api" where
  "applyScheduleVersion f currentPin desiredVersion =
    (case desiredVersion of
       None \<Rightarrow> if truthy_str currentPin then unpinTargetVersion f else api_return ()
     | Some v \<Rightarrow> if desiredVersion \<noteq> currentPin then pinTargetVersion f v else api_return ())"

definition current_pin :: "target list \<Rightarrow> string \<Rightarrow> string option" where
  "current_pin targets f = opt_bind (find_target f targets) t_pinned_version"

definition save_for_each :: "(string \<Rightarrow> unit api) \<Rightarrow> target list \<Rightarrow> string option \<Rightarrow> string list \<Rightarrow> unit api" where
  "save_for_each save targets version fs =
    promise_all (map (\<lambda>f. api_bind (applyScheduleVersion f (current_pin targets f) version) (\<lambda>_. save f)) fs)"

definition close_modal :: "string \<Rightarrow> app \<Rightarrow> app" where
  "close_modal msg a = mutate ''devices'' ((success msg a)\<lparr>ap_upgradeModalTarget := None\<rparr>)"

definition onSaveSchedule :: "target list \<Rightarrow> upgrade_ctx \<Rightarrow> string \<Rightarrow> string option \<Rightarrow> string \<Rightarrow> app \<Rightarrow> app" where
  "onSaveSchedule targets ctx cron version tz =
    attempt (save_for_each (\<lambda>f. ignore (setTargetSchedule f cron (Some tz))) targets version (uc_targets ctx))
      (fail_with ''Schedule failed: '') (\<lambda>_. close_modal (''Schedule set for '' @ uc_displayName ctx))"

definition onSaveOnce :: "target list \<Rightarrow> upgrade_ctx \<Rightarrow> string \<Rightarrow> string option \<Rightarrow> app \<Rightarrow> app" where
  "onSaveOnce targets ctx datetime version =
    attempt (save_for_each (\<lambda>f. setTargetScheduleOnce f datetime) targets version (uc_targets ctx))
      (fail_with ''Schedule failed: '') (\<lambda>_. close_modal (''One-time upgrade scheduled for '' @ uc_displayName ctx))"

definition onDeleteSchedule :: "upgrade_ctx \<Rightarrow> app \<Rightarrow> app" where
  "onDeleteSchedule ctx =
    attempt (promise_all (map deleteTargetSchedule (uc_targets ctx)))
      (fail_with ''Delete failed: '') (\<lambda>_. close_modal (''Schedule removed for '' @ uc_displayName ctx))"

section \<open>The queue\<close>

text \<open>A count in a response: \<open>data.k > 0\<close> and \<open>data.k === 1\<close>.\<close>

definition positive :: "json option \<Rightarrow> bool" where
  "positive v = (case v of Some (JNum n) \<Rightarrow> 0 < n | _ \<Rightarrow> False)"

definition counted_toast :: "json option \<Rightarrow> string \<Rightarrow> (string \<Rightarrow> string) \<Rightarrow> app \<Rightarrow> app" where
  "counted_toast v one many a =
    mutate ''queue'' (if positive v then success (if v = Some (JNum 1) then one else many (template_str v)) a else a)"

definition count_of :: "json api \<Rightarrow> string \<Rightarrow> json option api" where
  "count_of m k = read_field m k api_return"

definition first_name :: "job list \<Rightarrow> string list \<Rightarrow> string" where
  "first_name queue ids =
    (case ids of [] \<Rightarrow> []
     | i # _ \<Rightarrow> stripYaml (Some (case find (\<lambda>j. j_id j = i) queue of Some j \<Rightarrow> j_target j | None \<Rightarrow> i)))"

definition handleCancelJobs :: "job list \<Rightarrow> string list \<Rightarrow> app \<Rightarrow> app" where
  "handleCancelJobs queue ids =
    attempt (count_of (cancelJobs ids) ''cancelled'') (fail_with ''Error: '')
      (\<lambda>v. counted_toast v (''Cancelled '' @ first_name queue ids) (\<lambda>n. ''Cancelled '' @ n @ '' jobs''))"

definition retry_now :: "job list \<Rightarrow> string list \<Rightarrow> app \<Rightarrow> app" where
  "retry_now queue ids =
    attempt (count_of (retryJobs (RetryList ids)) ''retried'') (fail_with ''Error: '')
      (\<lambda>v. counted_toast v (''Rerunning '' @ first_name queue ids) (\<lambda>n. ''Rerunning '' @ n @ '' jobs''))"

definition handleRetryJobs :: "target list \<Rightarrow> job list \<Rightarrow> string list \<Rightarrow> app \<Rightarrow> app" where
  "handleRetryJobs targets queue ids a =
    (case ids of
       [i] \<Rightarrow> (case find (\<lambda>j. j_id j = i) queue of
                Some job \<Rightarrow> rerunSingleJobViaModal targets job a
              | None \<Rightarrow> retry_now queue ids a)
     | _ \<Rightarrow> retry_now queue ids a)"

definition handleRetryAllFailed :: "app \<Rightarrow> app" where
  "handleRetryAllFailed =
    attempt (count_of retryAllFailed ''retried'') (fail_with ''Error: '')
      (\<lambda>v. counted_toast v ''Rerunning 1 job'' (\<lambda>n. ''Rerunning '' @ n @ '' failed jobs''))"

definition handleClearSucceeded :: "app \<Rightarrow> app" where
  "handleClearSucceeded =
    attempt (count_of (clearQueue [''success''] (Some True)) ''cleared'') (fail_plain ''Clear failed'')
      (\<lambda>v. counted_toast v ''Cleared 1 succeeded job'' (\<lambda>n. ''Cleared '' @ n @ '' succeeded jobs''))"

definition handleClearJobs :: "string list \<Rightarrow> app \<Rightarrow> app" where
  "handleClearJobs ids =
    attempt (removeJobs ids) (fail_plain ''Clear failed'')
      (\<lambda>_ a. mutate ''queue'' (if 1 < length ids then success (''Cleared '' @ show_nat (length ids) @ '' jobs'') a else a))"

definition finished_states :: "string list" where
  "finished_states = [''success'', ''failed'', ''timed_out'', ''cancelled'']"

definition handleClearFinished :: "app \<Rightarrow> app" where
  "handleClearFinished =
    attempt (count_of (clearQueue finished_states None) ''cleared'') (fail_plain ''Clear failed'')
      (\<lambda>v. counted_toast v ''Cleared 1 finished job'' (\<lambda>n. ''Cleared '' @ n @ '' finished jobs''))"

definition activeIds :: "job list \<Rightarrow> string list" where
  "activeIds queue = map j_id (filter (\<lambda>j. j_state j = ''pending'' \<or> j_state j = ''working'') (displayQueue queue))"

definition handleClearAll :: "job list \<Rightarrow> app \<Rightarrow> app" where
  "handleClearAll queue =
    attempt (if 0 < length (activeIds queue) then ignore (cancelJobs (activeIds queue)) else api_return ())
      (fail_plain ''Clear failed'')
      (\<lambda>_. attempt (clearQueue finished_states None) (fail_plain ''Clear failed'')
        (\<lambda>_ a. mutate ''queue'' (success ''Queue cleared'' a)))"

section \<open>Workers and devices\<close>

definition worker_name :: "worker list \<Rightarrow> string \<Rightarrow> string" where
  "worker_name workers i =
    str_or (map_option w_hostname (find (\<lambda>w. w_client_id w = i) workers)) i"

definition handleCleanWorkerCache :: "worker list \<Rightarrow> string \<Rightarrow> app \<Rightarrow> app" where
  "handleCleanWorkerCache workers i =
    attempt (cleanWorkerCache i) (fail_with ''Error: '')
      (\<lambda>_ a. mutate ''workers'' (success (''Clean build cache requested for '' @ worker_name workers i) a))"

definition handleCleanAllCaches :: "worker list \<Rightarrow> app \<Rightarrow> app" where
  "handleCleanAllCaches workers a =
    (let online = filter w_online workers in
     if length online = 0 then a
     else attempt (promise_all (map (\<lambda>w. cleanWorkerCache (w_client_id w)) online)) (fail_with ''Error: '')
       (\<lambda>_ b. mutate ''workers'' (success (''Clean build cache requested for '' @ show_nat (length online) @ '' worker''
          @ (if 1 < length online then ''s'' else [])) b)) a)"

definition handleRemoveWorker :: "string \<Rightarrow> app \<Rightarrow> app" where
  "handleRemoveWorker i =
    attempt (removeWorker i) (fail_with ''Error: '') (\<lambda>_ a. mutate ''workers'' (success ''Worker deleted'' a))"

definition downloadTextFile :: "string \<Rightarrow> string \<Rightarrow> app \<Rightarrow> app" where
  "downloadTextFile body filename a = a\<lparr>ap_downloads := ap_downloads a @ [(filename, body)]\<rparr>"

definition deliver :: "string \<Rightarrow> string \<Rightarrow> diagnostics \<Rightarrow> app \<Rightarrow> app" where
  "deliver done what d a =
    (let b = downloadTextFile (dg_body d) (dg_filename d) a in
     if dg_ok d then success done b
     else addToast (Toast ErrToast (what @ '' returned an error '' @ em_dash @ '' see the downloaded file for details'')) b)"

definition handleRequestWorkerDiagnostics :: "worker list \<Rightarrow> string \<Rightarrow> app \<Rightarrow> app" where
  "handleRequestWorkerDiagnostics workers i a =
    attempt (requestWorkerDiagnostics i 30000 500) (fail_with ''Diagnostics failed: '')
      (deliver (''Diagnostics downloaded from '' @ worker_name workers i) ''Diagnostics request'')
      (addToast (Toast InfoToast (''Requesting diagnostics from '' @ worker_name workers i @ ellipsis)) a)"

definition handleRequestServerDiagnostics :: "app \<Rightarrow> app" where
  "handleRequestServerDiagnostics a =
    attempt requestServerDiagnostics (fail_with ''Server diagnostics failed: '')
      (deliver ''Server diagnostics downloaded'' ''Server diagnostics'')
      (addToast (Toast InfoToast (''Requesting server diagnostics'' @ ellipsis)) a)"

definition handleSetParallelJobs :: "string \<Rightarrow> int \<Rightarrow> app \<Rightarrow> app" where
  "handleSetParallelJobs i n =
    attempt (setWorkerParallelJobs i n) (fail_with ''Error: '')
      (\<lambda>_ a. mutate ''workers'' (success (''Set to '' @ show_int n @ '' slot'' @ (if n \<noteq> 1 then ''s'' else [])
         @ '' '' @ em_dash @ '' worker will restart'') a))"

definition handleSetDiskQuota :: "string \<Rightarrow> int option \<Rightarrow> app \<Rightarrow> app" where
  "handleSetDiskQuota i bytes =
    attempt (setWorkerDiskQuota i bytes) (fail_with ''Error: '')
      (\<lambda>_ a. mutate ''workers'' (success
        (case bytes of None \<Rightarrow> ''Cleared override '' @ em_dash @ '' using fleet default''
         | Some b \<Rightarrow> ''Set quota to '' @ show_int (js_round (of_int b / 1073741824)) @ '' GiB'') a))"

definition handleDeleteDevice :: "string \<Rightarrow> bool \<Rightarrow> app \<Rightarrow> app" where
  "handleDeleteDevice f archive =
    attempt (deleteTarget f archive) (fail_with ''Delete failed: '')
      (\<lambda>_ a. (if archive then mutate ''archived-configs'' else id)
         (mutate ''devices'' (success ((if archive then ''Archived'' else ''Deleted'') @ '' '' @ stripYaml (Some f)) a)))"

definition handleRenameDevice :: "string \<Rightarrow> string \<Rightarrow> app \<Rightarrow> app" where
  "handleRenameDevice f newName =
    attempt (read_field (renameTarget f newName) ''new_filename'' api_return) (fail_with ''Rename failed: '')
      (\<lambda>v a. switchTab QueueT (mutate ''queue'' (mutate ''devices'' (success
         (''Renamed to '' @ stripYaml (case v of Some (JStr s) \<Rightarrow> Some s | _ \<Rightarrow> None) @ '' '' @ em_dash
           @ '' compiling new firmware...'') a))))"

definition handleSelectEsphomeVersion :: "string \<Rightarrow> app \<Rightarrow> app" where
  "handleSelectEsphomeVersion version =
    attempt (setEsphomeVersion version) (fail_with ''Failed to set version: '')
      (\<lambda>_ a. success (''ESPHome version set to '' @ version) (mutate ''versions'' a))"

section \<open>The server's rules\<close>

text \<open>
  \<open>ui_api.py\<close>: the version a job is compiled with, given the request's override, the device's pin
  and the server default, and what the two pin routes leave of a device's pin.
  \<open>job_queue.py\<close>: what \<open>cancel\<close> and \<open>clear\<close> leave of the queue.
\<close>

definition py_effective_version :: "string option \<Rightarrow> string option \<Rightarrow> string \<Rightarrow> string" where
  "py_effective_version version_override pinned server_version =
    (let job_version = str_or version_override server_version in
     if \<not> truthy_str version_override \<and> truthy_str pinned then the pinned else job_version)"

fun py_pin_request :: "string \<Rightarrow> request \<Rightarrow> string option \<Rightarrow> string option" where
  "py_pin_request f rq pin =
    (if rq_url rq \<noteq> target_path f ''/pin'' then pin
     else if rq_method rq = ''DELETE'' then None
     else case rq_body rq of
       Some (JObj [(k, JStr v)]) \<Rightarrow> if k = ''version'' \<and> trim v \<noteq> [] then Some (trim v) else pin
     | _ \<Rightarrow> pin)"

definition py_cancel :: "string list \<Rightarrow> job list \<Rightarrow> job list" where
  "py_cancel ids queue =
    map (\<lambda>j. if j_id j \<in> set ids \<and> py_cancel_accepts j then j\<lparr>j_state := ''cancelled''\<rparr> else j) queue"

definition py_clear :: "string list \<Rightarrow> bool \<Rightarrow> job list \<Rightarrow> job list" where
  "py_clear states requireOtaSuccess queue = filter (\<lambda>j. \<not> py_clear_takes states requireOtaSuccess j) queue"

definition json_strs :: "json option \<Rightarrow> string list" where
  "json_strs v = (case v of Some (JArr xs) \<Rightarrow> concat (map (\<lambda>j. case j of JStr s \<Rightarrow> [s] | _ \<Rightarrow> []) xs) | _ \<Rightarrow> [])"

definition py_queue_request :: "job list \<Rightarrow> request \<Rightarrow> job list" where
  "py_queue_request queue rq =
    (case rq_body rq of
       Some (JObj fs) \<Rightarrow>
         if rq_url rq = ''./ui/api/cancel'' then py_cancel (json_strs (map_of fs ''job_ids'')) queue
         else if rq_url rq = ''./ui/api/queue/clear''
           then py_clear (json_strs (map_of fs ''states'')) (js_truthy (map_of fs ''require_ota_success'')) queue
         else queue
     | _ \<Rightarrow> queue)"

section \<open>Lemmas\<close>

lemma attempt_sent:
  assumes "\<And>e b. cl_sent (ap_client (fail e b)) = cl_sent (ap_client b)"
    and "\<And>x b. cl_sent (ap_client (ok x b)) = cl_sent (ap_client b)"
  shows "cl_sent (ap_client (attempt m fail ok a)) = cl_sent (snd (m (ap_client a)))"
  using assms by (auto simp: attempt_def split: prod.splits sum.splits)

lemma attempt_ok: "fst (m (ap_client a)) = Inr x \<Longrightarrow> attempt m fail ok a = ok x (a\<lparr>ap_client := snd (m (ap_client a))\<rparr>)"
  by (auto simp: attempt_def split: prod.splits)

lemma app_frame [simp]:
  "ap_client (addToast t a) = ap_client a" "ap_client (mutate k a) = ap_client a" "ap_client (success s a) = ap_client a"
  "ap_client (fail_with p e a) = ap_client a" "ap_client (fail_plain p e a) = ap_client a"
  "ap_client (open_job_log j a) = ap_client a" "cl_sent (ap_client (switchTab n a)) = cl_sent (ap_client a)"
  by (simp_all add: addToast_def mutate_def success_def fail_with_def fail_plain_def open_job_log_def switchTab_def)

lemma js_field_state [simp]: "snd (js_field j k c) = c"
  by (simp add: js_field_def split: json.splits)

lemma run_fields_state [simp]:
  "snd (api_bind (js_field r k) (\<lambda>x. api_bind (js_field r l) (\<lambda>y. api_return (x, y))) c) = c"
  by (auto simp: api_bind_def js_field_def split: prod.splits sum.splits json.splits)

lemma after_compile_sent [simp]:
  "cl_sent (ap_client (after_compile ws fresh q ctx resp a)) = cl_sent (ap_client a)"
proof -
  have "cl_sent (ap_client (attempt (api_bind (js_field resp ''run_id'') (\<lambda>r. api_bind (js_field resp ''enqueued'') (\<lambda>n. api_return (r, n))))
      (fail_with ''Error: '') (\<lambda>(r, n) a2. case started_job r n f jobs of None \<Rightarrow> a2 | Some job \<Rightarrow> open_job_log job a2) b))
    = cl_sent (ap_client b)" for f jobs b
    by (subst attempt_sent) (auto split: option.splits)
  then show ?thesis by (simp add: after_compile_def Let_def split: list.splits option.splits)
qed

definition compile_fields :: "upgrade_params \<Rightarrow> upgrade_ctx \<Rightarrow> (string \<times> json) list" where
  "compile_fields q ctx = compile_body (TargetList (uc_targets ctx)) (pr_pinnedClientId q) (pr_esphomeVersion q)
     (Some (pr_downloadOnly q)) (map_option filter_arg (pr_workerTagFilter q)) (pr_bypassRoutingRules q) None"

lemma compile_request_sends:
  "sends (cl_sent c) ''./ui/api/compile'' (json_opts ''POST'' (JObj (compile_fields q ctx)))
     (cl_sent (snd (compile_request q ctx c)))"
  unfolding compile_request_def compile_def compile_fields_def by (rule json_call_sends)

text \<open>The dialog's call reaches the server as one compile request, after the pin update if one is due.\<close>

definition pin_due :: "upgrade_params \<Rightarrow> upgrade_ctx \<Rightarrow> bool" where
  "pin_due q ctx \<longleftrightarrow> truthy_str (pr_updatePin q) \<and> length (uc_targets ctx) = 1"

definition pin_accepted :: "upgrade_params \<Rightarrow> upgrade_ctx \<Rightarrow> client \<Rightarrow> bool" where
  "pin_accepted q ctx c = (if pin_due q ctx
     then fst (pinTargetVersion (hd (uc_targets ctx)) (the (pr_updatePin q)) c) = Inr () else True)"

definition after_pin :: "upgrade_params \<Rightarrow> upgrade_ctx \<Rightarrow> client \<Rightarrow> client" where
  "after_pin q ctx c = (if pin_due q ctx
     then snd (pinTargetVersion (hd (uc_targets ctx)) (the (pr_updatePin q)) c) else c)"

lemma one_target: "length xs = 1 \<Longrightarrow> \<exists>x. xs = [x]"
  by (cases xs) auto

lemma confirm_sends:
  assumes "ap_upgradeModalTarget a = Some ctx" and "pin_accepted q ctx (ap_client a)"
  shows "sends (cl_sent (after_pin q ctx (ap_client a))) ''./ui/api/compile''
    (json_opts ''POST'' (JObj (compile_fields q ctx))) (cl_sent (ap_client (handleUpgradeConfirm ws fresh q a)))"
proof -
  let ?ok = "after_compile ws fresh q ctx"
  have direct: "sends (cl_sent (ap_client b)) ''./ui/api/compile'' (json_opts ''POST'' (JObj (compile_fields q ctx)))
      (cl_sent (ap_client (attempt (compile_request q ctx) (fail_with ''Error: '') ?ok b)))" for b
    by (subst attempt_sent) (simp_all add: compile_request_sends)
  show ?thesis
  proof (cases "pin_due q ctx")
    case False
    then have "handleUpgradeConfirm ws fresh q a =
        attempt (compile_request q ctx) (fail_with ''Error: '') ?ok (a\<lparr>ap_upgradeModalTarget := None\<rparr>)"
      using assms(1) by (auto simp: handleUpgradeConfirm_def pin_due_def Let_def split: list.splits)
    with direct [of "a\<lparr>ap_upgradeModalTarget := None\<rparr>"] False show ?thesis by (simp add: after_pin_def)
  next
    case True
    then obtain f where f: "uc_targets ctx = [f]" using one_target by (auto simp: pin_due_def)
    have "handleUpgradeConfirm ws fresh q a =
        attempt (compile_request q ctx) (fail_with ''Error: '') ?ok
          (a\<lparr>ap_upgradeModalTarget := None, ap_client := after_pin q ctx (ap_client a)\<rparr>)"
      using assms True f by (simp add: handleUpgradeConfirm_def pin_due_def Let_def attempt_ok pin_accepted_def after_pin_def)
    with direct [of "a\<lparr>ap_upgradeModalTarget := None, ap_client := after_pin q ctx (ap_client a)\<rparr>"] show ?thesis by simp
  qed
qed

lemma compile_fields_of:
  "map_of (compile_fields q ctx) ''targets'' = Some (jstrs (uc_targets ctx))"
  "map_of (compile_fields q ctx) ''pinned_client_id'' =
     (if truthy_str (pr_pinnedClientId q) then Some (JStr (the (pr_pinnedClientId q))) else None)"
  "map_of (compile_fields q ctx) ''esphome_version'' =
     (if truthy_str (pr_esphomeVersion q) then Some (JStr (the (pr_esphomeVersion q))) else None)"
  "map_of (compile_fields q ctx) ''download_only'' = (if pr_downloadOnly q then Some (JBool True) else None)"
  "map_of (compile_fields q ctx) ''worker_tag_filter'' =
     (case pr_workerTagFilter q of None \<Rightarrow> None
      | Some f \<Rightarrow> if rc_tags f = [] then None
                 else Some (JObj [(''op'', JStr (op_string (rc_op f))), (''tags'', jstrs (rc_tags f))]))"
  "map_of (compile_fields q ctx) ''bypass_routing_rules'' =
     (if pr_bypassRoutingRules q = Some True then Some (JBool True) else None)"
  by (simp_all add: compile_fields_def compile_body_def when_field_def targets_json_def filter_arg_def split: option.splits)

section \<open>Properties\<close>

text \<open>C1: from the dialog to the wire. Confirming an enabled immediate action sends, after the pin
  update if one is due, one compile request for the dialog's targets whose fields are the user's
  choices: the worker for a specific worker, the tag filter for a tag expression, neither for any
  worker and never both, a download exactly for the download action, and the rule override
  exactly when the conflict banner was showing.\<close>
theorem confirm_reaches_server:
  assumes "ap_upgradeModalTarget a = Some ctx" and "modal_mode_of st = ModeNow" and "\<not> confirm_disabled st"
    and "pin_accepted (now_params p conflict st) ctx (ap_client a)"
  shows "\<exists>fs. sends (cl_sent (after_pin (now_params p conflict st) ctx (ap_client a))) ''./ui/api/compile''
        (json_opts ''POST'' (JObj fs)) (cl_sent (ap_client (handleUpgradeConfirm ws fresh (now_params p conflict st) a)))
    \<and> map_of fs ''targets'' = Some (jstrs (uc_targets ctx))
    \<and> map_of fs ''pinned_client_id'' =
        (if md_workerMode st = WorkerSpecific then Some (JStr (md_selectedWorker st)) else None)
    \<and> map_of fs ''worker_tag_filter'' =
        (if md_workerMode st = WorkerTag
         then Some (JObj [(''op'', JStr (op_string (md_tagFilterOp st))), (''tags'', jstrs (md_tagFilterTags st))]) else None)
    \<and> map_of fs ''download_only'' = (if md_action st = DownloadNow then Some (JBool True) else None)
    \<and> map_of fs ''bypass_routing_rules'' = (if conflict then Some (JBool True) else None)"
proof (intro exI [of _ "compile_fields (now_params p conflict st) ctx"] conjI)
  have "md_workerMode st = WorkerSpecific \<Longrightarrow> md_selectedWorker st \<noteq> []"
    and "md_workerMode st = WorkerTag \<Longrightarrow> md_tagFilterTags st \<noteq> []"
    using assms(2,3) by (auto simp: confirm_disabled_def)
  then show "map_of (compile_fields (now_params p conflict st) ctx) ''pinned_client_id'' =
        (if md_workerMode st = WorkerSpecific then Some (JStr (md_selectedWorker st)) else None)"
    and "map_of (compile_fields (now_params p conflict st) ctx) ''worker_tag_filter'' =
        (if md_workerMode st = WorkerTag
         then Some (JObj [(''op'', JStr (op_string (md_tagFilterOp st))), (''tags'', jstrs (md_tagFilterTags st))]) else None)"
    by (simp_all add: compile_fields_of now_params_def truthy_str_iff)
qed (use confirm_sends [OF assms(1,4)] in \<open>simp_all add: compile_fields_of now_params_def now_download_def\<close>)

definition page :: app where
  "page = \<lparr>ap_activeTab = DevicesT, ap_sessionTab = None, ap_upgradeModalTarget = None, ap_logJobId = None,
     ap_logWorkerId = None, ap_logWatch = None, ap_deviceLogTarget = None, ap_deviceLogAwaitBoot = False,
     ap_editorTarget = None, ap_unsavedNewTargets = {}, ap_client = fresh_client, ap_toasts = [], ap_mutated = [],
     ap_downloads = []\<rparr>"

definition kitchen_ctx :: upgrade_ctx where
  "kitchen_ctx = \<lparr>uc_targets = [''kitchen.yaml''], uc_displayName = ''Kitchen'', uc_defaultMode = DefaultNow, uc_seed = None\<rparr>"

theorem confirm_reaches_server_witness:
  "\<exists>fs. sends (cl_sent fresh_client) ''./ui/api/compile'' (json_opts ''POST'' (JObj fs))
      (cl_sent (ap_client (handleUpgradeConfirm [] None (now_params sample_props True now_state)
         (page\<lparr>ap_upgradeModalTarget := Some kitchen_ctx\<rparr>))))
    \<and> map_of fs ''pinned_client_id'' = Some (JStr ''w1'') \<and> map_of fs ''worker_tag_filter'' = None"
proof -
  have n: "modal_mode_of now_state = ModeNow" "\<not> confirm_disabled now_state"
    by (simp_all add: now_state_def modal_mode_of_def confirm_disabled_def)
  have "\<not> pin_due (now_params sample_props True now_state) kitchen_ctx"
    by (simp add: pin_due_def now_params_def shouldUpdatePin_def sample_props_def)
  then show ?thesis
    using confirm_reaches_server [of "page\<lparr>ap_upgradeModalTarget := Some kitchen_ctx\<rparr>" kitchen_ctx,
        OF _ n, of sample_props True "[]" None]
    by (auto simp: pin_accepted_def after_pin_def page_def now_state_def)
qed


text \<open>A device pinned to an old version, downloaded with the default version picked by name.\<close>

definition pinned_props :: upgrade_props where
  "pinned_props = sample_props\<lparr>up_pinnedVersion := Some ''2024.1.0''\<rparr>"

definition download_default :: modal_state where
  "download_default = now_state\<lparr>md_action := DownloadNow, md_selectedVersion := ''2024.6.0''\<rparr>"



definition old_download :: job where
  "old_download = (bare_job ''j1'' ''kitchen.yaml'' ''success'')\<lparr>j_esphome_version := Some ''2024.5.0'',
     j_pinned_client_id := Some ''w1'', j_download_only := Some True\<rparr>"

definition midnight :: "string option \<Rightarrow> local_time" where
  "midnight x = \<lparr>lt_year = 2026, lt_month = 0, lt_day = 1, lt_hours = 0, lt_minutes = 0\<rparr>"

definition no_versions :: esphome_versions where
  "no_versions = \<lparr>ev_selected = None, ev_detected = Some ''2024.6.0'', ev_available = []\<rparr>"

definition nothing_polled :: polled where
  "nothing_polled = \<lparr>po_targets = [], po_devices = [], po_workers = [], po_queue = []\<rparr>"


section \<open>Clearing the queue\<close>

definition ok_answer :: "nat \<times> net_event \<Rightarrow> bool" where
  "ok_answer e = (case snd e of NetOk r \<Rightarrow> rs_ok r \<and> rs_json r \<noteq> None | NetFail \<Rightarrow> False)"

lemma json_call_answer:
  assumes "cl_network c = e # net" and "ok_answer e"
  shows "\<exists>j c'. json_call path opts tag c = (Inr j, c') \<and> cl_network c' = net
    \<and> cl_sent c' = cl_sent c @ [request_of path opts c]"
proof -
  obtain d r where e: "e = (d, NetOk r)" "rs_ok r" "rs_json r \<noteq> None"
    using assms(2) by (cases e) (auto simp: ok_answer_def split: net_event.splits)
  from apiFetch_answer [of c d r net path opts] assms(1) e(1)
  obtain c' where "apiFetch path opts c = (Inr r, c')" "cl_network c' = net" "cl_sent c' = cl_sent c @ [request_of path opts c]"
    by auto
  with e show ?thesis by (auto simp: json_call_def api_bind_def parseResponse_def)
qed

lemma json_strs_jstrs [simp]: "json_strs (Some (jstrs xs)) = xs"
  by (induction xs) (auto simp: json_strs_def jstrs_def)

definition finished_in :: "job \<Rightarrow> bool" where
  "finished_in j \<longleftrightarrow> j_state j \<in> set TERMINAL"

lemma py_clear_finished: "py_clear finished_states False queue = filter (\<lambda>j. \<not> finished_in j) queue"
  by (simp add: py_clear_def py_clear_takes_def finished_states_def finished_in_def TERMINAL_def)

definition survives :: "job \<Rightarrow> bool" where
  "survives j \<longleftrightarrow> j_state j = ''blocked'' \<or> (truthy_bool (j_validate_only j) \<and> (j_state j = ''pending'' \<or> j_state j = ''working''))"

lemma clear_after_cancel:
  assumes "list_all (\<lambda>j. j_state j \<in> set JOB_STATES) queue" and "distinct (map j_id queue)"
  shows "py_clear finished_states False (py_cancel (activeIds queue) queue) = filter survives queue"
proof -
  have same: "j_id j \<in> set (activeIds queue) \<longleftrightarrow>
      (j_state j = ''pending'' \<or> j_state j = ''working'') \<and> \<not> truthy_bool (j_validate_only j)" if "j \<in> set queue" for j
  proof -
    have "j' = j" if "j' \<in> set queue" "j_id j' = j_id j" for j'
      using assms(2) that \<open>j \<in> set queue\<close> by (simp add: distinct_map inj_on_def)
    then show ?thesis using that by (auto simp: activeIds_def displayQueue_def)
  qed
  have "py_clear finished_states False (py_cancel (activeIds queue) qs) = filter survives qs" if "set qs \<subseteq> set queue" for qs
    using that
  proof (induction qs)
    case (Cons j js)
    then have "j_state j \<in> set JOB_STATES" using assms(1) by (auto simp: list_all_iff)
    with Cons same [of j] show ?case
      by (auto simp: py_clear_finished py_cancel_def py_cancel_accepts_def finished_in_def survives_def JOB_STATES_def
          TERMINAL_def)
  qed (simp add: py_clear_def py_cancel_def)
  then show ?thesis by simp
qed

lemma py_cancel_none [simp]: "py_cancel [] queue = queue"
  by (simp add: py_cancel_def)

lemma queue_request_cancel:
  "py_queue_request queue (request_of ''./ui/api/cancel'' (json_opts ''POST'' (JObj [(''job_ids'', jstrs ids)])) c)
    = py_cancel ids queue"
  by (simp add: py_queue_request_def request_of_def json_opts_def)

lemma queue_request_clear:
  "py_queue_request queue (request_of ''./ui/api/queue/clear'' (json_opts ''POST'' (JObj [(''states'', jstrs states)])) c)
    = py_clear states False queue"
  by (simp add: py_queue_request_def request_of_def json_opts_def js_truthy_def)

lemma attempt_api:
  "m (ap_client a) = (Inr x, c) \<Longrightarrow> attempt m fail ok a = ok x (a\<lparr>ap_client := c\<rparr>)"
  by (simp add: attempt_def)

text \<open>Clear Entire Queue, against the server. When both of its calls are answered, it reports the
  queue cleared, and the rows the server keeps are exactly the blocked jobs and the hidden
  validate-only jobs still running: blocked jobs are never cancelled by it.\<close>
theorem clear_all_leaves_blocked:
  assumes "list_all (\<lambda>j. j_state j \<in> set JOB_STATES) queue" and "distinct (map j_id queue)"
    and "cl_network (ap_client a) = e1 # e2 # net" and "ok_answer e1" and "ok_answer e2"
  shows "foldl py_queue_request queue
      (drop (length (cl_sent (ap_client a))) (cl_sent (ap_client (handleClearAll queue a)))) = filter survives queue
    \<and> last (ap_toasts (handleClearAll queue a)) = Toast SuccessToast ''Queue cleared''"
proof (cases "activeIds queue")
  case Nil
  obtain j c' where clear: "clearQueue finished_states None (ap_client a) = (Inr j, c')"
      and sent: "cl_sent c' = cl_sent (ap_client a) @ [request_of ''./ui/api/queue/clear''
        (json_opts ''POST'' (JObj [(''states'', jstrs finished_states)])) (ap_client a)]"
    using json_call_answer [OF assms(3,4)] by (fastforce simp: clearQueue_def when_field_def)
  have "handleClearAll queue a = mutate ''queue'' (success ''Queue cleared'' (a\<lparr>ap_client := c'\<rparr>))"
    by (simp add: handleClearAll_def Nil attempt_def clear)
  then show ?thesis
    using sent clear_after_cancel [OF assms(1,2)]
    by (simp add: Nil queue_request_clear mutate_def success_def addToast_def)
next
  case (Cons i ids)
  obtain j c1 where cancel: "cancelJobs (activeIds queue) (ap_client a) = (Inr j, c1)" and net: "cl_network c1 = e2 # net"
      and sent1: "cl_sent c1 = cl_sent (ap_client a) @ [request_of ''./ui/api/cancel''
        (json_opts ''POST'' (JObj [(''job_ids'', jstrs (activeIds queue))])) (ap_client a)]"
    using json_call_answer [OF assms(3,4)] by (fastforce simp: cancelJobs_def)
  obtain j' c' where clear: "clearQueue finished_states None c1 = (Inr j', c')"
      and sent2: "cl_sent c' = cl_sent c1 @ [request_of ''./ui/api/queue/clear''
        (json_opts ''POST'' (JObj [(''states'', jstrs finished_states)])) c1]"
    using json_call_answer [OF net assms(5)] by (fastforce simp: clearQueue_def when_field_def)
  have "handleClearAll queue a = mutate ''queue'' (success ''Queue cleared'' (a\<lparr>ap_client := c'\<rparr>))"
    using Cons cancel clear by (simp add: handleClearAll_def attempt_def ignore_def api_bind_def)
  then show ?thesis
    using sent1 sent2 clear_after_cancel [OF assms(1,2)]
    by (simp add: queue_request_cancel queue_request_clear mutate_def success_def addToast_def)
qed

definition ok_event :: "nat \<times> net_event" where
  "ok_event = (5, NetOk \<lparr>rs_status = 200, rs_headers = [], rs_json = Some (JObj []), rs_text = ''{}''\<rparr>)"

definition answering_page :: app where
  "answering_page = page\<lparr>ap_client := fresh_client\<lparr>cl_network := [ok_event, ok_event]\<rparr>\<rparr>"

definition mixed_queue :: "job list" where
  "mixed_queue = [bare_job ''j1'' ''a.yaml'' ''working'', bare_job ''j2'' ''b.yaml'' ''blocked'', bare_job ''j3'' ''c.yaml'' ''success'']"

theorem clear_all_leaves_blocked_witness:
  "map j_id (foldl py_queue_request mixed_queue (cl_sent (ap_client (handleClearAll mixed_queue answering_page)))) = [''j2'']"
proof -
  have "ok_answer ok_event" by (simp add: ok_answer_def ok_event_def rs_ok_def)
  then have "foldl py_queue_request mixed_queue (drop (length (cl_sent (ap_client answering_page)))
      (cl_sent (ap_client (handleClearAll mixed_queue answering_page)))) = filter survives mixed_queue"
    using clear_all_leaves_blocked [of mixed_queue answering_page ok_event ok_event "[]"]
    by (simp add: answering_page_def mixed_queue_def JOB_STATES_def)
  moreover have "cl_sent (ap_client answering_page) = []" by (simp add: answering_page_def fresh_client_def)
  ultimately show ?thesis by (simp add: mixed_queue_def survives_def truthy_bool_def)
qed

text \<open>
  The tab's counter has the same blind spot: a queue in which every job is blocked is announced
  as done.
\<close>

theorem blocked_queue_reads_done:
  "getTabCount QueueT [] [] [bare_job ''j1'' ''a.yaml'' ''blocked''] [] = ''1 done''"
  by (simp add: getTabCount_def count_def Let_def show_nat.simps digit_char_def)

section \<open>Version pins of a schedule\<close>

lemma ok_call_result:
  "ok_call path opts tag c = (res, c') \<Longrightarrow> cl_sent c' = cl_sent c @ [request_of path opts c]"
  using apiFetch_frame [of path opts c] 
  by (auto simp: ok_call_def api_bind_def split: prod.splits sum.splits) (metis expectOk_state snd_conv)+

text \<open>Saving a schedule leaves the device with the pin the dialog asked for: pinned to the chosen
  version, or unpinned when none was chosen, with at most one pin request and none when the pin
  already is right.\<close>
theorem schedule_reconciles_pin:
  assumes "applyScheduleVersion f pin desired c = (res, c')" and "pin \<noteq> Some []"
    and "\<forall>v. desired = Some v \<longrightarrow> v \<noteq> [] \<and> trim v = v"
  shows "fold (py_pin_request f) (drop (length (cl_sent c)) (cl_sent c')) pin = desired
    \<and> length (cl_sent c') \<le> Suc (length (cl_sent c)) \<and> (pin = desired \<longrightarrow> cl_sent c' = cl_sent c)"
proof (cases desired)
  case None
  show ?thesis
  proof (cases pin)
    case None
    then show ?thesis using assms(1) \<open>desired = None\<close> by (simp add: applyScheduleVersion_def truthy_str_def)
  next
    case (Some p)
    then have "unpinTargetVersion f c = (res, c')"
      using assms(1,2) \<open>desired = None\<close> by (auto simp: applyScheduleVersion_def truthy_str_iff)
    from ok_call_result [OF this [unfolded unpinTargetVersion_def]] Some \<open>desired = None\<close> show ?thesis
      by (simp add: request_of_def method_opts_def)
  qed
next
  case (Some v)
  show ?thesis
  proof (cases "desired = pin")
    case True
    with Some have "pin = Some v" by simp
    with assms(1) Some have "c' = c" by (simp add: applyScheduleVersion_def)
    with True show ?thesis by simp
  next
    case False
    then have "pinTargetVersion f v c = (res, c')" using assms(1) Some by (simp add: applyScheduleVersion_def)
    from ok_call_result [OF this [unfolded pinTargetVersion_def]] Some False assms(3) show ?thesis
      by (simp add: request_of_def json_opts_def)
  qed
qed

theorem schedule_reconciles_pin_witness:
  "fold (py_pin_request ''kitchen.yaml'')
     (drop (length (cl_sent fresh_client))
       (cl_sent (snd (applyScheduleVersion ''kitchen.yaml'' (Some ''2024.1.0'') None fresh_client)))) (Some ''2024.1.0'') = None"
proof -
  obtain res c' where r: "applyScheduleVersion ''kitchen.yaml'' (Some ''2024.1.0'') None fresh_client = (res, c')"
    by (cases "applyScheduleVersion ''kitchen.yaml'' (Some ''2024.1.0'') None fresh_client")
  from schedule_reconciles_pin [OF r] r show ?thesis by simp
qed

end
