(* ===== verification/Small_Dialogs.thy ===== *)
theory Small_Dialogs
  imports Workers_Tab App_Actions
begin

text \<open>
  The small dialogs of a device and of the shell: ping (\<open>PingDeviceModal.tsx\<close>), install to an address
  (\<open>InstallToAddressModal.tsx\<close>, with the server's check of the address in \<open>helpers.py\<close>), the rendered
  configuration (\<open>RenderedConfigModal.tsx\<close>), renaming and deleting (\<open>devices/DeviceTableModals.tsx\<close>),
  the install banner (\<open>EsphomeInstallBanner.tsx\<close>), the versioning question
  (\<open>VersioningOnboardingModal.tsx\<close>), the accent colours (\<open>lib/accent.ts\<close>, \<open>AccentColorPicker.tsx\<close>) and
  the names of downloaded texts (\<open>utils/terminal.ts\<close>).
\<close>

section \<open>Ping\<close>

record ping_result =
  pg_address :: string
  pg_is_alive :: bool
  pg_sent :: int
  pg_received :: int
  pg_loss :: rat
  pg_min :: rat
  pg_avg :: rat
  pg_max :: rat
  pg_jitter :: rat

record ping_modal =
  pm_result :: "ping_result option"
  pm_error :: "string option"
  pm_pending :: bool
  pm_address :: "string option"

text \<open>\<open>/"address":\s*"([^"]+)"/\<close>: the first place where it matches, and its group.\<close>

definition match_here :: "string \<Rightarrow> string option" where
  "match_here s =
    (let key = [CHR 0x22] @ ''address'' @ [CHR 0x22] @ '':'' in
     if starts_with s key then
       (case dropWhile is_ws (drop (length key) s) of
          c # r \<Rightarrow>
            (let v = takeWhile (\<lambda>x. x \<noteq> CHR 0x22) r in
             if c = CHR 0x22 \<and> v \<noteq> [] \<and> length v < length r then Some v else None)
        | [] \<Rightarrow> None)
     else None)"

fun match_address :: "string \<Rightarrow> string option" where
  "match_address [] = None"
| "match_address (c # s) = (case match_here (c # s) of Some a \<Rightarrow> Some a | None \<Rightarrow> match_address s)"

definition ping_opened :: ping_modal where
  "ping_opened = \<lparr>pm_result = None, pm_error = None, pm_pending = True, pm_address = None\<rparr>"

definition ping_starts :: "ping_modal \<Rightarrow> ping_modal" where
  "ping_starts m = m\<lparr>pm_pending := True, pm_error := None\<rparr>"

definition ping_answered :: "ping_result \<Rightarrow> ping_modal \<Rightarrow> ping_modal" where
  "ping_answered r m = m\<lparr>pm_result := Some r, pm_address := Some (pg_address r), pm_pending := False\<rparr>"

definition ping_failed :: "string \<Rightarrow> ping_modal \<Rightarrow> ping_modal" where
  "ping_failed msg m =
    m\<lparr>pm_error := Some msg, pm_result := None,
      pm_address := (case match_address msg of Some a \<Rightarrow> Some a | None \<Rightarrow> pm_address m), pm_pending := False\<rparr>"

definition ping_text :: "string \<Rightarrow> ping_result \<Rightarrow> string list" where
  "ping_text target r =
    [''Ping result for '' @ stripYaml (Some target) @ '' ('' @ pg_address r @ '')'',
     ''  is_alive:       '' @ (if pg_is_alive r then ''YES'' else ''NO''),
     ''  packets_sent:   '' @ show_int (pg_sent r),
     ''  packets_recv:   '' @ show_int (pg_received r),
     ''  packet_loss:    '' @ to_fixed 1 (pg_loss r * 100) @ ''%'',
     ''  min_rtt:        '' @ to_fixed 2 (pg_min r) @ '' ms'',
     ''  avg_rtt:        '' @ to_fixed 2 (pg_avg r) @ '' ms'',
     ''  max_rtt:        '' @ to_fixed 2 (pg_max r) @ '' ms'',
     ''  jitter:         '' @ to_fixed 2 (pg_jitter r) @ '' ms'']"

datatype ping_view =
    Pinging string
  | PingError string
  | PingShown bool string "string list"

text \<open>What the body shows: nothing when there is neither a result nor an error (an empty error text).\<close>

definition ping_view_of :: "ping_modal \<Rightarrow> ping_view list" where
  "ping_view_of m =
    (if pm_pending m then [Pinging (str_or (pm_address m) ''device'')]
     else (if truthy_str (pm_error m) then [PingError (the (pm_error m))] else [])
       @ (case pm_result m of
            Some r \<Rightarrow> [PingShown (pg_is_alive r) (pg_address r)
              [show_int (pg_sent r), show_int (pg_received r), to_fixed 1 (pg_loss r * 100) @ ''%'',
               to_fixed 2 (pg_min r) @ '' / '' @ to_fixed 2 (pg_avg r) @ '' / '' @ to_fixed 2 (pg_max r) @ '' ms'',
               to_fixed 2 (pg_jitter r) @ '' ms'']]
          | None \<Rightarrow> []))"

text \<open>Whether the two buttons are enabled: copying the text, running again.\<close>

definition ping_buttons :: "ping_modal \<Rightarrow> bool \<times> bool" where
  "ping_buttons m = (\<not> (pm_pending m \<or> pm_result m = None), \<not> pm_pending m)"

section \<open>Install to an address\<close>

definition ADDRESS_CHAR :: "char \<Rightarrow> bool" where
  "ADDRESS_CHAR c \<longleftrightarrow> is_alpha c \<or> is_digit c \<or> c \<in> {CHR ''.'', CHR ''-'', CHR ''_'', CHR '':''}"

record install_modal =
  im_address :: string
  im_initial :: string
  im_confirming :: bool
  im_busy :: bool
  im_open :: bool

definition install_initial :: "string option \<Rightarrow> string" where
  "install_initial defaultAddress = trim (nullish defaultAddress [])"

definition open_install :: "string option \<Rightarrow> install_modal" where
  "open_install defaultAddress =
    \<lparr>im_address = install_initial defaultAddress, im_initial = install_initial defaultAddress,
     im_confirming = False, im_busy = False, im_open = True\<rparr>"

definition address_valid :: "string \<Rightarrow> bool" where
  "address_valid address =
    (let trimmed = trim address in
     0 < length trimmed \<and> length trimmed \<le> 253 \<and> list_all ADDRESS_CHAR trimmed)"

text \<open>The poller may bring another resolved address while the dialog is open (\<open>PollAddress\<close>).\<close>

datatype install_event =
    EditAddress string
  | PressInstall
  | PollAddress "string option"
  | InstallQueued
  | InstallRefused
  | CloseInstall

text \<open>\<open>handlePrimary\<close>, with the address of the compile request it sends.\<close>

definition handlePrimary :: "install_modal \<Rightarrow> install_modal \<times> string option" where
  "handlePrimary m =
    (if \<not> address_valid (im_address m) \<or> im_busy m then (m, None)
     else if trim (im_address m) = im_initial m then (m\<lparr>im_busy := True\<rparr>, Some (trim (im_address m)))
     else if \<not> im_confirming m then (m\<lparr>im_confirming := True\<rparr>, None)
     else (m\<lparr>im_busy := True\<rparr>, Some (trim (im_address m))))"

fun install_event_step :: "install_event \<Rightarrow> install_modal \<Rightarrow> install_modal \<times> string option" where
  "install_event_step (EditAddress s) m =
     (if im_busy m then (m, None) else (m\<lparr>im_address := s, im_confirming := False\<rparr>, None))"
| "install_event_step PressInstall m = handlePrimary m"
| "install_event_step (PollAddress d) m = (m\<lparr>im_initial := install_initial d\<rparr>, None)"
| "install_event_step InstallQueued m = ((if im_busy m then m\<lparr>im_open := False\<rparr> else m), None)"
| "install_event_step InstallRefused m = ((if im_busy m then m\<lparr>im_busy := False\<rparr> else m), None)"
| "install_event_step CloseInstall m = ((if im_busy m then m else m\<lparr>im_open := False\<rparr>), None)"

definition install_step :: "install_event \<Rightarrow> install_modal \<Rightarrow> install_modal \<times> string option" where
  "install_step e m = (if im_open m then install_event_step e m else (m, None))"

text \<open>The dialog after a list of events.\<close>

definition install_after :: "install_event list \<Rightarrow> install_modal \<Rightarrow> install_modal" where
  "install_after es m = foldl (\<lambda>m e. fst (install_step e m)) m es"

definition install_call :: "string \<Rightarrow> string \<Rightarrow> json api" where
  "install_call target address = compile (TargetList [target]) None None (Some False) None None (Some address)"

text \<open>The server's check, given which texts are literal IP addresses (\<open>ipaddress.ip_address\<close>).\<close>

definition alnum :: "char \<Rightarrow> bool" where
  "alnum c \<longleftrightarrow> is_alpha c \<or> is_digit c"

definition hostname_label :: "string \<Rightarrow> bool" where
  "hostname_label l \<longleftrightarrow>
    l \<noteq> [] \<and> length l \<le> 63 \<and> alnum (hd l) \<and> alnum (last l) \<and> list_all (\<lambda>c. alnum c \<or> c = CHR ''-'') l"

definition py_is_valid_ota_address :: "(string \<Rightarrow> bool) \<Rightarrow> string \<Rightarrow> bool" where
  "py_is_valid_ota_address is_ip address =
    (if address = [] \<or> length address > 253 then False
     else if is_ip address then True
     else (let hostname = (if ends_with address ''.'' then butlast address else address)
           in if hostname = [] then False else list_all hostname_label (split_on (CHR ''.'') hostname)))"

section \<open>Rendered configuration\<close>

record rendered_view =
  rv_target :: "string option"
  rv_output :: string
  rv_success :: bool
  rv_loading :: bool
  rv_error :: "string option"
  rv_asked :: "string list"
  rv_live :: "nat option"

text \<open>
  Each run of the effect is a request, numbered by its position in \<open>rv_asked\<close>; \<open>rv_live\<close> is the run whose
  cleanup has not happened. An answer is the output with its success flag, or an error text.
\<close>

definition rendered_closed :: rendered_view where
  "rendered_closed =
    \<lparr>rv_target = None, rv_output = [], rv_success = True, rv_loading = False, rv_error = None, rv_asked = [], rv_live = None\<rparr>"

datatype rendered_event = ShowRendered "string option" | RenderedAnswer nat

fun rendered_step :: "(string \<Rightarrow> string + string \<times> bool) \<Rightarrow> rendered_event \<Rightarrow> rendered_view \<Rightarrow> rendered_view" where
  "rendered_step server (ShowRendered t) v =
     (if t = rv_target v then v
      else if \<not> truthy_str t then v\<lparr>rv_target := t, rv_live := None\<rparr>
      else v\<lparr>rv_target := t, rv_live := Some (length (rv_asked v)), rv_asked := rv_asked v @ [the t],
             rv_loading := True, rv_error := None\<rparr>)"
| "rendered_step server (RenderedAnswer n) v =
     (if rv_live v \<noteq> Some n \<or> length (rv_asked v) \<le> n then v
      else case server (rv_asked v ! n) of
        Inr (output, good) \<Rightarrow> v\<lparr>rv_output := output, rv_success := good, rv_loading := False\<rparr>
      | Inl msg \<Rightarrow> v\<lparr>rv_error := Some msg, rv_output := [], rv_success := False, rv_loading := False\<rparr>)"

definition rendered_buttons_enabled :: "rendered_view \<Rightarrow> bool" where
  "rendered_buttons_enabled v \<longleftrightarrow> \<not> (rv_output v = [] \<or> rv_loading v \<or> \<not> rv_success v)"

definition rendered_download :: "rendered_view \<Rightarrow> (string \<times> string) option" where
  "rendered_download v =
    (if rv_output v = [] \<or> \<not> truthy_str (rv_target v) then None
     else Some (stripYaml (rv_target v) @ ''.rendered.yaml'', rv_output v))"

definition rendered_title :: "string option \<Rightarrow> string option \<Rightarrow> string" where
  "rendered_title displayName target =
    str_or displayName (if truthy_str target then stripYaml target else ''Rendered config'')"

section \<open>Renaming and deleting\<close>

text \<open>What the button or the Enter key hands to \<open>onConfirm\<close>.\<close>

definition rename_confirm :: "string \<Rightarrow> string \<Rightarrow> string option" where
  "rename_confirm currentName name =
    (if trim name = [] \<or> trim name = stripYaml (Some currentName) then None else Some (trim name))"

datatype delete_event = PressArchive | PressPermanent | PressBack | PressForever

text \<open>
  The buttons of the two steps: whether the second one shows, and the call of \<open>onConfirm\<close> a press makes. A button
  of the step that is not shown cannot be pressed.
\<close>

fun delete_step :: "delete_event \<Rightarrow> bool \<Rightarrow> bool \<times> bool option" where
  "delete_step PressArchive confirmPermanent = (confirmPermanent, if confirmPermanent then None else Some True)"
| "delete_step PressPermanent confirmPermanent = (True, None)"
| "delete_step PressBack confirmPermanent = (False, None)"
| "delete_step PressForever confirmPermanent = (confirmPermanent, if confirmPermanent then Some False else None)"

definition delete_after :: "delete_event list \<Rightarrow> bool" where
  "delete_after es = foldl (\<lambda>b e. fst (delete_step e b)) False es"

section \<open>The install banner and the versioning question\<close>

definition install_banner :: "server_info option \<Rightarrow> (bool \<times> string) option" where
  "install_banner serverInfo =
    (case Option.bind serverInfo si_esphome_install_status of
       None \<Rightarrow> None
     | Some Ready \<Rightarrow> None
     | Some status \<Rightarrow>
        (let version = nullish (Option.bind serverInfo si_esphome_server_version) []; isFailed = (status = InstallFailed)
         in Some (isFailed,
              if isFailed then ''ESPHome '' @ version @ '' install failed '' @ em_dash @ '' retry below or check the add-on log.''
              else ''Installing ESPHome '' @ version @ [CHR 0xE2, CHR 0x80, CHR 0xA6] @ '' first-boot takes 1''
                @ [CHR 0xE2, CHR 0x80, CHR 0x93] @ ''3 minutes. Some features are unavailable until this finishes.'')))"

definition banner_retry :: "app \<Rightarrow> app" where
  "banner_retry = attempt reinstallEsphome (\<lambda>_ a. a) (\<lambda>_. mutate ''serverInfo'')"

text \<open>The choice and whether the dialog stays busy afterwards; \<open>onDecided\<close> reads the settings again.\<close>

definition onboarding_choose :: "bool \<Rightarrow> app \<Rightarrow> app \<times> bool" where
  "onboarding_choose on a =
    (case updateSettings (JObj [(''versioning_enabled'', JStr (if on then ''on'' else ''off''))]) (ap_client a) of
       (Inr _, c) \<Rightarrow> (mutate ''settings'' (success (if on then ''Config versioning turned on'' else ''Config versioning stays off'')
          (a\<lparr>ap_client := c\<rparr>)), True)
     | (Inl e, c) \<Rightarrow> (fail_with ''Failed to save: '' e (a\<lparr>ap_client := c\<rparr>), False))"

section \<open>Accent colours\<close>

definition ACCENT_COLORS :: "(string \<times> string) list" where
  "ACCENT_COLORS =
    [(''indigo'', ''Indigo (default)''), (''blue'', ''Blue''), (''teal'', ''Teal''), (''green'', ''Green''),
     (''amber'', ''Amber''), (''orange'', ''Orange''), (''rose'', ''Rose''), (''violet'', ''Violet'')]"

definition DEFAULT_ACCENT :: string where
  "DEFAULT_ACCENT = ''indigo''"

definition isAccent :: "string option \<Rightarrow> bool" where
  "isAccent v \<longleftrightarrow> (case v of None \<Rightarrow> False | Some s \<Rightarrow> list_ex (\<lambda>c. fst c = s) ACCENT_COLORS)"

text \<open>The attribute of the document, and the stored hint; a blocked store keeps what it has.\<close>

record accent_page =
  acc_attr :: "string option"
  acc_stored :: "string option"

definition applyAccentColor :: "bool \<Rightarrow> string \<Rightarrow> accent_page \<Rightarrow> accent_page" where
  "applyAccentColor writable accent p =
    p\<lparr>acc_attr := Some accent, acc_stored := (if writable then Some accent else acc_stored p)\<rparr>"

definition applyCachedAccentColor :: "bool \<Rightarrow> accent_page \<Rightarrow> accent_page" where
  "applyCachedAccentColor readable p =
    (if \<not> readable then p
     else p\<lparr>acc_attr := Some (if isAccent (acc_stored p) then the (acc_stored p) else DEFAULT_ACCENT)\<rparr>)"

definition accent_click :: "string \<Rightarrow> string \<Rightarrow> string option" where
  "accent_click value chosen = (if chosen = value then None else Some chosen)"

section \<open>Downloaded texts\<close>

text \<open>The terminal's lines, and the names given to downloads; \<open>iso\<close> is \<open>new Date().toISOString()\<close>.\<close>

definition getTerminalText :: "string list option \<Rightarrow> string" where
  "getTerminalText term = (case term of None \<Rightarrow> [] | Some lines \<Rightarrow> join_with [CHR 0x0A] lines)"

definition download_stamp :: "string \<Rightarrow> string" where
  "download_stamp iso' = take 23 (map (\<lambda>c. if c = CHR '':'' \<or> c = CHR ''.'' then CHR ''-'' else c) iso')"

definition terminal_download :: "string \<Rightarrow> string list option \<Rightarrow> string \<Rightarrow> (string \<times> string) option" where
  "terminal_download iso' term filename =
    (if getTerminalText term = [] then None
     else Some (filename @ ''-'' @ download_stamp iso' @ ''.log'', getTerminalText term))"

definition text_download_name :: "string \<Rightarrow> string \<Rightarrow> string" where
  "text_download_name iso' filename =
    (if ends_with filename ''.txt'' then take (length filename - 4) filename else filename)
    @ ''-'' @ download_stamp iso' @ ''.txt''"

section \<open>Properties of the ping dialog\<close>

lemma match_hereE:
  assumes "match_here s = Some a"
  obtains ws v where "s = [CHR 0x22] @ ''address'' @ [CHR 0x22] @ '':'' @ ws @ [CHR 0x22] @ a @ [CHR 0x22] @ v"
    and "list_all is_ws ws" and "a \<noteq> []" and "CHR 0x22 \<notin> set a"
proof -
  let ?key = "[CHR 0x22] @ ''address'' @ [CHR 0x22] @ '':''"
  let ?t = "drop (length ?key) s"
  let ?q = "\<lambda>x::char. x \<noteq> CHR 0x22"
  from assms have start: "starts_with s ?key" by (simp add: match_here_def Let_def split: if_splits)
  with assms obtain r where r: "dropWhile is_ws ?t = CHR 0x22 # r" and a: "a = takeWhile ?q r" "a \<noteq> []" "length a < length r"
    by (auto simp: match_here_def Let_def split: list.splits if_splits)
  have s: "s = ?key @ ?t" using start unfolding starts_with_def by (metis append_take_drop_id)
  have t: "?t = takeWhile is_ws ?t @ CHR 0x22 # r" using r by (metis takeWhile_dropWhile_id)
  have r_eq: "r = a @ CHR 0x22 # v" if "dropWhile ?q r = CHR 0x22 # v" for v
    using that a(1) by (metis takeWhile_dropWhile_id)
  have "dropWhile ?q r \<noteq> []"
  proof
    assume "dropWhile ?q r = []"
    then have "takeWhile ?q r = r" by (metis append_Nil2 takeWhile_dropWhile_id)
    with a(1,3) show False by simp
  qed
  then obtain v where v: "dropWhile ?q r = CHR 0x22 # v"
    using hd_dropWhile [of ?q r] by (cases "dropWhile ?q r") auto
  have "?key @ (takeWhile is_ws ?t @ CHR 0x22 # r)
      = [CHR 0x22] @ ''address'' @ [CHR 0x22] @ '':'' @ takeWhile is_ws ?t @ [CHR 0x22] @ a @ [CHR 0x22] @ v"
    by (simp add: r_eq [OF v])
  with trans [OF s arg_cong [where f = "\<lambda>x. ?key @ x", OF t]]
  have "s = [CHR 0x22] @ ''address'' @ [CHR 0x22] @ '':'' @ takeWhile is_ws ?t @ [CHR 0x22] @ a @ [CHR 0x22] @ v"
    by (rule trans)
  moreover have "list_all is_ws (takeWhile is_ws ?t)" by (auto simp: list_all_iff dest: set_takeWhileD)
  moreover have "CHR 0x22 \<notin> set a" using a(1) by (auto dest: set_takeWhileD)
  ultimately show thesis using a(2) by (intro that)
qed

text \<open>
  The address taken from an error text is the first quoted, non-empty value of an \<open>"address"\<close> key in it; it never
  holds a quote.
\<close>

lemma matched_address_quoted:
  "match_address s = Some a \<Longrightarrow>
    (\<exists>u ws v. s = u @ [CHR 0x22] @ ''address'' @ [CHR 0x22] @ '':'' @ ws @ [CHR 0x22] @ a @ [CHR 0x22] @ v)
      \<and> a \<noteq> [] \<and> CHR 0x22 \<notin> set a"
proof (induction s)
  case (Cons c s)
  show ?case
  proof (cases "match_here (c # s)")
    case None
    with Cons.prems have "match_address s = Some a" by simp
    from Cons.IH [OF this] obtain u ws v
      where "s = u @ [CHR 0x22] @ ''address'' @ [CHR 0x22] @ '':'' @ ws @ [CHR 0x22] @ a @ [CHR 0x22] @ v"
        and *: "a \<noteq> []" "CHR 0x22 \<notin> set a" by blast
    then have "c # s = (c # u) @ [CHR 0x22] @ ''address'' @ [CHR 0x22] @ '':'' @ ws @ [CHR 0x22] @ a @ [CHR 0x22] @ v" by simp
    with * show ?thesis by blast
  next
    case (Some b)
    with Cons.prems have "match_here (c # s) = Some a" by simp
    then obtain ws v where "c # s = [] @ [CHR 0x22] @ ''address'' @ [CHR 0x22] @ '':'' @ ws @ [CHR 0x22] @ a @ [CHR 0x22] @ v"
      and *: "a \<noteq> []" "CHR 0x22 \<notin> set a" by (elim match_hereE) simp
    then have "\<exists>u ws v. c # s = u @ [CHR 0x22] @ ''address'' @ [CHR 0x22] @ '':'' @ ws @ [CHR 0x22] @ a @ [CHR 0x22] @ v"
      by blast
    with * show ?thesis by blast
  qed
qed simp

section \<open>Properties of the install dialog\<close>

lemma install_after_snoc [simp]: "install_after (es @ [e]) m = fst (install_step e (install_after es m))"
  by (simp add: install_after_def)

lemma install_after_Nil [simp]: "install_after [] m = m"
  by (simp add: install_after_def)

text \<open>The confirmation in force was given by a press, and the address has not changed since.\<close>

definition confirmed_since :: "install_event list \<Rightarrow> install_modal \<Rightarrow> nat \<Rightarrow> bool" where
  "confirmed_since es m k \<longleftrightarrow>
    k < length es \<and> es ! k = PressInstall
    \<and> (\<forall>j \<in> {k..length es}. im_address (install_after (take j es) m) = im_address (install_after es m))"

lemma install_step_keeps:
  "e \<noteq> PressInstall \<Longrightarrow> im_confirming (fst (install_step e m)) \<Longrightarrow>
    im_confirming m \<and> im_address (fst (install_step e m)) = im_address m"
  by (cases e) (auto simp: install_step_def split: if_splits)

lemma press_keeps_address [simp]: "im_address (fst (install_step PressInstall m)) = im_address m"
  by (simp add: install_step_def handlePrimary_def)

lemma confirming_was_pressed:
  assumes "\<not> im_confirming m"
  shows "im_confirming (install_after es m) \<Longrightarrow> \<exists>k. confirmed_since es m k"
proof (induction es rule: rev_induct)
  case Nil
  with assms show ?case by simp
next
  case (snoc e es)
  show ?case
  proof (cases "e = PressInstall")
    case True
    then have "confirmed_since (es @ [e]) m (length es)"
      by (auto simp: confirmed_since_def le_Suc_eq nth_append)
    then show ?thesis ..
  next
    case False
    with install_step_keeps [of e "install_after es m"] snoc.prems
    have keep: "im_confirming (install_after es m)"
      "im_address (install_after (es @ [e]) m) = im_address (install_after es m)" by simp_all
    from snoc.IH [OF keep(1)] obtain k where k: "confirmed_since es m k" ..
    have "confirmed_since (es @ [e]) m k"
      using k keep(2) by (auto simp: confirmed_since_def le_Suc_eq nth_append)
    then show ?thesis ..
  qed
qed

lemma request_of_press:
  "snd (install_step e m) = Some a \<Longrightarrow>
    e = PressInstall \<and> a = trim (im_address m) \<and> address_valid (im_address m) \<and> (a = im_initial m \<or> im_confirming m)
      \<and> \<not> im_busy m \<and> im_busy (fst (install_step e m))"
  by (cases e) (auto simp: install_step_def handlePrimary_def split: if_splits)

text \<open>C35: 
  An address is sent only when it is the one the poller resolved, or when an earlier press of the button showed the
  confirmation for this very text; what is sent is always well formed.
\<close>

lemma install_confirmed:
  assumes "snd (install_step e (install_after es (open_install d))) = Some a"
  shows "address_valid a \<and> e = PressInstall
    \<and> (a = im_initial (install_after es (open_install d))
       \<or> (\<exists>k < length es. es ! k = PressInstall
            \<and> (\<forall>j \<in> {k..length es}. trim (im_address (install_after (take j es) (open_install d))) = a)))"
proof -
  let ?m = "install_after es (open_install d)"
  from request_of_press [OF assms] have r: "e = PressInstall" "a = trim (im_address ?m)" "address_valid (im_address ?m)"
    "a = im_initial ?m \<or> im_confirming ?m" by auto
  have "address_valid a" using r(2,3) by (simp add: address_valid_def)
  moreover have "\<exists>k < length es. es ! k = PressInstall
      \<and> (\<forall>j \<in> {k..length es}. trim (im_address (install_after (take j es) (open_install d))) = a)" if "im_confirming ?m"
    using confirming_was_pressed [OF _ that] r(2) by (force simp: open_install_def confirmed_since_def)
  ultimately show ?thesis using r by blast
qed

lemma install_confirmed_witness:
  "snd (install_step PressInstall (install_after [EditAddress ''10.0.0.7 '', PressInstall] (open_install (Some ''10.0.0.5''))))
      = Some ''10.0.0.7''
    \<and> address_valid ''10.0.0.7''"
proof -
  have *: "snd (install_step PressInstall (install_after [EditAddress ''10.0.0.7 '', PressInstall] (open_install (Some ''10.0.0.5''))))
      = Some ''10.0.0.7''" by code_simp
  from install_confirmed [OF *] * show ?thesis by blast
qed

text \<open>
  The dialog accepts every host name the server accepts, and more: an underscore is accepted here and refused there,
  except in a text that is a literal IP address.
\<close>

lemma hostname_label_chars: "hostname_label l \<Longrightarrow> list_all ADDRESS_CHAR l"
  by (auto simp: hostname_label_def list_all_iff alnum_def ADDRESS_CHAR_def)


lemma server_hostnames_offered:
  assumes "py_is_valid_ota_address is_ip a" "\<not> is_ip a"
  shows "address_valid a"
proof -
  let ?h = "if ends_with a ''.'' then butlast a else a"
  from assms have len: "a \<noteq> []" "length a \<le> 253" and labels: "list_all hostname_label (split_on (CHR ''.'') ?h)"
    by (auto simp: py_is_valid_ota_address_def Let_def split: if_splits)
  have joined: "join_with ''.'' (split_on (CHR ''.'') ?h) = ?h" by (rule join_split_on)
  have "list_all ADDRESS_CHAR l" if "l \<in> set (split_on (CHR ''.'') ?h)" for l
    using labels that by (metis hostname_label_chars list_all_iff)
  then have "\<Union> (set ` set (split_on (CHR ''.'') ?h)) \<subseteq> Collect ADDRESS_CHAR" by (auto simp: list_all_iff)
  moreover have "ADDRESS_CHAR (CHR ''.'')" by (simp add: ADDRESS_CHAR_def)
  ultimately have "list_all ADDRESS_CHAR (join_with ''.'' (split_on (CHR ''.'') ?h))"
    using set_join_with [of "''.''" "split_on (CHR ''.'') ?h"] by (fastforce simp: list_all_iff)
  then have host: "list_all ADDRESS_CHAR ?h" unfolding joined .
  have chars: "list_all ADDRESS_CHAR a"
  proof (cases "ends_with a ''.''")
    case True
    then have "last a = CHR ''.''" using len(1)
      by (cases a rule: rev_cases) (auto simp: ends_with_def starts_with_def)
    with True host len(1) show ?thesis
      by (cases a rule: rev_cases) (simp_all add: ADDRESS_CHAR_def)
  next
    case False
    with host show ?thesis by simp
  qed
  have "\<not> is_ws c" if "ADDRESS_CHAR c" for c
    using that by (auto simp: ADDRESS_CHAR_def is_ws_def is_alpha_def is_digit_def)
  with chars have "trim a = a" by (intro trim_no_ws) (auto simp: list_all_iff)
  with len chars show ?thesis by (simp add: address_valid_def)
qed

lemma server_hostnames_offered_witness: "address_valid ''attic-lamp.local''"
  by (rule server_hostnames_offered [of "\<lambda>_. False"])
    (simp_all add: py_is_valid_ota_address_def ends_with_def starts_with_def hostname_label_def alnum_def is_alpha_def
      is_digit_def)

lemma underscore_address_refused:
  assumes "CHR ''_'' \<in> set a" and "\<not> is_ip a"
  shows "\<not> py_is_valid_ota_address is_ip a"
proof
  assume ok: "py_is_valid_ota_address is_ip a"
  let ?h = "if ends_with a ''.'' then butlast a else a"
  from ok assms(2) have labels: "list_all hostname_label (split_on (CHR ''.'') ?h)" and ne: "a \<noteq> []"
    by (auto simp: py_is_valid_ota_address_def Let_def split: if_splits)
  have "CHR ''_'' \<in> set ?h"
    using assms(1) ne by (cases a rule: rev_cases) (auto simp: ends_with_def starts_with_def)
  then have "CHR ''_'' \<in> set (join_with ''.'' (split_on (CHR ''.'') ?h))" by (simp add: join_split_on)
  then obtain l where "l \<in> set (split_on (CHR ''.'') ?h)" "CHR ''_'' \<in> set l"
    using set_join_with [of "''.''" "split_on (CHR ''.'') ?h"] by fastforce
  then show False using labels by (force simp: list_all_iff hostname_label_def alnum_def is_alpha_def is_digit_def)
qed

lemma underscore_address_witness:
  "address_valid ''attic_lamp.local'' \<and> \<not> py_is_valid_ota_address (\<lambda>_. False) ''attic_lamp.local''"
  using underscore_address_refused [of "''attic_lamp.local''" "\<lambda>_. False"]
  by (simp add: address_valid_def trim_def is_ws_def ADDRESS_CHAR_def is_alpha_def is_digit_def)

section \<open>Properties of the rendered configuration, the delete dialog and the accent\<close>

definition rendered_run :: "(string \<Rightarrow> string + string \<times> bool) \<Rightarrow> rendered_event list \<Rightarrow> rendered_view" where
  "rendered_run server es = foldl (\<lambda>v e. rendered_step server e v) rendered_closed es"

text \<open>What the view shows of an answer.\<close>

definition rendered_matches :: "string + string \<times> bool \<Rightarrow> rendered_view \<Rightarrow> bool" where
  "rendered_matches ans v \<longleftrightarrow>
    (case ans of
       Inr (output, good) \<Rightarrow> rv_output v = output \<and> rv_success v = good \<and> rv_error v = None
     | Inl msg \<Rightarrow> rv_output v = [] \<and> \<not> rv_success v \<and> rv_error v = Some msg)"

definition rendered_ok :: "(string \<Rightarrow> string + string \<times> bool) \<Rightarrow> rendered_view \<Rightarrow> bool" where
  "rendered_ok server v \<longleftrightarrow>
    (case rv_live v of
       None \<Rightarrow> \<not> truthy_str (rv_target v)
     | Some n \<Rightarrow> n < length (rv_asked v) \<and> rv_target v = Some (rv_asked v ! n) \<and> truthy_str (rv_target v)
         \<and> (rv_loading v \<longrightarrow> rv_error v = None)
         \<and> (\<not> rv_loading v \<longrightarrow> rendered_matches (server (rv_asked v ! n)) v))"

lemma rendered_step_ok: "rendered_ok server v \<Longrightarrow> rendered_ok server (rendered_step server e v)"
proof (cases e)
  case (ShowRendered t)
  then show "rendered_ok server v \<Longrightarrow> ?thesis"
    by (cases t) (auto simp: rendered_ok_def rendered_matches_def truthy_str_def nth_append split: option.splits)
next
  case (RenderedAnswer n)
  then show "rendered_ok server v \<Longrightarrow> ?thesis"
    by (auto simp: rendered_ok_def rendered_matches_def split: option.splits sum.splits prod.splits)
qed

text \<open>
  Whatever order targets are chosen and answers arrive in, a view that is not loading shows the server's answer for
  the target it names, and nothing of an earlier one.
\<close>

lemma rendered_shows_its_target:
  assumes "rv_target (rendered_run server es) = Some f" and "f \<noteq> []" and "\<not> rv_loading (rendered_run server es)"
  shows "rendered_matches (server f) (rendered_run server es)"
proof -
  have "rendered_ok server (rendered_run server es)"
  proof (induction es rule: rev_induct)
    case Nil
    show ?case by (simp add: rendered_run_def rendered_closed_def rendered_ok_def truthy_str_def)
  next
    case (snoc e es)
    then show ?case by (simp add: rendered_run_def rendered_step_ok)
  qed
  with assms show ?thesis by (auto simp: rendered_ok_def truthy_str_def split: option.splits)
qed

lemma rendered_shows_its_target_witness:
  "rendered_matches (Inr (''b: 1'', True))
    (rendered_run (\<lambda>f. if f = ''b.yaml'' then Inr (''b: 1'', True) else Inr (''a: 1'', True))
      [ShowRendered (Some ''a.yaml''), ShowRendered (Some ''b.yaml''), RenderedAnswer 1, RenderedAnswer 0])"
  using rendered_shows_its_target [of "\<lambda>f. if f = ''b.yaml'' then Inr (''b: 1'', True) else Inr (''a: 1'', True)"
    "[ShowRendered (Some ''a.yaml''), ShowRendered (Some ''b.yaml''), RenderedAnswer 1, RenderedAnswer 0]" "''b.yaml''"]
  by (simp add: rendered_run_def rendered_closed_def truthy_str_def)

text \<open>A device is deleted for good only when "Delete Permanently" was pressed before and "Back" was not pressed since.\<close>

lemma permanent_needs_two_presses:
  "snd (delete_step e (delete_after es)) = Some False \<Longrightarrow>
    e = PressForever \<and> (\<exists>k < length es. es ! k = PressPermanent \<and> PressBack \<notin> set (drop k es))"
proof -
  have "delete_after es \<Longrightarrow> \<exists>k < length es. es ! k = PressPermanent \<and> PressBack \<notin> set (drop k es)"
  proof (induction es rule: rev_induct)
    case (snoc x xs)
    show ?case
    proof (cases "x = PressPermanent")
      case True
      then show ?thesis by (intro exI [of _ "length xs"]) simp
    next
      case False
      with snoc.prems have "delete_after xs" "x \<noteq> PressBack" by (cases x; simp add: delete_after_def)+
      with snoc.IH obtain k where "k < length xs" "xs ! k = PressPermanent" "PressBack \<notin> set (drop k xs)" by blast
      with \<open>x \<noteq> PressBack\<close> show ?thesis by (intro exI [of _ k]) (simp add: nth_append)
    qed
  qed (simp add: delete_after_def)
  then show "snd (delete_step e (delete_after es)) = Some False \<Longrightarrow> ?thesis"
    by (cases e) (auto split: if_splits)
qed

lemma permanent_needs_two_presses_witness:
  "snd (delete_step PressForever (delete_after [PressPermanent, PressBack, PressPermanent])) = Some False
    \<and> (\<exists>k < 3. [PressPermanent, PressBack, PressPermanent] ! k = PressPermanent
        \<and> PressBack \<notin> set (drop k [PressPermanent, PressBack, PressPermanent]))"
  using permanent_needs_two_presses [of PressForever "[PressPermanent, PressBack, PressPermanent]"]
  by (simp add: delete_after_def numeral_3_eq_3)

text \<open>
  Before the first render the page always gets a known accent; when the store works it is the one last applied, so
  a reload keeps the colour.
\<close>

lemma cached_accent_known: "isAccent (acc_attr (applyCachedAccentColor True p))"
  by (auto simp: applyCachedAccentColor_def isAccent_def ACCENT_COLORS_def DEFAULT_ACCENT_def split: option.splits)

lemma cached_accent_last_applied:
  "isAccent (Some accent) \<Longrightarrow>
    acc_attr (applyCachedAccentColor True ((applyAccentColor True accent p)\<lparr>acc_attr := a\<rparr>)) = Some accent"
  by (simp add: applyCachedAccentColor_def applyAccentColor_def)

end
