(* ===== verification/Log_Refs.thy ===== *)
theory Log_Refs
  imports Log_Viewers Small_Dialogs
begin

text \<open>
  The mutable references of the log dialog (\<open>components/LogModal.tsx\<close>): terminal, socket, polling timer, offset and
  job, shared by every run of its effect and by requests, timers and sockets of earlier runs that have not ended yet.
  \<open>Log_Viewers\<close> has one poll at a time; here requests in flight and armed timers are lists, so that what an earlier
  run left behind can meet a later one. As the WebSocket interface prescribes, closing a socket makes it report its
  closing later, and an error before that when it was still connecting. A socket no reference holds any more, though
  nothing closed it, is an orphan: it still delivers frames. Of a frame only the text matters here; hints and their
  replacement are in \<open>Log_Viewers\<close>. The toolbar of the dialog and \<open>utils/terminal.ts\<close> follow at the end.
\<close>

section \<open>References\<close>

record log_refs =
  lg_mounted :: bool
  lg_term :: "string option"
  lg_ws :: "(string \<times> bool) option"
  lg_closing :: "(string \<times> bool) list"
  lg_orphans :: "string list"
  lg_job :: "string option"
  lg_offset :: nat
  lg_timer :: "nat option"
  lg_armed :: "nat list"
  lg_next :: nat
  lg_requests :: "(string \<times> nat) list"

definition fresh_refs :: log_refs where
  "fresh_refs = \<lparr>lg_mounted = False, lg_term = None, lg_ws = None, lg_closing = [], lg_orphans = [], lg_job = None, lg_offset = 0,
     lg_timer = None, lg_armed = [], lg_next = 0, lg_requests = []\<rparr>"

definition stopWs :: "log_refs \<Rightarrow> log_refs" where
  "stopWs s =
    (case lg_ws s of
       None \<Rightarrow> s
     | Some (j, connecting) \<Rightarrow>
         s\<lparr>lg_ws := None, lg_closing := lg_closing s @ [(j, connecting)]\<rparr>)"

definition stopPolling :: "log_refs \<Rightarrow> log_refs" where
  "stopPolling s =
    (case lg_timer s of
       None \<Rightarrow> s\<lparr>lg_job := None\<rparr>
     | Some t \<Rightarrow> s\<lparr>lg_armed := filter (\<lambda>x. x \<noteq> t) (lg_armed s), lg_timer := None, lg_job := None\<rparr>)"

definition disposeTerminal :: "log_refs \<Rightarrow> log_refs" where
  "disposeTerminal s = s\<lparr>lg_term := None\<rparr>"

text \<open>\<open>poll()\<close> up to its \<open>await\<close>.\<close>

definition poll_start :: "log_refs \<Rightarrow> log_refs" where
  "poll_start s =
    (case lg_job s of
       None \<Rightarrow> s
     | Some j \<Rightarrow> if j = [] \<or> \<not> lg_mounted s then s else s\<lparr>lg_requests := lg_requests s @ [(j, lg_offset s)]\<rparr>)"

definition arm :: "log_refs \<Rightarrow> log_refs" where
  "arm s = s\<lparr>lg_timer := Some (lg_next s), lg_armed := lg_armed s @ [lg_next s], lg_next := Suc (lg_next s)\<rparr>"

definition write_term :: "string \<Rightarrow> log_refs \<Rightarrow> log_refs" where
  "write_term t s = s\<lparr>lg_term := map_option (\<lambda>u. u @ t) (lg_term s)\<rparr>"

text \<open>The rest of \<open>poll()\<close>, with the parsed answer or \<^const>\<open>None\<close> when the request was rejected.\<close>

definition poll_end :: "log_reply option \<Rightarrow> log_refs \<Rightarrow> log_refs" where
  "poll_end reply s =
    (case reply of
       None \<Rightarrow> arm s
     | Some r \<Rightarrow>
         arm (s\<lparr>lg_term := (if lr_log r \<noteq> [] then map_option (\<lambda>t. t @ lr_log r) (lg_term s) else lg_term s),
                lg_offset := lr_offset r\<rparr>))"

definition startJobPolling :: "string \<Rightarrow> log_refs \<Rightarrow> log_refs" where
  "startJobPolling j s = poll_start (s\<lparr>lg_offset := 0, lg_job := Some j\<rparr>)"

text \<open>The cleanup of the effect, and its beginning: the new terminal is empty but for a hint.\<close>

definition effect_cleanup :: "log_refs \<Rightarrow> log_refs" where
  "effect_cleanup s = disposeTerminal (stopPolling (stopWs (s\<lparr>lg_mounted := False\<rparr>)))"

definition effect_setup :: "string \<Rightarrow> log_refs \<Rightarrow> log_refs" where
  "effect_setup hint s =
    disposeTerminal (stopPolling (stopWs (s\<lparr>lg_mounted := True\<rparr>)))\<lparr>lg_term := Some hint\<rparr>"

section \<open>Events\<close>

text \<open>
  \<open>ShowFinished\<close> and \<open>ShowLive\<close>: the effect runs for a job that is over, or one that is not. \<open>PollAnswered i\<close> settles the
  \<open>i\<close>-th request in flight, \<open>TimerFires i\<close> is the \<open>i\<close>-th armed timer, \<open>ClosedWsFails i\<close> the error of the \<open>i\<close>-th socket
  that was closed while connecting, \<open>ClosedWsCloses i\<close> the closing of the \<open>i\<close>-th socket that was closed: its handler
  clears the reference, whatever that holds by then.
\<close>

datatype log_event =
    ShowFinished string | ShowLive string string | HideLog
  | WsConnected | WsFrame string | WsFails | WsCloses
  | ClosedWsFails nat | ClosedWsCloses nat | OrphanFrame nat string
  | PollAnswered nat "log_reply option" | TimerFires nat

definition drop_at :: "nat \<Rightarrow> 'a list \<Rightarrow> 'a list" where
  "drop_at i xs = take i xs @ drop (Suc i) xs"

fun log_step :: "log_event \<Rightarrow> log_refs \<Rightarrow> log_refs" where
  "log_step (ShowFinished j) s = startJobPolling j (effect_setup [] (effect_cleanup s))"
| "log_step (ShowLive j hint) s = (effect_setup hint (effect_cleanup s))\<lparr>lg_ws := Some (j, True)\<rparr>"
| "log_step HideLog s = effect_cleanup s"
| "log_step WsConnected s = s\<lparr>lg_ws := map_option (\<lambda>(j, _). (j, False)) (lg_ws s)\<rparr>"
| "log_step WsFails s =
     (case lg_ws s of None \<Rightarrow> s | Some (j, _) \<Rightarrow> startJobPolling j (s\<lparr>lg_ws := None, lg_closing := lg_closing s @ [(j, False)]\<rparr>))"
| "log_step (WsFrame t) s = (if lg_ws s = None then s else write_term t s)"
| "log_step WsCloses s = s\<lparr>lg_ws := None\<rparr>"
| "log_step (ClosedWsFails i) s =
     (if i < length (lg_closing s) \<and> snd (lg_closing s ! i)
      then let j = fst (lg_closing s ! i) in
           startJobPolling j (stopWs (s\<lparr>lg_closing := (lg_closing s)[i := (j, False)]\<rparr>)) else s)"
| "log_step (ClosedWsCloses i) s =
     (if i < length (lg_closing s)
      then s\<lparr>lg_closing := drop_at i (lg_closing s), lg_ws := None,
             lg_orphans := (case lg_ws s of None \<Rightarrow> lg_orphans s | Some (j, _) \<Rightarrow> lg_orphans s @ [j])\<rparr> else s)"
| "log_step (OrphanFrame i t) s = (if i < length (lg_orphans s) then write_term t s else s)"
| "log_step (PollAnswered i reply) s =
     (if i < length (lg_requests s) then poll_end reply (s\<lparr>lg_requests := drop_at i (lg_requests s)\<rparr>) else s)"
| "log_step (TimerFires i) s =
     (if i < length (lg_armed s) then poll_start (s\<lparr>lg_armed := drop_at i (lg_armed s)\<rparr>) else s)"

definition log_run :: "log_event list \<Rightarrow> log_refs \<Rightarrow> log_refs" where
  "log_run es s = fold log_step es s"

text \<open>How many loops are alive: each has either a request in flight or a timer armed.\<close>

definition loops :: "log_refs \<Rightarrow> nat" where
  "loops s = length (lg_requests s) + length (lg_armed s)"

definition starts_loop :: "log_event \<Rightarrow> bool" where
  "starts_loop e = (case e of ShowFinished _ \<Rightarrow> True | WsFails \<Rightarrow> True | ClosedWsFails _ \<Rightarrow> True | _ \<Rightarrow> False)"

definition shows_log :: "log_event \<Rightarrow> bool" where
  "shows_log e = (case e of ShowFinished _ \<Rightarrow> True | ShowLive _ _ \<Rightarrow> True | _ \<Rightarrow> False)"

section \<open>Lemmas\<close>

lemmas ref_defs = write_term_def stopWs_def stopPolling_def disposeTerminal_def poll_start_def arm_def poll_end_def
  startJobPolling_def effect_cleanup_def effect_setup_def

lemma length_drop_at [simp]: "i < length xs \<Longrightarrow> length (drop_at i xs) = length xs - 1"
  by (simp add: drop_at_def)

lemma loops_stop [simp]:
  "loops (stopWs s) = loops s" "loops (disposeTerminal s) = loops s"
  "loops (s\<lparr>lg_mounted := b\<rparr>) = loops s" "loops (s\<lparr>lg_term := t\<rparr>) = loops s" "loops (s\<lparr>lg_ws := w\<rparr>) = loops s"
  "loops (write_term x s) = loops s" "loops (s\<lparr>lg_closing := c, lg_ws := w, lg_orphans := r\<rparr>) = loops s" "loops (s\<lparr>lg_ws := w, lg_closing := c\<rparr>) = loops s"
  "loops (s\<lparr>lg_closing := c\<rparr>) = loops s" "loops (s\<lparr>lg_offset := n, lg_job := j\<rparr>) = loops s"
  by (auto simp: loops_def ref_defs split: option.splits)

lemma loops_stopPolling: "loops (stopPolling s) \<le> loops s"
  by (auto simp: loops_def stopPolling_def split: option.splits)

lemma loops_effect: "loops (effect_cleanup s) \<le> loops s" "loops (effect_setup h s) \<le> loops s"
  using loops_stopPolling [of "stopWs (s\<lparr>lg_mounted := False\<rparr>)"] loops_stopPolling [of "stopWs (s\<lparr>lg_mounted := True\<rparr>)"]
  by (simp_all add: effect_cleanup_def effect_setup_def)

lemma loops_poll_start: "loops (poll_start s) \<le> Suc (loops s)"
  by (auto simp: loops_def poll_start_def split: option.splits)

lemma loops_start: "loops (startJobPolling j s) \<le> Suc (loops s)"
  using loops_poll_start [of "s\<lparr>lg_offset := 0, lg_job := Some j\<rparr>"] by (simp add: startJobPolling_def)

lemma loops_step: "loops (log_step e s) \<le> loops s + (if starts_loop e then 1 else 0)"
proof (cases e)
  case (ShowFinished j)
  then show ?thesis
    using loops_start [of j "effect_setup [] (effect_cleanup s)"] loops_effect(2) [of "[]" "effect_cleanup s"] loops_effect(1) [of s]
    by (simp add: starts_loop_def)
next
  case (ShowLive j h)
  then show ?thesis
    using loops_effect(2) [of h "effect_cleanup s"] loops_effect(1) [of s] by (simp add: starts_loop_def)
next
  case WsFails
  then show ?thesis using loops_start [of _ "s\<lparr>lg_ws := None, lg_closing := c\<rparr>" for c] by (auto simp: starts_loop_def split: option.splits)
next
  case (ClosedWsFails i)
  then show ?thesis
    using loops_start [of "fst (lg_closing s ! i)" "stopWs (s\<lparr>lg_closing := (lg_closing s)[i := (fst (lg_closing s ! i), False)]\<rparr>)"]
    by (simp add: starts_loop_def Let_def)
next
  case (PollAnswered i r)
  then show ?thesis by (auto simp: loops_def poll_end_def arm_def starts_loop_def split: option.splits)
next
  case (TimerFires i)
  then show ?thesis
    using loops_poll_start [of "s\<lparr>lg_armed := drop_at i (lg_armed s)\<rparr>"] by (auto simp: loops_def starts_loop_def)
qed (simp_all add: loops_effect starts_loop_def)

section \<open>Properties\<close>

text \<open>However requests, timers and sockets interleave, no more polling loops are alive than were started.\<close>
theorem loops_bounded: "loops (log_run es fresh_refs) \<le> length (filter starts_loop es)"
proof -
  have "loops (log_run es s) \<le> loops s + length (filter starts_loop es)" for s
  proof (induction es arbitrary: s)
    case (Cons e es)
    from Cons.IH [of "log_step e s"] loops_step [of e s] show ?case by (auto simp: log_run_def split: if_splits)
  qed (simp add: log_run_def)
  from this [of fresh_refs] show ?thesis by (simp add: loops_def fresh_refs_def)
qed

text \<open>A closed dialog is quiet: until the log is shown again no request is sent and nothing is written, whatever the
  requests, timers and sockets it left behind still do.\<close>
theorem hidden_log_quiet:
  assumes "list_all (\<lambda>e. \<not> shows_log e) es"
  shows "let s1 = log_step HideLog s; s2 = log_run es s1
         in lg_term s2 = None \<and> length (lg_requests s2) \<le> length (lg_requests s1)"
proof -
  have step: "\<not> lg_mounted (log_step e s) \<and> lg_term (log_step e s) = None \<and> length (lg_requests (log_step e s)) \<le> length (lg_requests s)"
    if "\<not> lg_mounted s" "lg_term s = None" "\<not> shows_log e" for e s
    using that by (cases e) (auto simp: ref_defs shows_log_def Let_def split: option.splits)
  have run: "lg_term (log_run es s) = None \<and> length (lg_requests (log_run es s)) \<le> length (lg_requests s)"
    if "\<not> lg_mounted s" "lg_term s = None" for s
    using assms that
  proof (induction es arbitrary: s)
    case (Cons e es)
    with step [of s e] Cons.IH [of "log_step e s"] show ?case by (fastforce simp: log_run_def)
  qed (simp add: log_run_def)
  have "\<not> lg_mounted (log_step HideLog s)" "lg_term (log_step HideLog s) = None"
    by (auto simp: ref_defs split: option.splits)
  from run [OF this] show ?thesis by (simp add: Let_def)
qed

section \<open>One loop\<close>

text \<open>The loop as it is meant: the answer to the only request, then the only timer. A served poll is the text the
  server holds and whether the job is over.\<close>

fun serve_loop :: "(string \<times> bool) option list \<Rightarrow> log_refs \<Rightarrow> log_refs" where
  "serve_loop [] s = s"
| "serve_loop (p # ps) s =
     serve_loop ps (log_step (TimerFires 0)
       (log_step (PollAnswered 0 (map_option (\<lambda>(t, f). py_get_job_log t f (snd (lg_requests s ! 0))) p)) s))"

definition one_loop :: "string \<Rightarrow> log_poll \<Rightarrow> log_refs \<Rightarrow> bool" where
  "one_loop j st s \<longleftrightarrow>
    lg_mounted s \<and> lg_job s = Some j \<and> j \<noteq> [] \<and> lg_requests s = [(j, lp_offset st)] \<and> lg_armed s = []
    \<and> lg_offset s = lp_offset st \<and> lg_term s = Some (lp_text st)"

lemma drop_at_single [simp]: "drop_at 0 (x # xs) = xs"
  by (simp add: drop_at_def)

lemma one_loop_serve: "one_loop j st s \<Longrightarrow> one_loop j (poll_all ps st) (serve_loop ps s)"
proof (induction ps arbitrary: s st)
  case (Cons p ps)
  show ?case
  proof (cases p)
    case None
    have "one_loop j (poll_run None st) (log_step (TimerFires 0) (log_step (PollAnswered 0 None) s))"
      using Cons.prems by (auto simp: one_loop_def poll_end_def arm_def poll_start_def poll_run_def)
    from Cons.IH [OF this] None show ?thesis by simp
  next
    case (Some tf)
    obtain t f where tf: "tf = (t, f)" by (cases tf)
    have "one_loop j (poll_run (Some (py_get_job_log t f (lp_offset st))) st)
        (log_step (TimerFires 0) (log_step (PollAnswered 0 (Some (py_get_job_log t f (snd (lg_requests s ! 0))))) s))"
      using Cons.prems
      by (auto simp: one_loop_def poll_end_def arm_def poll_start_def poll_run_def py_get_job_log_def Let_def)
    from Cons.IH [OF this] Some tf show ?thesis by simp
  qed
qed simp

text \<open>C40: With nothing left over from before, the references implement the polling of \<open>Log_Viewers\<close>: after any number of
  polls the terminal holds the text of that model, and exactly one request is in flight, from its offset.\<close>
theorem refs_implement_polling:
  assumes "loops s = 0" "j \<noteq> []"
  shows "let s' = serve_loop ps (log_step (ShowFinished j) s); st = poll_all ps start_polling
         in lg_term s' = Some (lp_text st) \<and> lg_requests s' = [(j, lp_offset st)] \<and> lg_armed s' = []"
proof -
  have "one_loop j start_polling (log_step (ShowFinished j) s)"
    using assms by (auto simp: one_loop_def ref_defs loops_def start_polling_def split: option.splits)
  from one_loop_serve [OF this, of ps] show ?thesis by (simp add: one_loop_def Let_def)
qed

section \<open>Left-overs that meet a later run\<close>

lemma cleanup_fields [simp]:
  "\<not> lg_mounted (effect_cleanup s)" "lg_term (effect_cleanup s) = None" "lg_ws (effect_cleanup s) = None"
  "lg_job (effect_cleanup s) = None" "lg_timer (effect_cleanup s) = None" "lg_requests (effect_cleanup s) = lg_requests s"
  "lg_orphans (effect_cleanup s) = lg_orphans s"
  "lg_closing (effect_cleanup s) = lg_closing s @ (case lg_ws s of None \<Rightarrow> [] | Some p \<Rightarrow> [p])"
  "lg_armed s = [] \<Longrightarrow> lg_armed (effect_cleanup s) = []"
  by (auto simp: ref_defs split: option.splits)

lemma setup_fields [simp]:
  "lg_mounted (effect_setup h (effect_cleanup s))" "lg_term (effect_setup h (effect_cleanup s)) = Some h"
  "lg_ws (effect_setup h (effect_cleanup s)) = None" "lg_requests (effect_setup h (effect_cleanup s)) = lg_requests s"
  "lg_orphans (effect_setup h (effect_cleanup s)) = lg_orphans s"
  "lg_closing (effect_setup h (effect_cleanup s)) = lg_closing s @ (case lg_ws s of None \<Rightarrow> [] | Some p \<Rightarrow> [p])"
  "lg_armed s = [] \<Longrightarrow> lg_armed (effect_setup h (effect_cleanup s)) = []"
  using cleanup_fields [of s]
  by (simp_all add: effect_setup_def disposeTerminal_def stopWs_def stopPolling_def del: cleanup_fields)

text \<open>The effect runs again for the same job (its flash result has changed) while a request is in flight: the stale
  answer writes its part into the new terminal, the new request writes everything after it, and from then on two
  loops poll.\<close>
theorem stale_answer_repeats:
  assumes "lg_requests s = [(j, n)]" "lg_armed s = []" "j \<noteq> []" "n < length txt"
  shows "let s' = log_run [ShowFinished j, PollAnswered 0 (Some (py_get_job_log txt True n)),
                           PollAnswered 0 (Some (py_get_job_log txt True 0))] s
         in lg_term s' = Some (drop n txt @ txt) \<and> loops s' = 2"
  using assms
  by (simp add: log_run_def startJobPolling_def poll_start_def poll_end_def arm_def py_get_job_log_def loops_def drop_at_def)

text \<open>A socket closed while it is still connecting reports its error after the next log is shown: its handler closes the
  socket of that log and polls its own job into that log's terminal.\<close>
theorem late_error_takes_over:
  assumes "lg_closing s = []" "lg_ws s = None" "a \<noteq> []"
  shows "let s' = log_run [ShowLive a h, ShowLive b h', ClosedWsFails 0] s
         in lg_ws s' = None \<and> (b, True) \<in> set (lg_closing s') \<and> lg_job s' = Some a \<and> (a, 0) \<in> set (lg_requests s')
            \<and> lg_term s' = Some h'"
  using assms by (simp add: log_run_def startJobPolling_def poll_start_def stopWs_def)

text \<open>The closing of the first socket clears the reference to the second, so hiding the dialog closes nothing: the
  second socket lives on and writes into the terminal of whichever log is shown next.\<close>
theorem orphan_writes_elsewhere:
  assumes "lg_closing s = []" "lg_ws s = None" "lg_orphans s = []"
  shows "let s' = log_run [ShowLive a h, WsConnected, ShowLive b h, ClosedWsCloses 0, HideLog, ShowLive c h, OrphanFrame 0 t] s
         in lg_ws s' = Some (c, True) \<and> lg_term s' = Some (h @ t) \<and> lg_orphans s' = [b]"
  using assms by (simp add: log_run_def write_term_def drop_at_def)

section \<open>The toolbar\<close>

definition log_title :: "job option \<Rightarrow> worker option \<Rightarrow> string" where
  "log_title job worker =
    (case job of Some j \<Rightarrow> j_target j | None \<Rightarrow> (case worker of Some w \<Rightarrow> w_hostname w | None \<Rightarrow> []))"

text \<open>The stamps are those of the two clock readings, as \<open>toISOString\<close> writes them.\<close>

definition log_download ::
  "job option \<Rightarrow> worker option \<Rightarrow> string list option \<Rightarrow> string \<Rightarrow> string \<Rightarrow> (string \<times> string) option" where
  "log_download job worker term iso1 iso2 =
    terminal_download iso2 term
      (case job of
         Some j \<Rightarrow> j_target j
       | None \<Rightarrow> (case worker of
           Some w \<Rightarrow> ''worker-'' @ w_hostname w @ ''-'' @ map (\<lambda>c. if c = CHR '':'' \<or> c = CHR ''.'' then CHR ''-'' else c) iso1
         | None \<Rightarrow> ''log''))"

datatype clipboard = ClipboardOk | ClipboardRefuses | NoClipboard

text \<open>What is copied and the success toast. The fallback of an insecure page does not look at what \<open>execCommand\<close> says;
  a refusal of the clipboard shows nothing.\<close>

definition copyTerminalText :: "string list option \<Rightarrow> clipboard \<Rightarrow> (string \<times> string option) option" where
  "copyTerminalText term clip =
    (let t = getTerminalText term in
     if t = [] then None
     else Some (t, (case clip of ClipboardRefuses \<Rightarrow> None | _ \<Rightarrow> Some ''Copied to clipboard'')))"

text \<open>A worker's log is saved under a name that carries the time twice.\<close>
theorem worker_download_stamped_twice:
  assumes "getTerminalText term \<noteq> []"
  shows "\<exists>a. map_option fst (log_download None (Some w) term iso1 iso2)
      = Some (''worker-'' @ w_hostname w @ ''-'' @ a @ ''-'' @ download_stamp iso2 @ ''.log'') \<and> length a = length iso1"
  using assms by (auto simp: log_download_def terminal_download_def intro!: exI [where x = "map (\<lambda>c. if c = CHR '':'' \<or> c = CHR ''.'' then CHR ''-'' else c) iso1"])

section \<open>Witness\<close>

lemma refs_implement_witness:
  "let s' = serve_loop [Some (''Compiling'', False), None, Some (''Compiling... done'', True)] (log_step (ShowFinished ''j1'') fresh_refs);
       st = poll_all [Some (''Compiling'', False), None, Some (''Compiling... done'', True)] start_polling
   in lg_term s' = Some (lp_text st) \<and> lg_requests s' = [(''j1'', lp_offset st)] \<and> lg_armed s' = []"
  by (rule refs_implement_polling) code_simp+

lemma orphan_witness:
  "lg_term (log_run [ShowLive ''a'' [], WsConnected, ShowLive ''b'' [], ClosedWsCloses 0, HideLog, ShowLive ''c'' [], OrphanFrame 0 ''of b'']
     fresh_refs) = Some ''of b''"
  by code_simp

end
