(* ===== verification/Live_Socket.thy ===== *)
theory Live_Socket
  imports Log_Viewers
begin

text \<open>
  \<open>components/DeviceLogModal.tsx\<close>: the effect that owns the terminal and the WebSocket of a device's live log, with its
  references. \<open>Log_Viewers\<close> has the schedule of the reconnections of one connection after the other; here every run of the
  effect, every socket and every timer is kept, because a socket reports its closing later than it is closed, when another
  run may own the references. As the WebSocket interface prescribes, no message is delivered once \<open>close()\<close> was
  called, and closing a socket that is still connecting makes it report an error and then its closing. The fitting of the
  terminal to its container is left out. \<open>Date.now()\<close> is the state's clock, which only goes forward.
\<close>

section \<open>State\<close>

datatype live_line = Chunk string | ErrorNote | NotOpened | Notice live_message

record live_run =
  rn_target :: string
  rn_await :: bool
  rn_opened :: nat
  rn_disposed :: bool
  rn_retry :: "nat option"
  rn_screen :: "live_line list"

text \<open>\<open>SockClosing failed\<close>: \<open>close()\<close> was called; \<open>failed\<close> when that was before the connection was established.\<close>

datatype sock_phase = SockConnecting | SockOpen | SockClosing bool | SockClosed

record live_sock =
  sk_run :: nat
  sk_phase :: sock_phase
  sk_at :: nat

record live_timer =
  tm_run :: nat
  tm_due :: nat
  tm_armed :: bool

text \<open>\<open>lv_mount\<close> is the run whose cleanup React still owes; \<open>lv_wsRef\<close> and \<open>lv_termRef\<close> are the two references.\<close>

record live_log =
  lv_runs :: "live_run list"
  lv_mount :: "nat option"
  lv_socks :: "live_sock list"
  lv_timers :: "live_timer list"
  lv_wsRef :: "nat option"
  lv_termRef :: "nat option"
  lv_now :: nat

definition no_live_log :: "nat \<Rightarrow> live_log" where
  "no_live_log t = \<lparr>lv_runs = [], lv_mount = None, lv_socks = [], lv_timers = [], lv_wsRef = None, lv_termRef = None, lv_now = t\<rparr>"

section \<open>The effect\<close>

definition on_run :: "nat \<Rightarrow> (live_run \<Rightarrow> live_run) \<Rightarrow> live_log \<Rightarrow> live_log" where
  "on_run r f s = s\<lparr>lv_runs := (lv_runs s)[r := f (lv_runs s ! r)]\<rparr>"

definition add_line :: "live_line \<Rightarrow> live_run \<Rightarrow> live_run" where
  "add_line l u = u\<lparr>rn_screen := rn_screen u @ [l]\<rparr>"

definition write_live :: "live_line \<Rightarrow> live_log \<Rightarrow> live_log" where
  "write_live l s = (case lv_termRef s of None \<Rightarrow> s | Some r \<Rightarrow> on_run r (add_line l) s)"

text \<open>\<open>connect()\<close> of run \<open>r\<close>; \<open>throws\<close> when the constructor of the socket throws.\<close>

definition connect_live :: "bool \<Rightarrow> nat \<Rightarrow> live_log \<Rightarrow> live_log" where
  "connect_live throws r s =
    (if rn_disposed (lv_runs s ! r) then s
     else if throws then on_run r (add_line NotOpened) s
     else s\<lparr>lv_socks := lv_socks s @ [\<lparr>sk_run = r, sk_phase = SockConnecting, sk_at = lv_now s\<rparr>],
            lv_wsRef := Some (length (lv_socks s))\<rparr>)"

definition live_onerror :: "nat \<Rightarrow> live_log \<Rightarrow> live_log" where
  "live_onerror r s = (if \<not> rn_await (lv_runs s ! r) then write_live ErrorNote s else s)"

definition retry_later :: "nat \<Rightarrow> live_log \<Rightarrow> live_log" where
  "retry_later r s =
    on_run r (\<lambda>u. u\<lparr>rn_retry := Some (length (lv_timers s))\<rparr>)
      (s\<lparr>lv_timers := lv_timers s @ [\<lparr>tm_run = r, tm_due = lv_now s + BOOT_RETRY_DELAY_MS, tm_armed = True\<rparr>]\<rparr>)"

definition line_closed :: "nat \<Rightarrow> live_log \<Rightarrow> live_log" where
  "line_closed r s =
    (let u = lv_runs s ! r in
     if rn_disposed u \<or> lv_termRef s = None then s
     else if rn_await u \<and> lv_now s - rn_opened u < BOOT_RETRY_WINDOW_MS
     then retry_later r (write_live (Notice Waiting) s)
     else write_live (Notice ClosedNote) s)"

definition live_onclose :: "nat \<Rightarrow> live_log \<Rightarrow> live_log" where
  "live_onclose r s = line_closed r (s\<lparr>lv_wsRef := None\<rparr>)"

text \<open>\<open>ws.close()\<close>, which does nothing to a socket that is closing or closed already.\<close>

fun close_phase :: "sock_phase \<Rightarrow> sock_phase" where
  "close_phase SockConnecting = SockClosing True"
| "close_phase SockOpen = SockClosing False"
| "close_phase p = p"

definition set_phase :: "nat \<Rightarrow> sock_phase \<Rightarrow> live_log \<Rightarrow> live_log" where
  "set_phase i p s = s\<lparr>lv_socks := (lv_socks s)[i := (lv_socks s ! i)\<lparr>sk_phase := p\<rparr>]\<rparr>"

definition disarm :: "nat \<Rightarrow> live_log \<Rightarrow> live_log" where
  "disarm k s = s\<lparr>lv_timers := (lv_timers s)[k := (lv_timers s ! k)\<lparr>tm_armed := False\<rparr>]\<rparr>"

definition clear_retry :: "nat \<Rightarrow> live_log \<Rightarrow> live_log" where
  "clear_retry r s = (case rn_retry (lv_runs s ! r) of None \<Rightarrow> s | Some k \<Rightarrow> disarm k s)"

definition close_ref :: "live_log \<Rightarrow> live_log" where
  "close_ref s = (case lv_wsRef s of None \<Rightarrow> s
                  | Some i \<Rightarrow> (set_phase i (close_phase (sk_phase (lv_socks s ! i))) s)\<lparr>lv_wsRef := None\<rparr>)"

definition live_cleanup :: "nat \<Rightarrow> live_log \<Rightarrow> live_log" where
  "live_cleanup r s =
    (close_ref (clear_retry r (on_run r (\<lambda>u. u\<lparr>rn_disposed := True\<rparr>) s)))\<lparr>lv_termRef := None, lv_mount := None\<rparr>"

definition live_unmount :: "live_log \<Rightarrow> live_log" where
  "live_unmount s = (case lv_mount s of None \<Rightarrow> s | Some r \<Rightarrow> live_cleanup r s)"

definition live_effect :: "bool \<Rightarrow> string \<Rightarrow> bool \<Rightarrow> live_log \<Rightarrow> live_log" where
  "live_effect throws t await s =
    connect_live throws (length (lv_runs s))
      (s\<lparr>lv_runs := lv_runs s @ [\<lparr>rn_target = t, rn_await = await, rn_opened = lv_now s, rn_disposed = False,
                                  rn_retry = None, rn_screen = []\<rparr>],
         lv_mount := Some (length (lv_runs s)), lv_termRef := Some (length (lv_runs s))\<rparr>)"

section \<open>What happens to it\<close>

text \<open>
  \<open>ShowLive\<close> runs the effect, after the cleanup of the run before it if there is one (a new target, a new \<open>awaitBoot\<close>, or
  the second run that React's strict mode adds on mounting). \<open>SockEnds i failed\<close> is the browser's report that socket \<open>i\<close> is
  closed, with an error first when the connection failed or was never established.
\<close>

datatype live_event =
    ShowLive bool string bool
  | HideLive
  | SockOpens nat
  | SockFrame nat string
  | SockEnds nat bool
  | RetryFires nat bool
  | ClockTick nat

fun ends_failed :: "sock_phase \<Rightarrow> bool \<Rightarrow> bool" where
  "ends_failed SockConnecting failed \<longleftrightarrow> True"
| "ends_failed SockOpen failed \<longleftrightarrow> failed"
| "ends_failed (SockClosing f) failed \<longleftrightarrow> f"
| "ends_failed SockClosed failed \<longleftrightarrow> False"

fun live_step :: "live_log \<Rightarrow> live_event \<Rightarrow> live_log" where
  "live_step s (ShowLive throws t await) = live_effect throws t await (live_unmount s)"
| "live_step s HideLive = live_unmount s"
| "live_step s (SockOpens i) =
    (if i < length (lv_socks s) \<and> sk_phase (lv_socks s ! i) = SockConnecting then set_phase i SockOpen s else s)"
| "live_step s (SockFrame i d) =
    (if i < length (lv_socks s) \<and> sk_phase (lv_socks s ! i) = SockOpen then write_live (Chunk d) s else s)"
| "live_step s (SockEnds i failed) =
    (if i < length (lv_socks s) \<and> sk_phase (lv_socks s ! i) \<noteq> SockClosed
     then let k = lv_socks s ! i; s = set_phase i SockClosed s
          in live_onclose (sk_run k) (if ends_failed (sk_phase k) failed then live_onerror (sk_run k) s else s)
     else s)"
| "live_step s (RetryFires k throws) =
    (if k < length (lv_timers s) \<and> tm_armed (lv_timers s ! k) \<and> tm_due (lv_timers s ! k) \<le> lv_now s
     then connect_live throws (tm_run (lv_timers s ! k)) (disarm k s) else s)"
| "live_step s (ClockTick d) = s\<lparr>lv_now := lv_now s + d\<rparr>"

definition live_session :: "live_log \<Rightarrow> live_event list \<Rightarrow> live_log" where
  "live_session = foldl live_step"

definition holds_connection :: "live_sock \<Rightarrow> bool" where
  "holds_connection k \<longleftrightarrow> sk_phase k = SockConnecting \<or> sk_phase k = SockOpen"

definition open_socks :: "live_log \<Rightarrow> live_sock list" where
  "open_socks s = filter holds_connection (lv_socks s)"

definition attempts :: "nat \<Rightarrow> live_log \<Rightarrow> nat" where
  "attempts r s = length (filter (\<lambda>k. sk_run k = r) (lv_socks s))"

definition awaits_boot :: "nat \<Rightarrow> live_log \<Rightarrow> bool" where
  "awaits_boot r s \<longleftrightarrow> r < length (lv_runs s) \<and> rn_await (lv_runs s ! r)"

definition screens :: "live_log \<Rightarrow> live_line list list" where
  "screens s = map rn_screen (lv_runs s)"

section \<open>Lemmas\<close>

lemma nth_change: "xs[i := f (xs ! i)] ! j = (if j = i \<and> i < length xs then f (xs ! j) else xs ! j)"
  by (cases "i < length xs") (auto simp: nth_list_update list_update_beyond)

lemma nth_on_run: "lv_runs (on_run r f s) ! q = (if q = r \<and> r < length (lv_runs s) then f (lv_runs s ! r) else lv_runs s ! q)"
  by (simp add: on_run_def nth_change)

lemma on_run_simps [simp]:
  "length (lv_runs (on_run r f s)) = length (lv_runs s)"
  "lv_mount (on_run r f s) = lv_mount s" "lv_socks (on_run r f s) = lv_socks s" "lv_timers (on_run r f s) = lv_timers s"
  "lv_wsRef (on_run r f s) = lv_wsRef s" "lv_termRef (on_run r f s) = lv_termRef s" "lv_now (on_run r f s) = lv_now s"
  by (simp_all add: on_run_def)

lemma add_line_simps [simp]:
  "rn_target (add_line l u) = rn_target u" "rn_await (add_line l u) = rn_await u" "rn_opened (add_line l u) = rn_opened u"
  "rn_disposed (add_line l u) = rn_disposed u" "rn_retry (add_line l u) = rn_retry u"
  "rn_screen (add_line l u) = rn_screen u @ [l]"
  by (simp_all add: add_line_def)

lemma on_run_line [simp]:
  "rn_target (lv_runs (on_run r (add_line l) s) ! q) = rn_target (lv_runs s ! q)"
  "rn_await (lv_runs (on_run r (add_line l) s) ! q) = rn_await (lv_runs s ! q)"
  "rn_opened (lv_runs (on_run r (add_line l) s) ! q) = rn_opened (lv_runs s ! q)"
  "rn_disposed (lv_runs (on_run r (add_line l) s) ! q) = rn_disposed (lv_runs s ! q)"
  "rn_retry (lv_runs (on_run r (add_line l) s) ! q) = rn_retry (lv_runs s ! q)"
  by (auto simp: nth_on_run)

lemma write_live_simps [simp]:
  "length (lv_runs (write_live l s)) = length (lv_runs s)"
  "lv_mount (write_live l s) = lv_mount s" "lv_socks (write_live l s) = lv_socks s" "lv_timers (write_live l s) = lv_timers s"
  "lv_wsRef (write_live l s) = lv_wsRef s" "lv_termRef (write_live l s) = lv_termRef s" "lv_now (write_live l s) = lv_now s"
  "rn_target (lv_runs (write_live l s) ! r) = rn_target (lv_runs s ! r)"
  "rn_await (lv_runs (write_live l s) ! r) = rn_await (lv_runs s ! r)"
  "rn_opened (lv_runs (write_live l s) ! r) = rn_opened (lv_runs s ! r)"
  "rn_disposed (lv_runs (write_live l s) ! r) = rn_disposed (lv_runs s ! r)"
  "rn_retry (lv_runs (write_live l s) ! r) = rn_retry (lv_runs s ! r)"
  by (auto simp: write_live_def nth_on_run split: option.splits)

lemma write_live_none [simp]: "lv_termRef s = None \<Longrightarrow> write_live l s = s"
  by (simp add: write_live_def)

lemma set_phase_simps [simp]:
  "lv_runs (set_phase i p s) = lv_runs s" "lv_mount (set_phase i p s) = lv_mount s"
  "length (lv_socks (set_phase i p s)) = length (lv_socks s)" "lv_timers (set_phase i p s) = lv_timers s"
  "lv_wsRef (set_phase i p s) = lv_wsRef s" "lv_termRef (set_phase i p s) = lv_termRef s" "lv_now (set_phase i p s) = lv_now s"
  "sk_run (lv_socks (set_phase i p s) ! j) = sk_run (lv_socks s ! j)"
  "sk_at (lv_socks (set_phase i p s) ! j) = sk_at (lv_socks s ! j)"
  by (simp_all add: set_phase_def nth_change [where f = "\<lambda>k. k\<lparr>sk_phase := p\<rparr>"])

lemma nth_set_phase:
  "j < length (lv_socks s) \<Longrightarrow> sk_phase (lv_socks (set_phase i p s) ! j) = (if j = i then p else sk_phase (lv_socks s ! j))"
  by (simp add: set_phase_def nth_list_update)

lemma disarm_simps [simp]:
  "lv_runs (disarm k s) = lv_runs s" "lv_mount (disarm k s) = lv_mount s" "lv_socks (disarm k s) = lv_socks s"
  "length (lv_timers (disarm k s)) = length (lv_timers s)" "lv_wsRef (disarm k s) = lv_wsRef s"
  "lv_termRef (disarm k s) = lv_termRef s" "lv_now (disarm k s) = lv_now s"
  by (simp_all add: disarm_def)

lemma nth_disarm:
  "j < length (lv_timers s) \<Longrightarrow> lv_timers (disarm k s) ! j = (lv_timers s ! j)\<lparr>tm_armed := tm_armed (lv_timers s ! j) \<and> j \<noteq> k\<rparr>"
  by (cases "lv_timers s ! j") (auto simp: disarm_def nth_change [where f = "\<lambda>k. k\<lparr>tm_armed := False\<rparr>"])

section \<open>Who owns the references\<close>

text \<open>
  In every reachable state the terminal is the mounted run's, every other run is disposed, an armed timer is the
  mounted run's \<open>retryTimer\<close>, the socket reference is a socket of the mounted run that was not closed, and a socket that is
  being closed belongs to a disposed run.
\<close>

definition runs_inv :: "live_log \<Rightarrow> bool" where
  "runs_inv s \<longleftrightarrow> lv_termRef s = lv_mount s
     \<and> (\<forall>r. lv_mount s = Some r \<longrightarrow> r < length (lv_runs s))
     \<and> (\<forall>r < length (lv_runs s). rn_disposed (lv_runs s ! r) \<longleftrightarrow> lv_mount s \<noteq> Some r)"

definition timers_inv :: "live_log \<Rightarrow> bool" where
  "timers_inv s \<longleftrightarrow>
     (\<forall>r < length (lv_runs s). \<forall>k. rn_retry (lv_runs s ! r) = Some k \<longrightarrow> k < length (lv_timers s))
     \<and> (\<forall>k < length (lv_timers s). tm_run (lv_timers s ! k) < length (lv_runs s))
     \<and> (\<forall>k < length (lv_timers s). tm_armed (lv_timers s ! k) \<longrightarrow>
          lv_mount s = Some (tm_run (lv_timers s ! k)) \<and> rn_retry (lv_runs s ! tm_run (lv_timers s ! k)) = Some k)"

definition socks_inv :: "live_log \<Rightarrow> bool" where
  "socks_inv s \<longleftrightarrow>
     (\<forall>i < length (lv_socks s). sk_run (lv_socks s ! i) < length (lv_runs s))
     \<and> (\<forall>i < length (lv_socks s). \<forall>f. sk_phase (lv_socks s ! i) = SockClosing f \<longrightarrow> lv_mount s \<noteq> Some (sk_run (lv_socks s ! i)))
     \<and> (\<forall>i. lv_wsRef s = Some i \<longrightarrow> i < length (lv_socks s) \<and> lv_mount s = Some (sk_run (lv_socks s ! i))
          \<and> holds_connection (lv_socks s ! i))"

definition live_inv :: "live_log \<Rightarrow> bool" where
  "live_inv s \<longleftrightarrow> runs_inv s \<and> timers_inv s \<and> socks_inv s"

lemmas live_inv_defs = live_inv_def runs_inv_def timers_inv_def socks_inv_def

lemma live_inv_start: "live_inv (no_live_log t)"
  by (simp add: live_inv_defs no_live_log_def)

lemma live_inv_write [simp]: "live_inv (write_live l s) = live_inv s"
  by (simp add: live_inv_defs)

lemma live_inv_line [simp]: "live_inv (on_run r (add_line l) s) = live_inv s"
  by (simp add: live_inv_defs)

lemma live_inv_tick [simp]: "live_inv (s\<lparr>lv_now := t\<rparr>) = live_inv s"
  by (simp add: live_inv_defs)

lemma live_inv_error [simp]: "live_inv (live_onerror r s) = live_inv s"
  by (simp add: live_onerror_def)

lemma live_inv_no_ref: "live_inv s \<Longrightarrow> live_inv (s\<lparr>lv_wsRef := None\<rparr>)"
  by (simp add: live_inv_defs)

lemma live_inv_disarm: "live_inv s \<Longrightarrow> live_inv (disarm k s)"
  by (simp add: live_inv_defs nth_disarm)

lemma live_inv_phase:
  assumes "live_inv s" and "p = SockOpen \<or> p = SockClosed \<and> lv_wsRef s \<noteq> Some i"
  shows "live_inv (set_phase i p s)"
proof -
  have "socks_inv s" using assms(1) by (simp add: live_inv_def)
  then have "socks_inv (set_phase i p s)"
    using assms(2) by (simp add: socks_inv_def nth_set_phase holds_connection_def) (metis sock_phase.distinct)
  then show ?thesis using assms(1) by (simp add: live_inv_def runs_inv_def timers_inv_def)
qed

lemma live_inv_connect:
  assumes "live_inv s" and "r < length (lv_runs s)"
  shows "live_inv (connect_live throws r s)"
proof (cases "rn_disposed (lv_runs s ! r) \<or> throws")
  case False
  then have "lv_mount s = Some r" using assms by (simp add: live_inv_defs)
  with assms have "socks_inv (connect_live throws r s)"
    using False by (simp add: connect_live_def live_inv_def socks_inv_def nth_append holds_connection_def less_Suc_eq)
  then show ?thesis using assms(1) False by (simp add: connect_live_def live_inv_def runs_inv_def timers_inv_def)
qed (use assms in \<open>auto simp: connect_live_def\<close>)

lemma live_inv_retry:
  assumes "live_inv s" and "lv_mount s = Some r" and "\<forall>k < length (lv_timers s). \<not> tm_armed (lv_timers s ! k)"
  shows "live_inv (retry_later r s)"
proof -
  have r: "r < length (lv_runs s)" using assms by (simp add: live_inv_defs)
  have "timers_inv (retry_later r s)"
    using assms r unfolding live_inv_def timers_inv_def
    by (auto simp: retry_later_def nth_append nth_on_run less_Suc_eq)
  then show ?thesis
    using assms(1) r by (simp add: retry_later_def live_inv_def runs_inv_def socks_inv_def nth_on_run)
qed

section \<open>One connection at a time\<close>

text \<open>
  The mounted run has one connection, or one armed timer, or neither; and its connections are three seconds apart, so
  that the window of ninety seconds bounds their number.
\<close>

definition held :: "nat \<Rightarrow> nat \<Rightarrow> live_log \<Rightarrow> bool" where
  "held r i s \<longleftrightarrow> i < length (lv_socks s) \<and> sk_run (lv_socks s ! i) = r \<and> holds_connection (lv_socks s ! i)"

definition armed_at :: "nat \<Rightarrow> live_log \<Rightarrow> bool" where
  "armed_at k s \<longleftrightarrow> k < length (lv_timers s) \<and> tm_armed (lv_timers s ! k)"

definition bound_inv :: "live_log \<Rightarrow> bool" where
  "bound_inv s \<longleftrightarrow> (\<forall>r < length (lv_runs s). attempts r s \<le> 31 \<and> (\<not> rn_await (lv_runs s ! r) \<longrightarrow> attempts r s \<le> 1))"

definition line_inv :: "nat \<Rightarrow> live_log \<Rightarrow> bool" where
  "line_inv r s \<longleftrightarrow>
     (\<forall>i j. held r i s \<longrightarrow> held r j s \<longrightarrow> i = j)
     \<and> (\<forall>i. held r i s \<longrightarrow> rn_opened (lv_runs s ! r) + BOOT_RETRY_DELAY_MS * (attempts r s - 1) \<le> lv_now s)
     \<and> (\<forall>k. armed_at k s \<longrightarrow> rn_await (lv_runs s ! r) \<and> (\<forall>i. \<not> held r i s)
          \<and> rn_opened (lv_runs s ! r) + BOOT_RETRY_DELAY_MS * attempts r s \<le> tm_due (lv_timers s ! k)
          \<and> tm_due (lv_timers s ! k) < rn_opened (lv_runs s ! r) + BOOT_RETRY_WINDOW_MS + BOOT_RETRY_DELAY_MS)"

definition chain_inv :: "live_log \<Rightarrow> bool" where
  "chain_inv s \<longleftrightarrow> live_inv s \<and> bound_inv s \<and> (\<forall>r. lv_mount s = Some r \<longrightarrow> line_inv r s)"

lemmas retry_times = BOOT_RETRY_DELAY_MS_def BOOT_RETRY_WINDOW_MS_def

lemma attempts_write [simp]: "attempts r (write_live l s) = attempts r s"
  "attempts r (on_run q f s) = attempts r s" "attempts r (disarm k s) = attempts r s"
  "attempts r (s\<lparr>lv_now := t\<rparr>) = attempts r s" "attempts r (s\<lparr>lv_wsRef := w\<rparr>) = attempts r s"
  by (simp_all add: attempts_def)

lemma attempts_phase [simp]: "attempts r (set_phase i p s) = attempts r s"
proof -
  have "map sk_run (lv_socks (set_phase i p s)) = map sk_run (lv_socks s)"
    by (rule nth_equalityI) simp_all
  then have "length (filter (\<lambda>x. x = r) (map sk_run (lv_socks (set_phase i p s))))
    = length (filter (\<lambda>x. x = r) (map sk_run (lv_socks s)))" by simp
  then show ?thesis by (simp add: attempts_def filter_map comp_def)
qed

lemma held_same [simp]: "held r i (write_live l s) = held r i s" "held r i (on_run q f s) = held r i s"
  "held r i (disarm k s) = held r i s" "held r i (s\<lparr>lv_now := t\<rparr>) = held r i s" "held r i (s\<lparr>lv_wsRef := w\<rparr>) = held r i s"
  by (simp_all add: held_def)

lemma held_phase: "held r j (set_phase i p s) \<longleftrightarrow>
    (if j = i then i < length (lv_socks s) \<and> sk_run (lv_socks s ! i) = r \<and> (p = SockConnecting \<or> p = SockOpen) else held r j s)"
  by (auto simp: held_def nth_set_phase holds_connection_def)

lemma armed_same [simp]: "armed_at k (write_live l s) = armed_at k s" "armed_at k (on_run q f s) = armed_at k s"
  "armed_at k (set_phase i p s) = armed_at k s" "armed_at k (s\<lparr>lv_now := t\<rparr>) = armed_at k s"
  "armed_at k (s\<lparr>lv_wsRef := w\<rparr>) = armed_at k s"
  by (simp_all add: armed_at_def)

lemma armed_disarm [simp]: "armed_at j (disarm k s) \<longleftrightarrow> armed_at j s \<and> j \<noteq> k"
  by (auto simp: armed_at_def nth_disarm)

lemma due_disarm: "armed_at j s \<Longrightarrow> tm_due (lv_timers (disarm k s) ! j) = tm_due (lv_timers s ! j)"
  by (simp add: armed_at_def nth_disarm)

lemma armed_mount: "live_inv s \<Longrightarrow> armed_at k s \<Longrightarrow> lv_mount s = Some (tm_run (lv_timers s ! k))"
  by (simp add: live_inv_defs armed_at_def)

lemma armed_unique: "live_inv s \<Longrightarrow> armed_at k s \<Longrightarrow> armed_at j s \<Longrightarrow> j = k"
  unfolding live_inv_def timers_inv_def armed_at_def by (metis option.inject)

lemma chain_write [simp]: "chain_inv (write_live l s) = chain_inv s"
  by (simp add: chain_inv_def bound_inv_def line_inv_def)

lemma chain_line [simp]: "chain_inv (on_run r (add_line l) s) = chain_inv s"
  by (simp add: chain_inv_def bound_inv_def line_inv_def)

lemma chain_tick: "chain_inv s \<Longrightarrow> chain_inv (s\<lparr>lv_now := lv_now s + d\<rparr>)"
  by (auto simp: chain_inv_def bound_inv_def line_inv_def trans_le_add1)

lemma chain_no_ref: "chain_inv s \<Longrightarrow> chain_inv (s\<lparr>lv_wsRef := None\<rparr>)"
  by (simp add: chain_inv_def bound_inv_def line_inv_def live_inv_no_ref)

lemma chain_error [simp]: "chain_inv (live_onerror r s) = chain_inv s"
  by (simp add: live_onerror_def)

lemma chain_disarm:
  assumes "chain_inv s"
  shows "chain_inv (disarm k s)"
  using assms by (simp add: chain_inv_def live_inv_disarm bound_inv_def line_inv_def due_disarm) blast

lemma chain_phase:
  assumes "chain_inv s" and "p = SockOpen \<and> sk_phase (lv_socks s ! i) = SockConnecting \<or> p = SockClosed \<and> lv_wsRef s \<noteq> Some i"
  shows "chain_inv (set_phase i p s)"
proof -
  have "held r j s" if "held r j (set_phase i p s)" for r j
    using that assms(2) by (cases "j = i"; simp add: held_phase; auto simp: held_def holds_connection_def)
  then show ?thesis
    using assms live_inv_phase [of s p i] unfolding chain_inv_def bound_inv_def line_inv_def by simp blast
qed

lemma chain_connect:
  assumes "chain_inv s" and "r < length (lv_runs s)" and "\<And>i. \<not> held r i s" and "\<And>k. \<not> armed_at k s"
    and "attempts r s < 31" and "\<not> rn_await (lv_runs s ! r) \<longrightarrow> attempts r s = 0"
    and "rn_opened (lv_runs s ! r) + BOOT_RETRY_DELAY_MS * attempts r s \<le> lv_now s"
  shows "chain_inv (connect_live throws r s)"
proof (cases "rn_disposed (lv_runs s ! r) \<or> throws")
  case False
  let ?s = "connect_live throws r s"
  have m: "lv_mount s = Some r" using assms(1,2) False by (simp add: chain_inv_def live_inv_defs)
  have a: "attempts q ?s = attempts q s + (if q = r then 1 else 0)" for q
    using False by (simp add: attempts_def connect_live_def)
  have h: "held r i ?s \<Longrightarrow> i = length (lv_socks s)" for i
    using False assms(3) [of i] by (auto simp: held_def connect_live_def nth_append less_Suc_eq split: if_splits)
  have k: "armed_at k ?s = armed_at k s" for k using False by (simp add: connect_live_def armed_at_def)
  have same: "lv_runs ?s = lv_runs s" "lv_now ?s = lv_now s" "lv_mount ?s = lv_mount s"
    using False by (simp_all add: connect_live_def)
  have "bound_inv ?s"
    using assms(1,5,6) by (auto simp: chain_inv_def bound_inv_def a same)
  moreover have "line_inv r ?s"
    using assms(4,7) h by (auto simp: line_inv_def a k same)
  ultimately show ?thesis
    using assms(1,2) m by (auto simp: chain_inv_def same live_inv_connect)
qed (use assms in \<open>auto simp: connect_live_def\<close>)

lemma chain_closed:
  assumes "chain_inv s"
    and "\<not> rn_disposed (lv_runs s ! r) \<Longrightarrow> lv_mount s = Some r"
    and "lv_mount s = Some r \<Longrightarrow> (\<forall>i. \<not> held r i s) \<and> (\<forall>k. \<not> armed_at k s)
      \<and> rn_opened (lv_runs s ! r) + BOOT_RETRY_DELAY_MS * (attempts r s - 1) \<le> lv_now s"
  shows "chain_inv (line_closed r s)"
proof (cases "\<not> rn_disposed (lv_runs s ! r) \<and> lv_termRef s \<noteq> None \<and> rn_await (lv_runs s ! r)
    \<and> lv_now s - rn_opened (lv_runs s ! r) < BOOT_RETRY_WINDOW_MS")
  case True
  define w where "w = write_live (Notice Waiting) s"
  have e: "line_closed r s = retry_later r w" using True by (auto simp: line_closed_def w_def Let_def)
  have m: "lv_mount s = Some r" and off: "\<forall>i. \<not> held r i s" "\<forall>k. \<not> armed_at k s" using assms(2,3) True by auto
  have inv: "live_inv w" "bound_inv w" using assms(1) chain_write [of "Notice Waiting" s] by (simp_all add: w_def chain_inv_def)
  have r: "r < length (lv_runs w)" using inv(1) m by (simp add: live_inv_defs w_def)
  have live: "live_inv (retry_later r w)"
    using live_inv_retry [OF inv(1)] m off(2) by (simp add: w_def armed_at_def)
  have same: "attempts q (retry_later r w) = attempts q s" "held q i (retry_later r w) = held q i s"
      "rn_await (lv_runs (retry_later r w) ! q) = rn_await (lv_runs s ! q)"
      "rn_opened (lv_runs (retry_later r w) ! q) = rn_opened (lv_runs s ! q)" for q i
    by (simp_all add: retry_later_def nth_on_run w_def attempts_def held_def)
  have arm: "armed_at k (retry_later r w) \<longleftrightarrow> k = length (lv_timers s)"
      "tm_due (lv_timers (retry_later r w) ! length (lv_timers s)) = lv_now s + BOOT_RETRY_DELAY_MS" for k
    using off(2) by (auto simp: retry_later_def armed_at_def nth_append w_def less_Suc_eq)
  have "line_inv r (retry_later r w)"
    using True assms(3) m off(1) by (auto simp: line_inv_def same arm retry_times)
  then show ?thesis using live inv(2) m unfolding e chain_inv_def bound_inv_def
    by (simp add: same) (simp add: retry_later_def w_def)
next
  case False
  then show ?thesis using assms(1) by (auto simp: line_closed_def Let_def)
qed

text \<open>The cleanup leaves no run mounted; the effect starts a run of its own.\<close>

lemma close_ref_simps [simp]: "lv_runs (close_ref s) = lv_runs s" "lv_timers (close_ref s) = lv_timers s"
  "length (lv_socks (close_ref s)) = length (lv_socks s)" "sk_run (lv_socks (close_ref s) ! i) = sk_run (lv_socks s ! i)"
  "attempts r (close_ref s) = attempts r s" "lv_wsRef (close_ref s) = None" "lv_now (close_ref s) = lv_now s"
  by (simp_all add: close_ref_def split: option.splits)

lemma clear_retry_simps [simp]: "lv_runs (clear_retry r s) = lv_runs s" "lv_socks (clear_retry r s) = lv_socks s"
  "lv_wsRef (clear_retry r s) = lv_wsRef s" "length (lv_timers (clear_retry r s)) = length (lv_timers s)"
  "attempts q (clear_retry r s) = attempts q s" "lv_now (clear_retry r s) = lv_now s" "lv_mount (clear_retry r s) = lv_mount s"
  by (simp_all add: clear_retry_def split: option.splits)

lemma tm_run_clear [simp]: "tm_run (lv_timers (clear_retry r s) ! k) = tm_run (lv_timers s ! k)"
  by (simp add: clear_retry_def disarm_def nth_change [where f = "\<lambda>k. k\<lparr>tm_armed := False\<rparr>"] split: option.splits)

lemma armed_clear: "armed_at k (clear_retry r s) \<Longrightarrow> armed_at k s \<and> rn_retry (lv_runs s ! r) \<noteq> Some k"
  by (auto simp: clear_retry_def split: option.splits)

lemma cleanup_silences:
  assumes "live_inv s" and "lv_mount s = Some r"
  shows "\<not> armed_at k (live_cleanup r s)"
proof
  assume "armed_at k (live_cleanup r s)"
  then have "armed_at k (clear_retry r (on_run r (\<lambda>u. u\<lparr>rn_disposed := True\<rparr>) s))"
    by (simp add: live_cleanup_def armed_at_def)
  from armed_clear [OF this] have "armed_at k s" and "rn_retry (lv_runs s ! r) \<noteq> Some k"
    by (auto simp: nth_on_run split: if_splits)
  then show False using assms by (auto simp: live_inv_def timers_inv_def armed_at_def)
qed

lemma chain_cleanup:
  assumes "chain_inv s" and "lv_mount s = Some r"
  shows "chain_inv (live_cleanup r s)"
proof -
  let ?s = "live_cleanup r s"
  have inv: "live_inv s" and b: "bound_inv s" using assms(1) by (simp_all add: chain_inv_def)
  have r: "r < length (lv_runs s)" using inv assms(2) by (simp add: live_inv_defs)
  have n: "lv_mount ?s = None" "lv_termRef ?s = None" "lv_wsRef ?s = None" by (simp_all add: live_cleanup_def)
  have runs: "lv_runs ?s = (lv_runs s)[r := (lv_runs s ! r)\<lparr>rn_disposed := True\<rparr>]"
    by (simp add: live_cleanup_def on_run_def)
  have "runs_inv ?s" using inv assms(2) by (auto simp: runs_inv_def live_inv_def n runs nth_list_update)
  moreover have "timers_inv ?s"
    using inv r cleanup_silences [OF inv assms(2)] unfolding timers_inv_def live_inv_def armed_at_def
    by (auto simp: runs nth_list_update live_cleanup_def nth_on_run split: if_splits)
  moreover have "socks_inv ?s" using inv by (simp add: socks_inv_def live_inv_def n) (simp add: live_cleanup_def)
  moreover have "bound_inv ?s"
  proof -
  have "attempts q ?s = attempts q s" for q
    by (simp add: live_cleanup_def attempts_def) (simp flip: attempts_def)
  moreover have "rn_await (lv_runs ?s ! q) = rn_await (lv_runs s ! q)" for q
    by (simp add: runs nth_change [where f = "\<lambda>u. u\<lparr>rn_disposed := True\<rparr>"])
  ultimately show ?thesis using b by (simp add: bound_inv_def runs)
  qed
  ultimately show ?thesis by (simp add: chain_inv_def live_inv_def n)
qed

lemma chain_unmount: "chain_inv s \<Longrightarrow> chain_inv (live_unmount s)"
  by (simp add: live_unmount_def chain_cleanup split: option.splits)

lemma unmount_silences: "live_inv s \<Longrightarrow> lv_mount (live_unmount s) = None \<and> (\<forall>k. \<not> armed_at k (live_unmount s))"
proof (cases "lv_mount s")
  case None
  assume "live_inv s"
  then show ?thesis using None armed_mount [of s] by (auto simp: live_unmount_def)
next
  case (Some r)
  assume "live_inv s"
  then show ?thesis using Some cleanup_silences by (simp add: live_unmount_def) (simp add: live_cleanup_def)
qed

lemma chain_effect:
  assumes "chain_inv s" and "lv_mount s = None"
  shows "chain_inv (live_effect throws t await s)"
proof -
  define u where "u = \<lparr>rn_target = t, rn_await = await, rn_opened = lv_now s, rn_disposed = False, rn_retry = None, rn_screen = []\<rparr>"
  define n where "n = length (lv_runs s)"
  define s' where "s' = s\<lparr>lv_runs := lv_runs s @ [u], lv_mount := Some n, lv_termRef := Some n\<rparr>"
  have inv: "live_inv s" and b: "bound_inv s" using assms(1) by (simp_all add: chain_inv_def)
  have off: "\<not> armed_at k s'" for k using inv assms(2) by (auto simp: live_inv_def timers_inv_def armed_at_def s'_def)
  have old: "i < length (lv_socks s) \<Longrightarrow> sk_run (lv_socks s ! i) < n" for i
    using inv by (simp add: live_inv_def socks_inv_def n_def)
  have none: "\<not> held n i s'" for i using old [of i] by (auto simp: held_def s'_def)
  have zero: "attempts n s' = 0" using old less_irrefl by (fastforce simp: attempts_def s'_def filter_empty_conv in_set_conv_nth)
  have "live_inv s'"
    using inv assms(2) off old unfolding live_inv_defs armed_at_def
    by (auto simp: s'_def n_def u_def nth_append less_Suc_eq)
  moreover have "attempts q s' = attempts q s" for q by (simp add: attempts_def s'_def)
  then have "bound_inv s'" using b zero by (auto simp: bound_inv_def s'_def n_def nth_append less_Suc_eq)
  moreover have "line_inv n s'" using none off by (simp add: line_inv_def)
  ultimately have "chain_inv s'" by (simp add: chain_inv_def s'_def)
  then have "chain_inv (connect_live throws n s')"
    by (rule chain_connect) (use none off zero in \<open>auto simp: s'_def n_def u_def\<close>)
  then show ?thesis by (simp add: live_effect_def s'_def u_def n_def)
qed

lemma chain_step: "chain_inv s \<Longrightarrow> chain_inv (live_step s e)"
proof (cases e)
  case (ShowLive throws t await)
  assume c: "chain_inv s"
  then have "lv_mount (live_unmount s) = None" using unmount_silences by (simp add: chain_inv_def)
  then show ?thesis using chain_effect [OF chain_unmount [OF c]] ShowLive by simp
next
  case (SockEnds i failed)
  assume c: "chain_inv s"
  show ?thesis
  proof (cases "i < length (lv_socks s) \<and> sk_phase (lv_socks s ! i) \<noteq> SockClosed")
    case True
    define k where "k = lv_socks s ! i"
    define w where "w = (if ends_failed (sk_phase k) failed then live_onerror (sk_run k) (set_phase i SockClosed s)
                         else set_phase i SockClosed s)"
    have w: "live_step s e = live_onclose (sk_run k) w" using True SockEnds by (simp add: w_def k_def Let_def)
    let ?p = "set_phase i SockClosed (s\<lparr>lv_wsRef := None\<rparr>)"
    have c': "chain_inv ?p" using chain_no_ref [OF c] chain_phase by simp
    have w': "live_step s e = line_closed (sk_run k) (if ends_failed (sk_phase k) failed then live_onerror (sk_run k) ?p else ?p)"
      unfolding w live_onclose_def w_def
      by (cases s) (simp add: set_phase_def live_onerror_def write_live_def on_run_def split: option.splits)
    have inv: "live_inv s" and l: "lv_mount s = Some r \<Longrightarrow> line_inv r s" for r using c by (simp_all add: chain_inv_def)
    have run: "sk_run k < length (lv_runs s)" using inv True by (simp add: live_inv_def socks_inv_def k_def)
    have mine: "lv_mount s = Some (sk_run k)" if "\<not> rn_disposed (lv_runs s ! sk_run k)"
      using inv run that by (simp add: live_inv_def runs_inv_def)
    have h: "held (sk_run k) i s" if "lv_mount s = Some (sk_run k)"
      using inv that True unfolding live_inv_def socks_inv_def held_def holds_connection_def k_def
      by (cases "sk_phase (lv_socks s ! i)") auto
    have alone: "\<not> held (sk_run k) j ?p" "\<not> armed_at m ?p"
        "rn_opened (lv_runs s ! sk_run k) + BOOT_RETRY_DELAY_MS * (attempts (sk_run k) s - 1) \<le> lv_now s"
      if "lv_mount s = Some (sk_run k)" for j m
      using l [OF that] h [OF that] unfolding line_inv_def by (auto simp: held_phase)
    show ?thesis unfolding w' using c' mine alone
      by (cases "ends_failed (sk_phase k) failed"; intro chain_closed) (auto simp: live_onerror_def)
  qed (use c SockEnds in auto)
next
  case (RetryFires k throws)
  assume c: "chain_inv s"
  show ?thesis
  proof (cases "armed_at k s \<and> tm_due (lv_timers s ! k) \<le> lv_now s")
    case True
    let ?r = "tm_run (lv_timers s ! k)"
    have inv: "live_inv s" using c by (simp add: chain_inv_def)
    have m: "lv_mount s = Some ?r" using armed_mount inv True by blast
    then have r: "?r < length (lv_runs s)" and l: "line_inv ?r s" using c by (simp_all add: chain_inv_def live_inv_defs)
    have k: "rn_await (lv_runs s ! ?r)" "\<not> held ?r i s"
        "rn_opened (lv_runs s ! ?r) + BOOT_RETRY_DELAY_MS * attempts ?r s \<le> tm_due (lv_timers s ! k)"
        "tm_due (lv_timers s ! k) < rn_opened (lv_runs s ! ?r) + BOOT_RETRY_WINDOW_MS + BOOT_RETRY_DELAY_MS" for i
      using l True unfolding line_inv_def by blast+
    have "attempts ?r s < 31" using k(3,4) by (simp add: retry_times)
    with k True r armed_unique [OF inv] have "chain_inv (connect_live throws ?r (disarm k s))"
      by (intro chain_connect chain_disarm [OF c]) (auto intro: order_trans)
    then show ?thesis using True RetryFires by (simp add: armed_at_def)
  qed (use c RetryFires in \<open>auto simp: armed_at_def\<close>)
qed (auto simp: chain_phase chain_unmount chain_tick)

lemma chain_session: "chain_inv s \<Longrightarrow> chain_inv (live_session s es)"
  unfolding live_session_def by (induction es arbitrary: s) (simp_all add: chain_step)

lemma chain_start: "chain_inv (no_live_log t)"
  by (simp add: chain_inv_def live_inv_start bound_inv_def) (simp add: no_live_log_def)

section \<open>After the dialog is closed\<close>

text \<open>With nothing mounted, no event but a new showing writes a line or opens a connection.\<close>

definition at_rest :: "live_log \<Rightarrow> bool" where
  "at_rest s \<longleftrightarrow> live_inv s \<and> lv_mount s = None \<and> (\<forall>k. \<not> armed_at k s)"

fun shows_live :: "live_event \<Rightarrow> bool" where
  "shows_live (ShowLive throws t await) \<longleftrightarrow> True"
| "shows_live _ \<longleftrightarrow> False"

lemma at_rest_closed: "at_rest s \<Longrightarrow> r < length (lv_runs s) \<Longrightarrow> line_closed r s = s"
  by (simp add: at_rest_def live_inv_def runs_inv_def line_closed_def)

lemma at_rest_refs: "at_rest s \<Longrightarrow> lv_termRef s = None \<and> lv_mount s = None"
  by (simp add: at_rest_def live_inv_def runs_inv_def)

lemma at_rest_silent:
  assumes "at_rest s" and "\<not> shows_live e"
  shows "at_rest (live_step s e) \<and> lv_runs (live_step s e) = lv_runs s \<and> length (lv_socks (live_step s e)) = length (lv_socks s)"
proof (cases e)
  case (SockEnds i failed)
  have t: "lv_termRef s = None" using assms(1) by (simp add: at_rest_def live_inv_def runs_inv_def)
  show ?thesis
  proof (cases "i < length (lv_socks s) \<and> sk_phase (lv_socks s ! i) \<noteq> SockClosed")
    case True
    let ?p = "(set_phase i SockClosed s)\<lparr>lv_wsRef := None\<rparr>"
    have "live_inv (set_phase i SockClosed s)"
      using assms(1) by (intro live_inv_phase) (auto simp: at_rest_def live_inv_def socks_inv_def)
    then have p: "at_rest ?p" using assms(1) live_inv_no_ref by (simp add: at_rest_def)
    have "sk_run (lv_socks s ! i) < length (lv_runs ?p)"
      using assms(1) True by (simp add: at_rest_def live_inv_def socks_inv_def)
    from at_rest_closed [OF p this] have "live_step s e = ?p"
      using True SockEnds t by (simp add: live_onclose_def live_onerror_def Let_def)
    then show ?thesis using p by simp
  qed (use assms SockEnds in auto)
qed (use assms at_rest_refs [OF assms(1)] in \<open>auto simp: at_rest_def live_inv_phase live_unmount_def armed_at_def\<close>)

lemma at_rest_runs:
  assumes "at_rest s" and "\<forall>e \<in> set es. \<not> shows_live e"
  shows "lv_runs (live_session s es) = lv_runs s \<and> length (lv_socks (live_session s es)) = length (lv_socks s)"
  using assms
proof (induction es arbitrary: s)
  case (Cons e es)
  from at_rest_silent [of s e] Cons.prems have "at_rest (live_step s e)" "lv_runs (live_step s e) = lv_runs s"
    "length (lv_socks (live_step s e)) = length (lv_socks s)" by simp_all
  then show ?case using Cons by (simp add: live_session_def)
qed (simp add: live_session_def)

lemma unmount_rests: "live_inv s \<Longrightarrow> at_rest (live_unmount s)" if "chain_inv s"
  using unmount_silences chain_unmount [OF that] by (auto simp: at_rest_def chain_inv_def)

text \<open>
  Whatever happened before, once the dialog is closed nothing is written to any of its terminals and no connection is
  opened, however late sockets, timers and the clock report, until it is shown again.
\<close>
theorem closed_live_log_silent:
  assumes "\<forall>e \<in> set late. \<not> shows_live e"
  shows "screens (live_session (no_live_log t) (es @ HideLive # late)) = screens (live_session (no_live_log t) (es @ [HideLive]))
    \<and> length (lv_socks (live_session (no_live_log t) (es @ HideLive # late)))
      = length (lv_socks (live_session (no_live_log t) (es @ [HideLive])))"
proof -
  let ?s = "live_session (no_live_log t) es"
  have c: "chain_inv ?s" by (rule chain_session [OF chain_start])
  then have "at_rest (live_unmount ?s)" by (simp add: unmount_rests chain_inv_def)
  from at_rest_runs [OF this assms] show ?thesis by (simp add: live_session_def screens_def)
qed

lemma attempts_outside: "live_inv s \<Longrightarrow> length (lv_runs s) \<le> r \<Longrightarrow> attempts r s = 0"
  by (fastforce simp: attempts_def live_inv_def socks_inv_def filter_empty_conv in_set_conv_nth)

text \<open>C17: 
  However sockets, timers, frames and showings interleave, each run of the live log's effect opens at most thirty-one
  connections, and at most one when it does not wait for a device to boot.
\<close>
theorem live_attempts_bounded:
  "attempts r (live_session (no_live_log t) es) \<le> (if awaits_boot r (live_session (no_live_log t) es) then 31 else 1)"
proof -
  let ?s = "live_session (no_live_log t) es"
  have "live_inv ?s" "bound_inv ?s" using chain_session [OF chain_start] by (simp_all add: chain_inv_def)
  then show ?thesis
    by (cases "r < length (lv_runs ?s)") (simp_all add: bound_inv_def awaits_boot_def attempts_outside)
qed

section \<open>A socket nobody closes\<close>

text \<open>
  With a single showing, closing the dialog closes every connection. With a second one, the report of the first
  socket's closing arrives after the second socket was stored, and \<open>onclose\<close> clears the reference without asking whose it
  is; from then on nothing can close the second socket.
\<close>

definition owned :: "live_log \<Rightarrow> bool" where
  "owned s \<longleftrightarrow> (\<forall>i < length (lv_socks s). holds_connection (lv_socks s ! i) \<longrightarrow> lv_wsRef s = Some i)"

lemma show_count: "length (lv_runs (live_step s e)) = length (lv_runs s) + (if shows_live e then 1 else 0)"
  by (cases e)
    (auto simp: live_effect_def connect_live_def live_unmount_def live_cleanup_def live_onclose_def line_closed_def retry_later_def
      live_onerror_def Let_def split: option.splits)

lemma owned_write [simp]: "owned (write_live l s) = owned s" "owned (on_run r f s) = owned s" "owned (disarm k s) = owned s"
  "owned (s\<lparr>lv_now := t\<rparr>) = owned s"
  by (simp_all add: owned_def)

lemma socks_cleanup: "lv_socks (live_cleanup r s) = lv_socks (close_ref s)"
  by (simp add: live_cleanup_def close_ref_def set_phase_def split: option.splits)

lemma close_phase_ends [simp]: "close_phase p \<noteq> SockConnecting" "close_phase p \<noteq> SockOpen"
  by (cases p; simp)+

lemma owned_cleanup:
  assumes "owned s"
  shows "owned (live_cleanup r s)"
proof (cases "lv_wsRef s")
  case None
  then show ?thesis using assms by (simp add: owned_def socks_cleanup close_ref_def)
next
  case (Some i)
  then have "\<not> holds_connection (lv_socks (live_cleanup r s) ! j)" if "j < length (lv_socks s)" for j
  proof -
    have "j \<noteq> i \<Longrightarrow> \<not> holds_connection (lv_socks s ! j)" using assms Some that by (metis option.inject owned_def)
    then show ?thesis
      using Some that by (simp add: socks_cleanup close_ref_def nth_set_phase holds_connection_def)
  qed
  then show ?thesis by (simp add: owned_def socks_cleanup)
qed

lemma unheld_owned: "\<forall>i. \<not> (i < length (lv_socks s) \<and> holds_connection (lv_socks s ! i)) \<Longrightarrow> owned s"
  by (auto simp: owned_def)

lemma owned_connect:
  assumes "\<forall>i. \<not> (i < length (lv_socks s) \<and> holds_connection (lv_socks s ! i))"
  shows "owned (connect_live throws r s)"
  using assms by (auto simp: connect_live_def owned_def nth_append less_Suc_eq)

lemma owned_closed: "owned s \<Longrightarrow> owned (line_closed r s)"
  by (auto simp: line_closed_def retry_later_def owned_def Let_def)

lemma owned_step:
  assumes "chain_inv s" and "owned s" and "length (lv_runs (live_step s e)) \<le> 1"
  shows "owned (live_step s e)"
proof (cases e)
  case (ShowLive throws t await)
  have "lv_runs s = []" using assms(3) ShowLive show_count [of s e] by simp
  moreover then have "lv_socks s = []" "lv_mount s = None"
    using assms(1) by (auto simp: chain_inv_def live_inv_def socks_inv_def runs_inv_def)
  ultimately show ?thesis using ShowLive by (simp add: live_unmount_def live_effect_def owned_connect)
next
  case (SockEnds i failed)
  have inv: "live_inv s" and one: "length (lv_runs s) \<le> 1" using assms(1,3) show_count [of s e] SockEnds by (auto simp: chain_inv_def)
  show ?thesis
  proof (cases "i < length (lv_socks s) \<and> sk_phase (lv_socks s ! i) \<noteq> SockClosed")
    case True
    have "\<not> (j < length (lv_socks s) \<and> holds_connection (lv_socks s ! j))" if "j \<noteq> i" for j
    proof
      assume j: "j < length (lv_socks s) \<and> holds_connection (lv_socks s ! j)"
      then have "lv_wsRef s = Some j" using assms(2) by (simp add: owned_def)
      then have m: "lv_mount s = Some (sk_run (lv_socks s ! j))" using inv by (simp add: live_inv_def socks_inv_def)
      have "sk_run (lv_socks s ! i) = sk_run (lv_socks s ! j)"
        using inv True j one unfolding live_inv_def socks_inv_def by (metis less_one order_less_le_trans)
      then have "holds_connection (lv_socks s ! i)"
        using m inv True unfolding live_inv_def socks_inv_def holds_connection_def by (metis sock_phase.exhaust)
      then show False using assms(2) True \<open>lv_wsRef s = Some j\<close> that by (simp add: owned_def)
    qed
    then have "owned (set_phase i SockClosed s\<lparr>lv_wsRef := None\<rparr>)"
      by (intro unheld_owned) (auto simp: nth_set_phase holds_connection_def)
    moreover have "(live_onerror q (set_phase i SockClosed s))\<lparr>lv_wsRef := None\<rparr>
        = live_onerror q (set_phase i SockClosed s\<lparr>lv_wsRef := None\<rparr>)" for q
      by (cases s) (simp add: set_phase_def live_onerror_def write_live_def on_run_def split: option.splits)
    ultimately show ?thesis using SockEnds True by (simp add: live_onclose_def owned_closed live_onerror_def Let_def)
  qed (use assms SockEnds in auto)
next
  case (RetryFires k throws)
  show ?thesis
  proof (cases "armed_at k s \<and> tm_due (lv_timers s ! k) \<le> lv_now s")
    case True
    have inv: "live_inv s" and one: "length (lv_runs s) \<le> 1" using assms(1,3) show_count [of s e] RetryFires by (auto simp: chain_inv_def)
    have "\<not> held (tm_run (lv_timers s ! k)) i s" for i
      using assms(1) armed_mount [OF inv, of k] True unfolding chain_inv_def line_inv_def by blast
    moreover have "sk_run (lv_socks s ! i) = tm_run (lv_timers s ! k)" if "i < length (lv_socks s)" for i
      using inv one True that unfolding live_inv_def socks_inv_def timers_inv_def armed_at_def by (metis less_one order_less_le_trans)
    ultimately have "\<forall>i. \<not> (i < length (lv_socks s) \<and> holds_connection (lv_socks s ! i))" by (auto simp: held_def)
    then show ?thesis using RetryFires True by (simp add: armed_at_def owned_connect)
  qed (use assms RetryFires in \<open>auto simp: armed_at_def\<close>)
next
  case HideLive
  then show ?thesis using assms(2) by (simp add: live_unmount_def owned_cleanup split: option.splits)
qed (use assms in \<open>auto simp: owned_def nth_set_phase holds_connection_def split: if_splits\<close>)

lemma owned_session:
  assumes "length (filter shows_live es) \<le> 1"
  shows "owned (live_session (no_live_log t) es) \<and> length (lv_runs (live_session (no_live_log t) es)) = length (filter shows_live es)"
  using assms
proof (induction es rule: rev_induct)
  case Nil
  show ?case by (simp add: live_session_def owned_def no_live_log_def)
next
  case (snoc e es)
  let ?s = "live_session (no_live_log t) es"
  have s: "live_session (no_live_log t) (es @ [e]) = live_step ?s e" by (simp add: live_session_def)
  have ih: "owned ?s" "length (lv_runs ?s) = length (filter shows_live es)" using snoc by auto
  then have n: "length (lv_runs (live_step ?s e)) = length (filter shows_live (es @ [e]))" by (simp add: show_count)
  have "owned (live_step ?s e)"
    by (rule owned_step [OF chain_session [OF chain_start] ih(1)]) (use n snoc.prems in simp)
  then show ?case using n by (simp add: s)
qed

text \<open>A dialog that was shown once and is closed holds no connection.\<close>
theorem one_showing_releases:
  assumes "length (filter shows_live es) \<le> 1"
  shows "open_socks (live_session (no_live_log t) (es @ [HideLive])) = []"
proof -
  have "length (filter shows_live (es @ [HideLive])) \<le> 1" using assms by simp
  from owned_session [OF this, of t] have o: "owned (live_session (no_live_log t) (es @ [HideLive]))" by simp
  have i: "live_inv (live_session (no_live_log t) es)" using chain_session [OF chain_start] by (simp add: chain_inv_def)
  have "lv_mount (live_session (no_live_log t) (es @ [HideLive])) = None"
    using unmount_silences [OF i] by (simp add: live_session_def)
  then have "lv_wsRef (live_session (no_live_log t) (es @ [HideLive])) = None"
    using chain_session [OF chain_start, of t "es @ [HideLive]"]
    by (auto simp: chain_inv_def live_inv_def socks_inv_def)
  then show ?thesis using o by (auto simp: open_socks_def owned_def filter_empty_conv in_set_conv_nth)
qed

text \<open>
  A new target while the first device's socket is being closed: the second connection survives the dialog, and when a
  third device is shown its lines appear in that device's terminal.
\<close>

lemmas live_run_defs = live_session_def no_live_log_def live_effect_def live_unmount_def live_cleanup_def close_ref_def
  clear_retry_def connect_live_def set_phase_def on_run_def write_live_def add_line_def live_onclose_def line_closed_def
  live_onerror_def disarm_def retry_later_def retry_times

theorem second_showing_leaks:
  "map sk_phase (lv_socks (live_session (no_live_log 0)
     [ShowLive False ''kitchen.yaml'' False, SockOpens 0, ShowLive False ''porch.yaml'' False, SockOpens 1,
      SockEnds 0 False, HideLive])) = [SockClosed, SockOpen]"
  "screens (live_session (no_live_log 0)
     [ShowLive False ''kitchen.yaml'' False, SockOpens 0, ShowLive False ''porch.yaml'' False, SockOpens 1,
      SockEnds 0 False, ShowLive False ''attic.yaml'' False, SockFrame 1 ''porch motion''])
   = [[], [], [Chunk ''porch motion'']]"
  by (simp_all add: live_run_defs screens_def)

text \<open>Strict mode's second run on mounting is enough, and the first run's aborted connection reports an error to the second.\<close>

theorem remount_error_shown:
  "screens (live_session (no_live_log 0)
     [ShowLive False ''kitchen.yaml'' False, ShowLive False ''kitchen.yaml'' False, SockEnds 0 False])
   = [[], [ErrorNote]]"
  by (simp add: live_run_defs screens_def)

section \<open>The schedule of the reconnections\<close>

text \<open>
  One showing whose connections last as long as the list says, each timer firing when it is due: the connections open at
  the times of \<^const>\<open>connect_loop\<close> and the terminal shows its messages.
\<close>

fun live_script :: "nat \<Rightarrow> nat list \<Rightarrow> live_event list" where
  "live_script n [] = []"
| "live_script n (d # ds) =
     SockOpens n # ClockTick d # SockEnds n False # ClockTick BOOT_RETRY_DELAY_MS # RetryFires n False # live_script (Suc n) ds"

lemma live_script_ended:
  assumes "length (lv_socks s) \<le> n" and "length (lv_timers s) \<le> n"
  shows "lv_runs (live_session s (live_script n ds)) = lv_runs s \<and> lv_socks (live_session s (live_script n ds)) = lv_socks s"
  using assms
proof (induction ds arbitrary: n s)
  case (Cons d ds)
  then show ?case
    using Cons.IH [of "s\<lparr>lv_now := lv_now s + d + BOOT_RETRY_DELAY_MS\<rparr>" "Suc n"] by (simp add: live_session_def)
qed (simp add: live_session_def)

definition live_shown :: "string \<Rightarrow> bool \<Rightarrow> nat \<Rightarrow> nat option \<Rightarrow> live_line list \<Rightarrow> live_sock list \<Rightarrow> live_timer list \<Rightarrow> nat \<Rightarrow> live_log" where
  "live_shown t aw opened retry scr ks tms now =
    \<lparr>lv_runs = [\<lparr>rn_target = t, rn_await = aw, rn_opened = opened, rn_disposed = False, rn_retry = retry, rn_screen = scr\<rparr>],
     lv_mount = Some 0, lv_socks = ks @ [\<lparr>sk_run = 0, sk_phase = SockConnecting, sk_at = now\<rparr>], lv_timers = tms,
     lv_wsRef = Some (length ks), lv_termRef = Some 0, lv_now = now\<rparr>"

lemma showing_waits:
  assumes "length tms = length ks" and "now + d - opened < BOOT_RETRY_WINDOW_MS"
  shows "live_session (live_shown t True opened retry scr ks tms now) (live_script (length ks) (d # ds))
    = live_session (live_shown t True opened (Some (length ks)) (scr @ [Notice Waiting])
        (ks @ [\<lparr>sk_run = 0, sk_phase = SockClosed, sk_at = now\<rparr>])
        (tms @ [\<lparr>tm_run = 0, tm_due = now + d + BOOT_RETRY_DELAY_MS, tm_armed = False\<rparr>])
        (now + d + BOOT_RETRY_DELAY_MS)) (live_script (Suc (length ks)) ds)"
  using assms
  by (simp add: live_shown_def live_session_def set_phase_def live_onclose_def line_closed_def retry_later_def write_live_def
      on_run_def add_line_def connect_live_def disarm_def Let_def nth_append list_update_append)

lemma showing_ends:
  assumes "length tms = length ks" and "\<not> (aw \<and> now + d - opened < BOOT_RETRY_WINDOW_MS)"
  shows "lv_runs (live_session (live_shown t aw opened retry scr ks tms now) (live_script (length ks) (d # ds)))
      = [\<lparr>rn_target = t, rn_await = aw, rn_opened = opened, rn_disposed = False, rn_retry = retry, rn_screen = scr @ [Notice ClosedNote]\<rparr>]
    \<and> lv_socks (live_session (live_shown t aw opened retry scr ks tms now) (live_script (length ks) (d # ds)))
      = ks @ [\<lparr>sk_run = 0, sk_phase = SockClosed, sk_at = now\<rparr>]"
proof -
  let ?s = "\<lparr>lv_runs = [\<lparr>rn_target = t, rn_await = aw, rn_opened = opened, rn_disposed = False, rn_retry = retry,
        rn_screen = scr @ [Notice ClosedNote]\<rparr>],
     lv_mount = Some 0, lv_socks = ks @ [\<lparr>sk_run = 0, sk_phase = SockClosed, sk_at = now\<rparr>], lv_timers = tms,
     lv_wsRef = None, lv_termRef = Some 0, lv_now = now + d + BOOT_RETRY_DELAY_MS\<rparr>"
  have "live_session (live_shown t aw opened retry scr ks tms now) (live_script (length ks) (d # ds))
      = live_session ?s (live_script (Suc (length ks)) ds)"
    using assms
    by (auto simp: live_shown_def live_session_def set_phase_def live_onclose_def line_closed_def write_live_def
        on_run_def add_line_def Let_def nth_append)
  moreover have "length (lv_timers ?s) \<le> Suc (length ks)" using assms(1) by simp
  ultimately show ?thesis using live_script_ended [of ?s "Suc (length ks)" ds] by simp
qed

definition said :: "(nat \<times> live_message option) list \<Rightarrow> live_line list" where
  "said = concat \<circ> map (\<lambda>(t, m). case m of None \<Rightarrow> [] | Some l \<Rightarrow> [Notice l])"

lemma showing_follows:
  assumes "length tms = length ks"
  shows "map sk_at (lv_socks (live_session (live_shown t aw opened retry scr ks tms (opened + u)) (live_script (length ks) ds)))
      = map sk_at ks @ map (\<lambda>a. opened + fst a) (connect_loop aw u ds)
    \<and> screens (live_session (live_shown t aw opened retry scr ks tms (opened + u)) (live_script (length ks) ds))
      = [scr @ said (connect_loop aw u ds)]"
  using assms
proof (induction ds arbitrary: retry scr ks tms u)
  case Nil
  then show ?case by (simp add: live_session_def live_shown_def screens_def said_def)
next
  case (Cons d ds)
  let ?k = "\<lparr>sk_run = 0, sk_phase = SockClosed, sk_at = opened + u\<rparr>"
  let ?t = "\<lparr>tm_run = 0, tm_due = opened + u + d + BOOT_RETRY_DELAY_MS, tm_armed = False\<rparr>"
  show ?case
  proof (cases "aw \<and> u + d < BOOT_RETRY_WINDOW_MS")
    case True
    have "length (tms @ [?t]) = length (ks @ [?k])" using Cons.prems by simp
    note ih = Cons.IH [OF this, of "Some (length ks)" "scr @ [Notice Waiting]" "u + d + BOOT_RETRY_DELAY_MS"]
    have "live_session (live_shown t aw opened retry scr ks tms (opened + u)) (live_script (length ks) (d # ds))
      = live_session (live_shown t aw opened (Some (length ks)) (scr @ [Notice Waiting]) (ks @ [?k]) (tms @ [?t])
          (opened + (u + d + BOOT_RETRY_DELAY_MS))) (live_script (Suc (length ks)) ds)"
      using showing_waits [of tms ks "opened + u" d opened t retry scr ds] Cons.prems True by (simp add: add.assoc)
    with ih True show ?thesis by (simp add: said_def del: live_script.simps)
  next
    case False
    then show ?thesis
      using showing_ends [of tms ks aw "opened + u" d opened t retry scr ds] Cons.prems
      by (auto simp: screens_def said_def simp del: live_script.simps)
  qed
qed

theorem live_script_refines:
  "map sk_at (lv_socks (live_session (no_live_log t) (ShowLive False f aw # live_script 0 ds)))
     = map (\<lambda>a. t + fst a) (connect_loop aw 0 ds)
   \<and> screens (live_session (no_live_log t) (ShowLive False f aw # live_script 0 ds)) = [said (connect_loop aw 0 ds)]"
proof -
  have "live_session (no_live_log t) (ShowLive False f aw # live_script 0 ds)
      = live_session (live_shown f aw t None [] [] [] (t + 0)) (live_script (length ([] :: live_sock list)) ds)"
    by (simp add: live_session_def no_live_log_def live_unmount_def live_effect_def connect_live_def live_shown_def)
  then show ?thesis using showing_follows [of "[]" "[]" f aw t None "[]" 0 ds] by simp
qed

end
