(* ===== verification/Table_State.thy ===== *)
theory Table_State
  imports Fleet_Prelude
begin

text \<open>
  What the tables share: the sortable header (\<open>components/ui/sort-header.tsx\<close>) and state kept in
  \<open>localStorage\<close> (\<open>utils/persistState.ts\<close>). A stored text is \<^const>\<open>None\<close> when absent and \<open>Some None\<close> when
  \<open>JSON.parse\<close> rejects it; otherwise it is its parsed value. The locale \<open>stored_state\<close> is what a value
  needs for a reload to give it back, interpreted on what the tabs store: sort orders and tag selections.
\<close>

section \<open>Sortable headers\<close>

datatype sort_state = Unsorted | SortAsc | SortDesc

record sort_header =
  sh_title :: string
  sh_icon :: "sort_state option"

definition sortHeader :: "sort_state \<Rightarrow> sort_header" where
  "sortHeader sorted' =
    \<lparr>sh_title = (if sorted' = SortAsc then ''Click to sort descending''
                else if sorted' = SortDesc then ''Click to reset sort'' else ''Click to sort ascending''),
     sh_icon = (if sorted' = Unsorted then None else Some sorted')\<rparr>"

text \<open>A click calls \<open>toggleSorting(desc)\<close> of the table library with this argument.\<close>

definition header_click :: "(bool \<Rightarrow> sort_state \<Rightarrow> sort_state) \<Rightarrow> sort_state \<Rightarrow> sort_state" where
  "header_click toggleSorting sorted' = toggleSorting (sorted' = SortAsc) sorted'"

definition getAriaSort :: "sort_state \<Rightarrow> string" where
  "getAriaSort sorted' =
    (if sorted' = SortAsc then ''ascending'' else if sorted' = SortDesc then ''descending'' else ''none'')"

section \<open>Persisted state\<close>

type_synonym local_storage = "string \<Rightarrow> json option option"

text \<open>The first render; \<open>readable\<close> is false where \<open>getItem\<close> throws.\<close>

definition persisted_initial :: "bool \<Rightarrow> local_storage \<Rightarrow> string \<Rightarrow> json \<Rightarrow> json" where
  "persisted_initial readable storage key initial =
    (if \<not> readable then initial
     else case storage key of
       None \<Rightarrow> initial
     | Some None \<Rightarrow> initial
     | Some (Some v) \<Rightarrow> v)"

text \<open>The effect after a render that changed the value; a full or blocked store is left as it was.\<close>

definition persist_effect :: "bool \<Rightarrow> string \<Rightarrow> json \<Rightarrow> local_storage \<Rightarrow> local_storage" where
  "persist_effect writable key v storage = (if writable then storage(key := Some (Some v)) else storage)"

text \<open>A session: the first render writes the value it starts with, then every change writes its own.\<close>

definition persist_session :: "bool \<Rightarrow> bool \<Rightarrow> string \<Rightarrow> json \<Rightarrow> json list \<Rightarrow> local_storage \<Rightarrow> json \<times> local_storage" where
  "persist_session readable writable key initial changes storage =
    (let first = persisted_initial readable storage key initial in
     (last (first # changes), fold (persist_effect writable key) (first # changes) storage))"

text \<open>The two kinds of values the tabs store.\<close>

definition sorting_json :: "(string \<times> bool) list \<Rightarrow> json" where
  "sorting_json s = JArr (map (\<lambda>(i, desc). JObj [(''id'', JStr i), (''desc'', JBool desc)]) s)"

definition read_sorting :: "json \<Rightarrow> (string \<times> bool) list" where
  "read_sorting v =
    (case v of
       JArr xs \<Rightarrow> map (\<lambda>x. case x of
           JObj kvs \<Rightarrow> ((case map_of kvs ''id'' of Some (JStr i) \<Rightarrow> i | _ \<Rightarrow> []), map_of kvs ''desc'' = Some (JBool True))
         | _ \<Rightarrow> ([], False)) xs
     | _ \<Rightarrow> [])"

definition tags_json :: "string list \<Rightarrow> json" where
  "tags_json ts = JArr (map JStr ts)"

definition read_tags :: "json \<Rightarrow> string list" where
  "read_tags v = (case v of JArr xs \<Rightarrow> concat (map (\<lambda>x. case x of JStr s \<Rightarrow> [s] | _ \<Rightarrow> []) xs) | _ \<Rightarrow> [])"

section \<open>The contract of a stored value\<close>

lemma fold_persist:
  "fold (persist_effect True key) vs storage = (if vs = [] then storage else storage(key := Some (Some (last vs))))"
  by (induction vs arbitrary: storage) (auto simp: persist_effect_def fun_eq_iff)

lemma fold_persist_off: "fold (persist_effect False key) vs storage = storage"
  by (induction vs arbitrary: storage) (simp_all add: persist_effect_def)

locale stored_state =
  fixes enc :: "'a \<Rightarrow> json" and dec :: "json \<Rightarrow> 'a"
  assumes dec_enc: "dec (enc x) = x"
begin

lemma survives_reload:
  "xs \<noteq> [] \<Longrightarrow> persist_session readable True key initial (map enc xs) storage = (v, storage') \<Longrightarrow>
    dec v = last xs \<and> dec (persisted_initial True storage' key initial') = last xs"
  by (auto simp: persist_session_def Let_def fold_persist persisted_initial_def last_map dec_enc)

end

interpretation stored_sorting: stored_state sorting_json read_sorting
  by unfold_locales (induct_tac x, auto simp: sorting_json_def read_sorting_def)

interpretation stored_tags: stored_state tags_json read_tags
  by unfold_locales (induct_tac x, auto simp: tags_json_def read_tags_def)

section \<open>Properties\<close>

text \<open>The sort order a user last chose, and the tag pills last selected, are what the next load of the page
  starts with, whatever was stored before.\<close>
theorem choices_survive_reload:
  assumes "sorts \<noteq> []" and "sels \<noteq> []"
  shows "(case persist_session True True k initial (map sorting_json sorts) storage of
      (_, storage') \<Rightarrow> read_sorting (persisted_initial True storage' k initial) = last sorts)
    \<and> (case persist_session True True k initial (map tags_json sels) storage of
      (_, storage') \<Rightarrow> read_tags (persisted_initial True storage' k initial) = last sels)"
  using stored_sorting.survives_reload [OF assms(1)] stored_tags.survives_reload [OF assms(2)]
  by (auto split: prod.splits)

lemma choices_survive_witness:
  "(case persist_session True True ''workers-sort'' JNull (map sorting_json [[(''hostname'', True)]]) Map.empty of
      (_, storage') \<Rightarrow> read_sorting (persisted_initial True storage' ''workers-sort'' JNull) = [(''hostname'', True)])"
  using choices_survive_reload [of "[[(''hostname'', True)]]" "[[]]" "''workers-sort''" JNull Map.empty] by simp

text \<open>Without a writable store the choice lasts for the session and the store stays as it was.\<close>
theorem unwritable_store_kept:
  "persist_session readable False k initial vs storage =
     (last (persisted_initial readable storage k initial # vs), storage)"
  by (simp add: persist_session_def Let_def fold_persist_off persist_effect_def)

text \<open>A header only ever turns between ascending and descending: once clicked the column stays sorted, also
  where the tooltip offers to reset the sort.\<close>
theorem header_never_resets:
  assumes "\<And>desc s. toggleSorting desc s = (if desc then SortDesc else SortAsc)"
  shows "header_click toggleSorting s = (if s = SortAsc then SortDesc else SortAsc)
    \<and> sh_title (sortHeader SortDesc) = ''Click to reset sort'' \<and> header_click toggleSorting SortDesc = SortAsc"
  by (simp add: header_click_def assms sortHeader_def)

lemma header_never_resets_witness:
  "header_click (\<lambda>desc _. if desc then SortDesc else SortAsc) SortDesc = SortAsc"
  using header_never_resets [of "\<lambda>desc _. if desc then SortDesc else SortAsc"] by blast

end
