(* ===== verification/Devices_Window.thy ===== *)
theory Devices_Window
  imports Devices_Tab Table_State
begin

text \<open>
  The Devices tab as a window (\<open>components/DevicesTab.tsx\<close>): its toggles with the storage they are kept in, the
  visibility of columns, the body of the table with its empty message, and the dialogs it opens. Rows, filters and
  cells are those of \<open>Devices_Tab\<close> and \<open>Device_Columns\<close>.
\<close>

section \<open>State\<close>

record devices_store =
  vs_columns :: "json option"
  vs_unmanaged :: "string option"
  vs_archived :: "string option"

record devices_window =
  dw_filter :: string
  dw_tags :: "string list"
  dw_columns :: "string \<Rightarrow> bool option"
  dw_unmanaged :: bool
  dw_archived :: bool
  dw_rename :: "string option"
  dw_delete :: "string option"
  dw_tagsEdit :: "string option"
  dw_menu :: "string option"
  dw_duplicate :: bool
  dw_permanent :: permanent_delete

definition mount_devices :: "string list \<Rightarrow> devices_store \<Rightarrow> devices_window" where
  "mount_devices tags st =
    \<lparr>dw_filter = [], dw_tags = tags, dw_columns = map_of (loadColumnVisibility OPTIONAL_COLUMNS (vs_columns st)),
     dw_unmanaged = (vs_unmanaged st \<noteq> Some ''false''), dw_archived = (vs_archived st = Some ''true''),
     dw_rename = None, dw_delete = None, dw_tagsEdit = None, dw_menu = None, dw_duplicate = False,
     dw_permanent = \<lparr>pd_target = None, pd_busy = False\<rparr>\<rparr>"

definition bool_text :: "bool \<Rightarrow> string" where
  "bool_text b = (if b then ''true'' else ''false'')"

text \<open>The three effects that store what a render shows.\<close>

definition store_devices :: "devices_window \<Rightarrow> devices_store \<Rightarrow> devices_store" where
  "store_devices d st =
    st\<lparr>vs_columns := Some (saveColumnVisibility OPTIONAL_COLUMNS (dw_columns d)),
       vs_unmanaged := Some (bool_text (dw_unmanaged d)), vs_archived := Some (bool_text (dw_archived d))\<rparr>"

definition isVisible :: "devices_window \<Rightarrow> string \<Rightarrow> bool" where
  "isVisible d c \<longleftrightarrow> dw_columns d c \<noteq> Some False"

section \<open>Events\<close>

datatype devices_event =
    TypeFilter string | ClearFilter
  | PickTags "string list"
  | ToggleColumn string | ToggleUnmanaged | ToggleArchived
  | AskRename string | ConfirmRename string | CloseRename
  | AskDelete string | ConfirmDelete bool | CloseDelete
  | EditTags string | CloseTags
  | OpenMenu "string option"
  | OpenDuplicate "target list" | PickDuplicate string | CloseDuplicate
  | AskPermanent string | ClosePermanent

datatype devices_call = CallRename string string | CallDelete string bool | CallDuplicate string

text \<open>A column is toggled as the table library does: shown becomes hidden and the other way round.\<close>

fun devices_step :: "devices_event \<Rightarrow> devices_window \<Rightarrow> devices_window \<times> devices_call option" where
  "devices_step (TypeFilter s) d = (d\<lparr>dw_filter := s\<rparr>, None)"
| "devices_step ClearFilter d = (d\<lparr>dw_filter := []\<rparr>, None)"
| "devices_step (PickTags ts) d = (d\<lparr>dw_tags := ts\<rparr>, None)"
| "devices_step (ToggleColumn c) d = (d\<lparr>dw_columns := (dw_columns d)(c \<mapsto> \<not> isVisible d c)\<rparr>, None)"
| "devices_step ToggleUnmanaged d = (d\<lparr>dw_unmanaged := \<not> dw_unmanaged d\<rparr>, None)"
| "devices_step ToggleArchived d = (d\<lparr>dw_archived := \<not> dw_archived d\<rparr>, None)"
| "devices_step (AskRename f) d = (d\<lparr>dw_rename := Some f\<rparr>, None)"
| "devices_step (ConfirmRename n) d =
     (case dw_rename d of Some f \<Rightarrow> (d\<lparr>dw_rename := None\<rparr>, Some (CallRename f n)) | None \<Rightarrow> (d, None))"
| "devices_step CloseRename d = (d\<lparr>dw_rename := None\<rparr>, None)"
| "devices_step (AskDelete f) d = (d\<lparr>dw_delete := Some f\<rparr>, None)"
| "devices_step (ConfirmDelete archive) d =
     (case dw_delete d of Some f \<Rightarrow> (d\<lparr>dw_delete := None\<rparr>, Some (CallDelete f archive)) | None \<Rightarrow> (d, None))"
| "devices_step CloseDelete d = (d\<lparr>dw_delete := None\<rparr>, None)"
| "devices_step (EditTags f) d = (d\<lparr>dw_tagsEdit := Some f\<rparr>, None)"
| "devices_step CloseTags d = (d\<lparr>dw_tagsEdit := None\<rparr>, None)"
| "devices_step (OpenMenu f) d = (d\<lparr>dw_menu := f\<rparr>, None)"
| "devices_step (OpenDuplicate targets) d = ((if targets = [] then d else d\<lparr>dw_duplicate := True\<rparr>), None)"
| "devices_step (PickDuplicate f) d = (if dw_duplicate d then (d\<lparr>dw_duplicate := False\<rparr>, Some (CallDuplicate f)) else (d, None))"
| "devices_step CloseDuplicate d = (d\<lparr>dw_duplicate := False\<rparr>, None)"
| "devices_step (AskPermanent f) d = (d\<lparr>dw_permanent := (dw_permanent d)\<lparr>pd_target := Some f\<rparr>\<rparr>, None)"
| "devices_step ClosePermanent d =
     ((if pd_busy (dw_permanent d) then d else d\<lparr>dw_permanent := (dw_permanent d)\<lparr>pd_target := None\<rparr>\<rparr>), None)"

definition devices_run :: "devices_event list \<Rightarrow> devices_window \<Rightarrow> devices_window" where
  "devices_run es d = fold (\<lambda>e d. fst (devices_step e d)) es d"

section \<open>The table\<close>

definition table_filter_of :: "devices_window \<Rightarrow> table_filter" where
  "table_filter_of d = \<lparr>tf_text = dw_filter d, tf_tags = dw_tags d, tf_archived = dw_archived d\<rparr>"

definition totalColSpan :: "devices_window \<Rightarrow> nat" where
  "totalColSpan d = 3 + length (filter (\<lambda>(c, _). isVisible d c) OPTIONAL_COLUMNS)"

datatype table_body = EmptyBody nat string | RowsBody "target list" "device list"

definition table_body_of ::
  "(string \<Rightarrow> string \<Rightarrow> int) \<Rightarrow> devices_window \<Rightarrow> target list \<Rightarrow> device list \<Rightarrow> table_body" where
  "table_body_of lc d targets devices =
    (let shown = filteredTargets lc (table_filter_of d) targets;
         others = filteredUnmanaged lc (table_filter_of d) targets devices
     in if shown = [] \<and> others = []
        then EmptyBody (totalColSpan d)
          (if dw_filter d \<noteq> [] then ''No devices match your search''
           else ''No devices found '' @ em_dash @ '' ensure ESPHome configs are in /config/esphome/'')
        else RowsBody (table_rows shown) (if dw_unmanaged d then others else []))"

definition column_menu :: "devices_window \<Rightarrow> (string \<times> bool) list" where
  "column_menu d =
    map (\<lambda>(c, _). (c, isVisible d c)) OPTIONAL_COLUMNS
    @ [(''Show unmanaged devices'', dw_unmanaged d), (''Show archived devices'', dw_archived d)]"

text \<open>The tooltip of a row's address; one without an explanation names its source.\<close>

fun formatAddressSourceTooltip :: "address_source option \<Rightarrow> string option" where
  "formatAddressSourceTooltip (Some Mdns) =
     Some (''Detected via mDNS '' @ em_dash @ '' the device advertises itself on the local network with the hostname from the YAML.'')"
| "formatAddressSourceTooltip (Some WifiUseAddress) =
     Some (''From wifi.use_address in the device YAML '' @ em_dash @ '' overrides hostname-based discovery.'')"
| "formatAddressSourceTooltip (Some EthernetUseAddress) =
     Some (''From ethernet.use_address in the device YAML '' @ em_dash @ '' overrides hostname-based discovery.'')"
| "formatAddressSourceTooltip (Some OpenthreadUseAddress) =
     Some (''From openthread.use_address in the device YAML '' @ em_dash @ '' overrides hostname-based discovery.'')"
| "formatAddressSourceTooltip (Some WifiStaticIp) =
     Some (''From wifi.manual_ip.static_ip in the device YAML '' @ em_dash @ '' the OTA upload targets this fixed address.'')"
| "formatAddressSourceTooltip (Some EthernetStaticIp) =
     Some (''From ethernet.manual_ip.static_ip in the device YAML '' @ em_dash @ '' the OTA upload targets this fixed address.'')"
| "formatAddressSourceTooltip (Some MdnsDefault) = None"
| "formatAddressSourceTooltip (Some Arp) =
     Some (''Detected via ARP scan of the local network '' @ em_dash
       @ '' mDNS came up empty, so the add-on broadcast an ARP probe and matched the MAC against the device.'')"
| "formatAddressSourceTooltip None = None"

fun address_source_name :: "address_source \<Rightarrow> string" where
  "address_source_name Mdns = ''mdns''"
| "address_source_name MdnsDefault = ''mdns_default''"
| "address_source_name WifiUseAddress = ''wifi_use_address''"
| "address_source_name EthernetUseAddress = ''ethernet_use_address''"
| "address_source_name OpenthreadUseAddress = ''openthread_use_address''"
| "address_source_name WifiStaticIp = ''wifi_static_ip''"
| "address_source_name EthernetStaticIp = ''ethernet_static_ip''"
| "address_source_name Arp = ''arp''"

definition unmanaged_ip_tooltip :: "device \<Rightarrow> string" where
  "unmanaged_ip_tooltip d =
    (let base = (case formatAddressSourceTooltip (d_address_source d) of
                   Some s \<Rightarrow> s
                 | None \<Rightarrow> ''Address source: ''
                     @ (case d_address_source d of Some a \<Rightarrow> address_source_name a | None \<Rightarrow> ''unknown''))
     in if truthy_bool (d_ha_configured d)
        then base @ '' '' @ middot @ '' Home Assistant confirms this device exists.'' else base)"

section \<open>Tags and plain cells of a row\<close>

text \<open>\<open>parseDeviceTags\<close> of the columns, a second copy of \<open>parseTags\<close>: its loop keeps what it has seen beside what it
  gives back.\<close>

fun device_tag_loop :: "string list \<Rightarrow> string set \<Rightarrow> string list \<Rightarrow> string list" where
  "device_tag_loop [] seen out = out"
| "device_tag_loop (raw # rest) seen out =
     (let t = trim raw in
      if t = [] \<or> t \<in> seen then device_tag_loop rest seen out else device_tag_loop rest (insert t seen) (out @ [t]))"

definition parseDeviceTags :: "string option \<Rightarrow> string list" where
  "parseDeviceTags s = (if \<not> truthy_str s then [] else device_tag_loop (split_on (CHR '','') (the s)) {} [])"

text \<open>The cells of one field, by column; a missing value is a dash.\<close>

definition plain_cell :: "string \<Rightarrow> target \<Rightarrow> string option" where
  "plain_cell c t =
    map_of
      [(''mac'', str_or (t_mac_address t) em_dash),
       (''ap'', if truthy_bool (t_network_ap_fallback t) then ''Yes'' else em_dash),
       (''area'', str_or (t_area t) em_dash),
       (''comment'', str_or (t_comment t) em_dash),
       (''project'', if project_text t = [] then em_dash else project_text t)] c"

section \<open>Lemmas\<close>

lemma bool_text_false [simp]: "bool_text b = ''false'' \<longleftrightarrow> \<not> b"
  by (simp add: bool_text_def)

lemma bool_text_true [simp]: "bool_text b = ''true'' \<longleftrightarrow> b"
  by (simp add: bool_text_def)

lemma map_of_map_key:
  "map_of (map (\<lambda>(c, d). (c, f c d)) xs) c = (case map_of xs c of Some d \<Rightarrow> Some (f c d) | None \<Rightarrow> None)"
  by (induction xs) auto

lemma saved_columns_load:
  "loadColumnVisibility OPTIONAL_COLUMNS (Some (saveColumnVisibility OPTIONAL_COLUMNS f)) =
     map (\<lambda>(c, d). (c, f c \<noteq> Some False)) OPTIONAL_COLUMNS"
  by (force simp: loadColumnVisibility_def saveColumnVisibility_def stored_choice_def case_prod_unfold image_iff)

lemma mounted_column:
  assumes "c \<in> fst ` set OPTIONAL_COLUMNS"
  shows "isVisible (mount_devices tags (store_devices d st)) c = isVisible d c"
proof -
  obtain v where "map_of OPTIONAL_COLUMNS c = Some v"
    using assms by (metis map_of_eq_None_iff not_None_eq)
  then show ?thesis
    by (simp add: isVisible_def mount_devices_def store_devices_def saved_columns_load
        map_of_map_key [of "\<lambda>c d. dw_columns d' c \<noteq> Some False" for d'])
qed

lemma mounted_header:
  "header_columns (isVisible (mount_devices tags (store_devices d st))) = header_columns (isVisible d)"
proof -
  have "isVisible (mount_devices tags (store_devices d st)) c = isVisible d c"
    if "c \<in> set TABLE_COLUMNS" "\<not> always_shown c" for c
    using that by (intro mounted_column) (auto simp: TABLE_COLUMNS_def always_shown_def OPTIONAL_COLUMNS_def)
  then show ?thesis
    unfolding header_columns_def by (intro filter_cong) auto
qed

lemma device_tag_loop_parse: "seen = set out \<Longrightarrow> device_tag_loop ps seen out = parse_parts out ps"
  by (induction ps seen out rule: device_tag_loop.induct) (simp_all add: Let_def)

section \<open>Properties\<close>

text \<open>The chips of a row, the bulk editor and the filter bar read the same tags out of the stored string; only the
  filters keep repeats.\<close>
theorem row_tags_agree:
  "parseDeviceTags s = parseTags s \<and> set (parseDeviceTags s) = set (split_tags s)"
proof -
  have "set (parse_parts out ps) = set out \<union> {x. x \<noteq> [] \<and> x \<in> trim ` set ps}" for out ps
    by (induction out ps rule: parse_parts.induct) (auto simp: Let_def)
  moreover have "parseDeviceTags s = parseTags s"
    by (simp add: parseDeviceTags_def parseTags_def device_tag_loop_parse)
  ultimately show ?thesis
    by (cases s) (auto simp: parseTags_def split_tags_def truthy_str_def str_or_def trim_def)
qed

text \<open>A reload keeps the user's view: whatever was clicked before, the tab that mounts on what the last render
  stored has the same toggles for unmanaged and archived devices and shows the same columns, while every open
  dialog is closed.\<close>
theorem devices_view_survives_reload:
  "let before = devices_run es d; later = mount_devices tags (store_devices before st)
   in dw_unmanaged later = dw_unmanaged before \<and> dw_archived later = dw_archived before
      \<and> header_columns (isVisible later) = header_columns (isVisible before)
      \<and> dw_rename later = None \<and> dw_delete later = None \<and> \<not> dw_duplicate later"
  unfolding Let_def by (simp add: mounted_header) (simp add: mount_devices_def store_devices_def)

text \<open>The empty table's message spans the whole header, whichever columns are shown.\<close>
theorem empty_row_spans_header: "totalColSpan d = length (header_columns (isVisible d))"
proof -
  have "header_columns v = ''select'' # ''device'' # filter v (map fst OPTIONAL_COLUMNS) @ [''actions'']" for v
    by (simp add: header_columns_def TABLE_COLUMNS_def always_shown_def OPTIONAL_COLUMNS_def)
  then show ?thesis
    by (simp add: totalColSpan_def filter_map comp_def case_prod_unfold)
qed

text \<open>With unmanaged devices hidden and no row that passes the filters, an unmanaged device that passes them leaves
  the table without a row and without the message that nothing was found.\<close>
theorem hidden_unmanaged_blank:
  assumes "\<not> dw_unmanaged d" "filteredTargets lc (table_filter_of d) targets = []"
    "filteredUnmanaged lc (table_filter_of d) targets devices \<noteq> []"
  shows "table_body_of lc d targets devices = RowsBody [] []"
  using assms by (simp add: table_body_of_def table_rows_def sort_by_def)

theorem hidden_unmanaged_blank_witness:
  "let stray = \<lparr>d_name = ''stray'', d_mac_address = None, d_ip_address = None, d_running_version = None,
         d_online = Some True, d_compile_target = None, d_last_seen = None, d_compilation_time = None,
         d_address_source = None, d_ha_configured = None, d_ha_connected = None, d_ha_device_id = None\<rparr>;
       d = mount_devices [] \<lparr>vs_columns = None, vs_unmanaged = Some ''false'', vs_archived = None\<rparr>
   in table_body_of (\<lambda>_ _. 0) d [] [stray] = RowsBody [] []
      \<and> (case table_body_of (\<lambda>_ _. 0) d [] [] of EmptyBody n _ \<Rightarrow> n = 10 | _ \<Rightarrow> False)"
  by code_simp

text \<open>The destructive calls name the file that was asked for last: a rename or a delete is sent only while its dialog
  is open. No event but its own opens or closes a row's menu.\<close>
theorem calls_name_the_asked_file:
  "(snd (devices_step e d) = Some (CallRename f n) \<longleftrightarrow> e = ConfirmRename n \<and> dw_rename d = Some f)
   \<and> (snd (devices_step e d) = Some (CallDelete f a) \<longleftrightarrow> e = ConfirmDelete a \<and> dw_delete d = Some f)
   \<and> (snd (devices_step e d) \<noteq> None \<longrightarrow>
        dw_rename (fst (devices_step e d)) = None \<or> dw_delete (fst (devices_step e d)) = None
        \<or> \<not> dw_duplicate (fst (devices_step e d)))"
  by (cases e) (auto split: option.splits)

end
