(* ===== verification/File_History.thy ===== *)
theory File_History
  imports App_Actions
begin

text \<open>
  The history of one configuration file (\<open>components/HistoryPanel.tsx\<close>): the pair of versions compared,
  the effects that keep the older one on the left, the commit list, restoring and committing; the commit
  dialog of the shell (\<open>App.tsx\<close>), the firmware menu (\<open>components/FirmwareDownloadMenu.tsx\<close>) and the
  versioning gate (\<open>hooks/useVersioning.ts\<close>). The diff editor and the printing of dates are libraries.
\<close>

section \<open>Versions\<close>

record file_entry =
  fe_hash :: string
  fe_short_hash :: string
  fe_date :: rat
  fe_message :: string
  fe_lines_added :: int
  fe_lines_removed :: int
  fe_firmware_job_id :: "string option"
  fe_firmware_variants :: "string list option"

definition WORKING_TREE :: string where
  "WORKING_TREE = ''__WORKING_TREE__''"

text \<open>Positive: the first version is newer; the entries are listed newest first.\<close>

definition compareRecency :: "file_entry list option \<Rightarrow> string \<Rightarrow> string \<Rightarrow> int" where
  "compareRecency entries a b =
    (if a = b then 0
     else if a = WORKING_TREE then 1
     else if b = WORKING_TREE then -1
     else case entries of
       None \<Rightarrow> 0
     | Some es \<Rightarrow>
        (case (index_of a (map fe_hash es), index_of b (map fe_hash es)) of
           (None, None) \<Rightarrow> 0
         | (None, Some _) \<Rightarrow> -1
         | (Some _, None) \<Rightarrow> 1
         | (Some i, Some j) \<Rightarrow> int j - int i))"

definition hashForApi :: "string \<Rightarrow> string option" where
  "hashForApi h = (if h = [] \<or> h = WORKING_TREE then None else Some h)"

definition labelForHash :: "string \<Rightarrow> file_entry list option \<Rightarrow> string" where
  "labelForHash hash entries =
    (if hash = WORKING_TREE \<or> hash = [] then ''Current''
     else case find (\<lambda>x. fe_hash x = hash) (nullish entries []) of
       Some e \<Rightarrow> fe_short_hash e
     | None \<Rightarrow> take 7 hash)"

section \<open>The compared pair and its effects\<close>

record compare_pair =
  cp_from :: string
  cp_to :: string

definition normalise_effect :: "file_entry list option \<Rightarrow> compare_pair \<Rightarrow> compare_pair" where
  "normalise_effect entries s =
    (if cp_from s = [] \<or> cp_to s = [] then s
     else if compareRecency entries (cp_from s) (cp_to s) > 0
       then s\<lparr>cp_from := cp_to s, cp_to := cp_from s\<rparr>
     else s)"

definition listed :: "file_entry list \<Rightarrow> string \<Rightarrow> bool" where
  "listed es h \<longleftrightarrow> list_ex (\<lambda>e. fe_hash e = h) es"

definition defaults_effect ::
  "file_entry list option \<Rightarrow> string option \<Rightarrow> string option \<Rightarrow> compare_pair \<Rightarrow> compare_pair" where
  "defaults_effect entries initialFromHash initialToHash s =
    (case entries of
       Some (e # es) \<Rightarrow>
        (let from' = (if truthy_str initialFromHash \<and> listed (e # es) (the initialFromHash) then the initialFromHash
                      else if cp_from s \<noteq> [] \<and> listed (e # es) (cp_from s) then cp_from s else fe_hash e);
             to' = (if initialToHash = Some WORKING_TREE \<or> initialToHash = None
                    then (if cp_to s = WORKING_TREE \<or> listed (e # es) (cp_to s) then cp_to s else WORKING_TREE)
                    else if listed (e # es) (the initialToHash) then the initialToHash
                    else cp_to s)
         in \<lparr>cp_from = from', cp_to = to'\<rparr>)
     | _ \<Rightarrow> \<lparr>cp_from = str_or initialFromHash [], cp_to = nullish initialToHash WORKING_TREE\<rparr>)"

section \<open>The panel\<close>

record history_props =
  hp_filename :: "string option"
  hp_initialFrom :: "string option"
  hp_initialTo :: "string option"

record panel_state =
  ps_props :: history_props
  ps_entries :: "file_entry list option"
  ps_pair :: compare_pair
  ps_busy :: bool
  ps_restore :: "file_entry option"
  ps_promptOpen :: bool
  ps_message :: string
  ps_menuHash :: "string option"

definition mounted_panel :: panel_state where
  "mounted_panel =
    \<lparr>ps_props = \<lparr>hp_filename = None, hp_initialFrom = None, hp_initialTo = None\<rparr>, ps_entries = None,
     ps_pair = \<lparr>cp_from = [], cp_to = WORKING_TREE\<rparr>, ps_busy = False, ps_restore = None,
     ps_promptOpen = False, ps_message = [], ps_menuHash = None\<rparr>"

text \<open>A render with new properties or entries runs both effects, and the swap again for the pair they left;
  a render with a new pair runs the swap.\<close>

definition with_pair :: "compare_pair \<Rightarrow> panel_state \<Rightarrow> panel_state" where
  "with_pair pair s = s\<lparr>ps_pair := normalise_effect (ps_entries s) pair\<rparr>"

definition rerender :: "panel_state \<Rightarrow> panel_state" where
  "rerender s =
    with_pair (defaults_effect (ps_entries s) (hp_initialFrom (ps_props s)) (hp_initialTo (ps_props s))
      (normalise_effect (ps_entries s) (ps_pair s))) s"

definition click_row :: "nat \<Rightarrow> bool \<Rightarrow> panel_state \<Rightarrow> panel_state" where
  "click_row idx shift s =
    (case ps_entries s of
       None \<Rightarrow> s
     | Some es \<Rightarrow>
        (if length es \<le> idx then s
         else let h = fe_hash (es ! idx) in
           if shift then with_pair ((ps_pair s)\<lparr>cp_from := h\<rparr>) s
           else if idx + 1 < length es \<and> fe_hash (es ! (idx + 1)) \<noteq> []
             then with_pair \<lparr>cp_from = fe_hash (es ! (idx + 1)), cp_to = h\<rparr> s
           else with_pair \<lparr>cp_from = h, cp_to = h\<rparr> s))"

text \<open>The options of both pickers.\<close>

definition picker_options :: "panel_state \<Rightarrow> string list" where
  "picker_options s = WORKING_TREE # map fe_hash (nullish (ps_entries s) [])"

datatype panel_event =
    ShowFile history_props "file_entry list option"
  | EntriesLoaded "file_entry list option"
  | PickFrom nat | PickTo nat
  | ClickRow nat bool
  | AskRestore nat | CancelRestore
  | TogglePrompt | TypeMessage string
  | ToggleMenu "string option"
  | CallRuns bool

text \<open>The entries shown on opening are those the request cache still has for the file; \<open>CallRuns\<close> is the
  flag a restore or a commit sets while it runs.\<close>

fun panel_step :: "panel_event \<Rightarrow> panel_state \<Rightarrow> panel_state" where
  "panel_step (ShowFile p es) s = rerender (s\<lparr>ps_props := p, ps_entries := es\<rparr>)"
| "panel_step (EntriesLoaded es) s = rerender (s\<lparr>ps_entries := es\<rparr>)"
| "panel_step (PickFrom i) s =
     (if i < length (picker_options s) then with_pair ((ps_pair s)\<lparr>cp_from := picker_options s ! i\<rparr>) s else s)"
| "panel_step (PickTo i) s =
     (if i < length (picker_options s) then with_pair ((ps_pair s)\<lparr>cp_to := picker_options s ! i\<rparr>) s else s)"
| "panel_step (ClickRow i shift) s = click_row i shift s"
| "panel_step (AskRestore i) s =
     (if i < length (nullish (ps_entries s) []) then s\<lparr>ps_restore := Some (nullish (ps_entries s) [] ! i)\<rparr> else s)"
| "panel_step CancelRestore s = s\<lparr>ps_restore := None\<rparr>"
| "panel_step TogglePrompt s = (if ps_busy s then s else s\<lparr>ps_promptOpen := \<not> ps_promptOpen s\<rparr>)"
| "panel_step (TypeMessage m) s = s\<lparr>ps_message := m\<rparr>"
| "panel_step (ToggleMenu h) s = s\<lparr>ps_menuHash := h\<rparr>"
| "panel_step (CallRuns b) s = s\<lparr>ps_busy := b\<rparr>"

definition panel_run :: "panel_event list \<Rightarrow> panel_state \<Rightarrow> panel_state" where
  "panel_run es s = fold panel_step es s"

text \<open>The Restore button of a row: disabled with its tooltip.\<close>

definition restore_button :: "bool \<Rightarrow> bool \<Rightarrow> nat \<Rightarrow> bool \<times> string" where
  "restore_button busy has_uncommitted idx =
    (let noop = (idx = 0 \<and> \<not> has_uncommitted)
     in (busy \<or> noop, if noop then ''Already at this version'' else ''Restore this version''))"

definition no_differences :: "string \<Rightarrow> string \<Rightarrow> panel_state \<Rightarrow> string option" where
  "no_differences fromContent toContent s =
    (if fromContent = toContent
     then Some (''No differences between '' @ labelForHash (cp_from (ps_pair s)) (ps_entries s) @ '' and ''
       @ labelForHash (cp_to (ps_pair s)) (ps_entries s) @ ''.'')
     else None)"

section \<open>Restoring and committing\<close>

text \<open>A failing call toasts its message alone.\<close>

definition reload_panel :: "app \<Rightarrow> app" where
  "reload_panel a = mutate ''fileStatus'' (mutate ''fileHistory'' a)"

text \<open>The second result counts the calls of \<open>onFileChanged\<close>.\<close>

definition handleRollback :: "file_entry \<Rightarrow> panel_state \<Rightarrow> app \<Rightarrow> app \<times> nat" where
  "handleRollback entry s a =
    (case hp_filename (ps_props s) of
       None \<Rightarrow> (a, 0)
     | Some f \<Rightarrow>
        (case read_field (rollbackFile f (fe_hash entry)) ''short_hash'' api_return (ap_client a) of
           (Inl e, c) \<Rightarrow> (fail_with [] e (a\<lparr>ap_client := c\<rparr>), 0)
         | (Inr v, c) \<Rightarrow>
            (reload_panel (success (''Restored '' @ template_str (Some (js_coalesce v (JStr (fe_short_hash entry)))))
               (a\<lparr>ap_client := c\<rparr>)), 1)))"

definition commit_result :: "string \<Rightarrow> string \<Rightarrow> (json option \<times> json option) api" where
  "commit_result f msg =
    api_bind (commitFile f (if trim msg = [] then None else Some (trim msg)))
      (\<lambda>j. api_bind (js_field j ''committed'') (\<lambda>committed. api_bind (js_field j ''short_hash'')
        (\<lambda>short_hash. api_return (committed, short_hash))))"

definition commit_toast :: "json option \<times> json option \<Rightarrow> app \<Rightarrow> app" where
  "commit_toast r =
    (if js_truthy (fst r) then success (''Committed '' @ template_str (snd r)) else addToast (Toast InfoToast ''Nothing to commit''))"

definition handleManualCommit :: "panel_state \<Rightarrow> app \<Rightarrow> panel_state \<times> app" where
  "handleManualCommit s a =
    (case hp_filename (ps_props s) of
       None \<Rightarrow> (s, a)
     | Some f \<Rightarrow>
        (case commit_result f (ps_message s) (ap_client a) of
           (Inl e, c) \<Rightarrow> (s, fail_with [] e (a\<lparr>ap_client := c\<rparr>))
         | (Inr r, c) \<Rightarrow>
            (s\<lparr>ps_promptOpen := False, ps_message := []\<rparr>, reload_panel (commit_toast r (a\<lparr>ap_client := c\<rparr>)))))"

text \<open>The shell's commit dialog: its target and message, and the dialog after the click.\<close>

definition commit_dialog_click :: "string option \<Rightarrow> string \<Rightarrow> app \<Rightarrow> (string option \<times> string) \<times> app" where
  "commit_dialog_click target msg a =
    (if \<not> truthy_str target then ((target, msg), a)
     else case commit_result (the target) msg (ap_client a) of
       (Inl e, c) \<Rightarrow> ((target, msg), fail_with ''Commit failed: '' e (a\<lparr>ap_client := c\<rparr>))
     | (Inr r, c) \<Rightarrow> ((None, []), mutate ''devices'' (commit_toast r (a\<lparr>ap_client := c\<rparr>))))"

section \<open>Dates, firmware and the gate\<close>

definition formatRelativeTime :: "int \<Rightarrow> rat \<Rightarrow> string" where
  "formatRelativeTime now_ms epochSeconds =
    (if epochSeconds = 0 then []
     else let s = js_round ((of_int now_ms - epochSeconds * 1000) / 1000);
              m = js_round (of_int s / 60); h = js_round (of_int m / 60); d = js_round (of_int h / 24)
       in if s < 60 then show_int s @ ''s ago''
          else if m < 60 then show_int m @ ''m ago''
          else if h < 48 then show_int h @ ''h ago''
          else show_int d @ ''d ago'')"

definition firmwareVariantLabel :: "string \<Rightarrow> string" where
  "firmwareVariantLabel variant =
    (if variant = ''factory'' then ''Factory image''
     else if variant = ''ota'' then ''OTA image''
     else if variant = ''firmware'' then ''Firmware''
     else variant)"

text \<open>The links of the menu, label and address, the raw ones before the compressed ones.\<close>

definition firmware_links :: "string \<Rightarrow> string list \<Rightarrow> (string \<times> string) list option" where
  "firmware_links jobId variants =
    (if variants = [] then None
     else Some (map (\<lambda>v. (firmwareVariantLabel v @ '' (.bin)'', ''./ui/api/jobs/'' @ jobId @ ''/firmware?variant='' @ v)) variants
       @ map (\<lambda>v. (firmwareVariantLabel v @ '' (.bin.gz)'', ''./ui/api/jobs/'' @ jobId @ ''/firmware?variant='' @ v @ ''&gz=1'')) variants))"

definition row_firmware :: "file_entry \<Rightarrow> (string \<times> string) list option" where
  "row_firmware entry =
    (if truthy_str (fe_firmware_job_id entry) \<and> 0 < length (nullish (fe_firmware_variants entry) [])
     then firmware_links (the (fe_firmware_job_id entry)) (nullish (fe_firmware_variants entry) []) else None)"

definition useVersioningEnabled :: "json option \<Rightarrow> bool" where
  "useVersioningEnabled data =
    (case data of Some (JObj kvs) \<Rightarrow> map_of kvs ''versioning_enabled'' = Some (JStr ''on'') | _ \<Rightarrow> False)"

section \<open>Lemmas\<close>

lemma compareRecency_swap: "compareRecency entries a b > 0 \<Longrightarrow> compareRecency entries b a < 0"
  by (auto simp: compareRecency_def split: option.splits if_splits)

lemma normalise_ordered:
  "let s' = normalise_effect entries s in
     cp_from s' = [] \<or> cp_to s' = [] \<or> compareRecency entries (cp_from s') (cp_to s') \<le> 0"
  using compareRecency_swap [of entries "cp_from s" "cp_to s"] by (auto simp: normalise_effect_def Let_def)

lemma normalise_same_versions: "{cp_from (normalise_effect entries s), cp_to (normalise_effect entries s)} = {cp_from s, cp_to s}"
  by (auto simp: normalise_effect_def)

definition pair_ordered :: "panel_state \<Rightarrow> bool" where
  "pair_ordered s \<longleftrightarrow> cp_from (ps_pair s) = [] \<or> cp_to (ps_pair s) = []
     \<or> compareRecency (ps_entries s) (cp_from (ps_pair s)) (cp_to (ps_pair s)) \<le> 0"

lemma with_pair_ordered: "pair_ordered (with_pair p s)"
  using normalise_ordered [of "ps_entries s" p] by (simp add: pair_ordered_def with_pair_def Let_def)

lemma step_ordered: "pair_ordered s \<Longrightarrow> pair_ordered (panel_step e s)"
proof (cases e)
  case (ClickRow i shift)
  then show "pair_ordered s \<Longrightarrow> ?thesis"
    by (auto simp: click_row_def Let_def with_pair_ordered split: option.splits)
qed (auto simp: rerender_def with_pair_ordered, auto simp: pair_ordered_def)

definition pair_offered :: "panel_state \<Rightarrow> bool" where
  "pair_offered s \<longleftrightarrow> hp_initialTo (ps_props s) = None
     \<and> (nullish (ps_entries s) [] \<noteq> [] \<longrightarrow> {cp_from (ps_pair s), cp_to (ps_pair s)} \<subseteq> set (picker_options s))"

definition shell_event :: "panel_event \<Rightarrow> bool" where
  "shell_event e \<longleftrightarrow> (case e of ShowFile p _ \<Rightarrow> hp_initialTo p = None | _ \<Rightarrow> True)"

lemma with_pair_frame [simp]:
  "ps_entries (with_pair p s) = ps_entries s" "ps_props (with_pair p s) = ps_props s"
  "ps_message (with_pair p s) = ps_message s" "ps_promptOpen (with_pair p s) = ps_promptOpen s"
  "ps_busy (with_pair p s) = ps_busy s"
  "picker_options (with_pair p s) = picker_options s"
  by (simp_all add: with_pair_def picker_options_def)

lemma with_pair_offered [simp]:
  "pair_offered (with_pair p s) \<longleftrightarrow> hp_initialTo (ps_props s) = None
     \<and> (nullish (ps_entries s) [] \<noteq> [] \<longrightarrow> {cp_from p, cp_to p} \<subseteq> set (picker_options s))"
proof -
  have "ps_pair (with_pair p s) = normalise_effect (ps_entries s) p" by (simp add: with_pair_def)
  then show ?thesis unfolding pair_offered_def with_pair_frame
    using normalise_same_versions [of "ps_entries s" p] by simp
qed

lemma listed_iff: "listed es h \<longleftrightarrow> h \<in> fe_hash ` set es"
  by (auto simp: listed_def list_ex_iff)

lemma defaults_offered:
  "{cp_from (defaults_effect (Some (e # es)) iF None p), cp_to (defaults_effect (Some (e # es)) iF None p)}
     \<subseteq> insert WORKING_TREE (fe_hash ` set (e # es))"
  by (auto simp: defaults_effect_def Let_def listed_iff)

lemma rerender_offered:
  assumes "hp_initialTo (ps_props s) = None"
  shows "pair_offered (rerender s)"
proof -
  have "{cp_from (defaults_effect (ps_entries s) iF None p), cp_to (defaults_effect (ps_entries s) iF None p)}
      \<subseteq> set (picker_options s)" if "nullish (ps_entries s) [] \<noteq> []" for iF p
  proof -
    from that obtain e es where "ps_entries s = Some (e # es)"
      by (cases "ps_entries s"; cases "nullish (ps_entries s) []") auto
    with defaults_offered [of e es iF p] show ?thesis by (simp add: picker_options_def)
  qed
  then show ?thesis unfolding rerender_def by (simp add: assms)
qed

lemma step_offered: "pair_offered s \<Longrightarrow> shell_event e \<Longrightarrow> pair_offered (panel_step e s)"
proof (cases e)
  case (ClickRow i shift)
  have "fe_hash (es ! j) \<in> set (picker_options s)" if "ps_entries s = Some es" "j < length es" for es j
    using that by (simp add: picker_options_def)
  then show "pair_offered s \<Longrightarrow> ?thesis"
    unfolding ClickRow panel_step.simps click_row_def Let_def
    by (cases "ps_entries s") (auto simp: pair_offered_def [of s] split: if_splits)
next
  case (PickFrom i)
  then show "pair_offered s \<Longrightarrow> ?thesis" by (auto simp: pair_offered_def [of s])
next
  case (PickTo i)
  then show "pair_offered s \<Longrightarrow> ?thesis" by (auto simp: pair_offered_def [of s])
next
  case (EntriesLoaded es)
  then show "pair_offered s \<Longrightarrow> ?thesis" by (simp add: rerender_offered pair_offered_def [of s])
qed (auto simp: shell_event_def rerender_offered, auto simp: pair_offered_def picker_options_def)

section \<open>Properties\<close>


text \<open>The swap effect ends: what it leaves it does not change again, so setting the pair from within the
  effect that watches the pair is no loop.\<close>
theorem swap_settles: "normalise_effect entries (normalise_effect entries s) = normalise_effect entries s"
  using normalise_ordered [of entries s] by (auto simp: normalise_effect_def [of entries "normalise_effect entries s"] Let_def)

text \<open>While a history is listed, both versions compared are among the options of the pickers: none of them
  is left over from another file or from a history that was rewritten.\<close>
theorem pickers_show_pair:
  assumes "\<forall>e \<in> set es. shell_event e" and "nullish (ps_entries (panel_run es mounted_panel)) [] \<noteq> []"
  shows "cp_from (ps_pair (panel_run es mounted_panel)) \<in> set (picker_options (panel_run es mounted_panel))
    \<and> cp_to (ps_pair (panel_run es mounted_panel)) \<in> set (picker_options (panel_run es mounted_panel))"
proof -
  have "pair_offered s \<Longrightarrow> pair_offered (fold panel_step es s)" for s
    using assms(1) by (induction es arbitrary: s) (simp_all add: step_offered)
  from this [of mounted_panel] assms(2) show ?thesis
    by (simp add: pair_offered_def panel_run_def) (simp add: mounted_panel_def)
qed

definition commit :: "string \<Rightarrow> file_entry" where
  "commit h =
    \<lparr>fe_hash = h, fe_short_hash = take 7 h, fe_date = 0, fe_message = [], fe_lines_added = 0, fe_lines_removed = 0,
     fe_firmware_job_id = None, fe_firmware_variants = None\<rparr>"

definition showing :: "string \<Rightarrow> string option \<Rightarrow> history_props" where
  "showing f from = \<lparr>hp_filename = Some f, hp_initialFrom = from, hp_initialTo = None\<rparr>"

definition bedroom_events :: "panel_event list" where
  "bedroom_events =
    [ShowFile (showing ''bedroom.yaml'' None) None, EntriesLoaded (Some [commit ''c3'', commit ''c2'', commit ''c1'']),
     PickFrom 0, PickTo 3]"

lemma pickers_show_pair_witness:
  "cp_from (ps_pair (panel_run bedroom_events mounted_panel)) = ''c1''
   \<and> cp_from (ps_pair (panel_run bedroom_events mounted_panel)) \<in> set (picker_options (panel_run bedroom_events mounted_panel))"
proof -
  have s: "panel_run bedroom_events mounted_panel = mounted_panel\<lparr>ps_props := showing ''bedroom.yaml'' None,
      ps_entries := Some [commit ''c3'', commit ''c2'', commit ''c1''],
      ps_pair := \<lparr>cp_from = ''c1'', cp_to = WORKING_TREE\<rparr>\<rparr>"
    by code_simp
  have "\<forall>e \<in> set bedroom_events. shell_event e" by (simp add: bedroom_events_def shell_event_def showing_def)
  from pickers_show_pair [OF this] show ?thesis by (simp add: s)
qed

text \<open>A click on a commit shows what it changed: its predecessor on the left, itself on the right; the first
  commit is compared with itself.\<close>
theorem click_shows_commit:
  assumes "ps_entries s = Some es" and "i < length es" and "distinct (map fe_hash es)"
    and "\<forall>e \<in> set es. fe_hash e \<noteq> [] \<and> fe_hash e \<noteq> WORKING_TREE"
  shows "ps_pair (panel_step (ClickRow i False) s) =
    \<lparr>cp_from = fe_hash (es ! (if i + 1 < length es then i + 1 else i)), cp_to = fe_hash (es ! i)\<rparr>"
proof (cases "i + 1 < length es")
  case True
  have idx: "index_of (fe_hash (es ! k)) (map fe_hash es) = Some k" if "k < length es" for k
  proof -
    have "fe_hash (es ! k) \<in> set (map fe_hash es)" using nth_mem [of k "map fe_hash es"] that unfolding nth_map [OF that] by simp
    then have "index_of (fe_hash (es ! k)) (map fe_hash es) \<noteq> None" unfolding index_of_None by blast
    then obtain j where j: "index_of (fe_hash (es ! k)) (map fe_hash es) = Some j" by blast
    have "j < length es" "map fe_hash es ! j = map fe_hash es ! k"
      using index_of_Some [OF j] unfolding nth_map [OF that] by simp_all
    with that assms(3) have "j = k" unfolding distinct_conv_nth by (metis length_map)
    with j show ?thesis by simp
  qed
  have "fe_hash (es ! (i + 1)) \<noteq> []" "fe_hash (es ! i) \<noteq> WORKING_TREE" "fe_hash (es ! (i + 1)) \<noteq> WORKING_TREE"
    using assms(2,4) True by simp_all
  with True assms(1,2) idx [of i] idx [of "i + 1"] show ?thesis
    by (simp add: click_row_def with_pair_def normalise_effect_def compareRecency_def Let_def)
next
  case False
  with assms(1,2) show ?thesis
    by (simp add: click_row_def with_pair_def normalise_effect_def compareRecency_def Let_def)
qed

lemma click_shows_commit_witness:
  "ps_pair (panel_step (ClickRow 1 False) (panel_run bedroom_events mounted_panel)) = \<lparr>cp_from = ''c1'', cp_to = ''c2''\<rparr>"
proof -
  have e: "ps_entries (panel_run bedroom_events mounted_panel) = Some [commit ''c3'', commit ''c2'', commit ''c1'']"
    by code_simp
  show ?thesis
    using click_shows_commit [OF e, of 1] by (simp add: commit_def WORKING_TREE_def)
qed

text \<open>A deep link's preset comes back with every reload of the history (after a restore or a commit), over
  the version the user picked since.\<close>
theorem reload_yanks_selection:
  "(let s = panel_run [ShowFile (showing ''bedroom.yaml'' (Some ''c1'')) None,
         EntriesLoaded (Some [commit ''c3'', commit ''c2'', commit ''c1'']), PickFrom 2] mounted_panel in
     cp_from (ps_pair s) = ''c2''
     \<and> cp_from (ps_pair (panel_step (EntriesLoaded (Some [commit ''c4'', commit ''c3'', commit ''c2'', commit ''c1''])) s)) = ''c1'')"
  by code_simp

text \<open>Without a preset the panel opens on the newest commit against the working tree, not on its parent.\<close>
theorem opens_on_newest_commit:
  assumes "fe_hash e \<noteq> WORKING_TREE" and "fe_hash e \<noteq> []"
  shows "ps_pair (panel_run [ShowFile (showing f None) None, EntriesLoaded (Some (e # es))] mounted_panel) =
    \<lparr>cp_from = fe_hash e, cp_to = WORKING_TREE\<rparr>"
  using assms
  by (simp add: panel_run_def rerender_def with_pair_def normalise_effect_def defaults_effect_def compareRecency_def
      showing_def mounted_panel_def listed_def Let_def WORKING_TREE_def)

lemma opens_on_newest_witness:
  "cp_from (ps_pair (panel_run [ShowFile (showing ''a.yaml'' None) None, EntriesLoaded (Some [commit ''c2'', commit ''c1''])] mounted_panel)) = ''c2''"
  using opens_on_newest_commit [of "commit ''c2''" "''a.yaml''" "[commit ''c1'']"] by (simp add: commit_def WORKING_TREE_def)

text \<open>The commit message typed for one file stays in the panel when it is closed, and goes with the commit of
  the next file shown.\<close>
theorem message_carries_over:
  "(let s = panel_run [ShowFile (showing ''a.yaml'' None) None, TogglePrompt, TypeMessage ''fix wifi'',
         ShowFile \<lparr>hp_filename = None, hp_initialFrom = None, hp_initialTo = None\<rparr> None,
         ShowFile (showing ''b.yaml'' None) None] mounted_panel in
     ps_promptOpen s
     \<and> (\<exists>hs. cl_sent (ap_client (snd (handleManualCommit s a))) = cl_sent (ap_client a)
          @ [\<lparr>rq_url = file_path ''b.yaml'' ''/commit'', rq_method = ''POST'', rq_headers = hs,
               rq_body = Some (JObj [(''message'', JStr ''fix wifi'')])\<rparr>]))"
proof -
  define s where "s = panel_run [ShowFile (showing ''a.yaml'' None) None, TogglePrompt, TypeMessage ''fix wifi'',
         ShowFile \<lparr>hp_filename = None, hp_initialFrom = None, hp_initialTo = None\<rparr> None,
         ShowFile (showing ''b.yaml'' None) None] mounted_panel"
  have s: "ps_promptOpen s" "ps_message s = ''fix wifi''" "hp_filename (ps_props s) = Some ''b.yaml''"
    by (simp_all add: s_def panel_run_def rerender_def mounted_panel_def showing_def)
  have m: "trim ''fix wifi'' = ''fix wifi''" by code_simp
  let ?c = "ap_client a"
  have "sends (cl_sent ?c) (file_path ''b.yaml'' ''/commit'') (json_opts ''POST'' (JObj [(''message'', JStr ''fix wifi'')]))
      (cl_sent (snd (commitFile ''b.yaml'' (Some ''fix wifi'') ?c)))"
    unfolding commitFile_def using json_call_sends by (simp add: when_field_def)
  moreover have "cl_sent (ap_client (snd (handleManualCommit s a))) = cl_sent (snd (commitFile ''b.yaml'' (Some ''fix wifi'') ?c))"
    by (auto simp: handleManualCommit_def s m commit_result_def api_bind_def js_field_def api_return_def api_throw_def
        reload_panel_def commit_toast_def fail_with_def addToast_def mutate_def success_def
        split: prod.splits sum.splits json.splits)
  ultimately show ?thesis using s(1) unfolding s_def [symmetric] Let_def by (auto simp: sends_def json_opts_def)
qed

end
