(* ===== verification/Worker_Dialogs.thy ===== *)
theory Worker_Dialogs
  imports Workers_Tab App_Actions
begin

text \<open>
  The dialogs of the Workers tab: the disk quota override (\<open>components/SetDiskQuotaDialog.tsx\<close>, with the
  server's check of the value) and the command that connects a new worker
  (\<open>components/ConnectWorkerModal.tsx\<close>). A command is the list of its lines; the clipboard is not
  modelled.
\<close>

section \<open>Disk quota\<close>

datatype quota_mode = QuotaDefault | QuotaCustom

record quota_dialog =
  qd_mode :: quota_mode
  qd_gb :: int
  qd_saving :: bool
  qd_open :: bool

definition whole_gib :: "int \<Rightarrow> int" where
  "whole_gib bytes = max 1 (js_round (of_int bytes / of_int GIB))"

definition open_quota :: "int option \<Rightarrow> int \<Rightarrow> quota_dialog" where
  "open_quota currentOverrideBytes defaultBytes =
    \<lparr>qd_mode = (if currentOverrideBytes = None then QuotaDefault else QuotaCustom),
     qd_gb = (case currentOverrideBytes of Some b \<Rightarrow> whole_gib b | None \<Rightarrow> whole_gib defaultBytes),
     qd_saving = False, qd_open = True\<rparr>"

text \<open>The dialog for a worker of the list, as the tab opens it.\<close>

definition worker_quota_dialog :: "worker list \<Rightarrow> string \<Rightarrow> quota_dialog option" where
  "worker_quota_dialog workers i =
    map_option (\<lambda>w. open_quota (w_disk_quota_override_bytes w)
        (nullish (w_default_worker_disk_quota_bytes w) (10 * 1024 ^ 3)))
      (find (\<lambda>x. w_client_id x = i) workers)"

text \<open>The number field holds integers only: \<open>Math.round\<close> and \<open>parseInt\<close> are its two sources.\<close>

definition quota_valid :: "quota_dialog \<Rightarrow> bool" where
  "quota_valid d \<longleftrightarrow> qd_mode d = QuotaDefault \<or> 1 \<le> qd_gb d \<and> qd_gb d \<le> 1024"

definition int_or :: "int option \<Rightarrow> int \<Rightarrow> int" where
  "int_or n d = (case n of None \<Rightarrow> d | Some i \<Rightarrow> if i = 0 then d else i)"

definition setGb :: "string \<Rightarrow> quota_dialog \<Rightarrow> quota_dialog" where
  "setGb s d = d\<lparr>qd_gb := max 1 (int_or (parse_int s) 1)\<rparr>"

text \<open>The value \<open>handleSave\<close> hands to \<open>onSave\<close>; outer \<^const>\<open>None\<close>: it returns without a call.\<close>

definition quota_value :: "quota_dialog \<Rightarrow> int option option" where
  "quota_value d =
    (if \<not> quota_valid d then None
     else Some (if qd_mode d = QuotaDefault then None else Some (qd_gb d * GIB)))"

text \<open>\<open>handleSave\<close> with the tab's \<open>onSave\<close> and the handler of the shell, which reports errors itself.\<close>

definition quota_handleSave :: "string \<Rightarrow> quota_dialog \<Rightarrow> app \<Rightarrow> quota_dialog \<times> app" where
  "quota_handleSave i d a =
    (case quota_value d of
       None \<Rightarrow> (d, a)
     | Some bytes \<Rightarrow> (d\<lparr>qd_saving := False, qd_open := False\<rparr>, mutate ''workers'' (handleSetDiskQuota i bytes a)))"

definition py_quota_ok :: "int option \<Rightarrow> bool" where
  "py_quota_ok bytes =
    (case bytes of None \<Rightarrow> True
     | Some b \<Rightarrow> \<not> (b < 1 * 1024 ^ 3 \<or> b > 1024 * 1024 ^ 3) \<and> b mod (1024 ^ 3) = 0)"

section \<open>The command of a new worker\<close>

datatype cmd_format = Bash | PowerShell | Compose

record docker_params =
  dp_serverUrl :: string
  dp_token :: string
  dp_containerName :: string
  dp_hostname :: string
  dp_maxJobs :: int
  dp_seedVersion :: string
  dp_hostPlatform :: string
  dp_tags :: string
  dp_diskQuotaGb :: "int option"
  dp_restartPolicy :: string
  dp_clientTag :: string
  dp_format :: cmd_format

text \<open>\<open>JSON.stringify(s)\<close>; the characters are bytes of UTF-8, which it copies.\<close>

definition hex_digit :: "nat \<Rightarrow> char" where
  "hex_digit n = ''0123456789abcdef'' ! (n mod 16)"

definition json_escape :: "char \<Rightarrow> string" where
  "json_escape c =
    (if c = CHR 0x22 then [CHR 0x5C, CHR 0x22]
     else if c = CHR 0x5C then [CHR 0x5C, CHR 0x5C]
     else if c = CHR 0x08 then [CHR 0x5C, CHR ''b'']
     else if c = CHR 0x0C then [CHR 0x5C, CHR ''f'']
     else if c = CHR 0x0A then [CHR 0x5C, CHR ''n'']
     else if c = CHR 0x0D then [CHR 0x5C, CHR ''r'']
     else if c = CHR 0x09 then [CHR 0x5C, CHR ''t'']
     else if (of_char c :: nat) < 32
       then [CHR 0x5C, CHR ''u'', CHR ''0'', CHR ''0'', hex_digit (of_char c div 16), hex_digit (of_char c)]
     else [c])"

definition json_quote :: "string \<Rightarrow> string" where
  "json_quote s = [CHR 0x22] @ concat (map json_escape s) @ [CHR 0x22]"

definition line_if :: "bool \<Rightarrow> string \<Rightarrow> string list" where
  "line_if b s = (if b then [s] else [])"

definition compose_env_lines :: "docker_params \<Rightarrow> string list" where
  "compose_env_lines p =
    [''      - SERVER_URL='' @ dp_serverUrl p,
     ''      - SERVER_TOKEN='' @ dp_token p,
     ''      - MAX_PARALLEL_JOBS='' @ show_int (dp_maxJobs p)]
    @ line_if (dp_hostname p \<noteq> []) (''      - HOSTNAME='' @ dp_hostname p)
    @ line_if (dp_seedVersion p \<noteq> []) (''      - ESPHOME_SEED_VERSION='' @ dp_seedVersion p)
    @ line_if (dp_hostPlatform p \<noteq> []) (''      - HOST_PLATFORM='' @ dp_hostPlatform p)
    @ line_if (dp_tags p \<noteq> []) (''      - WORKER_TAGS='' @ dp_tags p)
    @ (case dp_diskQuotaGb p of None \<Rightarrow> [] | Some gb \<Rightarrow> [''      - WORKER_DISK_QUOTA_GB='' @ show_int gb])"

definition compose_lines :: "docker_params \<Rightarrow> string list" where
  "compose_lines p =
    [''name: esphome-fleet-worker'', [], ''services:'', ''  worker:'',
     ''    image: ghcr.io/weirded/esphome-dist-client:'' @ dp_clientTag p,
     ''    container_name: '' @ dp_containerName p]
    @ line_if (dp_restartPolicy p \<noteq> ''no'') (''    restart: '' @ dp_restartPolicy p)
    @ [''    network_mode: host'', ''    environment:'']
    @ compose_env_lines p
    @ [''    volumes:'', ''      - esphome-versions:/esphome-versions'', [], ''volumes:'', ''  esphome-versions:'',
       ''    name: esphome-versions'']"

definition run_cont :: "cmd_format \<Rightarrow> string" where
  "run_cont f = (if f = PowerShell then [CHR 0x60] else [CHR 0x5C])"

definition hostnameVar :: "cmd_format \<Rightarrow> string" where
  "hostnameVar f = (if f = PowerShell then ''$env:COMPUTERNAME'' else ''$(hostname)'')"

definition cont_line :: "docker_params \<Rightarrow> string \<Rightarrow> string" where
  "cont_line p s = s @ '' '' @ run_cont (dp_format p)"

definition run_args :: "docker_params \<Rightarrow> string list" where
  "run_args p =
    [''docker run -d'', ''  --name '' @ dp_containerName p]
    @ line_if (dp_restartPolicy p \<noteq> ''no'') (''  --restart '' @ dp_restartPolicy p)
    @ [''  --network host'',
       ''  --hostname '' @ (if dp_hostname p \<noteq> [] then dp_hostname p else hostnameVar (dp_format p)),
       ''  -e SERVER_URL='' @ dp_serverUrl p,
       ''  -e SERVER_TOKEN='' @ dp_token p,
       ''  -e MAX_PARALLEL_JOBS='' @ show_int (dp_maxJobs p)]
    @ line_if (dp_seedVersion p \<noteq> []) (''  -e ESPHOME_SEED_VERSION='' @ dp_seedVersion p)
    @ line_if (dp_hostPlatform p \<noteq> []) (''  -e HOST_PLATFORM='' @ json_quote (dp_hostPlatform p))
    @ line_if (dp_tags p \<noteq> []) (''  -e WORKER_TAGS='' @ dp_tags p)
    @ (case dp_diskQuotaGb p of None \<Rightarrow> [] | Some gb \<Rightarrow> [''  -e WORKER_DISK_QUOTA_GB='' @ show_int gb])
    @ [''  -v esphome-versions:/esphome-versions'']"

definition run_lines :: "docker_params \<Rightarrow> string list" where
  "run_lines p = map (cont_line p) (run_args p) @ [''  ghcr.io/weirded/esphome-dist-client:'' @ dp_clientTag p]"

definition docker_lines :: "docker_params \<Rightarrow> string list" where
  "docker_lines p = (if dp_format p = Compose then compose_lines p else run_lines p)"

definition buildDockerCmd :: "docker_params \<Rightarrow> string" where
  "buildDockerCmd p = join_with [CHR 0x0A] (docker_lines p)"

section \<open>The form\<close>

record connect_form =
  cf_serverUrl :: string
  cf_containerName :: string
  cf_hostname :: string
  cf_maxJobs :: int
  cf_seedVersion :: string
  cf_hostPlatform :: string
  cf_tags :: string
  cf_diskQuotaMode :: quota_mode
  cf_diskQuotaGb :: int
  cf_restartPolicy :: string
  cf_format :: cmd_format

text \<open>The actions of the reducer: \<open>set\<close> for each field, and \<open>reset\<close>.\<close>

datatype form_action =
    SetServerUrl string | SetContainerName string | SetHostname string | SetMaxJobs int | SetSeedVersion string
  | SetHostPlatform string | SetTags string | SetQuotaMode quota_mode | SetQuotaGb int | SetRestartPolicy string
  | SetFormat cmd_format | ResetForm connect_form

fun formReducer :: "connect_form \<Rightarrow> form_action \<Rightarrow> connect_form" where
  "formReducer s (SetServerUrl v) = s\<lparr>cf_serverUrl := v\<rparr>"
| "formReducer s (SetContainerName v) = s\<lparr>cf_containerName := v\<rparr>"
| "formReducer s (SetHostname v) = s\<lparr>cf_hostname := v\<rparr>"
| "formReducer s (SetMaxJobs v) = s\<lparr>cf_maxJobs := v\<rparr>"
| "formReducer s (SetSeedVersion v) = s\<lparr>cf_seedVersion := v\<rparr>"
| "formReducer s (SetHostPlatform v) = s\<lparr>cf_hostPlatform := v\<rparr>"
| "formReducer s (SetTags v) = s\<lparr>cf_tags := v\<rparr>"
| "formReducer s (SetQuotaMode v) = s\<lparr>cf_diskQuotaMode := v\<rparr>"
| "formReducer s (SetQuotaGb v) = s\<lparr>cf_diskQuotaGb := v\<rparr>"
| "formReducer s (SetRestartPolicy v) = s\<lparr>cf_restartPolicy := v\<rparr>"
| "formReducer s (SetFormat v) = s\<lparr>cf_format := v\<rparr>"
| "formReducer s (ResetForm new) = new"

definition urlOptions :: "string \<Rightarrow> server_info \<Rightarrow> string list" where
  "urlOptions page_host si =
    (let port = (if si_port si = 0 then 8765 else si_port si);
         addrs = (case si_server_addresses si of
             Some (a # as) \<Rightarrow> a # as
           | _ \<Rightarrow> [str_or (si_server_ip si) page_host])
     in map (\<lambda>addr. ''http://'' @ addr @ '':'' @ show_int port) addrs)"

text \<open>The modal: the form, whether the seed version was edited, and the properties last rendered.\<close>

record connect_modal =
  cm_form :: connect_form
  cm_seedUserEdited :: bool
  cm_server :: server_info
  cm_version :: "string option"

definition initial_form :: "string \<Rightarrow> server_info \<Rightarrow> string option \<Rightarrow> worker_preset option \<Rightarrow> connect_form" where
  "initial_form page_host si esphomeVersion preset =
    \<lparr>cf_serverUrl = (case urlOptions page_host si of [] \<Rightarrow> [] | u # _ \<Rightarrow> u),
     cf_containerName = ''esphome-fleet-worker'',
     cf_hostname = nullish (Option.bind preset wp_hostname) [],
     cf_maxJobs = nullish (Option.bind preset wp_max_parallel_jobs) 2,
     cf_seedVersion = str_or esphomeVersion [],
     cf_hostPlatform = nullish (Option.bind preset wp_host_platform) [],
     cf_tags = [], cf_diskQuotaMode = QuotaDefault, cf_diskQuotaGb = 10,
     cf_restartPolicy = ''unless-stopped'', cf_format = Bash\<rparr>"

text \<open>The two effects after a render; each runs when what it watches has changed.\<close>

definition seed_effect :: "connect_modal \<Rightarrow> connect_modal" where
  "seed_effect m =
    (if \<not> cm_seedUserEdited m \<and> truthy_str (cm_version m)
     then m\<lparr>cm_form := formReducer (cm_form m) (SetSeedVersion (the (cm_version m)))\<rparr> else m)"

definition url_effect :: "string \<Rightarrow> connect_modal \<Rightarrow> connect_modal" where
  "url_effect page_host m =
    (let opts = urlOptions page_host (cm_server m)
     in if cf_serverUrl (cm_form m) \<notin> set opts
        then m\<lparr>cm_form := formReducer (cm_form m) (SetServerUrl (case opts of [] \<Rightarrow> [] | u # _ \<Rightarrow> u))\<rparr> else m)"

definition mount_connect :: "string \<Rightarrow> server_info \<Rightarrow> string option \<Rightarrow> worker_preset option \<Rightarrow> connect_modal" where
  "mount_connect page_host si esphomeVersion preset =
    url_effect page_host (seed_effect
      \<lparr>cm_form = initial_form page_host si esphomeVersion preset, cm_seedUserEdited = False,
       cm_server = si, cm_version = esphomeVersion\<rparr>)"

definition addresses_of :: "server_info \<Rightarrow> string list option \<times> string option \<times> int" where
  "addresses_of si = (si_server_addresses si, si_server_ip si, si_port si)"

definition render_connect :: "string \<Rightarrow> server_info \<Rightarrow> string option \<Rightarrow> connect_modal \<Rightarrow> connect_modal" where
  "render_connect page_host si esphomeVersion m =
    (let m1 = m\<lparr>cm_server := si, cm_version := esphomeVersion\<rparr>;
         m2 = (if esphomeVersion \<noteq> cm_version m then seed_effect m1 else m1)
     in if addresses_of si \<noteq> addresses_of (cm_server m) then url_effect page_host m2 else m2)"

text \<open>What the fields do; the URL is picked from the list of options by its position.\<close>

datatype connect_event =
    RenderConnect server_info "string option"
  | PickUrl nat
  | TypeContainer string | TypeHostname string | TypeMaxJobs string | TypeSeed string | TypePlatform string
  | ChangeTags "string list"
  | PickQuotaMode quota_mode | TypeQuotaGb string
  | PickRestart string | PickFormat cmd_format

fun connect_step :: "string \<Rightarrow> connect_event \<Rightarrow> connect_modal \<Rightarrow> connect_modal" where
  "connect_step h (RenderConnect si ver) m = render_connect h si ver m"
| "connect_step h (PickUrl i) m =
     (if i < length (urlOptions h (cm_server m))
      then m\<lparr>cm_form := formReducer (cm_form m) (SetServerUrl (urlOptions h (cm_server m) ! i))\<rparr> else m)"
| "connect_step h (TypeContainer s) m = m\<lparr>cm_form := formReducer (cm_form m) (SetContainerName s)\<rparr>"
| "connect_step h (TypeHostname s) m = m\<lparr>cm_form := formReducer (cm_form m) (SetHostname s)\<rparr>"
| "connect_step h (TypeMaxJobs s) m = m\<lparr>cm_form := formReducer (cm_form m) (SetMaxJobs (int_or (parse_int s) 2))\<rparr>"
| "connect_step h (TypeSeed s) m =
     m\<lparr>cm_seedUserEdited := True, cm_form := formReducer (cm_form m) (SetSeedVersion s)\<rparr>"
| "connect_step h (TypePlatform s) m = m\<lparr>cm_form := formReducer (cm_form m) (SetHostPlatform s)\<rparr>"
| "connect_step h (ChangeTags ts) m = m\<lparr>cm_form := formReducer (cm_form m) (SetTags (join_with '','' ts))\<rparr>"
| "connect_step h (PickQuotaMode q) m = m\<lparr>cm_form := formReducer (cm_form m) (SetQuotaMode q)\<rparr>"
| "connect_step h (TypeQuotaGb s) m =
     m\<lparr>cm_form := formReducer (cm_form m) (SetQuotaGb (max 1 (int_or (parse_int s) 10)))\<rparr>"
| "connect_step h (PickRestart s) m = m\<lparr>cm_form := formReducer (cm_form m) (SetRestartPolicy s)\<rparr>"
| "connect_step h (PickFormat f) m = m\<lparr>cm_form := formReducer (cm_form m) (SetFormat f)\<rparr>"

definition connect_run :: "string \<Rightarrow> connect_event list \<Rightarrow> connect_modal \<Rightarrow> connect_modal" where
  "connect_run h es m = fold (connect_step h) es m"

definition fleetDefaultGb :: "server_info \<Rightarrow> int" where
  "fleetDefaultGb si =
    (if truthy_num (si_default_worker_disk_quota_bytes si)
     then js_round (of_int (the (si_default_worker_disk_quota_bytes si)) / of_int GIB) else 10)"

text \<open>The chips shown for the tags text, and the parameters of the command.\<close>

definition form_tags :: "connect_form \<Rightarrow> string list" where
  "form_tags f = (if cf_tags f \<noteq> [] then filter (\<lambda>x. x \<noteq> []) (map trim (split_on (CHR '','') (cf_tags f))) else [])"

definition docker_params_of :: "connect_modal \<Rightarrow> docker_params" where
  "docker_params_of m =
    (let f = cm_form m; si = cm_server m in
     \<lparr>dp_serverUrl = cf_serverUrl f, dp_token = si_token si, dp_containerName = cf_containerName f,
      dp_hostname = cf_hostname f, dp_maxJobs = cf_maxJobs f, dp_seedVersion = cf_seedVersion f,
      dp_hostPlatform = cf_hostPlatform f, dp_tags = cf_tags f,
      dp_diskQuotaGb = (if cf_diskQuotaMode f = QuotaCustom then Some (cf_diskQuotaGb f) else None),
      dp_restartPolicy = cf_restartPolicy f, dp_clientTag = str_or (si_addon_version si) ''latest'',
      dp_format = cf_format f\<rparr>)"

section \<open>Lemmas\<close>

lemma GIB_value: "GIB = 1073741824"
  by (simp add: GIB_def)

lemma js_round_int [simp]: "js_round (of_int i) = i"
  by (simp add: js_round_def) linarith

lemma whole_gib_mult: "1 \<le> n \<Longrightarrow> whole_gib (n * GIB) = n"
  by (simp add: whole_gib_def GIB_def)

definition url_ok :: "string \<Rightarrow> connect_modal \<Rightarrow> bool" where
  "url_ok h m \<longleftrightarrow> cf_serverUrl (cm_form m) \<in> set (urlOptions h (cm_server m))"

lemma urlOptions_nonempty: "urlOptions h si \<noteq> []"
  by (auto simp: urlOptions_def Let_def split: option.splits list.splits)

lemma url_effect_ok: "url_ok h (url_effect h m)"
proof -
  obtain u us where "urlOptions h (cm_server m) = u # us"
    using urlOptions_nonempty [of h "cm_server m"] by (cases "urlOptions h (cm_server m)") auto
  then show ?thesis by (auto simp: url_ok_def url_effect_def Let_def)
qed

lemma seed_effect_frame [simp]:
  "cm_server (seed_effect m) = cm_server m" "cm_version (seed_effect m) = cm_version m"
  "cm_seedUserEdited (seed_effect m) = cm_seedUserEdited m"
  "cf_serverUrl (cm_form (seed_effect m)) = cf_serverUrl (cm_form m)"
  by (simp_all add: seed_effect_def)

lemma url_effect_frame [simp]:
  "cm_server (url_effect h m) = cm_server m" "cm_version (url_effect h m) = cm_version m"
  "cm_seedUserEdited (url_effect h m) = cm_seedUserEdited m"
  "cf_seedVersion (cm_form (url_effect h m)) = cf_seedVersion (cm_form m)"
  by (simp_all add: url_effect_def Let_def)

lemma same_addresses: "addresses_of a = addresses_of b \<Longrightarrow> urlOptions h a = urlOptions h b"
  by (simp only: addresses_of_def urlOptions_def prod.inject)

lemma render_url_ok: "url_ok h m \<Longrightarrow> url_ok h (render_connect h si ver m)"
  using same_addresses [of si "cm_server m" h] url_effect_ok
  by (auto simp: render_connect_def Let_def url_ok_def)

lemma step_url_ok: "url_ok h m \<Longrightarrow> url_ok h (connect_step h e m)"
proof (cases e)
  case RenderConnect
  then show "url_ok h m \<Longrightarrow> ?thesis" by (simp add: render_url_ok)
qed (auto simp: url_ok_def)

definition seed_ok :: "connect_modal \<Rightarrow> bool" where
  "seed_ok m \<longleftrightarrow> cm_seedUserEdited m \<or> \<not> truthy_str (cm_version m) \<or> cf_seedVersion (cm_form m) = the (cm_version m)"

lemma seed_effect_ok: "seed_ok (seed_effect m)"
  by (auto simp: seed_ok_def seed_effect_def)

lemma seed_url_ok: "seed_ok m \<Longrightarrow> seed_ok (url_effect h m)"
  by (simp add: seed_ok_def)

lemma render_seed_ok: "seed_ok m \<Longrightarrow> seed_ok (render_connect h si ver m)"
proof -
  assume ok: "seed_ok m"
  let ?m = "m\<lparr>cm_server := si, cm_version := ver\<rparr>"
  have "seed_ok (if ver \<noteq> cm_version m then seed_effect ?m else ?m)"
    using ok seed_effect_ok [of ?m] by (auto simp: seed_ok_def)
  then show ?thesis by (simp add: render_connect_def Let_def seed_url_ok split: if_splits)
qed

lemma step_seed_ok: "seed_ok m \<Longrightarrow> seed_ok (connect_step h e m)"
proof (cases e)
  case RenderConnect
  then show "seed_ok m \<Longrightarrow> ?thesis" by (simp add: render_seed_ok)
qed (auto simp: seed_ok_def)

text \<open>The environment a command gives the container: the values after \<open>-e\<close>, and those under
  \<open>environment:\<close>.\<close>

definition run_env :: "cmd_format \<Rightarrow> string list \<Rightarrow> string list" where
  "run_env f lines =
    map (\<lambda>l. drop 5 (take (length l - length (run_cont f) - 1) l)) (filter (\<lambda>l. starts_with l ''  -e '') lines)"

definition compose_env :: "string list \<Rightarrow> string list" where
  "compose_env lines =
    map (drop 8) (takeWhile (\<lambda>l. l \<noteq> ''    volumes:'') (tl (dropWhile (\<lambda>l. l \<noteq> ''    environment:'') lines)))"

lemma compose_env_of: "compose_env (compose_lines p) = map (drop 8) (compose_env_lines p)"
proof -
  let ?e = "compose_env_lines p"
  have dash: "takeWhile (\<lambda>l. l \<noteq> ''    volumes:'') (?e @ ''    volumes:'' # r) = ?e" for r
    by (simp add: compose_env_lines_def line_if_def split: option.splits)
  have "dropWhile (\<lambda>l. l \<noteq> ''    environment:'') (compose_lines p)
      = ''    environment:'' # ?e @ [''    volumes:'', ''      - esphome-versions:/esphome-versions'', [], ''volumes:'',
          ''  esphome-versions:'', ''    name: esphome-versions'']"
    by (simp add: compose_lines_def line_if_def)
  then show ?thesis by (simp add: compose_env_def dash)
qed

section \<open>Properties\<close>



text \<open>Every number of whole gibibytes typed into the custom field is saved as that many bytes, and the
  dialog closes whether or not the server took the value, the error being a toast only.\<close>
theorem typed_quota_saved:
  assumes "1 \<le> n" and "n \<le> 1024"
  shows "quota_value (setGb (show_nat n) d) = Some (if qd_mode d = QuotaDefault then None else Some (int n * GIB))
    \<and> \<not> qd_open (fst (quota_handleSave i (setGb (show_nat n) d) a))"
  using assms
  by (auto simp: setGb_def int_or_def quota_value_def quota_valid_def quota_handleSave_def)

lemma typed_quota_witness:
  "quota_value (setGb (show_nat 64) (open_quota (Some 0) 0)) = Some (Some (64 * GIB))"
  using typed_quota_saved [of 64 "open_quota (Some 0) 0"] by (simp add: open_quota_def)

text \<open>The server URL of the command is always one of the offered ones, through any sequence of edits and
  of polls that change the addresses or the port.\<close>
theorem connect_url_offered:
  "cf_serverUrl (cm_form (connect_run h es (mount_connect h si ver preset)))
     \<in> set (urlOptions h (cm_server (connect_run h es (mount_connect h si ver preset))))"
proof -
  have "url_ok h m \<Longrightarrow> url_ok h (connect_run h es m)" for m
    unfolding connect_run_def by (induction es arbitrary: m) (simp_all add: step_url_ok)
  from this [OF url_effect_ok] show ?thesis unfolding mount_connect_def by (simp only: url_ok_def)
qed

text \<open>The seed version follows the server's ESPHome version until the user types one; from then on no
  poll changes it.\<close>
theorem seed_version_follows:
  "(let m = connect_run h es (mount_connect h si ver preset) in
     (\<not> cm_seedUserEdited m \<and> truthy_str (cm_version m) \<longrightarrow> cf_seedVersion (cm_form m) = the (cm_version m))
     \<and> (cm_seedUserEdited m \<longrightarrow>
          cf_seedVersion (cm_form (connect_step h (RenderConnect si' ver') m)) = cf_seedVersion (cm_form m)))"
proof -
  have "seed_ok m \<Longrightarrow> seed_ok (connect_run h es m)" for m
    unfolding connect_run_def by (induction es arbitrary: m) (simp_all add: step_seed_ok)
  then have "seed_ok (connect_run h es (mount_connect h si ver preset))"
    by (simp add: mount_connect_def seed_url_ok seed_effect_ok)
  moreover have "cm_seedUserEdited m \<Longrightarrow>
      cf_seedVersion (cm_form (connect_step h (RenderConnect si' ver') m)) = cf_seedVersion (cm_form m)" for m
    by (simp add: render_connect_def Let_def seed_effect_def)
  ultimately show ?thesis by (auto simp: seed_ok_def Let_def)
qed

definition example_server :: server_info where
  "example_server =
    \<lparr>si_token = ''t0ken'', si_port = 0, si_server_ip = None, si_server_addresses = Some [''10.0.0.2''],
     si_addon_version = None, si_server_client_version = None, si_min_image_version = None,
     si_esphome_install_status = None, si_esphome_server_version = None, si_default_worker_disk_quota_bytes = None\<rparr>"

definition example_modal :: connect_modal where
  "example_modal = mount_connect ''ha.local'' example_server (Some ''2025.5.0'') None"

lemma seed_version_witness:
  "cf_seedVersion (cm_form (connect_run ''ha.local'' [] example_modal)) = ''2025.5.0''"
  using seed_version_follows [of "''ha.local''" "[]" example_server "Some ''2025.5.0''" None example_server None]
  by (simp add: connect_run_def example_modal_def Let_def mount_connect_def)

text \<open>The two ways to start the worker agree: the environment of the \<open>docker run\<close> commands is that of the
  compose file, where only the host platform is quoted and the host name is an option of its own.\<close>
theorem run_env_matches_compose:
  assumes "f \<noteq> Compose"
  shows "run_env f (docker_lines (p\<lparr>dp_format := f\<rparr>)) =
    compose_env (docker_lines (p\<lparr>dp_format := Compose, dp_hostname := [],
      dp_hostPlatform := (if dp_hostPlatform p = [] then [] else json_quote (dp_hostPlatform p))\<rparr>))"
proof -
  let ?p = "p\<lparr>dp_format := f\<rparr>"
  have cut: "take (length (cont_line ?p s) - Suc (length (run_cont f))) (cont_line ?p s) = s" for s
    by (simp add: cont_line_def)
  have sel: "starts_with (cont_line ?p s) ''  -e '' \<longleftrightarrow> starts_with s ''  -e ''" if "length s \<ge> 5" for s
    using that by (simp add: starts_with_def cont_line_def)
  have q: "json_quote s \<noteq> []" for s by (simp add: json_quote_def)
  have "filter (\<lambda>l. starts_with l ''  -e '') (docker_lines ?p)
      = map (cont_line ?p) (filter (\<lambda>s. starts_with s ''  -e '') (run_args ?p))"
  proof -
    have "\<forall>s \<in> set (run_args ?p). length s \<ge> 5"
      by (auto simp: run_args_def line_if_def split: option.splits if_splits)
    then have "filter (\<lambda>l. starts_with l ''  -e '') (map (cont_line ?p) (run_args ?p))
        = map (cont_line ?p) (filter (\<lambda>s. starts_with s ''  -e '') (run_args ?p))"
      by (simp add: filter_map comp_def sel cong: filter_cong)
    with assms show ?thesis by (simp add: docker_lines_def run_lines_def starts_with_def)
  qed
  then have "run_env f (docker_lines ?p) = map (drop 5) (filter (\<lambda>s. starts_with s ''  -e '') (run_args ?p))"
    by (simp add: run_env_def comp_def cut)
  also have "\<dots> = map (drop 8) (compose_env_lines (p\<lparr>dp_hostname := [],
      dp_hostPlatform := (if dp_hostPlatform p = [] then [] else json_quote (dp_hostPlatform p))\<rparr>))"
    by (simp add: run_args_def compose_env_lines_def line_if_def starts_with_def q split: option.splits)
  finally show ?thesis
    by (simp add: docker_lines_def compose_env_of) (simp add: compose_env_lines_def)
qed

definition example_params :: docker_params where
  "example_params = docker_params_of example_modal"

lemma show_nat_numeral: "show_nat 8765 = ''8765''" "show_nat 2 = ''2''"
  by (simp_all add: show_nat.simps [of 8765] show_nat.simps [of 876] show_nat.simps [of 87] show_nat.simps [of 8]
        show_nat.simps [of 2] digit_char_def)

lemma example_params_eq:
  "dp_serverUrl example_params = ''http://10.0.0.2:8765''" "dp_token example_params = ''t0ken''"
  "dp_maxJobs example_params = 2" "dp_seedVersion example_params = ''2025.5.0''" "dp_hostPlatform example_params = []"
  "dp_tags example_params = []" "dp_diskQuotaGb example_params = None" "show_int 2 = ''2''"
  by (simp_all add: example_params_def docker_params_of_def example_modal_def mount_connect_def initial_form_def
        url_effect_def seed_effect_def urlOptions_def example_server_def Let_def show_int_def show_nat_numeral)

lemma run_env_witness:
  "run_env Bash (docker_lines (example_params\<lparr>dp_format := Bash\<rparr>)) =
    [''SERVER_URL=http://10.0.0.2:8765'', ''SERVER_TOKEN=t0ken'', ''MAX_PARALLEL_JOBS=2'', ''ESPHOME_SEED_VERSION=2025.5.0'']"
  using run_env_matches_compose [of Bash example_params]
  by (simp add: docker_lines_def [of "_\<lparr>dp_format := Compose, dp_hostname := _, dp_hostPlatform := _\<rparr>"] compose_env_of
        compose_env_lines_def line_if_def example_params_eq)

text \<open>Reconnecting a worker from its stale-image badge: the command has the worker's host name, slots and
  platform; a paused worker is started with no slot at all.\<close>
theorem reinstall_keeps_worker:
  "(let p = docker_params_of (mount_connect h si ver (Some (reinstall_preset c))) in
     dp_hostname p = w_hostname c \<and> dp_maxJobs p = nullish (w_max_parallel_jobs c) 2
     \<and> dp_hostPlatform p = nullish (Option.bind (w_system_info c) sy_os_version) []
     \<and> dp_diskQuotaGb p = None \<and> dp_tags p = [])"
  by (simp add: docker_params_of_def mount_connect_def initial_form_def reinstall_preset_def Let_def seed_effect_def
        url_effect_def)

text \<open>Tags, names and the seed version are written into the shell commands as typed, without the quotes the
  host platform gets: a tag with a space reaches the shell as two words.\<close>
theorem tags_unquoted_in_shell:
  assumes "dp_format p \<noteq> Compose" and "dp_tags p \<noteq> []" and "dp_hostPlatform p \<noteq> []"
  shows "cont_line p (''  -e WORKER_TAGS='' @ dp_tags p) \<in> set (docker_lines p)
    \<and> cont_line p (''  -e HOST_PLATFORM='' @ json_quote (dp_hostPlatform p)) \<in> set (docker_lines p)"
  using assms by (simp add: docker_lines_def run_lines_def run_args_def line_if_def)

lemma tags_unquoted_witness:
  "''  -e WORKER_TAGS=living room '' @ [CHR 0x5C]
     \<in> set (docker_lines (example_params\<lparr>dp_tags := ''living room'', dp_hostPlatform := ''Mac'', dp_format := Bash\<rparr>))"
  using tags_unquoted_in_shell [of "example_params\<lparr>dp_tags := ''living room'', dp_hostPlatform := ''Mac'', dp_format := Bash\<rparr>"]
  by (simp add: cont_line_def run_cont_def)

end
