(* ===== verification/Settings_Drawer.thy ===== *)
theory Settings_Drawer
  imports Small_Dialogs Worker_Dialogs
begin

text \<open>
  The settings drawer (\<open>components/SettingsDrawer.tsx\<close>): the rows with their drafts, the table of rows with the
  bounds the interface states, saving on change, and the question asked before auto-commit is turned on while files
  are uncommitted; with a mirror of the server's validators (\<open>settings.py\<close>). The settings are the JSON object the
  server returned. A row of text or numbers is a draft, a focus flag and the value given to it; the locale
  \<open>round_trip_row\<close> is what makes such a row harmless: what it shows for a value reads back as that value.
  Numbers are rationals; a number field holds a decimal numeral or nothing.
\<close>

section \<open>Reading numbers\<close>

definition split_frac :: "string \<Rightarrow> string \<times> string option" where
  "split_frac u =
    (case dropWhile is_digit u of
       c # r \<Rightarrow> if c = CHR ''.'' then (takeWhile is_digit u, Some r) else (u, None)
     | [] \<Rightarrow> (u, None))"

definition unsigned_decimal :: "string \<Rightarrow> rat option" where
  "unsigned_decimal u =
    (let (i, f) = split_frac u; fd = nullish f [] in
     if list_all is_digit i \<and> list_all is_digit fd \<and> i @ fd \<noteq> []
       then Some (of_nat (digits_val i) + of_nat (digits_val fd) / 10 ^ length fd)
     else None)"

text \<open>\<open>Number(s)\<close> on the texts a number field can hold, exponents aside; \<^const>\<open>None\<close> is \<open>NaN\<close>.\<close>

definition js_Number :: "string \<Rightarrow> rat option" where
  "js_Number s =
    (case trim s of
       [] \<Rightarrow> Some 0
     | c # u \<Rightarrow> if c = CHR ''-'' then map_option uminus (unsigned_decimal u)
                else if c = CHR ''+'' then unsigned_decimal u
                else unsigned_decimal (c # u))"

section \<open>A row with a draft\<close>

record 'v draft_row =
  row_draft :: string
  row_focused :: bool
  row_value :: 'v
  row_calls :: "'v list"

datatype 'v row_event = RowFocus | RowType string | RowBlur | RowValue 'v | RowAnswer nat bool

datatype 'v row_out = RowToast string | RowCommit 'v

text \<open>The effect on \<open>[value, focused]\<close>.\<close>

definition row_effect :: "('v \<Rightarrow> string) \<Rightarrow> 'v draft_row \<Rightarrow> 'v draft_row" where
  "row_effect shown r = (if row_focused r then r else r\<lparr>row_draft := shown (row_value r)\<rparr>)"

definition mount_row :: "('v \<Rightarrow> string) \<Rightarrow> 'v \<Rightarrow> 'v draft_row" where
  "mount_row shown v = \<lparr>row_draft = shown v, row_focused = False, row_value = v, row_calls = []\<rparr>"

text \<open>
  \<open>commit\<close>: \<open>check\<close> gives the text of the complaint or the value read from the draft. Each call remembers the value
  the row had when it was made; a refused call puts that value back into the draft.
\<close>

definition row_commit :: "('v \<Rightarrow> string) \<Rightarrow> (string \<Rightarrow> string + 'v) \<Rightarrow> 'v draft_row \<Rightarrow> 'v draft_row \<times> 'v row_out option" where
  "row_commit shown check r =
    (let r1 = r\<lparr>row_focused := False\<rparr> in
     case check (row_draft r) of
       Inl complaint \<Rightarrow> (r1\<lparr>row_draft := shown (row_value r)\<rparr>, Some (RowToast complaint))
     | Inr n \<Rightarrow> if n = row_value r then (r1, None)
               else (r1\<lparr>row_calls := row_calls r @ [row_value r]\<rparr>, Some (RowCommit n)))"

fun row_step :: "('v \<Rightarrow> string) \<Rightarrow> (string \<Rightarrow> string + 'v) \<Rightarrow> 'v row_event \<Rightarrow> 'v draft_row \<Rightarrow> 'v draft_row \<times> 'v row_out option" where
  "row_step shown check RowFocus r = (r\<lparr>row_focused := True\<rparr>, None)"
| "row_step shown check (RowType s) r = (if row_focused r then r\<lparr>row_draft := s\<rparr> else r, None)"
| "row_step shown check RowBlur r =
     (if row_focused r then apfst (row_effect shown) (row_commit shown check r) else (r, None))"
| "row_step shown check (RowValue v) r =
     (if v = row_value r then r else row_effect shown (r\<lparr>row_value := v\<rparr>), None)"
| "row_step shown check (RowAnswer i ok) r =
     (if \<not> ok \<and> i < length (row_calls r) then r\<lparr>row_draft := shown (row_calls r ! i)\<rparr> else r, None)"

fun row_run :: "('v \<Rightarrow> string) \<Rightarrow> (string \<Rightarrow> string + 'v) \<Rightarrow> 'v row_event list \<Rightarrow> 'v draft_row \<Rightarrow> 'v draft_row \<times> 'v row_out list" where
  "row_run shown check [] r = (r, [])"
| "row_run shown check (e # es) r =
     (case row_step shown check e r of (r1, out) \<Rightarrow> case row_run shown check es r1 of (r2, outs) \<Rightarrow>
        (r2, (case out of None \<Rightarrow> outs | Some x \<Rightarrow> x # outs)))"

section \<open>The three kinds of draft\<close>

record numeric_row =
  nr_key :: string
  nr_label :: string
  nr_min :: rat
  nr_max :: rat
  nr_integer :: bool
  nr_default :: rat
  nr_scale :: rat

definition is_integer :: "rat \<Rightarrow> bool" where
  "is_integer q \<longleftrightarrow> of_int \<lfloor>q\<rfloor> = q"

definition numeric_valid :: "numeric_row \<Rightarrow> rat \<Rightarrow> bool" where
  "numeric_valid r n \<longleftrightarrow> (\<not> nr_integer r \<or> is_integer n) \<and> nr_min r \<le> n \<and> n \<le> nr_max r"

definition numeric_check :: "numeric_row \<Rightarrow> string \<Rightarrow> string + rat" where
  "numeric_check r draft =
    (let complaint = nr_label r @ '' must be '' @ (if nr_integer r then ''an integer'' else ''a number'')
           @ '' between '' @ num_text (nr_min r) @ '' and '' @ num_text (nr_max r)
     in case js_Number draft of
          None \<Rightarrow> Inl complaint
        | Some n \<Rightarrow> if numeric_valid r n then Inr n else Inl complaint)"

definition numeric_hint :: "numeric_row \<Rightarrow> string" where
  "numeric_hint r =
    ''('' @ join_with '', '' [''default '' @ num_text (nr_default r), ''min '' @ num_text (nr_min r),
      ''max '' @ num_text (nr_max r)] @ '')''"

definition secret_check :: "string \<Rightarrow> string \<Rightarrow> string + string" where
  "secret_check label draft =
    (let trimmed = trim draft in
     if trimmed = [] then Inl (label @ '' must not be empty'')
     else if list_ex is_ws trimmed then Inl (label @ '' must not contain whitespace'')
     else Inr trimmed)"

definition string_check :: "string \<Rightarrow> nat \<Rightarrow> string \<Rightarrow> string + string" where
  "string_check label maxLength draft =
    (let trimmed = trim draft in
     if trimmed = [] then Inl (label @ '' must not be empty'')
     else if maxLength < length trimmed then Inl (label @ '' must be '' @ show_nat maxLength @ '' characters or fewer'')
     else Inr trimmed)"

text \<open>\<open>EnumRow\<close>: a choice is sent when it differs from the value.\<close>

definition enum_choice :: "string \<Rightarrow> string \<Rightarrow> string option" where
  "enum_choice value chosen = (if chosen \<noteq> value then Some chosen else None)"

section \<open>The rows of the drawer\<close>

definition int_row :: "string \<Rightarrow> string \<Rightarrow> rat \<Rightarrow> rat \<Rightarrow> rat \<Rightarrow> numeric_row" where
  "int_row key label lo hi dflt =
    \<lparr>nr_key = key, nr_label = label, nr_min = lo, nr_max = hi, nr_integer = True, nr_default = dflt, nr_scale = 1\<rparr>"

text \<open>\<open>nr_scale\<close> is the factor between what the row shows and what the setting holds.\<close>

definition numeric_rows :: "numeric_row list" where
  "numeric_rows =
    [int_row ''job_history_retention_days'' ''Retention (days)'' 0 3650 365,
     \<lparr>nr_key = ''firmware_cache_max_gb'', nr_label = ''Firmware cache size (GB)'', nr_min = 1 / 10, nr_max = 1024,
      nr_integer = False, nr_default = 2, nr_scale = 1\<rparr>,
     int_row ''firmware_retention_days'' ''Firmware retention (days)'' 0 3650 2,
     int_row ''job_log_retention_days'' ''Job log retention (days)'' 0 3650 30,
     (int_row ''default_worker_disk_quota_bytes'' (''Worker disk quota '' @ em_dash @ '' fleet default (GiB)'') 1 1024 10)
       \<lparr>nr_scale := 1024 ^ 3\<rparr>,
     int_row ''job_timeout'' ''Job timeout (seconds)'' 60 14400 600,
     int_row ''ota_timeout'' ''OTA timeout (seconds)'' 15 1800 120,
     int_row ''worker_offline_threshold'' ''Worker offline threshold (seconds)'' 15 3600 30,
     int_row ''device_poll_interval'' ''Device poll interval (seconds)'' 10 3600 60]"

text \<open>The value a row is given for a stored number, and the number it sends.\<close>

definition row_shows :: "numeric_row \<Rightarrow> rat \<Rightarrow> rat" where
  "row_shows r stored = (if nr_scale r = 1 then stored else of_int (js_round (stored / nr_scale r)))"

definition row_sends :: "numeric_row \<Rightarrow> rat \<Rightarrow> rat" where
  "row_sends r n = n * nr_scale r"

definition enum_rows :: "(string \<times> string list) list" where
  "enum_rows =
    [(''time_format'', [''auto'', ''24h'', ''12h'']),
     (''date_format'', [''auto'', ''iso'', ''us'', ''eu'', ''long'']),
     (''language'', [''auto'', ''en'', ''de'']),
     (''font_size'', [''small'', ''normal'', ''large'']),
     (''accent_color'', map fst ACCENT_COLORS)]"

definition string_rows :: "(string \<times> string \<times> nat) list" where
  "string_rows = [(''git_author_name'', ''Commit author name'', 100), (''git_author_email'', ''Commit author email'', 256)]"

definition bool_rows :: "string list" where
  "bool_rows = [''versioning_enabled'', ''auto_commit_on_save'', ''require_ha_auth'']"

text \<open>What a switch sends.\<close>

definition bool_patch :: "string \<Rightarrow> bool \<Rightarrow> (string \<times> json) list" where
  "bool_patch key v =
    (if key = ''versioning_enabled'' then [(key, JStr (if v then ''on'' else ''off''))] else [(key, JBool v)])"

section \<open>The server's validators\<close>

datatype py_validator =
    VBool
  | VInt int int "int option"
  | VFloat rat rat
  | VStr nat
  | VToken
  | VEnum "string list"

definition py_VALIDATORS :: "(string \<times> py_validator) list" where
  "py_VALIDATORS =
    [(''versioning_enabled'', VEnum [''on'', ''off'', ''unset'']),
     (''auto_commit_on_save'', VBool),
     (''git_author_name'', VStr 100),
     (''git_author_email'', VStr 256),
     (''job_history_retention_days'', VInt 0 3650 None),
     (''firmware_cache_max_gb'', VFloat (1 / 10) 1024),
     (''firmware_retention_days'', VInt 0 3650 None),
     (''job_log_retention_days'', VInt 0 3650 None),
     (''server_token'', VToken),
     (''job_timeout'', VInt 60 14400 None),
     (''ota_timeout'', VInt 15 1800 None),
     (''worker_offline_threshold'', VInt 15 3600 None),
     (''device_poll_interval'', VInt 10 3600 None),
     (''device_native_api_poll'', VBool),
     (''require_ha_auth'', VBool),
     (''time_format'', VEnum [''auto'', ''12h'', ''24h'']),
     (''date_format'', VEnum [''auto'', ''iso'', ''us'', ''eu'', ''long'']),
     (''language'', VEnum [''auto'', ''en'', ''de'']),
     (''font_size'', VEnum [''small'', ''normal'', ''large'']),
     (''accent_color'', VEnum [''indigo'', ''blue'', ''teal'', ''green'', ''amber'', ''orange'', ''rose'', ''violet'']),
     (''default_worker_disk_quota_bytes'', VInt (1024 ^ 3) (1024 * 1024 ^ 3) (Some (1024 ^ 3)))]"

definition py_int_trunc :: "rat \<Rightarrow> int" where
  "py_int_trunc q = (if q < 0 then - \<lfloor>- q\<rfloor> else \<lfloor>q\<rfloor>)"

text \<open>
  The stored value, or a refusal, for the kinds of JSON value the drawer sends: booleans, numbers and texts
  (the server also reads booleans and numbers out of texts).
\<close>

definition py_check_str :: "nat option \<Rightarrow> bool \<Rightarrow> string \<Rightarrow> json option" where
  "py_check_str maxLength no_space s =
    (let stripped = trim s in
     if stripped = [] then None
     else if (case maxLength of None \<Rightarrow> False | Some m \<Rightarrow> m < length stripped) then None
     else if no_space \<and> list_ex is_ws stripped then None
     else Some (JStr stripped))"

fun py_validate :: "py_validator \<Rightarrow> json \<Rightarrow> json option" where
  "py_validate VBool (JBool b) = Some (JBool b)"
| "py_validate (VInt lo hi mult) (JNum q) =
     (let coerced = py_int_trunc q in
      if coerced < lo \<or> hi < coerced then None
      else if (case mult of None \<Rightarrow> False | Some m \<Rightarrow> coerced mod m \<noteq> 0) then None
      else Some (JNum (of_int coerced)))"
| "py_validate (VFloat lo hi) (JNum q) = (if q < lo \<or> hi < q then None else Some (JNum q))"
| "py_validate (VStr m) (JStr s) = py_check_str (Some m) False s"
| "py_validate VToken (JStr s) = py_check_str (Some 512) True s"
| "py_validate (VEnum allowed) (JStr s) = (if s \<in> set allowed then Some (JStr s) else None)"
| "py_validate _ _ = None"

definition py_setting :: "string \<Rightarrow> json \<Rightarrow> json option" where
  "py_setting key v = Option.bind (map_of py_VALIDATORS key) (\<lambda>k. py_validate k v)"

section \<open>The drawer\<close>

record drawer =
  sd_data :: "json option"
  sd_turnOnOpen :: bool
  sd_turnOnBusy :: bool
  sd_advanced :: bool

definition setting :: "drawer \<Rightarrow> string \<Rightarrow> json option" where
  "setting d key = (case sd_data d of Some (JObj fs) \<Rightarrow> map_of fs key | _ \<Rightarrow> None)"

text \<open>The value the drawer has of a switch.\<close>

definition bool_value :: "drawer \<Rightarrow> string \<Rightarrow> bool" where
  "bool_value d key =
    (if key = ''versioning_enabled'' then setting d key = Some (JStr ''on'') else js_truthy (setting d key))"

definition sub_settings_dimmed :: "drawer \<Rightarrow> bool" where
  "sub_settings_dimmed d \<longleftrightarrow> setting d ''versioning_enabled'' \<noteq> Some (JStr ''on'')"

definition accent_value :: "drawer \<Rightarrow> string" where
  "accent_value d = (case setting d ''accent_color'' of Some (JStr s) \<Rightarrow> s | _ \<Rightarrow> DEFAULT_ACCENT)"

text \<open>\<open>dirtyTargets\<close>, as the shell passes it.\<close>

definition dirty_files :: "target list \<Rightarrow> string list" where
  "dirty_files targets = map t_target (filter (\<lambda>t. truthy_bool (t_has_uncommitted_changes t)) targets)"

definition patch :: "string list \<Rightarrow> (string \<times> json) list \<Rightarrow> drawer \<times> app \<Rightarrow> bool \<times> drawer \<times> app" where
  "patch dirty partial = (\<lambda>(d, a).
    if map_of partial ''auto_commit_on_save'' = Some (JBool True) \<and> setting d ''auto_commit_on_save'' = Some (JBool False)
       \<and> dirty \<noteq> []
      then (False, d\<lparr>sd_turnOnOpen := True\<rparr>, a)
    else case updateSettings (JObj partial) (ap_client a) of
      (Inr updated, c) \<Rightarrow> (True, d\<lparr>sd_data := Some updated\<rparr>, success ''Setting saved'' (a\<lparr>ap_client := c\<rparr>))
    | (Inl e, c) \<Rightarrow> (False, d, mutate ''settings'' (fail_with [] e (a\<lparr>ap_client := c\<rparr>))))"

definition turn_on :: "json api" where
  "turn_on = updateSettings (JObj [(''auto_commit_on_save'', JBool True)])"

text \<open>Both buttons are disabled while a run is busy; its end clears the flag.\<close>

definition turn_on_anyway :: "drawer \<times> app \<Rightarrow> drawer \<times> app" where
  "turn_on_anyway = (\<lambda>(d, a).
    if sd_turnOnBusy d then (d, a)
    else case turn_on (ap_client a) of
      (Inr updated, c) \<Rightarrow>
        (d\<lparr>sd_data := Some updated, sd_turnOnOpen := False\<rparr>,
         success ''Auto-commit turned on; existing uncommitted changes left in place'' (a\<lparr>ap_client := c\<rparr>))
    | (Inl e, c) \<Rightarrow> (d, fail_with ''Failed to update setting: '' e (a\<lparr>ap_client := c\<rparr>)))"

text \<open>One commit per file; a refused one counts as not committed.\<close>

definition commit_outcome :: "string \<Rightarrow> json api" where
  "commit_outcome t c =
    (case commitFile t None c of
       (Inl e, c1) \<Rightarrow> (Inr (JObj [(''committed'', JBool False)]), c1)
     | (Inr j, c1) \<Rightarrow> (Inr j, c1))"

fun commit_each :: "string list \<Rightarrow> json list api" where
  "commit_each [] = api_return []"
| "commit_each (t # ts) = api_bind (commit_outcome t) (\<lambda>j. api_bind (commit_each ts) (\<lambda>js. api_return (j # js)))"

fun count_committed :: "json list \<Rightarrow> nat api" where
  "count_committed [] = api_return 0"
| "count_committed (j # js) =
     api_bind (js_field j ''committed'') (\<lambda>v. api_bind (count_committed js)
       (\<lambda>n. api_return (if js_truthy v then Suc n else n)))"

definition flush_toast :: "nat \<Rightarrow> nat \<Rightarrow> toast" where
  "flush_toast committed failed =
    (if failed = 0 then Toast SuccessToast (''Committed '' @ show_nat committed @ '' file'' @ plural committed)
     else if 0 < committed then Toast InfoToast (''Committed '' @ show_nat committed @ '', '' @ show_nat failed @ '' failed'')
     else Toast ErrToast ''No files committed'')"

definition flush :: "string list \<Rightarrow> toast api" where
  "flush files = api_bind (commit_each files) (\<lambda>js. api_bind (count_committed js)
     (\<lambda>committed. api_return (flush_toast committed (length js - committed))))"

definition commit_and_turn_on :: "string list \<Rightarrow> drawer \<times> app \<Rightarrow> drawer \<times> app" where
  "commit_and_turn_on dirty = (\<lambda>(d, a).
    if sd_turnOnBusy d then (d, a)
    else case flush dirty (ap_client a) of
      (Inl e, c) \<Rightarrow> (d, fail_with ''Failed: '' e (a\<lparr>ap_client := c\<rparr>))
    | (Inr t, c) \<Rightarrow>
       (let a1 = addToast t (a\<lparr>ap_client := c\<rparr>) in
        case turn_on (ap_client a1) of
          (Inr updated, c2) \<Rightarrow> (d\<lparr>sd_data := Some updated, sd_turnOnOpen := False\<rparr>, a1\<lparr>ap_client := c2\<rparr>)
        | (Inl e, c2) \<Rightarrow> (d, fail_with ''Failed: '' e (a1\<lparr>ap_client := c2\<rparr>))))"

definition close_turn_on :: "drawer \<Rightarrow> drawer" where
  "close_turn_on d = (if sd_turnOnBusy d then d else d\<lparr>sd_turnOnOpen := False\<rparr>)"

text \<open>The files the question names, and the remark about the others.\<close>

definition turn_on_listing :: "string list \<Rightarrow> string list \<times> nat option" where
  "turn_on_listing dirty =
    (take 8 dirty, if 8 < length dirty then Some (length dirty - 8) else None)"

text \<open>A numeric row of the drawer: the value it is given, and what a commit of it does.\<close>

definition numeric_value :: "drawer \<Rightarrow> numeric_row \<Rightarrow> rat option" where
  "numeric_value d r = (case setting d (nr_key r) of Some (JNum q) \<Rightarrow> Some (row_shows r q) | _ \<Rightarrow> None)"

definition numeric_patch :: "numeric_row \<Rightarrow> rat \<Rightarrow> (string \<times> json) list" where
  "numeric_patch r n = [(nr_key r, JNum (row_sends r n))]"

section \<open>Rows that send nothing when left alone\<close>

text \<open>
  What a row needs of its two functions, for the values \<open>ok\<close> it can be given: what it shows reads back as the
  value itself.
\<close>

locale round_trip_row =
  fixes shown :: "'v \<Rightarrow> string" and check :: "string \<Rightarrow> string + 'v" and ok :: "'v \<Rightarrow> bool"
  assumes reads_back: "ok v \<Longrightarrow> check (shown v) = Inr v"
begin

text \<open>An unfocused row shows its value.\<close>

definition settled :: "'v draft_row \<Rightarrow> bool" where
  "settled r \<longleftrightarrow> row_focused r \<or> row_draft r = shown (row_value r)"

lemma effect_settles: "settled (row_effect shown r)"
  by (simp add: settled_def row_effect_def)

text \<open>Every step settles the row but a refusal, which may bring back a value that is no longer the row's.\<close>

lemma step_settled:
  "settled r \<Longrightarrow> (\<And>i. e \<noteq> RowAnswer i False) \<Longrightarrow> settled (fst (row_step shown check e r))"
  by (cases e) (auto simp: effect_settles apfst_def map_prod_def split: prod.splits, auto simp: settled_def)

lemma run_settled:
  "settled r \<Longrightarrow> (\<forall>i. RowAnswer i False \<notin> set es) \<Longrightarrow> settled (fst (row_run shown check es r))"
proof (induction es arbitrary: r)
  case (Cons e es)
  have "settled (fst (row_step shown check e r))" using Cons.prems by (intro step_settled) auto
  with Cons.IH [of "fst (row_step shown check e r)"] Cons.prems(2) show ?case by (simp split: prod.splits) (metis fst_conv)
qed simp

lemma untouched_sends_nothing:
  assumes "settled r" "\<not> row_focused r" "ok (row_value r)"
  shows "row_run shown check [RowFocus, RowBlur] r = (r, [])"
  using assms by (simp add: settled_def row_commit_def reads_back row_effect_def)

lemma typed_value_sent:
  assumes "check s = Inr v" and "v \<noteq> row_value r"
  shows "snd (row_run shown check [RowFocus, RowType s, RowBlur] r) = [RowCommit v]"
  using assms by (simp add: row_commit_def)

text \<open>A refusal that comes late replaces what is being typed by the value of the time of the call.\<close>

lemma late_refusal_overwrites:
  assumes "check s = Inr v" and "v \<noteq> row_value r" and "row_calls r = []"
  shows "row_focused (fst (row_run shown check [RowFocus, RowType s, RowBlur, RowFocus, RowType s', RowAnswer 0 False] r))
    \<and> row_draft (fst (row_run shown check [RowFocus, RowType s, RowBlur, RowFocus, RowType s', RowAnswer 0 False] r))
        = shown (row_value r)"
  using assms by (simp add: row_commit_def row_effect_def)

text \<open>Once the new value arrives, the row shows it, and a further focus sends nothing.\<close>

lemma commit_then_value:
  assumes "check s = Inr v" and "ok v" and "v \<noteq> row_value r" and "i = length (row_calls r)"
  shows "row_run shown check [RowFocus, RowType s, RowBlur, RowValue v, RowAnswer i True, RowFocus, RowBlur] r
    = (r\<lparr>row_draft := shown v, row_focused := False, row_value := v, row_calls := row_calls r @ [row_value r]\<rparr>,
       [RowCommit v])"
  using assms by (simp add: row_commit_def reads_back row_effect_def)

end

subsection \<open>Numbers read back\<close>

lemma digits_val_append: "digits_val (a @ b) = digits_val a * 10 ^ length b + digits_val b"
proof (induction b rule: rev_induct)
  case (snoc c b)
  then show ?case by (simp add: digits_val_def algebra_simps flip: append_assoc)
qed (simp add: digits_val_def)

lemma takeWhile_digits: "\<forall>c \<in> set u. is_digit c \<Longrightarrow> takeWhile is_digit (u @ CHR ''.'' # f) = u \<and> dropWhile is_digit (u @ CHR ''.'' # f) = CHR ''.'' # f"
  by (induction u) (simp_all add: is_digit_def)

lemma unsigned_point:
  assumes "\<forall>c \<in> set i. is_digit c" "\<forall>c \<in> set f. is_digit c" "i \<noteq> []"
  shows "unsigned_decimal (i @ CHR ''.'' # f) = Some (of_nat (digits_val (i @ f)) / 10 ^ length f)"
  using assms takeWhile_digits [OF assms(1), of f]
  by (simp add: unsigned_decimal_def split_frac_def Let_def nullish_def list_all_iff digits_val_append field_simps)

lemma unsigned_whole:
  assumes "\<forall>c \<in> set i. is_digit c" "i \<noteq> []"
  shows "unsigned_decimal i = Some (of_nat (digits_val i))"
proof -
  have "dropWhile is_digit i = []" using assms(1) by (simp add: dropWhile_eq_Nil_conv)
  then have "split_frac i = (i, None)" by (simp add: split_frac_def del: dropWhile_eq_Nil_conv)
  then show ?thesis using assms by (simp add: unsigned_decimal_def nullish_def list_all_iff)
qed

lemma dec_places_exact: "is_integer (x * 10 ^ n) \<Longrightarrow> is_integer (x * 10 ^ dec_places n x)"
proof (induction n arbitrary: x)
  case (Suc n)
  have "is_integer ((10 * x) * 10 ^ n)" using Suc.prems by (simp add: algebra_simps)
  from Suc.IH [OF this] show ?case by (auto simp: is_integer_def algebra_simps)
qed simp

lemma js_Number_digit:
  assumes "u \<noteq> []" "is_digit (hd u)" "\<forall>c \<in> set u. is_digit c \<or> c = CHR ''.''"
  shows "js_Number u = unsigned_decimal u"
proof -
  obtain c v where u: "u = c # v" using assms(1) by (cases u) auto
  have "trim u = u" using assms(3) digit_not_special by (intro trim_no_ws) (auto simp: is_ws_def)
  moreover have "c \<noteq> CHR ''-''" "c \<noteq> CHR ''+''" using assms(2) digit_not_special u by auto
  ultimately show ?thesis using u by (simp add: js_Number_def)
qed

lemma js_Number_fixed:
  "js_Number (fixed_digits k m) = Some (of_nat m / 10 ^ k)"
proof -
  define ds where "ds = pad_start (Suc k) (CHR ''0'') (show_nat m)"
  have digits: "\<forall>c \<in> set ds. is_digit c"
    using show_nat_digitD by (auto simp: ds_def pad_start_def is_digit_def [of "CHR ''0''"])
  have len: "k < length ds" by (simp add: ds_def pad_start_def)
  from len have ne: "ds \<noteq> []" by (cases ds) simp_all
  have val: "digits_val ds = m"
    using digits_val_show_nat [of m] by (simp add: ds_def pad_start_def digits_val_def)
  show ?thesis
  proof (cases "k = 0")
    case True
    then have "fixed_digits k m = ds" by (simp add: fixed_digits_def ds_def Let_def)
    moreover have "js_Number ds = unsigned_decimal ds"
      using digits hd_in_set [OF ne] ne by (intro js_Number_digit) auto
    ultimately show ?thesis using unsigned_whole [OF digits] len True val by auto
  next
    case False
    let ?i = "take (length ds - k) ds" and ?f = "drop (length ds - k) ds"
    have i: "?i \<noteq> []" using len ne by simp
    have di: "\<forall>c \<in> set ?i. is_digit c" and df: "\<forall>c \<in> set ?f. is_digit c"
      using digits by (auto dest: in_set_takeD in_set_dropD)
    have eq: "fixed_digits k m = ?i @ CHR ''.'' # ?f" using False by (simp add: fixed_digits_def ds_def Let_def)
    have "js_Number (?i @ CHR ''.'' # ?f) = unsigned_decimal (?i @ CHR ''.'' # ?f)"
      using i di df hd_in_set [OF i] by (intro js_Number_digit) auto
    then show ?thesis
      using unsigned_point [OF di df i] len val by (simp add: eq)
  qed
qed

lemma js_Number_num_text:
  assumes "0 \<le> x" and "is_integer (x * 10 ^ 17)"
  shows "js_Number (num_text x) = Some x"
proof -
  let ?k = "dec_places 17 x"
  let ?n = "\<lfloor>x * 10 ^ ?k\<rfloor>"
  have int: "of_int ?n = x * 10 ^ ?k"
    using dec_places_exact [OF assms(2)] unfolding is_integer_def .
  have "js_round (x * 10 ^ ?k) = js_round (of_int ?n)" by (simp only: int)
  then have shown: "num_text x = fixed_digits ?k (nat ?n)"
    using assms(1) by (simp only: num_text_def to_fixed_def js_round_int not_less [symmetric] if_False)
  have "0 \<le> ?n" using assms(1) by simp
  then have "rat_of_nat (nat ?n) = x * 10 ^ ?k" by (simp only: of_nat_nat int)
  then show ?thesis by (simp only: shown js_Number_fixed) simp
qed

section \<open>The rows of the drawer round-trip\<close>

text \<open>The numbers a numeric row can be given: valid ones with at most seventeen decimals.\<close>

definition row_number :: "numeric_row \<Rightarrow> rat \<Rightarrow> bool" where
  "row_number r v \<longleftrightarrow> numeric_valid r v \<and> 0 \<le> v \<and> is_integer (v * 10 ^ 17)"

interpretation numeric: round_trip_row num_text "numeric_check r" "row_number r" for r
  by unfold_locales (simp add: row_number_def numeric_check_def js_Number_num_text Let_def)

definition trimmed_text :: "nat \<Rightarrow> string \<Rightarrow> bool" where
  "trimmed_text m s \<longleftrightarrow> trim s = s \<and> s \<noteq> [] \<and> length s \<le> m"

interpretation text_row: round_trip_row id "string_check label m" "trimmed_text m" for label m
  by unfold_locales (auto simp: trimmed_text_def string_check_def)

definition token_text :: "string \<Rightarrow> bool" where
  "token_text s \<longleftrightarrow> s \<noteq> [] \<and> (\<forall>c \<in> set s. \<not> is_ws c)"

interpretation secret_row: round_trip_row id "secret_check label" token_text for label
  by unfold_locales (auto simp: token_text_def secret_check_def trim_no_ws list_ex_iff)

section \<open>Properties\<close>

lemma whole_scaled: "is_integer n \<Longrightarrow> py_int_trunc (n * of_int m) = \<lfloor>n\<rfloor> * m"
proof -
  assume "is_integer n"
  then have n: "n = of_int \<lfloor>n\<rfloor>" unfolding is_integer_def by (rule sym)
  then have eq: "n * of_int m = of_int (\<lfloor>n\<rfloor> * m)" by (metis of_int_mult)
  have "py_int_trunc (of_int z) = z" for z by (simp add: py_int_trunc_def)
  then show ?thesis unfolding eq .
qed

lemma integer_bounds:
  "is_integer n \<Longrightarrow> (of_int lo \<le> n \<longleftrightarrow> lo \<le> \<lfloor>n\<rfloor>) \<and> (n \<le> of_int hi \<longleftrightarrow> \<lfloor>n\<rfloor> \<le> hi)"
  unfolding is_integer_def by (metis le_floor_iff of_int_le_iff)

lemma validators:
  "map_of py_VALIDATORS ''job_history_retention_days'' = Some (VInt 0 3650 None)"
  "map_of py_VALIDATORS ''firmware_cache_max_gb'' = Some (VFloat (1 / 10) 1024)"
  "map_of py_VALIDATORS ''firmware_retention_days'' = Some (VInt 0 3650 None)"
  "map_of py_VALIDATORS ''job_log_retention_days'' = Some (VInt 0 3650 None)"
  "map_of py_VALIDATORS ''default_worker_disk_quota_bytes'' = Some (VInt (1024 ^ 3) (1024 * 1024 ^ 3) (Some (1024 ^ 3)))"
  "map_of py_VALIDATORS ''job_timeout'' = Some (VInt 60 14400 None)"
  "map_of py_VALIDATORS ''ota_timeout'' = Some (VInt 15 1800 None)"
  "map_of py_VALIDATORS ''worker_offline_threshold'' = Some (VInt 15 3600 None)"
  "map_of py_VALIDATORS ''device_poll_interval'' = Some (VInt 10 3600 None)"
  "map_of py_VALIDATORS ''time_format'' = Some (VEnum [''auto'', ''12h'', ''24h''])"
  "map_of py_VALIDATORS ''date_format'' = Some (VEnum [''auto'', ''iso'', ''us'', ''eu'', ''long''])"
  "map_of py_VALIDATORS ''language'' = Some (VEnum [''auto'', ''en'', ''de''])"
  "map_of py_VALIDATORS ''font_size'' = Some (VEnum [''small'', ''normal'', ''large''])"
  "map_of py_VALIDATORS ''accent_color'' = Some (VEnum (map fst ACCENT_COLORS))"
  "map_of py_VALIDATORS ''git_author_name'' = Some (VStr 100)"
  "map_of py_VALIDATORS ''git_author_email'' = Some (VStr 256)"
  "map_of py_VALIDATORS ''server_token'' = Some VToken"
  by (simp_all add: py_VALIDATORS_def ACCENT_COLORS_def)

lemma int_row_accepted:
  assumes "map_of py_VALIDATORS key = Some (VInt lo hi None)" "is_integer n"
  shows "numeric_valid (int_row key l (of_int lo) (of_int hi) d) n
    \<longleftrightarrow> py_setting key (JNum (row_sends (int_row key l (of_int lo) (of_int hi) d) n)) \<noteq> None"
  using assms whole_scaled [of n 1] integer_bounds [of n lo hi]
  by (auto simp: py_setting_def numeric_valid_def row_sends_def int_row_def Let_def)

lemma quota_row_accepted:
  assumes "is_integer n"
  shows "py_setting ''default_worker_disk_quota_bytes'' (JNum (n * 1024 ^ 3)) \<noteq> None \<longleftrightarrow> 1 \<le> n \<and> n \<le> 1024"
proof -
  have "py_int_trunc (n * 1024 ^ 3) = \<lfloor>n\<rfloor> * 1024 ^ 3" using whole_scaled [OF assms, of "1024 ^ 3"] by simp
  moreover have "1 \<le> n \<longleftrightarrow> 1 \<le> \<lfloor>n\<rfloor>" "n \<le> 1024 \<longleftrightarrow> \<lfloor>n\<rfloor> \<le> 1024"
    using integer_bounds [OF assms, of 1 1024] by simp_all
  ultimately show ?thesis by (auto simp: py_setting_def validators Let_def)
qed

lemma all_row_bounds:
  assumes "is_integer n"
  shows "list_all (\<lambda>r. nr_integer r \<longrightarrow> (numeric_valid r n \<longleftrightarrow> py_setting (nr_key r) (JNum (row_sends r n)) \<noteq> None)) numeric_rows"
proof -
  have int_row_key: "nr_key (int_row k l lo hi d) = k" "nr_key (int_row k l lo hi d\<lparr>nr_scale := sc\<rparr>) = k"
    "nr_integer (int_row k l lo hi d)" "nr_integer (int_row k l lo hi d\<lparr>nr_scale := sc\<rparr>)" for k l lo hi d sc
    by (simp_all add: int_row_def)
  have quota: "numeric_valid (int_row k l 1 1024 10\<lparr>nr_scale := 1024 ^ 3\<rparr>) n \<longleftrightarrow> 1 \<le> n \<and> n \<le> 1024" for k l
    using assms by (simp add: numeric_valid_def int_row_def)
  have quota_sends: "row_sends (int_row k l 1 1024 10\<lparr>nr_scale := 1024 ^ 3\<rparr>) n = n * 1024 ^ 3" for k l
    by (simp add: row_sends_def int_row_def)
  show ?thesis
    unfolding numeric_rows_def list.pred_inject numeric_row.simps int_row_key quota quota_sends
    using int_row_accepted [OF validators(1) assms] int_row_accepted [OF validators(3) assms]
      int_row_accepted [OF validators(4) assms] int_row_accepted [OF validators(6) assms]
      int_row_accepted [OF validators(7) assms] int_row_accepted [OF validators(8) assms]
      int_row_accepted [OF validators(9) assms] quota_row_accepted [OF assms]
    by simp
qed

text \<open>C30: 
  The bounds the interface states are the server's: of the numbers a row's kind admits, it sends exactly those the
  server accepts.
\<close>

lemma row_bounds_are_servers:
  assumes "r \<in> set numeric_rows" and "nr_integer r \<longrightarrow> is_integer n"
  shows "numeric_valid r n \<longleftrightarrow> py_setting (nr_key r) (JNum (row_sends r n)) \<noteq> None"
proof (cases "nr_integer r")
  case True
  then show ?thesis using all_row_bounds [of n] assms by (auto simp: list_all_iff)
next
  case False
  then have "nr_key r = ''firmware_cache_max_gb'' \<and> nr_min r = 1 / 10 \<and> nr_max r = 1024 \<and> nr_scale r = 1"
    using assms(1) unfolding numeric_rows_def set_simps by (elim insertE) (simp_all add: int_row_def)
  with False show ?thesis
    by (simp add: numeric_valid_def row_sends_def py_setting_def validators not_less)
qed

lemma row_bounds_witness:
  "numeric_valid (int_row ''job_timeout'' ''Job timeout (seconds)'' 60 14400 600) 14400
    \<and> py_setting ''job_timeout'' (JNum 14400) \<noteq> None"
  using row_bounds_are_servers [of "int_row ''job_timeout'' ''Job timeout (seconds)'' 60 14400 600" 14400]
  by (simp add: numeric_rows_def numeric_valid_def is_integer_def int_row_def row_sends_def)

text \<open>The choices a list offers are the values the server accepts.\<close>

lemma choices_are_servers:
  "(key, options) \<in> set enum_rows \<Longrightarrow> py_setting key (JStr s) \<noteq> None \<longleftrightarrow> s \<in> set options"
proof -
  have "list_all (\<lambda>(key, options). py_setting key (JStr s) \<noteq> None \<longleftrightarrow> s \<in> set options) enum_rows"
    by (simp only: enum_rows_def list.pred_inject prod.case) (auto simp: py_setting_def validators)
  then show "(key, options) \<in> set enum_rows \<Longrightarrow> ?thesis" by (auto simp: list_all_iff)
qed

lemma choices_are_servers_witness: "py_setting ''language'' (JStr ''de'') \<noteq> None"
  using choices_are_servers [of "''language''" "[''auto'', ''en'', ''de'']" "''de''"] by (simp add: enum_rows_def)

text \<open>
  A number field emptied and left means 0: in the rows whose lower bound is 0, where 0 stands for "unlimited", that
  is sent as the new value.
\<close>

lemma emptied_row_sends_zero:
  assumes "r \<in> set numeric_rows" and "nr_min r = 0" and "v \<noteq> 0"
  shows "snd (row_run num_text (numeric_check r) [RowFocus, RowType [], RowBlur] (mount_row num_text v)) = [RowCommit 0]"
proof -
  have "numeric_check r [] = Inr 0"
    using assms(1,2)
    by (auto simp: numeric_rows_def int_row_def numeric_check_def js_Number_def numeric_valid_def is_integer_def)
  then show ?thesis
    by (rule numeric.typed_value_sent) (use assms(3) in \<open>simp add: mount_row_def\<close>)
qed

lemma emptied_row_witness:
  "snd (row_run num_text (numeric_check (int_row ''job_log_retention_days'' ''Job log retention (days)'' 0 3650 30))
     [RowFocus, RowType [], RowBlur] (mount_row num_text 30)) = [RowCommit 0]"
  by (rule emptied_row_sends_zero) (simp_all add: numeric_rows_def, simp add: int_row_def)

text \<open>C34: A number saved through a row is shown again by it, and looking at the row afterwards sends nothing.\<close>

lemma saved_number_stays:
  assumes "row_number r v" and "js_Number s = Some v" and "v \<noteq> old"
  shows "row_run num_text (numeric_check r) [RowFocus, RowType s, RowBlur, RowValue v, RowAnswer 0 True, RowFocus, RowBlur]
      (mount_row num_text old)
    = (\<lparr>row_draft = num_text v, row_focused = False, row_value = v, row_calls = [old]\<rparr>, [RowCommit v])"
proof -
  have "numeric_check r s = Inr v" using assms(1,2) by (simp add: numeric_check_def row_number_def)
  from numeric.commit_then_value [OF this assms(1), of "mount_row num_text old" 0] assms(3)
  show ?thesis by (simp only: mount_row_def draft_row.simps draft_row.update_convs) simp
qed

lemma saved_number_witness:
  "row_run num_text (numeric_check (int_row ''job_timeout'' ''Job timeout (seconds)'' 60 14400 600))
      [RowFocus, RowType ''900'', RowBlur, RowValue 900, RowAnswer 0 True, RowFocus, RowBlur] (mount_row num_text 600)
    = (\<lparr>row_draft = num_text 900, row_focused = False, row_value = 900, row_calls = [600]\<rparr>, [RowCommit 900])"
  by (rule saved_number_stays)
    (simp_all add: row_number_def numeric_valid_def int_row_def is_integer_def js_Number_def trim_def is_ws_def
      unsigned_decimal_def split_frac_def is_digit_def digits_val_def digit_val_def)

text \<open>While a refused save is on its way, a second edit of the same field is lost to it.\<close>

lemma refusal_overwrites_typing:
  "row_draft (fst (row_run num_text (numeric_check (int_row ''job_timeout'' ''Job timeout (seconds)'' 60 14400 600))
     [RowFocus, RowType ''900'', RowBlur, RowFocus, RowType ''120'', RowAnswer 0 False] (mount_row num_text 600)))
   = num_text 600"
proof -
  have "numeric_check (int_row ''job_timeout'' ''Job timeout (seconds)'' 60 14400 600) ''900'' = Inr 900"
    by (simp add: numeric_check_def numeric_valid_def int_row_def is_integer_def js_Number_def trim_def is_ws_def
      unsigned_decimal_def split_frac_def is_digit_def digits_val_def digit_val_def)
  from numeric.late_refusal_overwrites [OF this, of "mount_row num_text 600" "''120''"]
  show ?thesis by (simp add: mount_row_def)
qed

text \<open>
  Texts and tokens: what the drawer sends the server stores unchanged, except a token of more than 512 characters,
  whose length only the server checks.
\<close>

lemma string_check_result: "string_check label m draft = Inr s \<Longrightarrow> trim s = s \<and> s \<noteq> [] \<and> length s \<le> m"
  by (auto simp: string_check_def Let_def split: if_splits)

lemma secret_check_result: "secret_check label draft = Inr s \<Longrightarrow> trim s = s \<and> s \<noteq> [] \<and> \<not> list_ex is_ws s"
  by (auto simp: secret_check_def Let_def split: if_splits)

lemma drawer_text_stored:
  assumes "(key, label, m) \<in> set string_rows" and "string_check label m draft = Inr s"
  shows "py_setting key (JStr s) = Some (JStr s)"
proof -
  have "map_of py_VALIDATORS key = Some (VStr m)" using assms(1) by (auto simp: string_rows_def validators)
  then show ?thesis using string_check_result [OF assms(2)] by (simp add: py_setting_def py_check_str_def)
qed

lemma drawer_text_stored_witness: "py_setting ''git_author_name'' (JStr ''Pat'') = Some (JStr ''Pat'')"
  by (rule drawer_text_stored [of _ "''Commit author name''" 100 "''Pat ''"])
    (simp_all add: string_rows_def string_check_def trim_def is_ws_def)

lemma drawer_token_stored:
  "secret_check label draft = Inr s \<Longrightarrow>
    py_setting ''server_token'' (JStr s) = (if 512 < length s then None else Some (JStr s))"
  using secret_check_result [of label draft s] by (auto simp: py_setting_def validators py_check_str_def)

section \<open>Turning auto-commit on\<close>

text \<open>The switch alone never turns it on while files are uncommitted: it asks, and sends nothing.\<close>

lemma auto_commit_asks:
  assumes "dirty \<noteq> []" and "setting d ''auto_commit_on_save'' = Some (JBool False)"
  shows "patch dirty (bool_patch ''auto_commit_on_save'' True) (d, a) = (False, d\<lparr>sd_turnOnOpen := True\<rparr>, a)"
  using assms by (simp add: patch_def bool_patch_def)

lemma commit_outcome_ok: "\<exists>j. fst (commit_outcome t c) = Inr j"
  by (auto simp: commit_outcome_def split: prod.splits sum.splits)

definition sent_urls :: "client \<Rightarrow> string list" where
  "sent_urls c = map rq_url (cl_sent c)"

lemma json_call_url: "sent_urls (snd (json_call path opts tag c)) = sent_urls c @ [path]"
  using json_call_sends [of c path opts tag] by (auto simp: sent_urls_def sends_def)

lemma commit_outcome_url: "sent_urls (snd (commit_outcome t c)) = sent_urls c @ [file_path t ''/commit'']"
proof -
  have "snd (commit_outcome t c) = snd (commitFile t None c)"
    by (simp add: commit_outcome_def split: prod.splits sum.splits)
  then show ?thesis by (simp add: commitFile_def json_call_url)
qed

lemma commit_each_sends:
  "(\<exists>js. fst (commit_each files c) = Inr js \<and> length js = length files)
    \<and> sent_urls (snd (commit_each files c)) = sent_urls c @ map (\<lambda>t. file_path t ''/commit'') files"
proof (induction files arbitrary: c)
  case Nil
  show ?case by (simp add: api_return_def)
next
  case (Cons t ts)
  obtain j c1 where r: "commit_outcome t c = (Inr j, c1)"
    using commit_outcome_ok [of t c] by (cases "commit_outcome t c") auto
  then have "sent_urls c1 = sent_urls c @ [file_path t ''/commit'']" using commit_outcome_url [of t c] by simp
  with Cons.IH [of c1] r show ?case
    by (cases "commit_each ts c1") (auto simp: api_bind_def api_return_def)
qed

lemma js_field_silent: "\<exists>r. js_field j k c = (r, c)"
  by (cases j) (simp_all add: js_field_def api_throw_def api_return_def)

lemma count_committed_silent: "snd (count_committed js c) = c"
proof (induction js arbitrary: c)
  case (Cons j js)
  obtain r where field: "js_field j ''committed'' c = (r, c)" using js_field_silent by blast
  obtain n where rest: "count_committed js c = (n, c)" using Cons.IH [of c] by (cases "count_committed js c") simp
  show ?case by (cases r; cases n) (simp_all add: api_bind_def field rest api_return_def)
qed (simp add: api_return_def)


definition dirty_drawer :: drawer where
  "dirty_drawer = \<lparr>sd_data = Some (JObj [(''auto_commit_on_save'', JBool False)]), sd_turnOnOpen = True, sd_turnOnBusy = False,
     sd_advanced = False\<rparr>"

lemma flush_example: "fst (flush [''a.yaml''] fresh_client) = Inr (Toast ErrToast ''No files committed'')"
  by code_simp


end
