(* ===== verification/App_Shell.thy ===== *)
theory App_Shell
  imports File_History Settings_Drawer
begin

text \<open>
  The application shell (\<open>App.tsx\<close>): the windows it opens and closes and what each is given, the preferences it
  applies to the page (theme, streamer mode, language, font size, accent colour, formats), the detection of a new
  version and the handlers written in its markup. An event is a callback the shell passes to a component; the
  panel, drawer and dialogs behind the windows are the models of the other theories.
\<close>

section \<open>Preferences of the page\<close>

datatype theme = DarkTheme | LightTheme

definition theme_name :: "theme \<Rightarrow> string" where
  "theme_name t = (case t of DarkTheme \<Rightarrow> ''dark'' | LightTheme \<Rightarrow> ''light'')"

definition getInitialTheme :: "string option \<Rightarrow> theme" where
  "getInitialTheme stored =
    (if stored = Some ''light'' then LightTheme else DarkTheme)"

text \<open>What outlives the page, and the root element with the language of the translations.\<close>

record page_store =
  ls_theme :: "string option"
  ls_streamer :: "string option"

record page_root =
  doc_theme :: "string option"
  doc_streamer :: bool
  doc_fontSize :: "string option"
  doc_accent :: accent_page
  doc_language :: string
  doc_formats :: fmt_prefs

definition theme_effect :: "theme \<Rightarrow> page_root \<times> page_store \<Rightarrow> page_root \<times> page_store" where
  "theme_effect t = (\<lambda>(d, st).
    (d\<lparr>doc_theme := (if t = LightTheme then Some ''light'' else None)\<rparr>, st\<lparr>ls_theme := Some (theme_name t)\<rparr>))"

definition streamer_effect :: "bool \<Rightarrow> page_root \<times> page_store \<Rightarrow> page_root \<times> page_store" where
  "streamer_effect on = (\<lambda>(d, st).
    (d\<lparr>doc_streamer := on\<rparr>, st\<lparr>ls_streamer := Some (if on then ''true'' else ''false'')\<rparr>))"

definition initial_streamer :: "string option \<Rightarrow> bool" where
  "initial_streamer stored \<longleftrightarrow> stored = Some ''true''"

definition monacoTheme :: "theme \<Rightarrow> string" where
  "monacoTheme t = (if t = LightTheme then ''vs'' else ''vs-dark'')"

text \<open>\<open>nav\<close> is \<open>navigator.language\<close>.\<close>

definition resolveLanguage :: "string \<Rightarrow> string \<Rightarrow> string" where
  "resolveLanguage nav s =
    (if s \<noteq> ''auto'' then s else if starts_with (map to_lower_char nav) ''de'' then ''de'' else ''en'')"

text \<open>A text setting of the loaded settings.\<close>

definition text_setting :: "json option \<Rightarrow> string \<Rightarrow> string option" where
  "text_setting data key = (case data of Some (JObj fs) \<Rightarrow> (case map_of fs key of Some (JStr s) \<Rightarrow> Some s | _ \<Rightarrow> None) | _ \<Rightarrow> None)"

definition time_pref :: "string \<Rightarrow> time_format_pref" where
  "time_pref s = (if s = ''12h'' then Time12h else if s = ''24h'' then Time24h else TimeAuto)"

definition date_pref :: "string \<Rightarrow> date_format_pref" where
  "date_pref s =
    (if s = ''iso'' then DateIso else if s = ''us'' then DateUs else if s = ''eu'' then DateEu
     else if s = ''long'' then DateLong else DateAuto)"

text \<open>The effects of the loaded settings, each on its own setting.\<close>

definition formats_effect :: "json option \<Rightarrow> page_root \<Rightarrow> page_root" where
  "formats_effect data d =
    (let p = doc_formats d;
         p1 = (case text_setting data ''time_format'' of Some s \<Rightarrow> if s = [] then p else setTimeFormatPref (time_pref s) p | None \<Rightarrow> p);
         p2 = (case text_setting data ''date_format'' of Some s \<Rightarrow> if s = [] then p1 else setDateFormatPref (date_pref s) p1 | None \<Rightarrow> p1)
     in d\<lparr>doc_formats := p2\<rparr>)"

definition language_effect :: "string \<Rightarrow> json option \<Rightarrow> page_root \<Rightarrow> page_root" where
  "language_effect nav data d =
    (if truthy_str (text_setting data ''language'')
     then d\<lparr>doc_language := resolveLanguage nav (the (text_setting data ''language''))\<rparr> else d)"

definition font_effect :: "json option \<Rightarrow> page_root \<Rightarrow> page_root" where
  "font_effect data d = d\<lparr>doc_fontSize := Some (nullish (text_setting data ''font_size'') ''normal'')\<rparr>"

definition accent_effect :: "bool \<Rightarrow> json option \<Rightarrow> page_root \<Rightarrow> page_root" where
  "accent_effect writable data d =
    (if truthy_str (text_setting data ''accent_color'')
     then d\<lparr>doc_accent := applyAccentColor writable (the (text_setting data ''accent_color'')) (doc_accent d)\<rparr> else d)"

definition settings_effects :: "string \<Rightarrow> bool \<Rightarrow> json option \<Rightarrow> page_root \<Rightarrow> page_root" where
  "settings_effects nav writable data =
    accent_effect writable data \<circ> font_effect data \<circ> language_effect nav data \<circ> formats_effect data"

definition asks_versioning :: "json option \<Rightarrow> bool" where
  "asks_versioning data \<longleftrightarrow> text_setting data ''versioning_enabled'' = Some ''unset''"

section \<open>A new version\<close>

text \<open>The effect on \<open>serverInfo.addon_version\<close>.\<close>

definition version_effect :: "string option \<Rightarrow> client \<Rightarrow> client" where
  "version_effect version c =
    (if \<not> truthy_str version then c
     else let prev = getInitialAddonVersion c; c1 = setInitialAddonVersion (the version) c in
       if prev \<noteq> None \<and> version \<noteq> prev
       then c1\<lparr>cl_effects := cl_effects c1
              @ [ToastInfo (''New version detected '' @ em_dash @ '' reloading...''), ReloadAfter 1500]\<rparr>
       else c1)"

definition serverInfo_interval :: "server_info option \<Rightarrow> nat" where
  "serverInfo_interval data =
    (if Option.bind data si_esphome_install_status = Some Installing then 3000 else 30000)"

definition seedVersion :: "string option \<Rightarrow> target list \<Rightarrow> string option" where
  "seedVersion selected targets =
    (if truthy_str selected then selected else case targets of [] \<Rightarrow> None | t # _ \<Rightarrow> t_server_version t)"

definition editorVersion :: "string option \<Rightarrow> string option \<Rightarrow> string option" where
  "editorVersion selected detected = (if selected = None then detected else selected)"

section \<open>The windows\<close>

record new_device =
  nd_duplicate :: bool
  nd_source :: "string option"

record shell =
  sh_settings :: bool
  sh_history :: "string option"
  sh_historyFrom :: "string option"
  sh_compileHistory :: "string option"
  sh_editor :: "string option"
  sh_reloadNonce :: nat
  sh_commitTarget :: "string option"
  sh_commitMessage :: string
  sh_rendered :: "string option"
  sh_ping :: "string option"
  sh_install :: "string option"
  sh_jobLog :: "string option"
  sh_workerLog :: "string option"
  sh_deviceLog :: "string option"
  sh_awaitBoot :: bool
  sh_connect :: bool
  sh_preset :: "worker_preset option"
  sh_newDevice :: "new_device option"
  sh_unsaved :: "string set"
  sh_rules :: "string option"
  sh_theme :: theme
  sh_streamer :: bool

definition mount_shell :: "page_store \<Rightarrow> shell" where
  "mount_shell st =
    \<lparr>sh_settings = False, sh_history = None, sh_historyFrom = None, sh_compileHistory = None, sh_editor = None,
     sh_reloadNonce = 0, sh_commitTarget = None, sh_commitMessage = [], sh_rendered = None, sh_ping = None,
     sh_install = None, sh_jobLog = None, sh_workerLog = None, sh_deviceLog = None, sh_awaitBoot = False,
     sh_connect = False, sh_preset = None, sh_newDevice = None, sh_unsaved = {}, sh_rules = None,
     sh_theme = getInitialTheme (ls_theme st), sh_streamer = initial_streamer (ls_streamer st)\<rparr>"

datatype window_event =
    ShowSettings bool
  | OpenHistory string | HistoryDiff string string | LogHistoryDiff string string | CloseHistory | FileChanged
  | OpenCompileHistory string | CloseCompileHistory
  | EditFile string | EditFromLog string | EditorSaved string | CloseEditor
  | AskCommit string | TypeCommitMessage string | CloseCommit
  | ViewRendered "string option" | PingDevice "string option" | InstallTo "string option"
  | OpenJobLog string | OpenWorkerLog string | CloseLog
  | OpenDeviceLog string | HandOver string | CloseDeviceLog
  | ConnectWorker "worker_preset option" | CloseConnect
  | AskNewDevice | AskDuplicate string | DeviceCreated string | CloseNewDevice
  | OpenRules | OpenRule string | CloseRules
  | ToggleTheme | ToggleStreamer

text \<open>\<open>HandOver\<close> is the transition of the log effect: the finished job's log gives way to the device's.\<close>

fun window_step :: "window_event \<Rightarrow> shell \<Rightarrow> shell" where
  "window_step (ShowSettings b) s = s\<lparr>sh_settings := b\<rparr>"
| "window_step (OpenHistory f) s = s\<lparr>sh_history := Some f\<rparr>"
| "window_step (HistoryDiff f h) s = s\<lparr>sh_historyFrom := Some h, sh_history := Some f\<rparr>"
| "window_step (LogHistoryDiff f h) s = s\<lparr>sh_jobLog := None, sh_historyFrom := Some h, sh_history := Some f\<rparr>"
| "window_step CloseHistory s = s\<lparr>sh_history := None, sh_historyFrom := None\<rparr>"
| "window_step FileChanged s =
     (if truthy_str (sh_editor s) \<and> sh_history s = sh_editor s then s\<lparr>sh_reloadNonce := sh_reloadNonce s + 1\<rparr> else s)"
| "window_step (OpenCompileHistory f) s = s\<lparr>sh_compileHistory := Some f\<rparr>"
| "window_step CloseCompileHistory s = s\<lparr>sh_compileHistory := None\<rparr>"
| "window_step (EditFile f) s = s\<lparr>sh_editor := Some f\<rparr>"
| "window_step (EditFromLog f) s = s\<lparr>sh_jobLog := None, sh_editor := Some f\<rparr>"
| "window_step (EditorSaved f) s = s\<lparr>sh_unsaved := sh_unsaved s - {f}\<rparr>"
| "window_step CloseEditor s =
     s\<lparr>sh_editor := None, sh_unsaved := (case sh_editor s of Some f \<Rightarrow> sh_unsaved s - {f} | None \<Rightarrow> sh_unsaved s)\<rparr>"
| "window_step (AskCommit f) s = s\<lparr>sh_commitMessage := [], sh_commitTarget := Some f\<rparr>"
| "window_step (TypeCommitMessage m) s = s\<lparr>sh_commitMessage := m\<rparr>"
| "window_step CloseCommit s = s\<lparr>sh_commitTarget := None\<rparr>"
| "window_step (ViewRendered f) s = s\<lparr>sh_rendered := f\<rparr>"
| "window_step (PingDevice f) s = s\<lparr>sh_ping := f\<rparr>"
| "window_step (InstallTo f) s = s\<lparr>sh_install := f\<rparr>"
| "window_step (OpenJobLog i) s = s\<lparr>sh_jobLog := Some i\<rparr>"
| "window_step (OpenWorkerLog i) s = s\<lparr>sh_workerLog := Some i\<rparr>"
| "window_step CloseLog s = s\<lparr>sh_jobLog := None, sh_workerLog := None\<rparr>"
| "window_step (OpenDeviceLog f) s = s\<lparr>sh_deviceLog := Some f\<rparr>"
| "window_step (HandOver f) s = s\<lparr>sh_jobLog := None, sh_awaitBoot := True, sh_deviceLog := Some f\<rparr>"
| "window_step CloseDeviceLog s = s\<lparr>sh_deviceLog := None, sh_awaitBoot := False\<rparr>"
| "window_step (ConnectWorker p) s = s\<lparr>sh_preset := p, sh_connect := True\<rparr>"
| "window_step CloseConnect s = s\<lparr>sh_connect := False, sh_preset := None\<rparr>"
| "window_step AskNewDevice s = s\<lparr>sh_newDevice := Some \<lparr>nd_duplicate = False, nd_source = None\<rparr>\<rparr>"
| "window_step (AskDuplicate f) s = s\<lparr>sh_newDevice := Some \<lparr>nd_duplicate = True, nd_source = Some f\<rparr>\<rparr>"
| "window_step (DeviceCreated f) s = s\<lparr>sh_newDevice := None, sh_unsaved := insert f (sh_unsaved s), sh_editor := Some f\<rparr>"
| "window_step CloseNewDevice s = s\<lparr>sh_newDevice := None\<rparr>"
| "window_step OpenRules s = s\<lparr>sh_rules := Some []\<rparr>"
| "window_step (OpenRule i) s = s\<lparr>sh_rules := Some i\<rparr>"
| "window_step CloseRules s = s\<lparr>sh_rules := None\<rparr>"
| "window_step ToggleTheme s = s\<lparr>sh_theme := (if sh_theme s = DarkTheme then LightTheme else DarkTheme)\<rparr>"
| "window_step ToggleStreamer s = s\<lparr>sh_streamer := \<not> sh_streamer s\<rparr>"

definition window_run :: "window_event list \<Rightarrow> shell \<Rightarrow> shell" where
  "window_run es s = fold window_step es s"

text \<open>A render runs the two preference effects.\<close>

definition shell_page :: "shell \<Rightarrow> page_root \<times> page_store \<Rightarrow> page_root \<times> page_store" where
  "shell_page s = streamer_effect (sh_streamer s) \<circ> theme_effect (sh_theme s)"

section \<open>What the windows are given\<close>

datatype shell_log = JobSource string | WorkerSource string

definition log_source_of :: "shell \<Rightarrow> shell_log option" where
  "log_source_of s =
    (if truthy_str (sh_jobLog s) then Some (JobSource (the (sh_jobLog s)))
     else if truthy_str (sh_workerLog s) then Some (WorkerSource (the (sh_workerLog s))) else None)"

definition history_props_of :: "shell \<Rightarrow> history_props" where
  "history_props_of s = \<lparr>hp_filename = sh_history s, hp_initialFrom = sh_historyFrom s, hp_initialTo = None\<rparr>"

definition rules_open :: "shell \<Rightarrow> bool \<times> string option" where
  "rules_open s = (sh_rules s \<noteq> None, if truthy_str (sh_rules s) then sh_rules s else None)"

definition target_named :: "target list \<Rightarrow> string option \<Rightarrow> target option" where
  "target_named targets f = Option.bind f (\<lambda>x. find (\<lambda>t. t_target t = x) targets)"

definition rendered_name :: "target list \<Rightarrow> shell \<Rightarrow> string option" where
  "rendered_name targets s =
    (if truthy_str (sh_rendered s)
     then Some (str_or (Option.bind (target_named targets (sh_rendered s)) t_friendly_name) (stripYaml (sh_rendered s)))
     else None)"

definition install_address :: "target list \<Rightarrow> shell \<Rightarrow> string option" where
  "install_address targets s = Option.bind (target_named targets (sh_install s)) t_ip_address"

definition connect_tags :: "(string \<Rightarrow> string \<Rightarrow> int) \<Rightarrow> worker list \<Rightarrow> string list" where
  "connect_tags cmp workers = sort_by cmp (remdups (concat (map (\<lambda>w. nullish (w_tags w) []) workers)))"

definition existing_targets :: "target list \<Rightarrow> string list" where
  "existing_targets targets = map t_target targets"

section \<open>Handlers in the markup\<close>

definition handleValidate :: "string \<Rightarrow> app \<Rightarrow> (bool \<times> json) option \<times> app" where
  "handleValidate target a =
    (case validateConfig target (ap_client a) of
       (Inr r, c) \<Rightarrow> (Some r, a\<lparr>ap_client := c\<rparr>)
     | (Inl e, c) \<Rightarrow> (None, fail_with ''Validate failed: '' e (a\<lparr>ap_client := c\<rparr>)))"

text \<open>The version list as the server returned it goes to the cache; \<open>fresh.available.length\<close> is read from it.\<close>

definition available_count :: "json \<Rightarrow> string api" where
  "available_count fresh =
    api_bind (js_field fresh ''available'')
      (\<lambda>v. case v of Some (JArr xs) \<Rightarrow> api_return (show_nat (length xs)) | Some (JStr s) \<Rightarrow> api_return (show_nat (length s))
         | None \<Rightarrow> api_throw TypeErr | Some JNull \<Rightarrow> api_throw TypeErr | _ \<Rightarrow> api_return ''undefined'')"

definition refresh_versions :: "app \<Rightarrow> app \<times> json option" where
  "refresh_versions a =
    (let a0 = addToast (Toast InfoToast ''Refreshing ESPHome versions...'') a in
     case refreshEsphomeVersions (ap_client a0) of
       (Inl e, c) \<Rightarrow> (fail_with ''Refresh failed: '' e (a0\<lparr>ap_client := c\<rparr>), None)
     | (Inr fresh, c) \<Rightarrow>
        (case available_count fresh c of
           (Inl e, c1) \<Rightarrow> (fail_with ''Refresh failed: '' e (a0\<lparr>ap_client := c1\<rparr>), Some fresh)
         | (Inr n, c1) \<Rightarrow>
            (success (''ESPHome version list updated ('' @ n @ '' versions)'') (a0\<lparr>ap_client := c1\<rparr>), Some fresh)))"

section \<open>Properties\<close>

text \<open>What a window was given for one use is gone when it is closed: presets of the history panel and of the
  connect dialog, and the wait for a device's boot.\<close>

definition windows_reset :: "shell \<Rightarrow> bool" where
  "windows_reset s \<longleftrightarrow>
    (sh_history s = None \<longrightarrow> sh_historyFrom s = None) \<and> (\<not> sh_connect s \<longrightarrow> sh_preset s = None)
    \<and> (sh_deviceLog s = None \<longrightarrow> \<not> sh_awaitBoot s)"

lemma step_reset: "windows_reset s \<Longrightarrow> windows_reset (window_step e s)"
  by (cases e) (auto simp: windows_reset_def)

lemma run_reset: "windows_reset (window_run es (mount_shell st))"
proof -
  have "windows_reset s \<Longrightarrow> windows_reset (fold window_step es s)" for s
    by (induction es arbitrary: s) (simp_all add: step_reset)
  then show ?thesis unfolding window_run_def by (simp add: windows_reset_def mount_shell_def)
qed

text \<open>
  Through any sequence of windows opened and closed, a closed history panel has no preset left, a closed connect
  dialog no worker preset, and a device log opened from the list does not wait for a boot.
\<close>

lemma presets_end_with_window:
  "(sh_history (window_run es (mount_shell st)) = None \<longrightarrow> sh_historyFrom (window_run es (mount_shell st)) = None)
    \<and> (\<not> sh_connect (window_run es (mount_shell st)) \<longrightarrow> sh_preset (window_run es (mount_shell st)) = None)
    \<and> (sh_deviceLog (window_run es (mount_shell st)) = None
        \<longrightarrow> \<not> sh_awaitBoot (window_step (OpenDeviceLog f) (window_run es (mount_shell st))))"
  using run_reset [of es st] by (simp add: windows_reset_def)

definition empty_store :: page_store where
  "empty_store = \<lparr>ls_theme = None, ls_streamer = None\<rparr>"

lemma presets_end_with_window_witness:
  "sh_historyFrom (window_run [HistoryDiff ''a.yaml'' ''c1'', CloseHistory] (mount_shell empty_store)) = None"
  using presets_end_with_window [of "[HistoryDiff ''a.yaml'' ''c1'', CloseHistory]" empty_store "''a.yaml''"]
  by (simp add: window_run_def)

text \<open>
  A link to the changes since a compile lands on them: whatever the panel showed before it was closed and whatever
  history it had cached, once the history of the file arrives with the linked version in it, the panel compares that
  version with the working tree.
\<close>

lemma deep_link_lands:
  assumes "sh_history s = None" and "sh_historyFrom s = None" and "h \<noteq> []" and "listed es h"
  shows "ps_pair (panel_run [ShowFile (history_props_of s) None, ShowFile (history_props_of (window_step (HistoryDiff f h) s)) cached,
      EntriesLoaded (Some es)] p) = \<lparr>cp_from = h, cp_to = WORKING_TREE\<rparr>"
proof -
  have swap: "normalise_effect entries \<lparr>cp_from = x, cp_to = WORKING_TREE\<rparr> = \<lparr>cp_from = x, cp_to = WORKING_TREE\<rparr>" for entries x
    by (simp add: normalise_effect_def compareRecency_def WORKING_TREE_def)
  have to_tree: "cp_to (defaults_effect entries i None \<lparr>cp_from = x, cp_to = WORKING_TREE\<rparr>) = WORKING_TREE" for entries i x
    by (auto simp: defaults_effect_def Let_def split: option.splits list.splits)
  have stay: "\<exists>y. ps_pair (rerender q) = \<lparr>cp_from = y, cp_to = WORKING_TREE\<rparr>"
    if "ps_pair q = \<lparr>cp_from = x, cp_to = WORKING_TREE\<rparr>" "hp_initialTo (ps_props q) = None" for q :: panel_state and x
  proof -
    obtain y where "defaults_effect (ps_entries q) (hp_initialFrom (ps_props q)) None \<lparr>cp_from = x, cp_to = WORKING_TREE\<rparr>
        = \<lparr>cp_from = y, cp_to = WORKING_TREE\<rparr>"
      by (metis to_tree compare_pair.surjective old.unit.exhaust)
    then show ?thesis using that by (auto simp: rerender_def with_pair_def swap)
  qed
  define p1 where "p1 = panel_step (ShowFile (history_props_of s) None) p"
  have p1: "ps_pair p1 = \<lparr>cp_from = [], cp_to = WORKING_TREE\<rparr>" "hp_initialTo (ps_props p1) = None"
    using assms(1,2)
    by (auto simp: p1_def rerender_def with_pair_def history_props_of_def defaults_effect_def swap)
  define p2 where "p2 = panel_step (ShowFile (history_props_of (window_step (HistoryDiff f h) s)) cached) p1"
  have props2: "ps_props p2 = \<lparr>hp_filename = Some f, hp_initialFrom = Some h, hp_initialTo = None\<rparr>"
    by (simp add: p2_def rerender_def with_pair_def history_props_of_def)
  have "\<exists>y. ps_pair p2 = \<lparr>cp_from = y, cp_to = WORKING_TREE\<rparr>"
    unfolding p2_def panel_step.simps
    by (rule stay [where x = "[]"]) (simp_all add: p1 history_props_of_def)
  then obtain y where p2: "ps_pair p2 = \<lparr>cp_from = y, cp_to = WORKING_TREE\<rparr>" by blast
  obtain e es' where es: "es = e # es'" using assms(4) by (cases es) (auto simp: listed_def)
  have "ps_pair (panel_step (EntriesLoaded (Some es)) p2) = \<lparr>cp_from = h, cp_to = WORKING_TREE\<rparr>"
    using assms(3,4) by (simp add: rerender_def with_pair_def props2 p2 swap es defaults_effect_def Let_def)
  then show ?thesis by (simp add: panel_run_def p1_def p2_def)
qed

lemma deep_link_lands_witness:
  "ps_pair (panel_run [ShowFile (history_props_of (mount_shell empty_store)) None,
      ShowFile (history_props_of (window_step (HistoryDiff ''bedroom.yaml'' ''c1'') (mount_shell empty_store))) None,
      EntriesLoaded (Some [commit ''c3'', commit ''c2'', commit ''c1''])] (panel_run bedroom_events mounted_panel))
    = \<lparr>cp_from = ''c1'', cp_to = WORKING_TREE\<rparr>"
  by (rule deep_link_lands) (simp_all add: mount_shell_def listed_def commit_def)

text \<open>The theme and the streamer mode in force when the page is left are those the next one starts with.\<close>

lemma preferences_survive_reload:
  "sh_theme (mount_shell (snd (shell_page (window_run es (mount_shell st)) p))) = sh_theme (window_run es (mount_shell st))
    \<and> sh_streamer (mount_shell (snd (shell_page (window_run es (mount_shell st)) p))) = sh_streamer (window_run es (mount_shell st))"
  by (cases p; cases "sh_theme (window_run es (mount_shell st))")
    (simp_all add: shell_page_def streamer_effect_def theme_effect_def mount_shell_def getInitialTheme_def theme_name_def
      initial_streamer_def)

text \<open>
  An update is noticed twice: by the header of the answer and by the server information in it. The second ignores
  that a reload is already scheduled, so the page has two reload timers and two notices.
\<close>

lemma update_reloads_twice:
  assumes "cl_initialAddonVersion c = Some old" and "old \<noteq> []" and "\<not> cl_reloadScheduled c"
    and "header_get ''X-Server-Version'' (rs_headers r) = Some new" and "new \<noteq> []" and "new \<noteq> old"
  shows "reloads (version_effect (Some new) (checkVersion r c)) = reloads c + 2"
  using assms
  by (simp add: version_effect_def checkVersion_def reloads_def setInitialAddonVersion_def getInitialAddonVersion_def
      truthy_str_def Let_def)

lemma update_reloads_twice_witness:
  "reloads (version_effect (Some ''1.7.1'') (checkVersion \<lparr>rs_status = 200, rs_headers = [(''x-server-version'', ''1.7.1'')],
      rs_json = None, rs_text = []\<rparr> fresh_client)) = 2"
proof -
  have h: "header_get ''X-Server-Version'' [(''x-server-version'', ''1.7.1'')] = Some ''1.7.1''" by code_simp
  have "reloads fresh_client = 0" by (simp add: reloads_def fresh_client_def)
  then show ?thesis
    using update_reloads_twice [of fresh_client "''1.7.0''" "\<lparr>rs_status = 200, rs_headers = [(''x-server-version'', ''1.7.1'')],
      rs_json = None, rs_text = []\<rparr>" "''1.7.1''"] h
    by (simp add: fresh_client_def)
qed

text \<open>
  Settings the server accepts are settings the page can show: the language has translations and the accent is one of
  the presets, so the colour kept for the next load is the one in force.
\<close>

lemma accepted_settings_shown:
  assumes "py_setting ''language'' (JStr lang) \<noteq> None" and "py_setting ''accent_color'' (JStr col) \<noteq> None"
    and "text_setting data ''language'' = Some lang" and "text_setting data ''accent_color'' = Some col"
  shows "doc_language (settings_effects nav True data d) \<in> {''en'', ''de''}
    \<and> acc_attr (applyCachedAccentColor True (doc_accent (settings_effects nav True data d)))
        = acc_attr (doc_accent (settings_effects nav True data d))
    \<and> acc_attr (doc_accent (settings_effects nav True data d)) = Some col"
proof -
  have lang: "lang \<in> {''auto'', ''en'', ''de''}" using assms(1) by (simp add: py_setting_def validators split: if_splits)
  have col: "isAccent (Some col)" using assms(2)
    by (auto simp: py_setting_def validators isAccent_def list_ex_iff split: if_splits)
  then have "col \<noteq> []" by (auto simp: isAccent_def ACCENT_COLORS_def)
  have "doc_accent (settings_effects nav True data d) = applyAccentColor True col (doc_accent d)"
    using assms(4) \<open>col \<noteq> []\<close>
    by (simp add: settings_effects_def accent_effect_def font_effect_def language_effect_def formats_effect_def truthy_str_def Let_def)
  moreover have "doc_language (settings_effects nav True data d) = resolveLanguage nav lang"
    using assms(3) lang
    by (auto simp: settings_effects_def accent_effect_def font_effect_def language_effect_def formats_effect_def truthy_str_def Let_def)
  ultimately show ?thesis
    using lang col by (auto simp: applyAccentColor_def applyCachedAccentColor_def resolveLanguage_def)
qed

lemma accepted_settings_witness:
  "doc_language (settings_effects ''de-AT'' True
      (Some (JObj [(''language'', JStr ''auto''), (''accent_color'', JStr ''teal'')])) d) \<in> {''en'', ''de''}"
  using accepted_settings_shown [of "''auto''" "''teal''" "Some (JObj [(''language'', JStr ''auto''), (''accent_color'', JStr ''teal'')])" "''de-AT''" d]
  by (simp add: py_setting_def validators ACCENT_COLORS_def text_setting_def)

end
