(* ===== verification/Schedules_Tab.thy ===== *)
theory Schedules_Tab
  imports Device_Columns App_Actions
begin

text \<open>
  The Schedules tab (\<open>components/SchedulesTab.tsx\<close>): the devices it lists, its cells and sort keys, the
  polled firing history and the bulk removal. Dates as the browser's locale prints them come from the
  \<open>platform\<close> record.
\<close>

section \<open>Rows\<close>

definition is_scheduled :: "target \<Rightarrow> bool" where
  "is_scheduled t \<longleftrightarrow> truthy_str (t_schedule t) \<or> truthy_str (t_schedule_once t)"

definition scheduled :: "target list \<Rightarrow> target list" where
  "scheduled targets = filter is_scheduled targets"

definition schedule_name :: "target \<Rightarrow> string" where
  "schedule_name t = str_or (t_friendly_name t) (str_or (t_device_name t) (stripYaml (Some (t_target t))))"

definition filteredScheduled :: "string \<Rightarrow> target list \<Rightarrow> target list" where
  "filteredScheduled flt targets =
    (if flt = [] then scheduled targets
     else let lc = to_lower flt in
       filter (\<lambda>t. includes_str (to_lower (schedule_name t)) lc \<or> includes_str (to_lower (t_target t)) lc)
         (scheduled targets))"

section \<open>Cells\<close>

definition formatNextRun ::
  "(string \<Rightarrow> string) \<Rightarrow> int \<Rightarrow> (string \<Rightarrow> int option) \<Rightarrow> string option \<Rightarrow> string option \<Rightarrow> string option \<Rightarrow> string" where
  "formatNextRun toLocale now to_ms schedule lastRun scheduleOnce =
    (if truthy_str scheduleOnce then ''Once: '' @ toLocale (the scheduleOnce)
     else if \<not> truthy_str schedule then em_dash
     else if \<not> truthy_str lastRun then ''Pending (first run)''
     else ''Last: '' @ timeAgo now (to_ms (the lastRun)))"

text \<open>The schedule cell: the recurring part with its paused mark, the one-time part, the tooltip.\<close>

definition schedules_cell :: "(string \<Rightarrow> string) \<Rightarrow> target \<Rightarrow> schedule_cell" where
  "schedules_cell toLocale t =
    (let enabled = (t_schedule_enabled t \<noteq> Some False);
         cronHuman = (if truthy_str (t_schedule t)
                      then Some (nullish (formatCronHuman (t_schedule t)) (the (t_schedule t))) else None);
         onceWhen = (if truthy_str (t_schedule_once t) then Some (toLocale (the (t_schedule_once t))) else None);
         tzLabel = (if truthy_str (t_schedule t) then '' ('' @ str_or (t_schedule_tz t) ''UTC'' @ '')'' else []);
         titleParts =
           (if truthy_str (t_schedule t)
            then [the (t_schedule t) @ tzLabel @ (if enabled then [] else '' (paused)'')] else [])
           @ (if truthy_str (t_schedule_once t) then [''One-time: '' @ the (t_schedule_once t)] else [])
     in \<lparr>sc_cron = cronHuman, sc_paused = (\<not> enabled), sc_once = onceWhen,
         sc_title = join_with ('' '' @ bullet @ '' '') titleParts @ '' '' @ em_dash @ '' click to edit''\<rparr>)"

definition schedule_status_key :: "target \<Rightarrow> string" where
  "schedule_status_key row =
    (let words = (if truthy_str (t_schedule row)
                  then [if t_schedule_enabled row \<noteq> Some False then ''active'' else ''paused''] else [])
           @ (if truthy_str (t_schedule_once row) then [''once''] else [])
     in str_or (Some (join_with '' + '' words)) em_dash)"

definition schedule_status_labels :: "target \<Rightarrow> string list" where
  "schedule_status_labels t =
    (if truthy_str (t_schedule t) then [if t_schedule_enabled t \<noteq> Some False then ''Active'' else ''Paused''] else [])
    @ (if truthy_str (t_schedule_once t) then [''One-time''] else [])"

record history_entry =
  he_fired_at :: string
  he_job_id :: string
  he_outcome :: string

type_synonym schedule_history = "string \<Rightarrow> history_entry list option"

datatype outcome_mark = MarkEnqueued | MarkSuccess | MarkFailed

definition outcome_mark_of :: "string \<Rightarrow> outcome_mark option" where
  "outcome_mark_of outcome =
    (if outcome = ''enqueued'' then Some MarkEnqueued
     else if outcome = ''success'' then Some MarkSuccess
     else if outcome = ''failed'' then Some MarkFailed
     else None)"

record last_run_cell =
  lr_text :: string
  lr_mark :: "outcome_mark option"
  lr_title :: "string option"

definition last_five :: "'a list \<Rightarrow> 'a list" where
  "last_five xs = rev (drop (length xs - 5) xs)"

definition last_run_of ::
  "(string \<Rightarrow> string) \<Rightarrow> int \<Rightarrow> (string \<Rightarrow> int option) \<Rightarrow> schedule_history \<Rightarrow> target \<Rightarrow> last_run_cell" where
  "last_run_of toLocale now to_ms history t =
    (let entries = nullish (history (t_target t)) [];
         title = (if 0 < length entries
                  then Some (join_with [CHR 0x0A]
                    (map (\<lambda>h. toLocale (he_fired_at h) @ '' '' @ em_dash @ '' '' @ he_outcome h) (last_five entries)))
                  else None)
     in if 0 < length entries
        then (let l = last entries in
          \<lparr>lr_text = timeAgo now (to_ms (he_fired_at l)), lr_mark = outcome_mark_of (he_outcome l), lr_title = title\<rparr>)
        else \<lparr>lr_text = formatNextRun toLocale now to_ms (t_schedule t) (t_schedule_last_run t) (t_schedule_once t),
               lr_mark = None, lr_title = title\<rparr>)"

definition schedule_version :: "target \<Rightarrow> string \<times> string option" where
  "schedule_version t =
    (str_or (t_pinned_version t) (str_or (t_server_version t) em_dash),
     if truthy_str (t_pinned_version t) then Some (''Pinned ESPHome version: '' @ the (t_pinned_version t)) else None)"

text \<open>The values the columns sort by.\<close>

definition schedule_sort_keys :: "target \<Rightarrow> (string \<times> string) list" where
  "schedule_sort_keys row =
    [(''device'', schedule_name row),
     (''schedule'', str_or (t_schedule row) (str_or (t_schedule_once row) [])),
     (''status'', schedule_status_key row),
     (''nextRun'', str_or (t_schedule_last_run row) (str_or (t_schedule_once row) [])),
     (''version'', str_or (t_pinned_version row) (str_or (t_server_version row) []))]"

section \<open>The polled history\<close>

text \<open>Each poll answers with a history or fails; after the tab was left its answers are dropped.\<close>

datatype history_poll = PollAnswer schedule_history | PollFailed | TabLeft

record history_state =
  hs_history :: schedule_history
  hs_cancelled :: bool

fun history_poll_step :: "history_poll \<Rightarrow> history_state \<Rightarrow> history_state" where
  "history_poll_step (PollAnswer h) s = (if hs_cancelled s then s else s\<lparr>hs_history := h\<rparr>)"
| "history_poll_step PollFailed s = s"
| "history_poll_step TabLeft s = s\<lparr>hs_cancelled := True\<rparr>"

definition history_start :: history_state where
  "history_start = \<lparr>hs_history = (\<lambda>_. None), hs_cancelled = False\<rparr>"

section \<open>Selection and removal\<close>

text \<open>The selected rows the table lists at the moment, in its order.\<close>

definition selectedSchedules :: "(string \<Rightarrow> bool) \<Rightarrow> target list \<Rightarrow> string list" where
  "selectedSchedules rowSelection rows = filter rowSelection (map t_target rows)"

definition handleRemoveSelected ::
  "target list \<Rightarrow> target list \<Rightarrow> (string \<Rightarrow> bool) \<Rightarrow> app \<Rightarrow> (string \<Rightarrow> bool) \<times> app" where
  "handleRemoveSelected targets rows rowSelection a =
    (let toRemove = filter (\<lambda>f. list_ex (\<lambda>s. t_target s = f) (scheduled targets)) (selectedSchedules rowSelection rows)
     in if length toRemove = 0 then (rowSelection, a)
        else case promise_all (map deleteTargetSchedule toRemove) (ap_client a) of
          (Inr _, c) \<Rightarrow> ((\<lambda>_. False), mutate ''devices''
             (success (''Removed schedule from '' @ show_nat (length toRemove) @ '' device(s)'') (a\<lparr>ap_client := c\<rparr>)))
        | (Inl e, c) \<Rightarrow> (rowSelection, fail_with ''Remove failed: '' e (a\<lparr>ap_client := c\<rparr>)))"

definition remove_item :: "string list \<Rightarrow> string \<times> string option" where
  "remove_item selected =
    (''Remove Selected'' @ (if 0 < length selected then '' ('' @ show_nat (length selected) @ '')'' else []),
     if length selected = 0 then Some ''Select one or more scheduled devices first'' else None)"

definition schedules_empty_text :: "target list \<Rightarrow> string" where
  "schedules_empty_text targets =
    (if length (scheduled targets) = 0
     then ''No devices have a schedule configured '' @ em_dash @ '' click Upgrade on a device, then choose Scheduled.''
     else ''No schedules match filter'')"

section \<open>Lemmas\<close>

lemma delete_schedules_sent:
  "\<exists>rs. cl_sent (snd (promise_all (map deleteTargetSchedule fs) c)) = cl_sent c @ rs
    \<and> map rq_url rs = map (\<lambda>f. target_path f ''/schedule'') fs \<and> list_all (\<lambda>r. rq_method r = ''DELETE'') rs"
proof (induction fs arbitrary: c)
  case (Cons f fs)
  obtain r c1 where m: "deleteTargetSchedule f c = (r, c1)" by (cases "deleteTargetSchedule f c")
  have "sends (cl_sent c) (target_path f ''/schedule'') (method_opts ''DELETE'') (cl_sent (snd (deleteTargetSchedule f c)))"
    unfolding deleteTargetSchedule_def by (rule ok_call_sends)
  then obtain q where q: "cl_sent c1 = cl_sent c @ [q]" "rq_url q = target_path f ''/schedule''" "rq_method q = ''DELETE''"
    unfolding m by (auto simp: sends_def method_opts_def)
  from Cons.IH [of c1] obtain rs where "cl_sent (snd (promise_all (map deleteTargetSchedule fs) c1)) = cl_sent c1 @ rs"
    "map rq_url rs = map (\<lambda>f. target_path f ''/schedule'') fs" "list_all (\<lambda>r. rq_method r = ''DELETE'') rs" by blast
  with m q show ?case by (intro exI [of _ "q # rs"]) (simp add: split_beta)
qed simp

lemma selected_all_scheduled:
  assumes "set rows \<subseteq> set (scheduled targets)"
  shows "filter (\<lambda>f. list_ex (\<lambda>s. t_target s = f) (scheduled targets)) (selectedSchedules rowSelection rows)
    = selectedSchedules rowSelection rows"
proof -
  have "list_ex (\<lambda>s. t_target s = f) (scheduled targets)" if "f \<in> set (selectedSchedules rowSelection rows)" for f
    using that assms by (auto simp: selectedSchedules_def list_ex_iff)
  then show ?thesis by (simp add: filter_id_conv)
qed

text \<open>What \<open>DELETE /ui/api/targets/{f}/schedule\<close> leaves of a device's schedule.\<close>

definition py_unschedule :: "target \<Rightarrow> target" where
  "py_unschedule t =
    t\<lparr>t_schedule := None, t_schedule_enabled := None, t_schedule_last_run := None, t_schedule_once := None,
      t_schedule_tz := None\<rparr>"

section \<open>Properties\<close>

text \<open>The number on the Schedules tab is the number of rows of its table without a search.\<close>
theorem schedules_count_is_rows:
  "getTabCount SchedulesT targets devices queue workers = show_nat (length (filteredScheduled [] targets))"
  by (simp add: getTabCount_def count_def filteredScheduled_def scheduled_def is_scheduled_def [abs_def])

text \<open>Remove Selected asks the server once for each selected row the table lists, in its order, and for no
  other device; the selection is dropped and the devices are read again only when every request succeeded,
  so after one failure the removed devices stay selected and listed until the next poll.\<close>
theorem remove_selected_exact:
  assumes "set rows \<subseteq> set (scheduled targets)"
  shows "(case handleRemoveSelected targets rows sel a of (sel', a') \<Rightarrow>
      (\<exists>qs. cl_sent (ap_client a') = cl_sent (ap_client a) @ qs
        \<and> map rq_url qs = map (\<lambda>f. target_path f ''/schedule'') (selectedSchedules sel rows)
        \<and> list_all (\<lambda>r. rq_method r = ''DELETE'') qs)
      \<and> (ap_mutated a' \<noteq> ap_mutated a \<longrightarrow> sel' = (\<lambda>_. False))
      \<and> (ap_mutated a' = ap_mutated a \<longrightarrow> sel' = sel))"
proof -
  let ?fs = "selectedSchedules sel rows"
  obtain r c where p: "promise_all (map deleteTargetSchedule ?fs) (ap_client a) = (r, c)" by fastforce
  with delete_schedules_sent [of ?fs "ap_client a"] obtain qs where
    qs: "cl_sent c = cl_sent (ap_client a) @ qs" "map rq_url qs = map (\<lambda>f. target_path f ''/schedule'') ?fs"
    "list_all (\<lambda>r. rq_method r = ''DELETE'') qs" by auto
  show ?thesis
  proof (cases "?fs = []")
    case True
    then show ?thesis by (simp add: handleRemoveSelected_def selected_all_scheduled [OF assms])
  next
    case False
    with qs show ?thesis
      by (cases r) (auto simp: handleRemoveSelected_def selected_all_scheduled [OF assms] p fail_with_def addToast_def
        mutate_def success_def)
  qed
qed

definition two_scheduled :: "target list" where
  "two_scheduled =
    [(bare_target ''lab.yaml'')\<lparr>t_schedule := Some ''0 2 * * *''\<rparr>, (bare_target ''attic.yaml'')\<lparr>t_schedule_once := Some ''2026-01-01''\<rparr>,
     bare_target ''hall.yaml'']"

lemma remove_selected_witness:
  "\<forall>a. case handleRemoveSelected two_scheduled (scheduled two_scheduled) (\<lambda>f. f = ''attic.yaml'') a of (_, a') \<Rightarrow>
     \<exists>qs. cl_sent (ap_client a') = cl_sent (ap_client a) @ qs \<and> map rq_url qs = [target_path ''attic.yaml'' ''/schedule'']"
proof
  fix a
  have sel: "selectedSchedules (\<lambda>f. f = ''attic.yaml'') (scheduled two_scheduled) = [''attic.yaml'']"
    by (simp add: selectedSchedules_def scheduled_def two_scheduled_def is_scheduled_def bare_target_def)
  show "case handleRemoveSelected two_scheduled (scheduled two_scheduled) (\<lambda>f. f = ''attic.yaml'') a of (_, a') \<Rightarrow>
      \<exists>qs. cl_sent (ap_client a') = cl_sent (ap_client a) @ qs \<and> map rq_url qs = [target_path ''attic.yaml'' ''/schedule'']"
    using remove_selected_exact [of "scheduled two_scheduled" two_scheduled a "\<lambda>f. f = ''attic.yaml''"]
    by (auto simp: sel split: prod.splits)
qed

text \<open>The devices the server unscheduled leave the tab, the recurring and the one-time schedule alike, and
  the others stay in their order.\<close>
theorem unscheduled_rows_leave:
  "scheduled (map (\<lambda>t. if t_target t \<in> fs then py_unschedule t else t) targets) =
     filter (\<lambda>t. t_target t \<notin> fs) (scheduled targets)"
  by (induction targets) (auto simp: scheduled_def is_scheduled_def py_unschedule_def)

text \<open>A poll that fails keeps the history shown, and no answer changes it after the tab was left.\<close>
theorem polled_history_kept:
  assumes "TabLeft \<notin> set es" and "PollAnswer ` UNIV \<inter> set later = {}"
  shows "hs_history (fold history_poll_step (es @ PollAnswer h # later @ TabLeft # rest) history_start) = h"
proof -
  have "hs_cancelled (fold history_poll_step es s) = hs_cancelled s" if "TabLeft \<notin> set es" for es s
    using that
  proof (induction es arbitrary: s)
    case (Cons e es)
    have "hs_cancelled (history_poll_step e s) = hs_cancelled s" using Cons.prems by (cases e) auto
    with Cons show ?case by simp
  qed simp
  with assms(1) have "\<not> hs_cancelled (fold history_poll_step es history_start)" by (simp add: history_start_def)
  then have h: "hs_history (fold history_poll_step (es @ [PollAnswer h]) history_start) = h" by simp
  have keep: "hs_history (fold history_poll_step es s) = hs_history s" if "PollAnswer ` UNIV \<inter> set es = {}" for es s
    using that
  proof (induction es arbitrary: s)
    case (Cons e es)
    have "hs_history (history_poll_step e s) = hs_history s" using Cons.prems by (cases e) auto
    with Cons show ?case by auto
  qed simp
  have off: "hs_cancelled s \<Longrightarrow> fold history_poll_step es s = s" for es s
  proof (induction es arbitrary: s)
    case (Cons e es)
    then have "history_poll_step e s = s" by (cases e) auto
    with Cons show ?case by simp
  qed simp
  have "fold history_poll_step (es @ PollAnswer h # later @ TabLeft # rest) history_start
      = fold history_poll_step rest ((fold history_poll_step later
          (fold history_poll_step (es @ [PollAnswer h]) history_start))\<lparr>hs_cancelled := True\<rparr>)" by simp
  then show ?thesis using off keep [OF assms(2)] h by simp
qed

lemma polled_history_witness:
  "\<forall>h h'. hs_history (fold history_poll_step [PollFailed, PollAnswer h, PollFailed, TabLeft, PollAnswer h'] history_start) = h"
proof (intro allI)
  fix h h'
  show "hs_history (fold history_poll_step [PollFailed, PollAnswer h, PollFailed, TabLeft, PollAnswer h'] history_start) = h"
    using polled_history_kept [of "[PollFailed]" "[PollFailed]" h "[PollAnswer h']"] by (simp add: image_iff)
qed

end
