(* ===== verification/Device_Row.thy ===== *)
theory Device_Row
  imports Devices_Window App_Shell Schedules_Tab
begin

text \<open>
  A row of the Devices table put together: the columns of \<open>components/devices/useDeviceColumns.tsx\<close> with their heading,
  sort key and cell, the two handlers of the shared device menu (\<open>components/devices/DeviceMenuSection.tsx\<close>), what a
  click on the row does once it has gone through the handlers \<open>DevicesTab.tsx\<close> and \<open>App.tsx\<close> pass down, and the dialog
  that confirms a permanent deletion. The cells themselves are those of \<open>Device_Columns\<close> and \<open>Device_Menu\<close>.
\<close>

section \<open>Columns\<close>

record row_env =
  re_platform :: platform
  re_prefs :: fmt_prefs
  re_ms :: "string \<Rightarrow> int option"
  re_date :: "string \<Rightarrow> rat"
  re_now :: int
  re_window :: "browser_window option"
  re_activeJobs :: "string \<Rightarrow> job option"
  re_streamer :: bool
  re_versioning :: bool
  re_menu :: "string option"
  re_selected :: "string \<Rightarrow> bool"

datatype column_head = TickHead | SortHead string | PlainHead string | NoHead

datatype sorting_fn = Alphanumeric | BasicSort

datatype key_value = KeyText string | KeyNumber rat

datatype cell_view =
    TickCell string bool
  | NameView name_cell
  | TagsView "string list" "string option" string string
  | StatusView "status_dot \<times> string option \<times> string option"
  | HaView "string option option"
  | IpView "string \<times> string option" "(string \<times> string) option"
  | NetView "(string \<times> string) option"
  | IpConfigView "string option"
  | ApView bool "string option"
  | EspView "(string \<times> string option \<times> string) option"
  | BleView "string option" string
  | ScheduleView "schedule_cell option" string
  | CompiledView "(string \<times> badge option \<times> string) option"
  | RunningView "string \<times> string option \<times> string option option"
  | TextView string
  | ActionsView actions_view

text \<open>\<open>cd_sorting\<close> is \<^const>\<open>None\<close> for a column that does not sort, \<open>cd_key\<close> for one without an accessor.\<close>

record column_def =
  cd_id :: string
  cd_head :: column_head
  cd_hideable :: bool
  cd_sorting :: "sorting_fn option"
  cd_key :: "row_env \<Rightarrow> target \<Rightarrow> key_value option"
  cd_cell :: "row_env \<Rightarrow> target \<Rightarrow> cell_view"

definition select_column :: column_def where
  "select_column =
    \<lparr>cd_id = ''select'', cd_head = TickHead, cd_hideable = False, cd_sorting = None, cd_key = (\<lambda>_ _. None),
     cd_cell = (\<lambda>e t. TickCell (t_target t) (re_selected e (t_target t)))\<rparr>"

definition name_column :: column_def where
  "name_column =
    \<lparr>cd_id = ''device'', cd_head = SortHead ''Device'', cd_hideable = False, cd_sorting = Some Alphanumeric,
     cd_key = (\<lambda>_ t. Some (KeyText (stripYaml (Some (t_target t))))),
     cd_cell = (\<lambda>e t. NameView (device_name_cell (re_now e) t))\<rparr>"

text \<open>The tags, the target whose editor a click opens, the label for screen readers and the tooltip.\<close>

definition tags_column :: column_def where
  "tags_column =
    \<lparr>cd_id = ''tags'', cd_head = PlainHead ''Tags'', cd_hideable = True, cd_sorting = None,
     cd_key = (\<lambda>_ t. Some (KeyText (str_or (t_tags t) []))),
     cd_cell = (\<lambda>_ t.
       let label = ''Tags for '' @ stripYaml (Some (t_target t)) in
       if truthy_bool (t_archived t)
       then TagsView (parseDeviceTags (t_tags t)) None (label @ '' (archived, read-only)'')
         (''Tags are read-only on archived devices '' @ em_dash @ '' Unarchive first to edit.'')
       else TagsView (parseDeviceTags (t_tags t)) (Some (t_target t)) label ''Click to edit tags'')\<rparr>"

definition status_column :: column_def where
  "status_column =
    \<lparr>cd_id = ''status'', cd_head = SortHead ''Status'', cd_hideable = True, cd_sorting = Some Alphanumeric,
     cd_key = (\<lambda>e t. Some (KeyText (status_key (re_activeJobs e) t))),
     cd_cell = (\<lambda>e t. StatusView (status_view (re_ms e) (re_now e) (re_activeJobs e) t))\<rparr>"

definition ha_column :: column_def where
  "ha_column =
    \<lparr>cd_id = ''ha'', cd_head = SortHead ''HA'', cd_hideable = True, cd_sorting = Some Alphanumeric,
     cd_key = (\<lambda>_ t. Some (KeyText (if truthy_bool (t_ha_configured t) then ''yes'' else []))),
     cd_cell = (\<lambda>e t. HaView (ha_cell (re_window e) (t_ha_configured t) (t_ha_device_id t)))\<rparr>"

text \<open>The address with its link, then the label of its source with the tooltip.\<close>

definition ip_column :: column_def where
  "ip_column =
    \<lparr>cd_id = ''ip'', cd_head = SortHead ''IP'', cd_hideable = True, cd_sorting = Some Alphanumeric,
     cd_key = (\<lambda>_ t. Some (KeyText (str_or (t_ip_address t) []))),
     cd_cell = (\<lambda>e t. case ip_cell (re_streamer e) t of (address, href, src) \<Rightarrow>
       IpView (address, href)
         (if truthy_str src
          then Some (the src, nullish (formatAddressSourceTooltip (t_address_source t))
             (''Address source: '' @ (case t_address_source t of Some a \<Rightarrow> address_source_name a | None \<Rightarrow> ''undefined'')))
          else None))\<rparr>"

definition mac_column :: column_def where
  "mac_column =
    \<lparr>cd_id = ''mac'', cd_head = SortHead ''MAC'', cd_hideable = True, cd_sorting = Some Alphanumeric,
     cd_key = (\<lambda>_ t. Some (KeyText (str_or (t_mac_address t) []))),
     cd_cell = (\<lambda>_ t. TextView (str_or (t_mac_address t) em_dash))\<rparr>"

definition net_column :: column_def where
  "net_column =
    \<lparr>cd_id = ''net'', cd_head = SortHead ''Net'', cd_hideable = True, cd_sorting = Some Alphanumeric,
     cd_key = (\<lambda>_ t. Some (KeyText (net_key t))), cd_cell = (\<lambda>_ t. NetView (net_cell t))\<rparr>"

definition ipconfig_column :: column_def where
  "ipconfig_column =
    \<lparr>cd_id = ''ipconfig'', cd_head = SortHead ''IP Config'', cd_hideable = True, cd_sorting = Some Alphanumeric,
     cd_key = (\<lambda>_ t. Some (KeyText (ipconfig_key t))), cd_cell = (\<lambda>_ t. IpConfigView (ipconfig_cell t))\<rparr>"

definition ap_column :: column_def where
  "ap_column =
    \<lparr>cd_id = ''ap'', cd_head = SortHead ''AP'', cd_hideable = True, cd_sorting = Some Alphanumeric,
     cd_key = (\<lambda>_ t. Some (KeyText (if truthy_bool (t_network_ap_fallback t) then ''yes'' else []))),
     cd_cell = (\<lambda>_ t. ApView (truthy_bool (t_network_ap_fallback t))
       (if truthy_bool (t_network_ap_fallback t) then Some ''Fallback access point configured (wifi.ap)'' else None))\<rparr>"

definition esp_column :: column_def where
  "esp_column =
    \<lparr>cd_id = ''esp'', cd_head = SortHead ''Platform'', cd_hideable = True, cd_sorting = Some Alphanumeric,
     cd_key = (\<lambda>_ t. Some (KeyText (str_or (t_esp_type t) []))), cd_cell = (\<lambda>_ t. EspView (esp_cell t))\<rparr>"

definition ble_tooltip :: "target \<Rightarrow> string" where
  "ble_tooltip t =
    (case nullish (t_bluetooth_proxy t) BtOff of
       BtOff \<Rightarrow> ''No bluetooth_proxy: block in this YAML''
     | BtActive \<Rightarrow> ''bluetooth_proxy: { active: true } '' @ em_dash @ '' forwards advertisements AND opens BLE connections for HA''
     | BtPassive \<Rightarrow> ''bluetooth_proxy: present without active:true '' @ em_dash @ '' forwards BLE advertisements only'')"

definition ble_column :: column_def where
  "ble_column =
    \<lparr>cd_id = ''ble'', cd_head = SortHead ''BLE proxy'', cd_hideable = True, cd_sorting = Some Alphanumeric,
     cd_key = (\<lambda>_ t. Some (KeyText (ble_key t))), cd_cell = (\<lambda>_ t. BleView (ble_cell t) (ble_tooltip t))\<rparr>"

definition schedule_column :: column_def where
  "schedule_column =
    \<lparr>cd_id = ''schedule'', cd_head = SortHead ''Schedule'', cd_hideable = True, cd_sorting = Some Alphanumeric,
     cd_key = (\<lambda>_ t. Some (KeyText (str_or (t_schedule t) (str_or (t_schedule_once t) [])))),
     cd_cell = (\<lambda>e t. ScheduleView (schedule_view (re_platform e) (re_date e) t) (t_target t))\<rparr>"

definition last_compiled_column :: column_def where
  "last_compiled_column =
    \<lparr>cd_id = ''last_compiled'', cd_head = SortHead ''Last compiled'', cd_hideable = True, cd_sorting = Some BasicSort,
     cd_key = (\<lambda>_ t. Some (KeyNumber (last_compiled_key t))),
     cd_cell = (\<lambda>e t. CompiledView (last_compiled_cell (re_platform e) (re_prefs e) (re_now e) t))\<rparr>"

definition running_column :: column_def where
  "running_column =
    \<lparr>cd_id = ''running'', cd_head = SortHead ''ESPHome'', cd_hideable = True, cd_sorting = Some Alphanumeric,
     cd_key = (\<lambda>_ t. Some (KeyText (str_or (t_running_version t) []))), cd_cell = (\<lambda>_ t. RunningView (running_cell t))\<rparr>"

definition area_column :: column_def where
  "area_column =
    \<lparr>cd_id = ''area'', cd_head = SortHead ''Area'', cd_hideable = True, cd_sorting = Some Alphanumeric,
     cd_key = (\<lambda>_ t. Some (KeyText (str_or (t_area t) []))), cd_cell = (\<lambda>_ t. TextView (str_or (t_area t) em_dash))\<rparr>"

definition comment_column :: column_def where
  "comment_column =
    \<lparr>cd_id = ''comment'', cd_head = SortHead ''Comment'', cd_hideable = True, cd_sorting = Some Alphanumeric,
     cd_key = (\<lambda>_ t. Some (KeyText (str_or (t_comment t) []))), cd_cell = (\<lambda>_ t. TextView (str_or (t_comment t) em_dash))\<rparr>"

definition project_column :: column_def where
  "project_column =
    \<lparr>cd_id = ''project'', cd_head = SortHead ''Project'', cd_hideable = True, cd_sorting = Some Alphanumeric,
     cd_key = (\<lambda>_ t. Some (KeyText (project_text t))),
     cd_cell = (\<lambda>_ t. TextView (if truthy_str (t_project_name t) then project_text t else em_dash))\<rparr>"

definition actions_column :: column_def where
  "actions_column =
    \<lparr>cd_id = ''actions'', cd_head = NoHead, cd_hideable = False, cd_sorting = None, cd_key = (\<lambda>_ _. None),
     cd_cell = (\<lambda>e t. ActionsView (actionsCell (re_versioning e)
       \<lparr>ac_target = t, ac_inFlight = (re_activeJobs e (t_target t) \<noteq> None), ac_menuOpen = (re_menu e = Some (t_target t))\<rparr>))\<rparr>"

definition useDeviceColumns :: "column_def list" where
  "useDeviceColumns =
    [select_column, name_column, tags_column, status_column, ha_column, ip_column, mac_column, net_column, ipconfig_column,
     ap_column, esp_column, ble_column, schedule_column, last_compiled_column, running_column, area_column,
     comment_column, project_column, actions_column]"

text \<open>The columns a render draws, the heading of each with its \<open>aria-sort\<close>, and a row.\<close>

definition visible_columns :: "devices_window \<Rightarrow> column_def list" where
  "visible_columns d = filter (\<lambda>c. \<not> cd_hideable c \<or> isVisible d (cd_id c)) useDeviceColumns"

definition head_cells :: "(string \<Rightarrow> sort_state) \<Rightarrow> devices_window \<Rightarrow> (column_head \<times> string option) list" where
  "head_cells sorting d =
    map (\<lambda>c. (cd_head c, if cd_sorting c = None then None else Some (getAriaSort (sorting (cd_id c))))) (visible_columns d)"

definition device_row :: "row_env \<Rightarrow> devices_window \<Rightarrow> target \<Rightarrow> cell_view list" where
  "device_row e d t = map (\<lambda>c. cd_cell c e t) (visible_columns d)"

section \<open>The handlers of the device menu\<close>

text \<open>Writing to the clipboard is a parameter: the message it rejects with, if it does. The second result is what the
  clipboard was given.\<close>

definition handleCopyApiKey :: "(json \<Rightarrow> string option) \<Rightarrow> string \<Rightarrow> app \<Rightarrow> app \<times> json option" where
  "handleCopyApiKey write f a =
    (case getApiKey f (ap_client a) of
       (Inl err, c) \<Rightarrow>
         (if (case err of ApiErr _ status \<Rightarrow> status = 404 | _ \<Rightarrow> False) then addToast (Toast InfoToast ''No API key found'') (a\<lparr>ap_client := c\<rparr>)
          else fail_with ''Could not fetch API key: '' err (a\<lparr>ap_client := c\<rparr>), None)
     | (Inr key, c) \<Rightarrow>
         (case write key of
            None \<Rightarrow> (success ''API key copied!'' (a\<lparr>ap_client := c\<rparr>), Some key)
          | Some msg \<Rightarrow> (addToast (Toast ErrToast (''Could not copy to clipboard: '' @ msg)) (a\<lparr>ap_client := c\<rparr>), None)))"

definition handleRestart :: "string \<Rightarrow> app \<Rightarrow> app" where
  "handleRestart f =
    attempt (restartDevice f) (fail_with ''Restart failed: '')
      (\<lambda>_. success (''Restarting '' @ stripYaml (Some f) @ ''...''))"

section \<open>Archiving from the row\<close>

text \<open>\<open>onDelete\<close> is not awaited: the note is shown while the request is still open.\<close>

definition onArchive :: "string \<Rightarrow> app \<Rightarrow> app" where
  "onArchive f a =
    handleDeleteDevice f True
      (addToast (Toast InfoToast (''Archived '' @ stripYaml (Some f) @ '' '' @ em_dash @ '' restore from the column picker ''
         @ right_arrow @ '' Show archived'')) a)"

section \<open>Clicks\<close>

datatype row_click =
    TickRow string
  | UncommittedPill string
  | TagsCell string
  | ScheduleCell string
  | UpgradeButton string
  | EditButton string
  | ConfigClick config_action
  | DeviceClick menu_action

text \<open>What a cell lets the user click; a menu entry only while it is enabled.\<close>

fun menu_clicks :: "context_item \<Rightarrow> row_click list" where
  "menu_clicks (SharedItem (MenuItem _ enabled _ act)) = (if enabled then [DeviceClick act] else [])"
| "menu_clicks (SharedItem (MenuLabel _)) = []"
| "menu_clicks (SharedItem MenuSeparator) = []"
| "menu_clicks (SharedItem (MenuLink _ _)) = []"
| "menu_clicks ConfigSeparator = []"
| "menu_clicks (ConfigLabel _) = []"
| "menu_clicks (ConfigItem _ enabled _ act) = (if enabled then [ConfigClick act] else [])"

fun cell_clicks :: "cell_view \<Rightarrow> row_click list" where
  "cell_clicks (TickCell f _) = [TickRow f]"
| "cell_clicks (NameView n) =
     (case nc_uncommitted n of Some (ConfigHistory f) \<Rightarrow> [UncommittedPill f] | _ \<Rightarrow> [])"
| "cell_clicks (TagsView _ edits _ _) = (case edits of Some f \<Rightarrow> [TagsCell f] | None \<Rightarrow> [])"
| "cell_clicks (ScheduleView v f) = (if v = None then [] else [ScheduleCell f])"
| "cell_clicks (ActionsView v) =
     (case av_upgrade v of Some (_, _, f) \<Rightarrow> [UpgradeButton f] | None \<Rightarrow> [])
     @ (case av_edit v of Some f \<Rightarrow> [EditButton f] | None \<Rightarrow> [])
     @ concat (map menu_clicks (snd (av_menu v)))"
| "cell_clicks _ = []"

definition row_clicks :: "row_env \<Rightarrow> devices_window \<Rightarrow> target \<Rightarrow> row_click list" where
  "row_clicks e d t = concat (map cell_clicks (device_row e d t))"

text \<open>Where a click ends: in a window of the shell, in a dialog of the tab, in the upgrade dialog, or in a call to the
  server. \<open>EditYaml\<close> and \<open>CancelJob\<close> are entries of the queue's rows only.\<close>

datatype row_call =
  PinCall string | UnpinCall string | ArchiveCall string | UnarchiveCall string | RestartCall string | CopyKeyCall string

datatype click_effect =
    OpenWindow window_event
  | TabDialog devices_event
  | OpenUpgrade string default_mode
  | CallServer row_call
  | ToggleSelection string

fun row_wiring :: "row_click \<Rightarrow> click_effect option" where
  "row_wiring (TickRow f) = Some (ToggleSelection f)"
| "row_wiring (UncommittedPill f) = Some (OpenWindow (OpenHistory f))"
| "row_wiring (TagsCell f) = Some (TabDialog (EditTags f))"
| "row_wiring (ScheduleCell f) = Some (OpenUpgrade f DefaultSchedule)"
| "row_wiring (UpgradeButton f) = Some (OpenUpgrade f DefaultNow)"
| "row_wiring (EditButton f) = Some (OpenWindow (EditFile f))"
| "row_wiring (ConfigClick (PinVersion f)) = Some (CallServer (PinCall f))"
| "row_wiring (ConfigClick (UnpinVersion f)) = Some (CallServer (UnpinCall f))"
| "row_wiring (ConfigClick (RenameDevice f)) = Some (TabDialog (AskRename f))"
| "row_wiring (ConfigClick (DuplicateDevice f)) = Some (OpenWindow (AskDuplicate f))"
| "row_wiring (ConfigClick (ConfigHistory f)) = Some (OpenWindow (OpenHistory f))"
| "row_wiring (ConfigClick (Device_Menu.ViewRendered f)) = Some (OpenWindow (App_Shell.ViewRendered (Some f)))"
| "row_wiring (ConfigClick (CommitChanges f)) = Some (OpenWindow (AskCommit f))"
| "row_wiring (ConfigClick (ArchiveDevice f)) = Some (CallServer (ArchiveCall f))"
| "row_wiring (ConfigClick (DeleteDevice f)) = Some (TabDialog (AskDelete f))"
| "row_wiring (ConfigClick (UnarchiveDevice f)) = Some (CallServer (UnarchiveCall f))"
| "row_wiring (ConfigClick (PermanentlyDelete f)) = Some (TabDialog (AskPermanent f))"
| "row_wiring (DeviceClick (LiveLogs f)) = Some (OpenWindow (OpenDeviceLog f))"
| "row_wiring (DeviceClick (CompileHistory f)) = Some (OpenWindow (OpenCompileHistory f))"
| "row_wiring (DeviceClick (RestartDevice f)) = Some (CallServer (RestartCall f))"
| "row_wiring (DeviceClick (CopyApiKey f)) = Some (CallServer (CopyKeyCall f))"
| "row_wiring (DeviceClick (Queue_Tab.PingDevice f)) = Some (OpenWindow (App_Shell.PingDevice (Some f)))"
| "row_wiring (DeviceClick (InstallToAddress f)) = Some (OpenWindow (InstallTo (Some f)))"
| "row_wiring (DeviceClick (EditYaml f)) = None"
| "row_wiring (DeviceClick (CancelJob i)) = None"

section \<open>Confirming a permanent deletion\<close>

record confirm_view =
  cf_title :: string
  cf_text :: string
  cf_buttons :: "(string \<times> bool) list"

definition permanent_view :: "permanent_delete \<Rightarrow> confirm_view option" where
  "permanent_view p =
    (case pd_target p of
       None \<Rightarrow> None
     | Some f \<Rightarrow> Some
        \<lparr>cf_title = ''Delete '' @ f @ '' from the archive?'',
         cf_text = ''This removes the file from the archive directory. The device'' @ [CHR 39]
           @ ''s prior contents stay in the config'' @ [CHR 39] @ ''s git history ''
           @ em_dash @ '' a git operator can recover them if needed.'',
         cf_buttons = [(''Cancel'', \<not> pd_busy p), (''Delete'', \<not> pd_busy p)]\<rparr>)"

datatype duplicate_view = NothingToDuplicate | DuplicateRows "(string \<times> string) list"

definition duplicate_picker :: "(string \<Rightarrow> string \<Rightarrow> int) \<Rightarrow> devices_window \<Rightarrow> target list \<Rightarrow> duplicate_view option" where
  "duplicate_picker lc d targets =
    (if \<not> dw_duplicate d then None
     else Some (if targets = [] then NothingToDuplicate else DuplicateRows (duplicate_rows lc targets)))"

section \<open>Lemmas\<close>

lemmas column_defs = select_column_def name_column_def tags_column_def status_column_def ha_column_def ip_column_def
  mac_column_def net_column_def ipconfig_column_def ap_column_def esp_column_def ble_column_def schedule_column_def
  last_compiled_column_def running_column_def area_column_def comment_column_def project_column_def actions_column_def

lemma column_ids: "map cd_id useDeviceColumns = TABLE_COLUMNS"
  by (simp add: useDeviceColumns_def column_defs TABLE_COLUMNS_def)

lemma column_hideable: "c \<in> set useDeviceColumns \<Longrightarrow> cd_hideable c \<longleftrightarrow> \<not> always_shown (cd_id c)"
  by (auto simp: useDeviceColumns_def column_defs always_shown_def)

lemma visible_ids: "map cd_id (visible_columns d) = header_columns (isVisible d)"
proof -
  have "visible_columns d = filter ((\<lambda>c. always_shown c \<or> isVisible d c) \<circ> cd_id) useDeviceColumns"
    unfolding visible_columns_def by (rule filter_cong) (auto simp: column_hideable)
  then show ?thesis by (simp only: filter_map [symmetric] column_ids [symmetric] header_columns_def)
qed

lemma list_all_row_clicks:
  assumes "\<And>c. c \<in> set useDeviceColumns \<Longrightarrow> list_all P (cell_clicks (cd_cell c e t))"
  shows "list_all P (row_clicks e d t)"
  using assms by (auto simp: row_clicks_def device_row_def visible_columns_def list_all_iff)

lemma list_all_menu_clicks:
  "list_all P (concat (map menu_clicks xs)) \<longleftrightarrow> list_all (\<lambda>i. list_all P (menu_clicks i)) xs"
  by (induction xs) auto

section \<open>Properties\<close>

fun effect_file :: "click_effect \<Rightarrow> string option" where
  "effect_file (OpenWindow w) =
     (case w of OpenHistory f \<Rightarrow> Some f | EditFile f \<Rightarrow> Some f | AskDuplicate f \<Rightarrow> Some f | App_Shell.ViewRendered f \<Rightarrow> f
      | AskCommit f \<Rightarrow> Some f | OpenDeviceLog f \<Rightarrow> Some f | OpenCompileHistory f \<Rightarrow> Some f | App_Shell.PingDevice f \<Rightarrow> f
      | InstallTo f \<Rightarrow> f | _ \<Rightarrow> None)"
| "effect_file (TabDialog d) =
     (case d of EditTags f \<Rightarrow> Some f | AskRename f \<Rightarrow> Some f | AskDelete f \<Rightarrow> Some f | AskPermanent f \<Rightarrow> Some f | _ \<Rightarrow> None)"
| "effect_file (OpenUpgrade f _) = Some f"
| "effect_file (CallServer c) =
     Some (case c of PinCall f \<Rightarrow> f | UnpinCall f \<Rightarrow> f | ArchiveCall f \<Rightarrow> f | UnarchiveCall f \<Rightarrow> f | RestartCall f \<Rightarrow> f
       | CopyKeyCall f \<Rightarrow> f)"
| "effect_file (ToggleSelection f) = Some f"

text \<open>Every click a row offers does something, and does it to the row's own file: whichever columns are shown, whatever
  runs, and whether the row is archived or not.\<close>
theorem row_clicks_stay_on_row:
  "list_all (\<lambda>c. \<exists>eff. row_wiring c = Some eff \<and> effect_file eff = Some (t_target t)) (row_clicks e d t)"
proof (rule list_all_row_clicks)
  fix c assume "c \<in> set useDeviceColumns"
  then show "list_all (\<lambda>c. \<exists>eff. row_wiring c = Some eff \<and> effect_file eff = Some (t_target t)) (cell_clicks (cd_cell c e t))"
    by (auto simp: useDeviceColumns_def column_defs device_name_cell_def Let_def actionsCell_def deviceContextMenu_def
        archived_menu_def deviceMenuSection_def config_group_def list_all_menu_clicks split: prod.splits)
qed

lemma row_clicks_eq:
  "row_clicks e d t =
     concat (map (\<lambda>c. if \<not> cd_hideable c \<or> isVisible d (cd_id c) then cell_clicks (cd_cell c e t) else []) useDeviceColumns)"
proof -
  have "concat (map f (filter P xs)) = concat (map (\<lambda>c. if P c then f c else []) xs)" for f :: "column_def \<Rightarrow> row_click list" and P xs
    by (induction xs) simp_all
  then show ?thesis by (simp add: row_clicks_def device_row_def visible_columns_def comp_def del: disj_not1)
qed

text \<open>What the cells of each column offer.\<close>

lemma no_clicks [simp]:
  "cell_clicks (cd_cell status_column e t) = []" "cell_clicks (cd_cell ha_column e t) = []"
  "cell_clicks (cd_cell ip_column e t) = []" "cell_clicks (cd_cell mac_column e t) = []"
  "cell_clicks (cd_cell net_column e t) = []" "cell_clicks (cd_cell ipconfig_column e t) = []"
  "cell_clicks (cd_cell ap_column e t) = []" "cell_clicks (cd_cell esp_column e t) = []"
  "cell_clicks (cd_cell ble_column e t) = []" "cell_clicks (cd_cell last_compiled_column e t) = []"
  "cell_clicks (cd_cell running_column e t) = []" "cell_clicks (cd_cell area_column e t) = []"
  "cell_clicks (cd_cell comment_column e t) = []" "cell_clicks (cd_cell project_column e t) = []"
  by (simp_all add: column_defs split: prod.split)

lemma schedule_view_None: "schedule_view pf to_ms t = None \<longleftrightarrow> \<not> is_scheduled t"
  by (simp add: schedule_view_def is_scheduled_def Let_def)

lemma some_clicks [simp]:
  "cell_clicks (cd_cell select_column e t) = [TickRow (t_target t)]"
  "cell_clicks (cd_cell name_column e t) = (if truthy_bool (t_has_uncommitted_changes t) then [UncommittedPill (t_target t)] else [])"
  "cell_clicks (cd_cell tags_column e t) = (if truthy_bool (t_archived t) then [] else [TagsCell (t_target t)])"
  "cell_clicks (cd_cell schedule_column e t) = (if is_scheduled t then [ScheduleCell (t_target t)] else [])"
  by (simp_all add: select_column_def name_column_def tags_column_def schedule_column_def device_name_cell_def Let_def
      schedule_view_None)

lemma archived_actions:
  "t_archived t = Some True \<Longrightarrow> cell_clicks (cd_cell actions_column e t) =
     [ConfigClick (UnarchiveDevice (t_target t)), ConfigClick (PermanentlyDelete (t_target t))]"
  by (simp add: actions_column_def actionsCell_def deviceContextMenu_def archived_menu_def)

lemma column_heads [simp]:
  "\<not> cd_hideable select_column" "\<not> cd_hideable name_column" "\<not> cd_hideable actions_column"
  "cd_hideable tags_column" "cd_hideable schedule_column" "cd_id schedule_column = ''schedule''"
  by (simp_all add: column_defs)

text \<open>What an archived row offers: being ticked, the note of uncommitted changes, its schedule as long as that column is
  shown and a schedule is left in the file, and the two entries of its menu.\<close>
theorem archived_row_clicks:
  assumes "t_archived t = Some True"
  shows "row_clicks e d t =
    [TickRow (t_target t)]
    @ (if truthy_bool (t_has_uncommitted_changes t) then [UncommittedPill (t_target t)] else [])
    @ (if isVisible d ''schedule'' \<and> is_scheduled t then [ScheduleCell (t_target t)] else [])
    @ [ConfigClick (UnarchiveDevice (t_target t)), ConfigClick (PermanentlyDelete (t_target t))]"
  using assms by (simp add: row_clicks_eq useDeviceColumns_def archived_actions)

text \<open>So a schedule that was in the file when it was archived can still be opened from the row, in a dialog that would
  upgrade a device the server no longer lists, and the Schedules tab lists the row among the scheduled devices.\<close>
theorem archived_schedule_still_offered:
  assumes "t_archived t = Some True" "truthy_str (t_schedule t)" "isVisible d ''schedule''"
  shows "ScheduleCell (t_target t) \<in> set (row_clicks e d t)
    \<and> row_wiring (ScheduleCell (t_target t)) = Some (OpenUpgrade (t_target t) DefaultSchedule)
    \<and> (t \<in> set targets \<longrightarrow> t \<in> set (scheduled targets))"
  using assms by (simp add: archived_row_clicks is_scheduled_def scheduled_def)

text \<open>Archiving from the row says Archived before the server has answered: a refusal leaves that note next to the error,
  and a success says it twice.\<close>
theorem archive_note_premature:
  assumes "deleteTarget f True (ap_client a) = (r, c)"
  shows "\<exists>rest. ap_toasts (onArchive f a) = ap_toasts a @ [Toast InfoToast (''Archived '' @ stripYaml (Some f) @ rest)]
    @ (case r of Inl err \<Rightarrow> [FailToast ''Delete failed: '' err]
       | Inr _ \<Rightarrow> [Toast SuccessToast (''Archived '' @ stripYaml (Some f))])"
  using assms
  by (intro exI [where x = "'' '' @ em_dash @ '' restore from the column picker '' @ right_arrow @ '' Show archived''"])
    (simp add: onArchive_def handleDeleteDevice_def attempt_def addToast_def fail_with_def success_def mutate_def
      split: sum.splits)

text \<open>Copying the key shows exactly one toast, and says it was copied exactly when the clipboard has what the server
  returned.\<close>
theorem copy_key_toast_true:
  "\<exists>toast. ap_toasts (fst (handleCopyApiKey write f a)) = ap_toasts a @ [toast]
     \<and> (toast = Toast SuccessToast ''API key copied!'' \<longleftrightarrow> snd (handleCopyApiKey write f a) \<noteq> None)
     \<and> (\<forall>key. snd (handleCopyApiKey write f a) = Some key \<longrightarrow> fst (getApiKey f (ap_client a)) = Inr key \<and> write key = None)"
  by (auto simp: handleCopyApiKey_def addToast_def fail_with_def success_def
      split: sum.splits prod.splits option.splits js_error.splits)

text \<open>The column picker offers exactly the columns that can be hidden, and every heading stands over its cells.\<close>
theorem picker_lists_hideable_columns:
  "set (map fst OPTIONAL_COLUMNS) = set (map cd_id (filter cd_hideable useDeviceColumns))
   \<and> length (map fst OPTIONAL_COLUMNS) = length (filter cd_hideable useDeviceColumns)
   \<and> length (head_cells sorting d) = length (device_row e d t)
   \<and> map cd_id (visible_columns d) = header_columns (isVisible d)"
proof -
  have "set (map fst OPTIONAL_COLUMNS) = set (map cd_id (filter cd_hideable useDeviceColumns))"
    by (auto simp: OPTIONAL_COLUMNS_def useDeviceColumns_def column_defs)
  moreover have "length (map fst OPTIONAL_COLUMNS) = length (filter cd_hideable useDeviceColumns)"
    by (simp add: OPTIONAL_COLUMNS_def useDeviceColumns_def column_defs)
  ultimately show ?thesis by (simp add: head_cells_def device_row_def visible_ids)
qed

text \<open>The keys are those of \<open>Device_Columns\<close>: all are texts but the time of the last compilation, the only column
  that compares numbers.\<close>
theorem column_keys:
  "list_all (\<lambda>c. (cd_sorting c = Some Alphanumeric \<longleftrightarrow> sort_key (re_activeJobs e) (cd_id c) t \<noteq> None)
      \<and> (cd_sorting c = Some Alphanumeric \<longrightarrow> cd_key c e t = map_option KeyText (sort_key (re_activeJobs e) (cd_id c) t))
      \<and> (cd_sorting c = Some BasicSort \<longleftrightarrow> cd_id c = ''last_compiled'')) useDeviceColumns"
  by (simp add: useDeviceColumns_def column_defs sort_key_def)

end
