(* ===== verification/Ansi_Render.thy ===== *)
theory Ansi_Render
  imports Fleet_Prelude
begin

text \<open>
  \<open>utils/ansi.tsx\<close>: the log-excerpt renderer. A style is the CSS object with its four optional
  fields; the regular expression \<open>CSI_RE\<close> is the function \<open>match_csi\<close>, tried at each position from
  the left as \<open>exec\<close> does; the result is the list of rendered segments in order (React keys left
  out).
\<close>

section \<open>Styles\<close>

record ansi_style =
  as_color :: "string option"
  as_backgroundColor :: "string option"
  as_bold :: bool
  as_opacity :: "rat option"

definition no_style :: ansi_style where
  "no_style = \<lparr>as_color = None, as_backgroundColor = None, as_bold = False, as_opacity = None\<rparr>"

definition FG :: "(nat \<times> string) list" where
  "FG = [(30, ''#000000''), (31, ''#cd3131''), (32, ''#0dbc79''), (33, ''#e5e510''),
         (34, ''#2472c8''), (35, ''#bc3fbc''), (36, ''#11a8cd''), (37, ''#e5e5e5''),
         (90, ''#666666''), (91, ''#f14c4c''), (92, ''#23d18b''), (93, ''#f5f543''),
         (94, ''#3b8eea''), (95, ''#d670d6''), (96, ''#29b8db''), (97, ''#ffffff'')]"

definition BG :: "(nat \<times> string) list" where
  "BG = [(40, ''#000000''), (41, ''#cd3131''), (42, ''#0dbc79''), (43, ''#e5e510''),
         (44, ''#2472c8''), (45, ''#bc3fbc''), (46, ''#11a8cd''), (47, ''#e5e5e5''),
         (100, ''#666666''), (101, ''#f14c4c''), (102, ''#23d18b''), (103, ''#f5f543''),
         (104, ''#3b8eea''), (105, ''#d670d6''), (106, ''#29b8db''), (107, ''#ffffff'')]"

text \<open>One turn of the loop for a parameter without arguments.\<close>

definition sgr_simple :: "nat \<Rightarrow> ansi_style \<Rightarrow> ansi_style" where
  "sgr_simple p s =
    (if p = 0 then no_style
     else if p = 1 then s\<lparr>as_bold := True\<rparr>
     else if p = 2 then s\<lparr>as_opacity := Some (7 / 10)\<rparr>
     else if p = 22 then s\<lparr>as_bold := False, as_opacity := None\<rparr>
     else if p = 39 then s\<lparr>as_color := None\<rparr>
     else if p = 49 then s\<lparr>as_backgroundColor := None\<rparr>
     else case map_of FG p of
       Some c \<Rightarrow> s\<lparr>as_color := Some c\<rparr>
     | None \<Rightarrow> (case map_of BG p of Some c \<Rightarrow> s\<lparr>as_backgroundColor := Some c\<rparr> | None \<Rightarrow> s))"

fun sgr_loop :: "ansi_style \<Rightarrow> nat list \<Rightarrow> ansi_style" where
  "sgr_loop s [] = s"
| "sgr_loop s (p # ps) =
     (if p = 38 \<or> p = 48 then
        (case ps of
           [] \<Rightarrow> s
         | mode # _ \<Rightarrow> if mode = 5 then sgr_loop s (drop 2 ps)
                       else if mode = 2 then sgr_loop s (drop 4 ps) else sgr_loop s (drop 1 ps))
      else sgr_loop (sgr_simple p s) ps)"

definition applyParams :: "ansi_style \<Rightarrow> nat list \<Rightarrow> ansi_style" where
  "applyParams style params = (if params = [] then no_style else sgr_loop style params)"

section \<open>Control sequences\<close>

definition ESC :: char where "ESC = CHR 0x1B"
definition BEL :: char where "BEL = CHR 0x07"

datatype csi = Csi string char | OtherSeq

definition csi_param :: "char \<Rightarrow> bool" where
  "csi_param c \<longleftrightarrow> is_digit c \<or> c = CHR '';''"

fun match_csi :: "string \<Rightarrow> (csi \<times> string) option" where
  "match_csi (e # k # r) =
     (if e \<noteq> ESC then None
      else if k = CHR ''['' then
        (case dropWhile csi_param r of
           c # r' \<Rightarrow> if is_alpha c then Some (Csi (takeWhile csi_param r) c, r') else None
         | [] \<Rightarrow> None)
      else if k = CHR '']'' then
        (case dropWhile (\<lambda>x. x \<noteq> BEL) r of _ # r' \<Rightarrow> Some (OtherSeq, r') | [] \<Rightarrow> None)
      else if k = CHR ''='' \<or> k = CHR ''>'' then Some (OtherSeq, r)
      else None)"
| "match_csi _ = None"

definition csi_params :: "string \<Rightarrow> nat list" where
  "csi_params m1 = (if m1 = [] then [] else map (\<lambda>p. if p = [] then 0 else digits_val p) (split_on (CHR '';'') m1))"

definition csi_step :: "csi \<Rightarrow> ansi_style \<Rightarrow> ansi_style" where
  "csi_step q style =
    (case q of Csi m1 c \<Rightarrow> if c = CHR ''m'' then applyParams style (csi_params m1) else style | OtherSeq \<Rightarrow> style)"

section \<open>Rendering\<close>

datatype segment = PlainSeg string | StyledSeg ansi_style string

definition pushSegment :: "ansi_style \<Rightarrow> string \<Rightarrow> segment list" where
  "pushSegment style txt =
    (if txt = [] then [] else if style = no_style then [PlainSeg txt] else [StyledSeg style txt])"

lemma dropWhile_shorter: "dropWhile P xs = y # ys \<Longrightarrow> length ys < length xs"
  by (metis impossible_Cons length_Cons length_dropWhile_le less_Suc_eq_le linorder_not_less)

lemma match_csi_shorter: "match_csi s = Some (q, r) \<Longrightarrow> length r < length s"
  by (induction s rule: match_csi.induct)
    (auto split: if_splits list.splits dest!: dropWhile_shorter)

function ansi_loop :: "ansi_style \<Rightarrow> string \<Rightarrow> string \<Rightarrow> segment list" where
  "ansi_loop style pending s =
     (case match_csi s of
        Some (q, rest) \<Rightarrow> pushSegment style pending @ ansi_loop (csi_step q style) [] rest
      | None \<Rightarrow> (case s of [] \<Rightarrow> pushSegment style pending | c # s' \<Rightarrow> ansi_loop style (pending @ [c]) s'))"
  by pat_completeness auto
termination
  by (relation "measure (\<lambda>(_, _, s). length s)") (auto dest: match_csi_shorter)

declare ansi_loop.simps [simp del]

text \<open>\<open>raw.replace(/\r\n/g, '\n')\<close>, then each line from its last carriage return on.\<close>

definition CR :: char where "CR = CHR 0x0D"
definition LF :: char where "LF = CHR 0x0A"

fun normalize_crlf :: "string \<Rightarrow> string" where
  "normalize_crlf (a # b # s) =
     (if a = CR \<and> b = LF then LF # normalize_crlf s else a # normalize_crlf (b # s))"
| "normalize_crlf s = s"

definition last_frame :: "string \<Rightarrow> string" where
  "last_frame line = (case last_index_of CR line of None \<Rightarrow> line | Some i \<Rightarrow> drop (i + 1) line)"

definition final_frames :: "string \<Rightarrow> string" where
  "final_frames raw = join_with [LF] (map last_frame (split_on LF (normalize_crlf raw)))"

definition renderAnsi :: "string \<Rightarrow> segment list option" where
  "renderAnsi raw = (if raw = [] then None else Some (ansi_loop no_style [] (final_frames raw)))"

section \<open>Lemmas\<close>

lemma CR_not_LF [simp]: "CR \<noteq> LF" "LF \<noteq> CR"
  by (simp_all add: CR_def LF_def)

lemma last_frame_no_cr: "CR \<notin> set (last_frame line)"
proof (cases "index_of CR (rev line)")
  case None
  then have "CR \<notin> set line" by (simp add: index_of_None)
  with None show ?thesis by (simp add: last_frame_def last_index_of_def)
next
  case (Some i)
  note i = index_of_Some [OF Some]
  have "length line - Suc i + 1 = length line - i" using i by (simp add: Suc_diff_Suc)
  then have "last_frame line = drop (length line - i) line"
    using Some by (simp add: last_frame_def last_index_of_def)
  also have "\<dots> = rev (take i (rev line))" by (simp add: take_rev)
  finally show ?thesis using i by simp
qed

lemma last_frame_id: "CR \<notin> set line \<Longrightarrow> last_frame line = line"
proof -
  assume "CR \<notin> set line"
  then have "index_of CR (rev line) = None" by (simp add: index_of_None)
  then show ?thesis by (simp add: last_frame_def last_index_of_def)
qed

lemma final_frames_no_cr: "CR \<notin> set (final_frames raw)"
  using set_join_with [of "[LF]" "map last_frame (split_on LF (normalize_crlf raw))"] last_frame_no_cr
  by (auto simp: final_frames_def)

lemma normalize_crlf_id: "CR \<notin> set s \<Longrightarrow> normalize_crlf s = s"
  by (induction s rule: normalize_crlf.induct) auto

text \<open>A match found in a prefix is found in the whole.\<close>

lemma dropWhile_extend: "dropWhile P xs = y # ys \<Longrightarrow> dropWhile P (xs @ zs) = y # ys @ zs \<and> takeWhile P (xs @ zs) = takeWhile P xs"
  by (induction xs) auto

lemma match_csi_extend:
  assumes "match_csi s = Some (q, r)"
  shows "match_csi (s @ t) = Some (q, r @ t)"
proof -
  from assms obtain k u where s: "s = ESC # k # u"
    by (cases s rule: match_csi.cases) (auto split: if_splits)
  consider "k = CHR ''[''" | "k = CHR '']''" | "k = CHR ''='' \<or> k = CHR ''>''"
    using assms s by (auto split: if_splits)
  then show ?thesis
  proof cases
    case 1
    with assms s obtain c where "dropWhile csi_param u = c # r" "is_alpha c" "q = Csi (takeWhile csi_param u) c"
      by (auto split: list.splits if_splits)
    with 1 s dropWhile_extend [of csi_param u c r t] show ?thesis by simp
  next
    case 2
    with assms s obtain c where "dropWhile (\<lambda>x. x \<noteq> BEL) u = c # r" "q = OtherSeq"
      by (auto split: list.splits)
    with 2 s dropWhile_extend [of "\<lambda>x. x \<noteq> BEL" u c r t] show ?thesis by simp
  next
    case 3
    with assms s show ?thesis by auto
  qed
qed

lemma dropWhile_rest: "dropWhile P xs = y # ys \<Longrightarrow> set ys \<subseteq> set xs"
  by (metis set_dropWhileD set_subset_Cons subsetI subset_trans)

lemma match_csi_rest: "match_csi s = Some (q, r) \<Longrightarrow> set r \<subseteq> set s"
  by (induction s rule: match_csi.induct)
    (auto split: if_splits list.splits dest!: dropWhile_rest)

definition no_csi :: "string \<Rightarrow> bool" where
  "no_csi s \<longleftrightarrow> (\<forall>i. match_csi (drop i s) = None)"

lemma no_csi_Nil: "no_csi []"
  by (simp add: no_csi_def)

lemma segment_clean:
  assumes "\<forall>i < length pending. match_csi (drop i pending @ s) = None"
  shows "no_csi pending"
  unfolding no_csi_def
proof
  fix i
  show "match_csi (drop i pending) = None"
  proof (cases "i < length pending")
    case True
    with assms have "match_csi (drop i pending @ s) = None" by simp
    then show ?thesis using match_csi_extend [of "drop i pending"] by (cases "match_csi (drop i pending)") auto
  qed simp
qed

fun seg_text :: "segment \<Rightarrow> string" where
  "seg_text (PlainSeg t) = t"
| "seg_text (StyledSeg _ t) = t"

lemma pushSegment_text: "x \<in> set (pushSegment st txt) \<Longrightarrow> seg_text x = txt \<and> txt \<noteq> []"
  by (auto simp: pushSegment_def split: if_splits)

lemma ansi_loop_clean:
  assumes "\<forall>i < length pending. match_csi (drop i pending @ s) = None"
  shows "\<forall>x \<in> set (ansi_loop st pending s). no_csi (seg_text x) \<and> seg_text x \<noteq> []
    \<and> set (seg_text x) \<subseteq> set pending \<union> set s"
  using assms
proof (induction st pending s rule: ansi_loop.induct)
  case (1 st pending s)
  have here: "\<forall>x \<in> set (pushSegment st pending). no_csi (seg_text x) \<and> seg_text x \<noteq> []
      \<and> set (seg_text x) \<subseteq> set pending \<union> set s"
    using segment_clean [OF 1(3)] pushSegment_text by auto
  show ?case
  proof (cases "match_csi s")
    case (Some qr)
    obtain q r where qr: "qr = (q, r)" by (cases qr)
    have "\<forall>x \<in> set (ansi_loop (csi_step q st) [] r). no_csi (seg_text x) \<and> seg_text x \<noteq> []
        \<and> set (seg_text x) \<subseteq> set [] \<union> set r"
      using 1(2) [OF Some [unfolded qr] refl] by simp
    moreover have "set r \<subseteq> set s" using match_csi_rest [OF Some [unfolded qr]] .
    ultimately show ?thesis using here Some qr by (subst ansi_loop.simps) (auto dest: subsetD)
  next
    case None
    show ?thesis
    proof (cases s)
      case Nil
      with None here show ?thesis by (subst ansi_loop.simps) simp
    next
      case (Cons c s')
      have "\<forall>i < length (pending @ [c]). match_csi (drop i (pending @ [c]) @ s') = None"
      proof (intro allI impI)
        fix i assume i: "i < length (pending @ [c])"
        show "match_csi (drop i (pending @ [c]) @ s') = None"
        proof (cases "i < length pending")
          case True
          then show ?thesis using 1(3) Cons by (simp add: less_imp_le)
        next
          case False
          with i have "i = length pending" by simp
          then show ?thesis using None Cons by simp
        qed
      qed
      from 1(1) [OF None Cons this] show ?thesis
        using None Cons by (subst ansi_loop.simps) auto
    qed
  qed
qed

lemma sgr_loop_append:
  "38 \<notin> set ps \<Longrightarrow> 48 \<notin> set ps \<Longrightarrow> sgr_loop s (ps @ qs) = sgr_loop (sgr_loop s ps) qs"
  by (induction ps arbitrary: s) auto

lemma ansi_loop_plain:
  "ESC \<notin> set s \<Longrightarrow> ansi_loop st pending s = pushSegment st (pending @ s)"
proof (induction s arbitrary: pending)
  case Nil
  then show ?case by (subst ansi_loop.simps) simp
next
  case (Cons c s)
  have "match_csi (c # s) = None" using Cons.prems by (cases s) auto
  with Cons show ?case by (subst ansi_loop.simps) simp
qed

lemma final_frames_id:
  assumes "CR \<notin> set raw"
  shows "final_frames raw = raw"
proof -
  have "map last_frame (split_on LF raw) = split_on LF raw"
  proof (rule map_idI)
    fix x assume "x \<in> set (split_on LF raw)"
    then have "set x \<subseteq> set raw" by (rule split_on_subset)
    with assms show "last_frame x = x" by (intro last_frame_id) auto
  qed
  then show ?thesis using assms by (simp add: final_frames_def normalize_crlf_id join_split_on)
qed

section \<open>Properties\<close>

text \<open>C27: the rendered log is clean: no segment is empty, contains a carriage return or contains, at any
  position, a control sequence the renderer recognises, whatever bytes the log holds.\<close>
theorem rendered_log_clean:
  assumes "renderAnsi raw = Some segs"
  shows "list_all (\<lambda>x. seg_text x \<noteq> [] \<and> CR \<notin> set (seg_text x)
     \<and> list_all (\<lambda>i. match_csi (drop i (seg_text x)) = None) [0..<length (seg_text x)]) segs"
proof -
  have "segs = ansi_loop no_style [] (final_frames raw)"
    using assms by (simp add: renderAnsi_def split: if_splits)
  then have "\<forall>x \<in> set segs. no_csi (seg_text x) \<and> seg_text x \<noteq> []
      \<and> set (seg_text x) \<subseteq> set [] \<union> set (final_frames raw)"
    using ansi_loop_clean [of "[]" "final_frames raw" no_style] by simp
  then show ?thesis
    using final_frames_no_cr [of raw] by (auto simp: list_all_iff no_csi_def)
qed

definition sample_log :: string where
  "sample_log = ''10%'' @ [CR] @ ''100%'' @ [CR, LF, ESC] @ ''[1;31mfail'' @ [ESC] @ ''[m'' @ [ESC] @ ''[2K.''"

theorem rendered_log_witness:
  "renderAnsi sample_log = Some [PlainSeg (''100%'' @ [LF]), StyledSeg (no_style\<lparr>as_bold := True, as_color := Some ''#cd3131''\<rparr>) ''fail'', PlainSeg ''.'']
   \<and> list_all (\<lambda>x. seg_text x \<noteq> [] \<and> CR \<notin> set (seg_text x)
     \<and> list_all (\<lambda>i. match_csi (drop i (seg_text x)) = None) [0..<length (seg_text x)])
     [PlainSeg (''100%'' @ [LF]), StyledSeg (no_style\<lparr>as_bold := True, as_color := Some ''#cd3131''\<rparr>) ''fail'', PlainSeg ''.'']"
proof -
  have r: "renderAnsi sample_log = Some [PlainSeg (''100%'' @ [LF]), StyledSeg (no_style\<lparr>as_bold := True, as_color := Some ''#cd3131''\<rparr>) ''fail'', PlainSeg ''.'']"
    by code_simp
  from rendered_log_clean [OF r] r show ?thesis by blast
qed

text \<open>Parameters of one sequence act like separate sequences: splitting a parameter list that holds
  no extended colour code changes nothing, and a reset code anywhere discards what came before
  it; an extended colour code (256-colour or true colour) is skipped with its arguments and
  leaves the style alone.\<close>
theorem sgr_sequences_compose:
  assumes "38 \<notin> set ps" and "48 \<notin> set ps" and "ps \<noteq> []" and "qs \<noteq> []"
  shows "applyParams st (ps @ qs) = applyParams (applyParams st ps) qs
    \<and> applyParams st (ps @ 0 # qs) = applyParams no_style qs
    \<and> applyParams st (ps @ [38, 5, n] @ qs) = applyParams (applyParams st ps) qs
    \<and> applyParams st (ps @ [48, 2, r, g, b] @ qs) = applyParams (applyParams st ps) qs"
  using assms
  by (auto simp: applyParams_def sgr_loop_append sgr_simple_def)

theorem sgr_sequences_witness:
  "applyParams no_style ([1] @ [38, 5, 200] @ [31]) = no_style\<lparr>as_bold := True, as_color := Some ''#cd3131''\<rparr>"
proof -
  have "applyParams no_style ([1] @ [38, 5, 200] @ [31]) = applyParams (applyParams no_style [1]) [31]"
    using sgr_sequences_compose [of "[1]" "[31]" no_style 200] by simp
  also have "\<dots> = no_style\<lparr>as_bold := True, as_color := Some ''#cd3131''\<rparr>" by code_simp
  finally show ?thesis .
qed

text \<open>A log without escapes and carriage returns is shown as it is.\<close>

lemma plain_log: "raw \<noteq> [] \<Longrightarrow> ESC \<notin> set raw \<Longrightarrow> CR \<notin> set raw \<Longrightarrow> renderAnsi raw = Some [PlainSeg raw]"
  by (simp add: renderAnsi_def final_frames_id ansi_loop_plain pushSegment_def)

end
