(* ===== verification/History_Views.thy ===== *)
theory History_Views
  imports Api_Endpoints Job_Origin Job_State Ansi_Render Text_Format
begin

text \<open>
  The compile history: the fleet-wide dialog (\<open>components/QueueHistoryDialog.tsx\<close>), its time range
  picker (\<open>components/TimeRangePicker.tsx\<close>) and the drawer of one device
  (\<open>components/CompileHistoryPanel.tsx\<close>). The dialog is a state with one request at most in flight;
  an event sets state and then the effects run (wipe on a new filter, fetch a first page). Calendar
  arithmetic of the local time zone is an argument.
\<close>

section \<open>Rows\<close>

record history_row =
  hr_id :: string
  hr_target :: string
  hr_state :: string
  hr_triggered_by :: "string option"
  hr_trigger_detail :: "string option"
  hr_download_only :: bool
  hr_validate_only :: bool
  hr_esphome_version :: "string option"
  hr_assigned_client_id :: "string option"
  hr_assigned_hostname :: "string option"
  hr_submitted_at :: "rat option"
  hr_started_at :: "rat option"
  hr_finished_at :: "rat option"
  hr_duration_seconds :: "rat option"
  hr_ota_result :: "string option"
  hr_config_hash :: "string option"
  hr_log_excerpt :: "string option"
  hr_firmware_variants :: "string list"
  hr_selection_reason :: "string option"

definition history_trigger :: "history_row \<Rightarrow> trigger_row" where
  "history_trigger r =
    \<lparr>tr_ha_action = None, tr_api_triggered = None, tr_scheduled = None, tr_schedule_kind = None,
     tr_triggered_by = hr_triggered_by r, tr_trigger_detail = hr_trigger_detail r, tr_state = Some (hr_state r),
     tr_started_at = hr_started_at r, tr_assigned_hostname = hr_assigned_hostname r\<rparr>"

definition history_badge :: "history_row \<Rightarrow> badge" where
  "history_badge r = getJobBadge
    \<lparr>j_state = hr_state r, j_ota_result = hr_ota_result r, j_validate_only = Some (hr_validate_only r),
     j_download_only = Some (hr_download_only r), j_server_ota = None, j_ota_only = None, j_status_text = None\<rparr>"

definition friendlyFor :: "target list \<Rightarrow> string \<Rightarrow> string" where
  "friendlyFor targets filename =
    (case find (\<lambda>x. t_target x = filename) targets of
       None \<Rightarrow> filename
     | Some t \<Rightarrow> str_or (t_friendly_name t) (str_or (t_device_name t) filename))"

definition rowMatchesSearch :: "history_row \<Rightarrow> string \<Rightarrow> target list \<Rightarrow> bool" where
  "rowMatchesSearch row q targets =
    (if q = [] then True
     else list_ex (\<lambda>f. case f of None \<Rightarrow> False | Some s \<Rightarrow> includes_str (to_lower s) (to_lower q))
       [Some (hr_target row), Some (friendlyFor targets (hr_target row)), Some (hr_state row), hr_esphome_version row,
        hr_config_hash row, hr_assigned_hostname row, hr_assigned_client_id row, hr_triggered_by row,
        hr_trigger_detail row, hr_ota_result row, hr_log_excerpt row])"

section \<open>The dialog\<close>

definition PAGE_SIZE :: nat where "PAGE_SIZE = 100"

definition SORTABLE :: "string \<Rightarrow> string option" where
  "SORTABLE = map_of (map (\<lambda>c. (c, c))
    [''target'', ''state'', ''esphome_version'', ''duration_seconds'', ''submitted_at'', ''finished_at'', ''triggered_by'',
     ''assigned_hostname''])"

record history_filter =
  hf_since :: "int option"
  hf_until :: "int option"
  hf_state :: string
  hf_sorting :: "(string \<times> bool) option"

record history_dialog =
  hd_open :: bool
  hd_filter :: history_filter
  hd_preset :: "string option"
  hd_q :: string
  hd_pages :: "history_row list list"
  hd_hasMore :: bool
  hd_pending :: "history_params option"
  hd_error :: "string option"
  hd_expanded :: "string option"
  hd_sent :: "history_params list"

definition initial_dialog :: "int \<Rightarrow> history_dialog" where
  "initial_dialog now =
    \<lparr>hd_open = False,
     hd_filter = \<lparr>hf_since = Some (now - 30 * 86400), hf_until = None, hf_state = [], hf_sorting = Some (''finished_at'', True)\<rparr>,
     hd_preset = Some ''Last 30 days'', hd_q = [], hd_pages = [], hd_hasMore = True, hd_pending = None, hd_error = None,
     hd_expanded = None, hd_sent = []\<rparr>"

definition history_request :: "history_filter \<Rightarrow> nat \<Rightarrow> history_params" where
  "history_request f offset =
    \<lparr>hp_target = None, hp_state = (if hf_state f \<noteq> [] then Some (hf_state f) else None), hp_since = hf_since f,
     hp_until = hf_until f, hp_limit = Some (int PAGE_SIZE), hp_offset = Some (int offset),
     hp_sort = Some (case hf_sorting f of None \<Rightarrow> ''finished_at'' | Some (c, _) \<Rightarrow> str_or (SORTABLE c) ''finished_at''),
     hp_desc = Some (case hf_sorting f of None \<Rightarrow> True | Some (_, d) \<Rightarrow> d)\<rparr>"

definition fetchNextPage :: "history_dialog \<Rightarrow> history_dialog" where
  "fetchNextPage h =
    (if hd_pending h \<noteq> None \<or> \<not> hd_hasMore h \<or> \<not> hd_open h then h
     else let q = history_request (hd_filter h) (length (hd_pages h) * PAGE_SIZE)
          in h\<lparr>hd_pending := Some q, hd_sent := hd_sent h @ [q]\<rparr>)"

text \<open>The first-load effect and the two wiping effects.\<close>

definition first_load :: "history_dialog \<Rightarrow> history_dialog" where
  "first_load h =
    (if hd_open h \<and> hd_pages h = [] \<and> hd_hasMore h \<and> hd_pending h = None then fetchNextPage h else h)"

definition wipe :: "history_dialog \<Rightarrow> history_dialog" where
  "wipe h = (if hd_open h then h\<lparr>hd_pages := [], hd_hasMore := True, hd_error := None, hd_expanded := None\<rparr> else h)"

definition set_filter :: "history_filter \<Rightarrow> history_dialog \<Rightarrow> history_dialog" where
  "set_filter f h = (if f = hd_filter h then h else first_load (wipe (h\<lparr>hd_filter := f\<rparr>)))"

definition set_open :: "bool \<Rightarrow> history_dialog \<Rightarrow> history_dialog" where
  "set_open b h =
    (if b then first_load (wipe (h\<lparr>hd_open := True\<rparr>)) else h\<lparr>hd_open := False, hd_pages := [], hd_expanded := None\<rparr>)"

text \<open>The continuation of \<open>fetchNextPage\<close> when its request settles, with the effects that follow.\<close>

definition on_rows :: "history_row list \<Rightarrow> history_dialog \<Rightarrow> history_dialog" where
  "on_rows rows h =
    (if hd_pending h = None then h
     else first_load (h\<lparr>hd_pages := hd_pages h @ [rows],
            hd_hasMore := (if length rows < PAGE_SIZE then False else hd_hasMore h), hd_pending := None\<rparr>))"

definition on_failure :: "string \<Rightarrow> history_dialog \<Rightarrow> history_dialog" where
  "on_failure err h =
    (if hd_pending h = None then h else first_load (h\<lparr>hd_error := Some err, hd_pending := None\<rparr>))"

definition flatRows :: "target list \<Rightarrow> history_dialog \<Rightarrow> history_row list" where
  "flatRows targets h =
    (let rows = concat (hd_pages h); needle = to_lower (trim (hd_q h))
     in if needle = [] then rows else filter (\<lambda>r. rowMatchesSearch r needle targets) rows)"

text \<open>The sentinel row exists only below rows, and only while there is more to load.\<close>

definition sentinel :: "target list \<Rightarrow> history_dialog \<Rightarrow> bool" where
  "sentinel targets h \<longleftrightarrow> hd_open h \<and> flatRows targets h \<noteq> [] \<and> hd_hasMore h"

definition on_scroll :: "target list \<Rightarrow> history_dialog \<Rightarrow> history_dialog" where
  "on_scroll targets h = (if sentinel targets h then fetchNextPage h else h)"

definition toggle_row :: "history_row \<Rightarrow> history_dialog \<Rightarrow> history_dialog" where
  "toggle_row r h =
    (if truthy_str (hr_log_excerpt r)
     then h\<lparr>hd_expanded := (if hd_expanded h = Some (hr_id r) then None else Some (hr_id r))\<rparr> else h)"

definition no_rows_message :: "target list \<Rightarrow> history_dialog \<Rightarrow> bool" where
  "no_rows_message targets h \<longleftrightarrow> flatRows targets h = [] \<and> hd_pending h = None"

definition history_footer :: "target list \<Rightarrow> history_dialog \<Rightarrow> string" where
  "history_footer targets h =
    (let n = length (flatRows targets h) in
     if n = 0 then (if hd_pending h \<noteq> None then ''Loading'' @ [CHR 0xE2, CHR 0x80, CHR 0xA6] else ''No rows'')
     else ''Showing '' @ show_nat n @ '' row'' @ (if n = 1 then [] else ''s'') @ (if hd_hasMore h then [] else '' (end of history)''))"

datatype history_event =
    HistOpen | HistClose | HistRange "int option" "int option" "string option" | HistState string
  | HistSort "(string \<times> bool) option" | HistSearch string | HistScroll | HistToggle history_row
  | HistRows "history_row list" | HistFailure string

fun history_step :: "target list \<Rightarrow> history_event \<Rightarrow> history_dialog \<Rightarrow> history_dialog" where
  "history_step targets HistOpen h = (if hd_open h then h else set_open True h)"
| "history_step targets HistClose h = (if hd_open h then set_open False h else h)"
| "history_step targets (HistRange since until label) h =
     set_filter ((hd_filter h)\<lparr>hf_since := since, hf_until := until\<rparr>) (h\<lparr>hd_preset := label\<rparr>)"
| "history_step targets (HistState s) h = set_filter ((hd_filter h)\<lparr>hf_state := s\<rparr>) h"
| "history_step targets (HistSort s) h = set_filter ((hd_filter h)\<lparr>hf_sorting := s\<rparr>) h"
| "history_step targets (HistSearch q) h = h\<lparr>hd_q := q\<rparr>"
| "history_step targets HistScroll h = on_scroll targets h"
| "history_step targets (HistToggle r) h = toggle_row r h"
| "history_step targets (HistRows rows) h = on_rows rows h"
| "history_step targets (HistFailure err) h = on_failure err h"

section \<open>Cells\<close>

text \<open>Text and tooltip; the dash stands for nothing.\<close>

definition duration_cell :: "history_row \<Rightarrow> (string \<times> string option) option" where
  "duration_cell r =
    (if isScheduledCancelBeforeStart (history_trigger r) then None
     else Some (fmtDuration (hr_duration_seconds r),
       if hr_started_at r = None then Some ''Queue-time only (job never reached a worker)'' else None))"

definition worker_cell_text :: "history_row \<Rightarrow> string" where
  "worker_cell_text r =
    (if isScheduledCancelBeforeStart (history_trigger r) then [] else str_or (hr_assigned_hostname r) em_dash)"

definition commit_cell :: "bool \<Rightarrow> bool \<Rightarrow> history_row \<Rightarrow> (string \<times> (string \<times> string) option) option" where
  "commit_cell versioningEnabled canDiff r =
    (if \<not> versioningEnabled \<or> \<not> truthy_str (hr_config_hash r) then None
     else Some (take 7 (the (hr_config_hash r)), if canDiff then Some (hr_target r, the (hr_config_hash r)) else None))"

section \<open>The drawer of one device\<close>

definition PANEL_PAGE :: nat where "PANEL_PAGE = 50"

definition triggeredLabel :: "history_row \<Rightarrow> string" where
  "triggeredLabel row =
    (if isScheduledCancelBeforeStart (history_trigger row) then
       (if hr_trigger_detail row = Some ''once'' then ''Scheduled (once) '' @ em_dash @ '' cancelled before start''
        else ''Scheduled '' @ em_dash @ '' cancelled before start'')
     else if hr_triggered_by row = Some ''ha_action'' then ''HA action''
     else if hr_triggered_by row = Some ''schedule'' then
       (if hr_trigger_detail row = Some ''once'' then ''Scheduled (once)'' else ''Scheduled'')
     else ''User'')"

record history_panel =
  pn_target :: "string option"
  pn_offset :: nat
  pn_expanded :: "string option"

definition panel_request :: "history_panel \<Rightarrow> history_params option" where
  "panel_request p =
    (case pn_target p of
       None \<Rightarrow> None
     | Some t \<Rightarrow> Some \<lparr>hp_target = Some t, hp_state = None, hp_since = None, hp_until = None,
         hp_limit = Some (int PANEL_PAGE), hp_offset = Some (int (pn_offset p)), hp_sort = None, hp_desc = None\<rparr>)"

definition panel_close :: "history_panel \<Rightarrow> history_panel" where
  "panel_close p = p\<lparr>pn_offset := 0, pn_expanded := None, pn_target := None\<rparr>"

definition load_more :: "history_row list \<Rightarrow> history_panel \<Rightarrow> history_panel" where
  "load_more rows p = (if length rows = PANEL_PAGE then p\<lparr>pn_offset := pn_offset p + PANEL_PAGE\<rparr> else p)"

text \<open>The rows listed for a request are those of its response, and only those.\<close>

definition panel_rows :: "(history_params \<Rightarrow> history_row list) \<Rightarrow> history_panel \<Rightarrow> history_row list" where
  "panel_rows srv p = (case panel_request p of None \<Rightarrow> [] | Some q \<Rightarrow> srv q)"

definition panel_empty_note :: "history_row list \<Rightarrow> history_panel \<Rightarrow> bool" where
  "panel_empty_note rows p \<longleftrightarrow> rows = [] \<and> pn_offset p = 0"

section \<open>The time range picker\<close>

text \<open>Local calendar fields of an instant (day number, hours, minutes), and \<open>setHours(h, m, 0, 0)\<close>.\<close>

record clock_zone =
  cz_day :: "int \<Rightarrow> int"
  cz_hour :: "int \<Rightarrow> int"
  cz_minute :: "int \<Rightarrow> int"
  cz_set :: "int \<Rightarrow> int \<Rightarrow> int \<Rightarrow> int"

definition PRESETS :: "(string \<times> int) list" where
  "PRESETS =
    [(''Last 5 minutes'', 5 * 60), (''Last 15 minutes'', 15 * 60), (''Last 1 hour'', 3600), (''Last 6 hours'', 6 * 3600),
     (''Last 24 hours'', 86400), (''Last 7 days'', 7 * 86400), (''Last 30 days'', 30 * 86400), (''Last 90 days'', 90 * 86400),
     (''Last year'', 365 * 86400)]"

record picker =
  pk_from :: "int option"
  pk_to :: "int option"
  pk_fromTime :: string
  pk_toTime :: string

definition initial_picker :: picker where
  "initial_picker = \<lparr>pk_from = None, pk_to = None, pk_fromTime = ''00:00'', pk_toTime = ''23:59''\<rparr>"

definition fmtTimeHHMM :: "clock_zone \<Rightarrow> int \<Rightarrow> string" where
  "fmtTimeHHMM z t = pad2 (cz_hour z t) @ '':'' @ pad2 (cz_minute z t)"

text \<open>The effect that runs when the popover opens.\<close>

definition open_picker :: "clock_zone \<Rightarrow> int option \<Rightarrow> int option \<Rightarrow> picker \<Rightarrow> picker" where
  "open_picker z since until p =
    p\<lparr>pk_from := since, pk_to := until,
      pk_fromTime := (case since of None \<Rightarrow> pk_fromTime p | Some t \<Rightarrow> fmtTimeHHMM z t),
      pk_toTime := (case until of None \<Rightarrow> pk_toTime p | Some t \<Rightarrow> fmtTimeHHMM z t)\<rparr>"

definition combineDateAndTime :: "clock_zone \<Rightarrow> int \<Rightarrow> string \<Rightarrow> int" where
  "combineDateAndTime z date time =
    (let parts = split_on (CHR '':'') time;
         hh = parse_int (hd parts);
         mm = parse_int (case tl parts of [] \<Rightarrow> ''0'' | m # _ \<Rightarrow> m)
     in cz_set z (cz_day z date) (nullish hh 0) (nullish mm 0))"

definition applyAbsolute :: "clock_zone \<Rightarrow> picker \<Rightarrow> (int \<times> int) option" where
  "applyAbsolute z p =
    (case pk_from p of
       None \<Rightarrow> None
     | Some f \<Rightarrow> Some (combineDateAndTime z f (pk_fromTime p), combineDateAndTime z (nullish (pk_to p) f) (pk_toTime p)))"

definition choose_preset :: "int \<Rightarrow> string \<Rightarrow> (int option \<times> int option \<times> string) option" where
  "choose_preset now label =
    (if label = ''All time'' then Some (None, None, label)
     else map_option (\<lambda>s. (Some (now - s), None, label)) (map_of PRESETS label))"

definition triggerLabel :: "platform \<Rightarrow> fmt_prefs \<Rightarrow> int option \<Rightarrow> int option \<Rightarrow> string option \<Rightarrow> string" where
  "triggerLabel pf st since until label =
    nullish label
      (if since = None \<and> until = None then ''All time''
       else (let f = fmtEpochAbsolute pf st (map_option of_int since); t = fmtEpochAbsolute pf st (map_option of_int until)
             in (if f \<noteq> [] then f else [CHR 0xE2, CHR 0x80, CHR 0xA6]) @ '' '' @ [CHR 0xE2, CHR 0x86, CHR 0x92] @ '' ''
                  @ (if t \<noteq> [] then t else ''now'')))"

section \<open>Paging\<close>

text \<open>
  \<open>srv\<close> is the full result of a request without its offset; the server answers with the page at the
  offset. A run is quiet when filters change and the dialog opens or closes only with no request in
  flight.
\<close>

type_synonym history_server = "history_params \<Rightarrow> history_row list"

definition page_at :: "history_server \<Rightarrow> history_params \<Rightarrow> history_row list" where
  "page_at srv q = take PAGE_SIZE (drop (nat (nullish (hp_offset q) 0)) (srv (q\<lparr>hp_offset := None\<rparr>)))"

definition all_rows :: "history_server \<Rightarrow> history_filter \<Rightarrow> history_row list" where
  "all_rows srv f = srv ((history_request f 0)\<lparr>hp_offset := None\<rparr>)"

fun changes_view :: "history_event \<Rightarrow> bool" where
  "changes_view HistOpen = True"
| "changes_view HistClose = True"
| "changes_view (HistRange _ _ _) = True"
| "changes_view (HistState _) = True"
| "changes_view (HistSort _) = True"
| "changes_view _ = False"

inductive quiet_run :: "history_server \<Rightarrow> target list \<Rightarrow> history_dialog \<Rightarrow> bool" for srv targets where
  start: "quiet_run srv targets (initial_dialog now)"
| view: "quiet_run srv targets h \<Longrightarrow> changes_view e \<Longrightarrow> hd_pending h = None \<Longrightarrow> quiet_run srv targets (history_step targets e h)"
| use: "quiet_run srv targets h \<Longrightarrow> e \<in> {HistSearch q, HistScroll, HistToggle r, HistFailure err}
    \<Longrightarrow> quiet_run srv targets (history_step targets e h)"
| answer: "quiet_run srv targets h \<Longrightarrow> hd_pending h = Some q
    \<Longrightarrow> quiet_run srv targets (history_step targets (HistRows (page_at srv q)) h)"

definition pages_ok :: "history_server \<Rightarrow> history_dialog \<Rightarrow> bool" where
  "pages_ok srv h \<longleftrightarrow>
    (hd_open h \<longrightarrow> concat (hd_pages h) = take (PAGE_SIZE * length (hd_pages h)) (all_rows srv (hd_filter h))
       \<and> (\<not> hd_hasMore h \<longrightarrow> length (all_rows srv (hd_filter h)) \<le> PAGE_SIZE * length (hd_pages h)))
    \<and> (case hd_pending h of None \<Rightarrow> True
        | Some q \<Rightarrow> hd_open h \<and> q = history_request (hd_filter h) (length (hd_pages h) * PAGE_SIZE))"

lemma page_at_request: "page_at srv (history_request f n) = take PAGE_SIZE (drop n (all_rows srv f))"
  by (simp add: page_at_def all_rows_def history_request_def)

lemma pages_ok_fetch: "pages_ok srv h \<Longrightarrow> pages_ok srv (fetchNextPage h)"
  by (auto simp: pages_ok_def fetchNextPage_def Let_def)

lemma pages_ok_first: "pages_ok srv h \<Longrightarrow> pages_ok srv (first_load h)"
  by (simp add: first_load_def pages_ok_fetch)

lemma pages_ok_wipe: "hd_pending h = None \<Longrightarrow> pages_ok srv (wipe h)"
  by (auto simp: pages_ok_def wipe_def)

lemma pages_ok_filter: "pages_ok srv h \<Longrightarrow> hd_pending h = None \<Longrightarrow> pages_ok srv (set_filter f h)"
  by (auto simp: set_filter_def intro!: pages_ok_first pages_ok_wipe)

lemma pages_ok_preset: "pages_ok srv (h\<lparr>hd_preset := l\<rparr>) = pages_ok srv h"
  by (simp add: pages_ok_def split: option.split)

lemma pages_ok_answer:
  assumes "pages_ok srv h" "hd_pending h = Some q"
  shows "pages_ok srv (on_rows (page_at srv q) h)"
proof -
  let ?n = "length (hd_pages h)" and ?all = "all_rows srv (hd_filter h)"
  let ?rows = "page_at srv q"
  have o: "hd_open h" and q: "?rows = take PAGE_SIZE (drop (PAGE_SIZE * ?n) ?all)"
    and c: "concat (hd_pages h) = take (PAGE_SIZE * ?n) ?all"
    and m: "\<not> hd_hasMore h \<Longrightarrow> length ?all \<le> PAGE_SIZE * ?n"
    using assms by (auto simp: pages_ok_def page_at_request mult.commute)
  have more: "concat (hd_pages h) @ ?rows = take (PAGE_SIZE * Suc ?n) ?all"
    unfolding q c by (simp add: take_add [symmetric] add.commute)
  have last: "length ?all \<le> PAGE_SIZE * Suc ?n" if "length ?rows < PAGE_SIZE \<or> \<not> hd_hasMore h"
    using that m unfolding q by auto
  have "pages_ok srv (h\<lparr>hd_pages := hd_pages h @ [?rows],
      hd_hasMore := (if length ?rows < PAGE_SIZE then False else hd_hasMore h), hd_pending := None\<rparr>)"
    using o more last by (auto simp: pages_ok_def)
  then show ?thesis using assms(2) by (simp add: on_rows_def pages_ok_first)
qed

lemma pages_ok_frame:
  "pages_ok srv (h\<lparr>hd_q := q\<rparr>) = pages_ok srv h" "pages_ok srv (h\<lparr>hd_expanded := e\<rparr>) = pages_ok srv h"
  by (simp_all add: pages_ok_def split: option.split)

lemma pages_ok_failure: "pages_ok srv h \<Longrightarrow> pages_ok srv (on_failure err h)"
  using pages_ok_first [of srv "h\<lparr>hd_error := Some err, hd_pending := None\<rparr>"]
  by (simp add: on_failure_def) (simp add: pages_ok_def)

lemma quiet_pages: "quiet_run srv targets h \<Longrightarrow> pages_ok srv h"
proof (induction rule: quiet_run.induct)
  case (start now)
  then show ?case by (simp add: pages_ok_def initial_dialog_def)
next
  case (view h e)
  then show ?case
    by (cases e) (auto simp: set_open_def pages_ok_preset pages_ok_def [of srv "h\<lparr>hd_open := False, hd_pages := [], hd_expanded := None\<rparr>"]
      intro!: pages_ok_filter pages_ok_first pages_ok_wipe)
next
  case (use h e q r err)
  then show ?case
    by (auto simp: pages_ok_frame on_scroll_def toggle_row_def pages_ok_fetch pages_ok_failure)
next
  case (answer h q)
  then show ?case by (simp add: pages_ok_answer)
qed

section \<open>Properties\<close>


definition one_row :: history_row where
  "one_row = \<lparr>hr_id = ''j1'', hr_target = ''kitchen.yaml'', hr_state = ''success'', hr_triggered_by = Some ''api'',
     hr_trigger_detail = None, hr_download_only = False, hr_validate_only = False, hr_esphome_version = None,
     hr_assigned_client_id = None, hr_assigned_hostname = None, hr_submitted_at = None, hr_started_at = None,
     hr_finished_at = None, hr_duration_seconds = None, hr_ota_result = None, hr_config_hash = None, hr_log_excerpt = None,
     hr_firmware_variants = [], hr_selection_reason = None\<rparr>"

definition opened_dialog :: history_dialog where
  "opened_dialog = history_step [] HistOpen (initial_dialog 0)"

lemma opened_dialog_facts:
  "hd_pending opened_dialog = Some (history_request (hd_filter opened_dialog) 0)" "hd_open opened_dialog"
  "hd_pages opened_dialog = []" "hd_hasMore opened_dialog" "hd_pending (initial_dialog 0) = None"
  by (simp_all add: opened_dialog_def initial_dialog_def set_open_def wipe_def first_load_def fetchNextPage_def Let_def)


text \<open>A filter changed while a page is loading: the page of the old filter is shown under the new one,
  the first page of the new filter is not asked for, and scrolling goes on with its second page.\<close>
theorem old_page_under_new_filter:
  assumes "hd_open h" "hd_pending h = Some q" "hd_filter h \<noteq> f" "length rows = PAGE_SIZE"
  shows "let h' = on_rows rows (set_filter f h) in
      hd_filter h' = f \<and> hd_pages h' = [rows] \<and> hd_pending h' = None \<and> hd_sent h' = hd_sent h
    \<and> hd_sent (fetchNextPage h') = hd_sent h @ [history_request f PAGE_SIZE]"
  using assms by (auto simp: set_filter_def wipe_def first_load_def on_rows_def fetchNextPage_def Let_def)

lemma old_page_witness:
  "let h' = on_rows (replicate 100 one_row) (set_filter \<lparr>hf_since = None, hf_until = None, hf_state = ''failed'', hf_sorting = None\<rparr> opened_dialog)
   in hd_pages h' = [replicate 100 one_row] \<and> hf_state (hd_filter h') = ''failed''"
proof -
  have ne: "hd_filter opened_dialog \<noteq> \<lparr>hf_since = None, hf_until = None, hf_state = ''failed'', hf_sorting = None\<rparr>"
    by (simp add: opened_dialog_def initial_dialog_def set_open_def wipe_def first_load_def fetchNextPage_def Let_def)
  have "length (replicate 100 one_row) = PAGE_SIZE" by (simp add: PAGE_SIZE_def)
  from old_page_under_new_filter [OF opened_dialog_facts(2,1) ne this] show ?thesis by (simp add: Let_def)
qed

text \<open>A first page that fails is asked for again at once, every time: \<open>n\<close> failures in a row send \<open>n\<close> more
  requests, with no pause and no limit.\<close>
theorem failed_first_page_loops:
  assumes "hd_open h" "hd_pending h = Some q" "hd_pages h = []" "hd_hasMore h"
  shows "hd_sent ((on_failure err ^^ n) h) = hd_sent h @ replicate n (history_request (hd_filter h) 0)
    \<and> hd_pending ((on_failure err ^^ n) h) \<noteq> None"
proof -
  have "hd_open ((on_failure err ^^ n) h) \<and> hd_pages ((on_failure err ^^ n) h) = [] \<and> hd_hasMore ((on_failure err ^^ n) h)
    \<and> hd_filter ((on_failure err ^^ n) h) = hd_filter h \<and> hd_pending ((on_failure err ^^ n) h) \<noteq> None
    \<and> hd_sent ((on_failure err ^^ n) h) = hd_sent h @ replicate n (history_request (hd_filter h) 0)"
  proof (induction n)
    case (Suc n)
    then show ?case
      by (auto simp: on_failure_def first_load_def fetchNextPage_def Let_def replicate_append_same [symmetric])
  qed (use assms in simp)
  then show ?thesis by blast
qed

lemma failed_first_page_witness:
  "length (hd_sent ((on_failure ''offline'' ^^ 1000) opened_dialog)) = length (hd_sent opened_dialog) + 1000"
  using failed_first_page_loops [OF opened_dialog_facts(2,1,3,4), where n = 1000 and err = "''offline''"] by simp

text \<open>A search that matches none of the loaded rows ends the scrolling: with the rows the sentinel
  disappears, so however often the user scrolls no further page is loaded, though there are more,
  and the dialog says that no history matches.\<close>
theorem search_stops_loading:
  assumes "flatRows targets h = []" "hd_pending h = None"
  shows "(history_step targets HistScroll ^^ n) h = h \<and> no_rows_message targets h"
  using assms by (induction n) (auto simp: on_scroll_def sentinel_def no_rows_message_def)

lemma search_stops_witness:
  "let h = (on_rows (replicate 100 one_row) opened_dialog)\<lparr>hd_q := ''attic''\<rparr>
   in (history_step [] HistScroll ^^ 5) h = h \<and> hd_hasMore h"
proof -
  have f: "flatRows [] ((on_rows (replicate 100 one_row) opened_dialog)\<lparr>hd_q := ''attic''\<rparr>) = []"
  proof -
    have "hd_pages (on_rows (replicate 100 one_row) opened_dialog) = [replicate 100 one_row]"
      using opened_dialog_facts by (simp add: on_rows_def first_load_def)
    moreover have "\<not> rowMatchesSearch one_row (to_lower (trim ''attic'')) []" by code_simp
    moreover have "to_lower (trim ''attic'') \<noteq> []" by code_simp
    ultimately show ?thesis by (simp add: flatRows_def Let_def)
  qed
  have p: "hd_pending ((on_rows (replicate 100 one_row) opened_dialog)\<lparr>hd_q := ''attic''\<rparr>) = None"
    "hd_hasMore ((on_rows (replicate 100 one_row) opened_dialog)\<lparr>hd_q := ''attic''\<rparr>)"
    using opened_dialog_facts by (simp_all add: on_rows_def first_load_def PAGE_SIZE_def)
  show ?thesis using search_stops_loading [OF f p(1), of 5] p(2) by (simp add: Let_def)
qed

text \<open>The Worker selection column offers sorting, but the request sorts by the time of finishing.\<close>
theorem selection_sort_ignored:
  "hp_sort (history_request (f\<lparr>hf_sorting := Some (''selection_reason'', d)\<rparr>) n)
     = hp_sort (history_request (f\<lparr>hf_sorting := Some (''finished_at'', d)\<rparr>) n)"
  by (simp add: history_request_def SORTABLE_def)

text \<open>A job started through the API reads as started by the user in the drawer, and as API elsewhere.\<close>
theorem api_job_reads_user:
  "triggeredLabel one_row = ''User'' \<and> tb_label (getTriggerBadge (history_trigger one_row)) = ''API''"
  by code_simp

section \<open>Time ranges\<close>

text \<open>
  What the local calendar does where no hour is skipped or repeated: the fields of an instant are in
  range, and setting them on its day gives the instant back up to the seconds.
\<close>

definition zone_ok :: "clock_zone \<Rightarrow> bool" where
  "zone_ok z \<longleftrightarrow> (\<forall>t. 0 \<le> cz_hour z t \<and> 0 \<le> cz_minute z t
     \<and> cz_set z (cz_day z t) (cz_hour z t) (cz_minute z t) = t - t mod 60)"

lemma pad2_no_colon: "0 \<le> i \<Longrightarrow> CHR '':'' \<notin> set (pad2 i)"
  using pad2_digits [of i "CHR '':''"] by (auto simp: is_digit_def)

lemma combine_same:
  assumes "zone_ok z" "cz_day z date = cz_day z t"
  shows "combineDateAndTime z date (fmtTimeHHMM z t) = t - t mod 60"
proof -
  have z: "0 \<le> cz_hour z t" "0 \<le> cz_minute z t" "cz_set z (cz_day z t) (cz_hour z t) (cz_minute z t) = t - t mod 60"
    using assms(1) by (simp_all add: zone_ok_def)
  have "split_on (CHR '':'') (fmtTimeHHMM z t) = [pad2 (cz_hour z t), pad2 (cz_minute z t)]"
    using split_on_append [OF pad2_no_colon [OF z(1)], of "pad2 (cz_minute z t)"] split_on_no_sep [OF pad2_no_colon [OF z(2)]]
    by (simp add: fmtTimeHHMM_def)
  then show ?thesis using z assms(2) by (simp add: combineDateAndTime_def Let_def)
qed

text \<open>Opening the picker on a closed range and pressing Apply gives the range back with both ends rounded
  down to the minute, and doing it again changes nothing more.\<close>
theorem reapply_range:
  assumes "zone_ok z"
  shows "applyAbsolute z (open_picker z (Some a) (Some b) p) = Some (a - a mod 60, b - b mod 60)
    \<and> applyAbsolute z (open_picker z (Some (a - a mod 60)) (Some (b - b mod 60)) p') = Some (a - a mod 60, b - b mod 60)"
proof -
  have minute: "(x - x mod 60) - (x - x mod 60) mod 60 = x - x mod 60" for x :: int
    by (simp add: mod_diff_left_eq [symmetric])
  show ?thesis
    using combine_same [OF assms refl] by (simp add: applyAbsolute_def open_picker_def minute)
qed

definition utc :: clock_zone where
  "utc = \<lparr>cz_day = \<lambda>t. t div 86400, cz_hour = \<lambda>t. t mod 86400 div 3600, cz_minute = \<lambda>t. t mod 3600 div 60,
     cz_set = \<lambda>d h m. d * 86400 + h * 3600 + m * 60\<rparr>"

lemma utc_ok: "zone_ok utc"
proof -
  have "t div 86400 * 86400 + t mod 86400 div 3600 * 3600 + t mod 3600 div 60 * 60 = t - t mod 60" for t :: int
    by (simp add: minus_mod_eq_div_mult [symmetric] mod_mod_cancel)
  then show ?thesis by (simp add: zone_ok_def utc_def pos_imp_zdiv_nonneg_iff)
qed

lemma reapply_witness:
  "applyAbsolute utc (open_picker utc (Some 1000000007) (Some 1000003661) initial_picker) = Some (1000000007 - 1000000007 mod 60, 1000003661 - 1000003661 mod 60)"
  using reapply_range [OF utc_ok, of 1000000007 1000003661 initial_picker] by blast

text \<open>On an open-ended range, as every preset sets, the same two clicks end the range on the day it
  began: the last day offered is not today but the first day of the preset.\<close>
theorem apply_after_preset:
  assumes "zone_ok z" "choose_preset now label = Some (Some since, None, label)"
  shows "applyAbsolute z (open_picker z (Some since) None initial_picker)
    = Some (since - since mod 60, cz_set z (cz_day z since) 23 59)"
proof -
  have "combineDateAndTime z since ''23:59'' = cz_set z (cz_day z since) 23 59"
  proof -
    have "split_on (CHR '':'') ''23:59'' = [''23'', ''59'']" "parse_int ''23'' = Some 23" "parse_int ''59'' = Some 59"
      by code_simp+
    then show ?thesis by (simp add: combineDateAndTime_def)
  qed
  then show ?thesis
    using combine_same [of z since since, OF assms(1) refl] by (simp add: applyAbsolute_def open_picker_def initial_picker_def)
qed

lemma apply_after_preset_witness:
  "applyAbsolute utc (open_picker utc (Some (1784000000 - 7 * 86400)) None initial_picker)
     = Some (1783395200 - 1783395200 mod 60, 1783468740)"
proof -
  have "choose_preset 1784000000 ''Last 7 days'' = Some (Some (1784000000 - 7 * 86400), None, ''Last 7 days'')"
    by (simp add: choose_preset_def PRESETS_def)
  from apply_after_preset [OF utc_ok this] show ?thesis by (simp add: utc_def)
qed

definition page_at_panel :: "(string \<Rightarrow> history_row list) \<Rightarrow> history_params \<Rightarrow> history_row list" where
  "page_at_panel srv q =
    take (nat (nullish (hp_limit q) 50)) (drop (nat (nullish (hp_offset q) 0)) (srv (nullish (hp_target q) [])))"

text \<open>Load more in the drawer replaces the rows by the next page: the ones shown before are gone.\<close>
theorem load_more_replaces:
  assumes "pn_target p = Some t" "length (panel_rows (page_at_panel srv) p) = PANEL_PAGE"
  shows "panel_rows (page_at_panel srv) (load_more (panel_rows (page_at_panel srv) p) p)
    = take PANEL_PAGE (drop (pn_offset p + PANEL_PAGE) (srv t))"
  using assms by (simp add: panel_rows_def load_more_def panel_request_def page_at_panel_def nat_add_distrib)

end
