(* ===== verification/Rule_Builder.thy ===== *)
theory Rule_Builder
  imports Device_Actions Routing_Rules
begin

text \<open>
  The routing-rule editor: \<open>components/RoutingRuleBuilder.tsx\<close> (the form, its auto-slug and its save)
  and \<open>components/RoutingRulesModal.tsx\<close> (the list around it). A clause row keeps its own input
  state; rows are keyed by index, so removing a clause drops the state of the last row. The
  modal is a step function whose effects run where React runs them: after the render in which a
  dependency changed.
\<close>

section \<open>Slugs\<close>

fun slug_loop :: "string \<Rightarrow> bool \<Rightarrow> string \<Rightarrow> string" where
  "slug_loop out prevDash [] = out"
| "slug_loop out prevDash (ch # cs) =
     (if (CHR ''a'' \<le> ch \<and> ch \<le> CHR ''z'') \<or> is_digit ch then slug_loop (out @ [ch]) False cs
      else if ch = CHR '' '' \<or> ch = CHR ''-'' \<or> ch = CHR ''_'' then
        (if \<not> prevDash then slug_loop (out @ ''-'') True cs else slug_loop out prevDash cs)
      else slug_loop out prevDash cs)"

definition strip_dashes :: "string \<Rightarrow> string" where
  "strip_dashes s = rev (dropWhile (\<lambda>c. c = CHR ''-'') (rev (dropWhile (\<lambda>c. c = CHR ''-'') s)))"

definition slugify :: "string \<Rightarrow> string" where
  "slugify name = strip_dashes (slug_loop [] False (to_lower name))"

section \<open>The builder\<close>

definition newClause :: routing_clause where
  "newClause = \<lparr>rc_op = AllOf, rc_tags = []\<rparr>"

record builder_props =
  bp_initial :: "routing_rule option"
  bp_existingIds :: "string list"
  bp_previewDevices :: "string list list"
  bp_previewWorkers :: "string list list"

record builder =
  rb_name :: string
  rb_id :: string
  rb_idTouched :: bool
  rb_device :: "routing_clause list"
  rb_worker :: "routing_clause list"
  rb_deviceRows :: "chip_input list"
  rb_workerRows :: "chip_input list"
  rb_saving :: bool

definition isEdit :: "builder_props \<Rightarrow> bool" where
  "isEdit p \<longleftrightarrow> bp_initial p \<noteq> None"

definition start_clauses :: "routing_clause list option \<Rightarrow> routing_clause list" where
  "start_clauses m = (case m of Some (c # cs) \<Rightarrow> c # cs | _ \<Rightarrow> [newClause])"

definition mount_builder :: "builder_props \<Rightarrow> builder" where
  "mount_builder p =
    (let dev = start_clauses (map_option rr_device_match (bp_initial p));
         wrk = start_clauses (map_option rr_worker_match (bp_initial p))
     in \<lparr>rb_name = (case bp_initial p of None \<Rightarrow> [] | Some r \<Rightarrow> rr_name r),
         rb_id = (case bp_initial p of None \<Rightarrow> slugify [] | Some r \<Rightarrow> rr_id r),
         rb_idTouched = isEdit p, rb_device = dev, rb_worker = wrk,
         rb_deviceRows = map (\<lambda>_. idle_chip) dev, rb_workerRows = map (\<lambda>_. idle_chip) wrk,
         rb_saving = False\<rparr>)"

definition draft :: "builder \<Rightarrow> routing_rule" where
  "draft b =
    \<lparr>rr_id = (if rb_id b \<noteq> [] then rb_id b else ''preview''),
     rr_name = (if rb_name b \<noteq> [] then rb_name b else ''(unnamed)''),
     rr_severity = Required, rr_device_match = rb_device b, rr_worker_match = rb_worker b\<rparr>"

definition preview :: "builder_props \<Rightarrow> builder \<Rightarrow> rule_impact" where
  "preview p b = previewRuleImpact (draft b) (bp_previewDevices p) (bp_previewWorkers p)"

definition idCollision :: "builder_props \<Rightarrow> builder \<Rightarrow> bool" where
  "idCollision p b \<longleftrightarrow> \<not> isEdit p \<and> rb_id b \<noteq> [] \<and> rb_id b \<in> set (bp_existingIds p)"

definition canSave :: "builder_props \<Rightarrow> builder \<Rightarrow> bool" where
  "canSave p b \<longleftrightarrow>
    \<not> rb_saving b \<and> 0 < length (trim (rb_name b)) \<and> 0 < length (trim (rb_id b)) \<and> \<not> idCollision p b
    \<and> list_all (\<lambda>c. 0 < length (rc_tags c)) (rb_device b)
    \<and> list_all (\<lambda>c. 0 < length (rc_tags c)) (rb_worker b)"

datatype rule_call = CreateRule routing_rule | UpdateRule string routing_rule

definition save_call :: "builder_props \<Rightarrow> builder \<Rightarrow> rule_call" where
  "save_call p b =
    (case bp_initial p of
       Some r \<Rightarrow> UpdateRule (rr_id r) ((draft b)\<lparr>rr_id := rr_id r\<rparr>)
     | None \<Rightarrow> CreateRule (draft b))"

datatype side = DeviceSide | WorkerSide

datatype builder_event =
    BuName string | BuId string | BuAdd side | BuRemove side nat | BuRow side nat clause_event
  | BuSave | BuSaved | BuFailed

definition row_update :: "nat \<Rightarrow> clause_event \<Rightarrow> routing_clause list \<times> chip_input list \<Rightarrow> routing_clause list \<times> chip_input list" where
  "row_update i e s =
    (let (cs, rows) = s in
     if i < length cs \<and> i < length rows then
       (let (c, r) = clause_step e (cs ! i, rows ! i) in (replace_at i c cs, rows[i := r]))
     else s)"

definition row_remove :: "nat \<Rightarrow> routing_clause list \<times> chip_input list \<Rightarrow> routing_clause list \<times> chip_input list" where
  "row_remove i s = (let (cs, rows) = s in if 1 < length cs \<and> i < length cs then (remove_at i cs, butlast rows) else s)"

definition row_add :: "routing_clause list \<times> chip_input list \<Rightarrow> routing_clause list \<times> chip_input list" where
  "row_add s = (let (cs, rows) = s in (cs @ [newClause], rows @ [idle_chip]))"

definition on_side :: "side \<Rightarrow> (routing_clause list \<times> chip_input list \<Rightarrow> routing_clause list \<times> chip_input list) \<Rightarrow> builder \<Rightarrow> builder" where
  "on_side sd f b =
    (case sd of
       DeviceSide \<Rightarrow> (let (cs, rows) = f (rb_device b, rb_deviceRows b) in b\<lparr>rb_device := cs, rb_deviceRows := rows\<rparr>)
     | WorkerSide \<Rightarrow> (let (cs, rows) = f (rb_worker b, rb_workerRows b) in b\<lparr>rb_worker := cs, rb_workerRows := rows\<rparr>))"

fun builder_step :: "builder_props \<Rightarrow> builder_event \<Rightarrow> builder \<Rightarrow> builder \<times> rule_call option" where
  "builder_step p (BuName n) b =
     (b\<lparr>rb_name := n, rb_id := (if rb_idTouched b then rb_id b else slugify n)\<rparr>, None)"
| "builder_step p (BuId v) b =
     (if isEdit p then (b, None) else (b\<lparr>rb_idTouched := True, rb_id := slugify v\<rparr>, None))"
| "builder_step p (BuAdd sd) b = (on_side sd row_add b, None)"
| "builder_step p (BuRemove sd i) b = (on_side sd (row_remove i) b, None)"
| "builder_step p (BuRow sd i e) b = (on_side sd (row_update i e) b, None)"
| "builder_step p BuSave b =
     (if canSave p b then (b\<lparr>rb_saving := True\<rparr>, Some (save_call p b)) else (b, None))"
| "builder_step p BuSaved b = (b\<lparr>rb_saving := False\<rparr>, None)"
| "builder_step p BuFailed b = (b\<lparr>rb_saving := False\<rparr>, None)"

section \<open>The list around it\<close>

datatype rules_mode = ModeList | ModeCreate | ModeEdit routing_rule

record rules_modal =
  rm_mode :: rules_mode
  rm_pendingDeleteId :: "string option"
  rm_open :: bool
  rm_editId :: "string option"
  rm_rules :: "routing_rule list"

text \<open>The effect on \<open>[open, initialEditRuleId, rules]\<close>, run on the state after the render.\<close>

definition deep_link :: "rules_modal \<Rightarrow> rules_modal" where
  "deep_link m =
    (if \<not> rm_open m \<or> \<not> truthy_str (rm_editId m) \<or> rm_rules m = [] then m
     else case find (\<lambda>r. Some (rr_id r) = rm_editId m) (rm_rules m) of
       None \<Rightarrow> m
     | Some rule \<Rightarrow>
         (case rm_mode m of
            ModeEdit r \<Rightarrow> if rr_id r = rr_id rule then m else m\<lparr>rm_mode := ModeEdit rule\<rparr>
          | _ \<Rightarrow> m\<lparr>rm_mode := ModeEdit rule\<rparr>))"

text \<open>A new rule list from the server is a new array, so it always triggers the effect.\<close>

datatype modal_rules_event =
    RmParent bool "string option" | RmRules "routing_rule list" | RmCloseDialog | RmAdd | RmEdit routing_rule
  | RmCancel | RmDelete string | RmDeleteDone | RmSavedDone

fun rules_step :: "modal_rules_event \<Rightarrow> rules_modal \<Rightarrow> rules_modal" where
  "rules_step (RmParent opn eid) m =
     (if opn = rm_open m \<and> eid = rm_editId m then m else deep_link (m\<lparr>rm_open := opn, rm_editId := eid\<rparr>))"
| "rules_step (RmRules rs) m = deep_link (m\<lparr>rm_rules := rs\<rparr>)"
| "rules_step RmCloseDialog m = m\<lparr>rm_mode := ModeList, rm_open := False\<rparr>"
| "rules_step RmAdd m = m\<lparr>rm_mode := ModeCreate\<rparr>"
| "rules_step (RmEdit r) m = m\<lparr>rm_mode := ModeEdit r\<rparr>"
| "rules_step RmCancel m = m\<lparr>rm_mode := ModeList\<rparr>"
| "rules_step (RmDelete i) m = m\<lparr>rm_pendingDeleteId := Some i\<rparr>"
| "rules_step RmDeleteDone m = m\<lparr>rm_pendingDeleteId := None\<rparr>"
| "rules_step RmSavedDone m = m\<lparr>rm_mode := ModeList\<rparr>"

definition device_pool :: "target list \<Rightarrow> string list" where
  "device_pool targets =
    sorted_pool (concat (map (\<lambda>t. filter (\<lambda>s. s \<noteq> []) (map trim (split_on (CHR '','') (str_or (t_tags t) [])))) targets))"

definition preview_workers :: "worker list \<Rightarrow> string list list" where
  "preview_workers workers = map (\<lambda>w. nullish (w_tags w) []) (filter w_online workers)"

section \<open>Slug lemmas\<close>

definition slug_alnum :: "char \<Rightarrow> bool" where
  "slug_alnum c \<longleftrightarrow> (CHR ''a'' \<le> c \<and> c \<le> CHR ''z'') \<or> is_digit c"

definition dash :: char where "dash = CHR ''-''"

definition is_slug :: "string \<Rightarrow> bool" where
  "is_slug s \<longleftrightarrow> list_all (\<lambda>c. slug_alnum c \<or> c = dash) s
    \<and> successively (\<lambda>a b. \<not> (a = dash \<and> b = dash)) s
    \<and> (s \<noteq> [] \<longrightarrow> hd s \<noteq> dash \<and> last s \<noteq> dash)"

lemma slug_loop_eq:
  "slug_loop out pd (ch # cs) =
    (if slug_alnum ch then slug_loop (out @ [ch]) False cs
     else if ch = CHR '' '' \<or> ch = dash \<or> ch = CHR ''_'' then
       (if \<not> pd then slug_loop (out @ [dash]) True cs else slug_loop out pd cs)
     else slug_loop out pd cs)"
  by (simp add: slug_alnum_def dash_def)

declare slug_loop.simps(2) [simp del]

lemma dash_not_alnum [simp]: "\<not> slug_alnum dash"
  by (simp add: slug_alnum_def dash_def is_digit_def less_eq_char_def)

lemma alnum_not_dash: "slug_alnum c \<Longrightarrow> c \<noteq> dash"
  using dash_not_alnum by blast

definition pre_slug :: "string \<Rightarrow> bool \<Rightarrow> bool" where
  "pre_slug out pd \<longleftrightarrow> list_all (\<lambda>c. slug_alnum c \<or> c = dash) out
    \<and> successively (\<lambda>a b. \<not> (a = dash \<and> b = dash)) out \<and> (pd \<longleftrightarrow> out \<noteq> [] \<and> last out = dash)"

lemma slug_loop_pre:
  "pre_slug out pd \<Longrightarrow> \<exists>pd'. pre_slug (slug_loop out pd cs) pd'"
proof (induction cs arbitrary: out pd)
  case (Cons c cs)
  have alnum: "slug_alnum c \<Longrightarrow> pre_slug (out @ [c]) False"
    using Cons.prems alnum_not_dash [of c] by (auto simp: pre_slug_def successively_append_iff)
  have dsh: "\<not> pd \<Longrightarrow> pre_slug (out @ [dash]) True"
    using Cons.prems by (auto simp: pre_slug_def successively_append_iff)
  show ?case using Cons.IH alnum dsh Cons.prems by (auto simp: slug_loop_eq)
qed auto

lemma strip_dashes_dash: "strip_dashes s = rev (dropWhile (\<lambda>c. c = dash) (rev (dropWhile (\<lambda>c. c = dash) s)))"
  by (simp add: strip_dashes_def dash_def)

lemma dropWhile_suffix: "\<exists>pre. s = pre @ dropWhile P s"
  by (metis takeWhile_dropWhile_id)

lemma strip_dashes_slug:
  assumes "pre_slug s pd"
  shows "is_slug (strip_dashes s)"
proof -
  define a where "a = dropWhile (\<lambda>c. c = dash) s"
  define b where "b = rev (dropWhile (\<lambda>c. c = dash) (rev a))"
  obtain p where p: "s = p @ a" unfolding a_def using dropWhile_suffix [of s] by blast
  obtain q where q: "rev a = q @ rev b" unfolding b_def rev_rev_ident using dropWhile_suffix [of "rev a"] by blast
  have "a = b @ rev q" using arg_cong [OF q, of rev] by (simp only: rev_rev_ident rev_append)
  then have s: "s = p @ b @ rev q" using p by simp
  have 1: "list_all (\<lambda>c. slug_alnum c \<or> c = dash) b" using assms unfolding pre_slug_def s by simp
  have 2: "successively (\<lambda>a b. \<not> (a = dash \<and> b = dash)) b"
    using assms unfolding pre_slug_def s by (simp add: successively_append_iff)
  have 3: "hd b \<noteq> dash \<and> last b \<noteq> dash" if ne: "b \<noteq> []"
  proof
    have "dropWhile (\<lambda>c. c = dash) b = b" unfolding b_def by (rule dropWhile_rev_keep) (simp add: a_def)
    with ne show "hd b \<noteq> dash" by (simp add: dropWhile_eq_self_iff)
    have "dropWhile (\<lambda>c. c = dash) (rev a) \<noteq> []" using ne by (simp add: b_def)
    from hd_dropWhile [OF this] show "last b \<noteq> dash" by (simp add: b_def last_rev)
  qed
  from 1 2 3 show ?thesis by (simp add: is_slug_def strip_dashes_dash b_def [symmetric] a_def [symmetric])
qed

lemma slugify_is_slug: "is_slug (slugify name)"
proof -
  have "pre_slug [] False" by (simp add: pre_slug_def)
  then obtain pd where "pre_slug (slug_loop [] False (to_lower name)) pd" using slug_loop_pre by blast
  then show ?thesis unfolding slugify_def by (rule strip_dashes_slug)
qed

lemma slug_loop_id:
  assumes "list_all (\<lambda>c. slug_alnum c \<or> c = dash) s" and "successively (\<lambda>a b. \<not> (a = dash \<and> b = dash)) s"
    and "pd \<longrightarrow> s = [] \<or> hd s \<noteq> dash"
  shows "slug_loop out pd s = out @ s"
  using assms
proof (induction s arbitrary: out pd)
  case (Cons c s)
  show ?case
  proof (cases "slug_alnum c")
    case True
    have "slug_loop (out @ [c]) False s = (out @ [c]) @ s"
      by (rule Cons.IH) (use Cons.prems in \<open>auto simp: successively_Cons\<close>)
    with True show ?thesis by (simp add: slug_loop_eq)
  next
    case False
    with Cons.prems have c: "c = dash" "\<not> pd" by auto
    have "slug_loop (out @ [dash]) True s = (out @ [dash]) @ s"
      by (rule Cons.IH) (use Cons.prems c in \<open>auto simp: successively_Cons\<close>)
    with c show ?thesis by (simp add: slug_loop_eq)
  qed
qed simp

lemma to_lower_alnum: "slug_alnum c \<or> c = dash \<Longrightarrow> to_lower_char c = c"
  by (auto simp: slug_alnum_def dash_def to_lower_char_def Let_def is_digit_def less_eq_char_def)

lemma to_lower_slug: "list_all (\<lambda>c. slug_alnum c \<or> c = dash) s \<Longrightarrow> to_lower s = s"
  by (auto simp: to_lower_def list_all_iff intro!: map_idI to_lower_alnum)

lemma strip_dashes_id: "s = [] \<or> hd s \<noteq> dash \<and> last s \<noteq> dash \<Longrightarrow> strip_dashes s = s"
proof (cases "s = []")
  case False
  assume "s = [] \<or> hd s \<noteq> dash \<and> last s \<noteq> dash"
  with False have "dropWhile (\<lambda>c. c = dash) s = s" "dropWhile (\<lambda>c. c = dash) (rev s) = rev s"
    by (simp_all add: dropWhile_eq_self_iff hd_rev)
  then show ?thesis by (simp add: strip_dashes_dash)
qed (simp add: strip_dashes_dash)

lemma slugify_slug: "is_slug s \<Longrightarrow> slugify s = s"
  unfolding slugify_def by (auto simp: is_slug_def to_lower_slug slug_loop_id strip_dashes_id)

section \<open>The builder's invariant\<close>

definition side_ok :: "routing_clause list \<times> chip_input list \<Rightarrow> bool" where
  "side_ok s \<longleftrightarrow> fst s \<noteq> [] \<and> length (snd s) = length (fst s) \<and> list_all (\<lambda>c. chips_ok (rc_tags c)) (fst s)"

definition builder_inv :: "builder_props \<Rightarrow> builder \<Rightarrow> bool" where
  "builder_inv p b \<longleftrightarrow> side_ok (rb_device b, rb_deviceRows b) \<and> side_ok (rb_worker b, rb_workerRows b)
    \<and> (case bp_initial p of None \<Rightarrow> is_slug (rb_id b) | Some r \<Rightarrow> rb_id b = rr_id r \<and> rb_idTouched b)"

lemma row_add_ok: "side_ok s \<Longrightarrow> side_ok (row_add s)"
  by (cases s) (simp add: side_ok_def row_add_def newClause_def chips_ok_def)

lemma row_remove_ok: "side_ok s \<Longrightarrow> side_ok (row_remove i s)"
proof -
  assume ok: "side_ok s"
  obtain cs rows where s: "s = (cs, rows)" by (cases s)
  show "side_ok (row_remove i s)"
  proof (cases "1 < length cs \<and> i < length cs")
    case True
    then have "length (remove_at i cs) = length cs - 1" by (simp add: length_remove_at)
    moreover have "set (remove_at i cs) \<subseteq> set cs"
      by (auto simp: remove_at_eq dest: in_set_takeD in_set_dropD)
    ultimately show ?thesis using True ok
      by (auto simp: s side_ok_def row_remove_def list_all_iff)
  next
    case False
    with ok show ?thesis by (auto simp: s row_remove_def)
  qed
qed

lemma row_update_ok: "side_ok s \<Longrightarrow> side_ok (row_update i e s)"
proof -
  assume ok: "side_ok s"
  obtain cs rows where s: "s = (cs, rows)" by (cases s)
  show "side_ok (row_update i e s)"
  proof (cases "i < length cs \<and> i < length rows")
    case True
    obtain c r where st: "clause_step e (cs ! i, rows ! i) = (c, r)" by (cases "clause_step e (cs ! i, rows ! i)")
    have "chips_ok (rc_tags (cs ! i))" using ok True by (simp add: s side_ok_def list_all_length)
    then have c: "chips_ok (rc_tags c)" using clause_step_ok [of "(cs ! i, rows ! i)" e] st by simp
    have "list_all (\<lambda>c. chips_ok (rc_tags c)) (cs[i := c])"
      using ok c set_update_subset_insert [of cs i c] by (auto simp: s side_ok_def list_all_iff)
    with True ok st show ?thesis by (simp add: s row_update_def side_ok_def replace_at_eq)
  next
    case False
    with ok show ?thesis by (auto simp: s row_update_def)
  qed
qed

lemma on_side_inv:
  assumes "\<And>s. side_ok s \<Longrightarrow> side_ok (f s)" and "builder_inv p b"
  shows "builder_inv p (on_side sd f b)"
proof (cases sd)
  case DeviceSide
  obtain cs rows where f: "f (rb_device b, rb_deviceRows b) = (cs, rows)" by (cases "f (rb_device b, rb_deviceRows b)")
  with assms(1) [of "(rb_device b, rb_deviceRows b)"] assms(2) DeviceSide show ?thesis
    by (auto simp: builder_inv_def on_side_def split: option.splits)
next
  case WorkerSide
  obtain cs rows where f: "f (rb_worker b, rb_workerRows b) = (cs, rows)" by (cases "f (rb_worker b, rb_workerRows b)")
  with assms(1) [of "(rb_worker b, rb_workerRows b)"] assms(2) WorkerSide show ?thesis
    by (auto simp: builder_inv_def on_side_def split: option.splits)
qed

lemma builder_step_inv: "builder_inv p b \<Longrightarrow> builder_inv p (fst (builder_step p e b))"
proof (cases e)
  case (BuName n)
  then show "builder_inv p b \<Longrightarrow> ?thesis" by (auto simp: builder_inv_def slugify_is_slug split: option.splits)
next
  case (BuId v)
  then show "builder_inv p b \<Longrightarrow> ?thesis" by (auto simp: builder_inv_def slugify_is_slug isEdit_def split: option.splits)
next
  case BuSave
  then show "builder_inv p b \<Longrightarrow> ?thesis" by (auto simp: builder_inv_def split: option.splits)
qed (simp_all add: on_side_inv row_add_ok row_remove_ok row_update_ok,
    (simp add: builder_inv_def split: option.splits)+)

lemma start_clauses_ok:
  "(case m of None \<Rightarrow> True | Some cs \<Rightarrow> list_all (\<lambda>c. chips_ok (rc_tags c)) cs)
    \<Longrightarrow> side_ok (start_clauses m, map (\<lambda>_. idle_chip) (start_clauses m))"
  by (auto simp: side_ok_def start_clauses_def newClause_def chips_ok_def split: option.splits list.splits)

definition initial_ok :: "builder_props \<Rightarrow> bool" where
  "initial_ok p \<longleftrightarrow> (case bp_initial p of None \<Rightarrow> True
    | Some r \<Rightarrow> list_all (\<lambda>c. chips_ok (rc_tags c)) (rr_device_match r @ rr_worker_match r))"

lemma mount_inv: "initial_ok p \<Longrightarrow> builder_inv p (mount_builder p)"
  using start_clauses_ok [of "map_option rr_device_match (bp_initial p)"]
    start_clauses_ok [of "map_option rr_worker_match (bp_initial p)"]
  by (auto simp: builder_inv_def mount_builder_def Let_def initial_ok_def isEdit_def slugify_is_slug split: option.splits)

definition run_builder :: "builder_props \<Rightarrow> builder_event list \<Rightarrow> builder" where
  "run_builder p es = foldl (\<lambda>b e. fst (builder_step p e b)) (mount_builder p) es"

lemma run_builder_inv: "initial_ok p \<Longrightarrow> builder_inv p (run_builder p es)"
proof -
  have "builder_inv p b \<Longrightarrow> builder_inv p (foldl (\<lambda>b e. fst (builder_step p e b)) b es)" for b
    by (induction es arbitrary: b) (simp_all add: builder_step_inv del: builder_step.simps)
  then show "initial_ok p \<Longrightarrow> ?thesis" by (simp add: run_builder_def mount_inv)
qed

section \<open>Properties\<close>

text \<open>Every slug is clean and stable: it holds only lower-case letters, digits and single dashes,
  never at an end, and slugging it again changes nothing.\<close>
theorem slug_clean:
  "list_all (\<lambda>c. slug_alnum c \<or> c = dash) (slugify name)
   \<and> successively (\<lambda>a b. \<not> (a = dash \<and> b = dash)) (slugify name)
   \<and> (slugify name = [] \<or> (hd (slugify name) \<noteq> dash \<and> last (slugify name) \<noteq> dash))
   \<and> slugify (slugify name) = slugify name"
  using slugify_is_slug [of name] slugify_slug [OF slugify_is_slug [of name]] by (auto simp: is_slug_def)

lemma slug_loop_app:
  assumes "list_all (\<lambda>c. slug_alnum c \<or> c = dash) s" and "successively (\<lambda>a b. \<not> (a = dash \<and> b = dash)) s"
    and "pd \<longrightarrow> s = [] \<or> hd s \<noteq> dash"
  shows "slug_loop out pd (s @ t) = slug_loop (out @ s) (if s = [] then pd else last s = dash) t"
  using assms
proof (induction s arbitrary: out pd)
  case (Cons c s)
  have tl: "list_all (\<lambda>c. slug_alnum c \<or> c = dash) s" "successively (\<lambda>a b. \<not> (a = dash \<and> b = dash)) s"
    "c = dash \<longrightarrow> s = [] \<or> hd s \<noteq> dash"
    using Cons.prems by (auto simp: successively_Cons)
  show ?case
  proof (cases "slug_alnum c")
    case True
    with tl Cons.IH [of False "out @ [c]"] alnum_not_dash [OF True] show ?thesis
      by (auto simp: slug_loop_eq)
  next
    case False
    with Cons.prems have c: "c = dash" "\<not> pd" by auto
    with tl Cons.IH [of True "out @ [dash]"] show ?thesis by (auto simp: slug_loop_eq)
  qed
qed simp

lemma strip_trailing_dash: "is_slug s \<Longrightarrow> strip_dashes (s @ [dash]) = s"
proof (cases "s = []")
  case False
  assume "is_slug s"
  with False have "dropWhile (\<lambda>c. c = dash) (s @ [dash]) = s @ [dash]" "dropWhile (\<lambda>c. c = dash) (rev s) = rev s"
    by (auto simp: is_slug_def dropWhile_eq_self_iff hd_rev hd_append)
  then show ?thesis by (simp add: strip_dashes_dash)
qed (simp add: strip_dashes_dash)

lemma slugify_snoc:
  assumes "is_slug s"
  shows "slugify (s @ [c]) = (if slug_alnum (to_lower_char c) then s @ [to_lower_char c] else s)"
proof -
  let ?x = "to_lower_char c"
  have low: "to_lower (s @ [c]) = s @ [?x]"
    using to_lower_slug [of s] assms by (simp add: is_slug_def to_lower_def)
  have "slug_loop [] False (s @ [?x]) = slug_loop s False [?x]"
    using slug_loop_app [of s False "[]" "[?x]"] assms by (auto simp: is_slug_def)
  moreover have "strip_dashes (s @ [?x]) = s @ [?x]" if "slug_alnum ?x"
    by (rule strip_dashes_id) (use assms alnum_not_dash [OF that] in \<open>auto simp: is_slug_def hd_append\<close>)
  moreover have "strip_dashes s = s" by (rule strip_dashes_id) (use assms in \<open>auto simp: is_slug_def\<close>)
  ultimately show ?thesis
    using strip_trailing_dash [OF assms] by (simp add: slugify_def low slug_loop_eq)
qed

lemma slug_snoc_slug: "is_slug s \<Longrightarrow> slug_alnum x \<Longrightarrow> is_slug (s @ [x])"
  using alnum_not_dash [of x] by (auto simp: is_slug_def successively_append_iff hd_append)

definition type_id :: "builder_props \<Rightarrow> string \<Rightarrow> builder \<Rightarrow> builder" where
  "type_id p s b = foldl (\<lambda>b c. fst (builder_step p (BuId (rb_id b @ [c])) b)) b s"

text \<open>A rule id cannot be typed with a dash: typing any text into the id field, one character at a
  time, leaves only its letters and digits, since the slug of every intermediate value drops the
  trailing dash; pasting the same text keeps the dashes.\<close>
theorem typed_id_loses_dashes:
  assumes "bp_initial p = None" and "rb_id b = []"
  shows "rb_id (type_id p s b) = filter slug_alnum (to_lower s)
    \<and> rb_id (fst (builder_step p (BuId ''kitchen-lab'') b)) = ''kitchen-lab''"
proof -
  have "is_slug (rb_id b) \<Longrightarrow> rb_id (type_id p s b) = rb_id b @ filter slug_alnum (to_lower s)" for b
  proof (induction s arbitrary: b)
    case (Cons c s)
    let ?b = "fst (builder_step p (BuId (rb_id b @ [c])) b)"
    have id: "rb_id ?b = (if slug_alnum (to_lower_char c) then rb_id b @ [to_lower_char c] else rb_id b)"
      using assms(1) slugify_snoc [OF Cons.prems] by (simp add: isEdit_def)
    then have "is_slug (rb_id ?b)" using Cons.prems slug_snoc_slug by simp
    from Cons.IH [OF this] id show ?case by (simp add: type_id_def to_lower_def)
  qed (simp add: type_id_def to_lower_def)
  from this [of b] assms(2) have "rb_id (type_id p s b) = filter slug_alnum (to_lower s)" by (simp add: is_slug_def)
  moreover have "slugify ''kitchen-lab'' = ''kitchen-lab''" by code_simp
  ultimately show ?thesis using assms(1) by (simp add: isEdit_def)
qed

definition new_rule_props :: builder_props where
  "new_rule_props = \<lparr>bp_initial = None, bp_existingIds = [''lab''], bp_previewDevices = [[''kitchen'']], bp_previewWorkers = [[''linux'']]\<rparr>"

theorem typed_id_witness:
  "rb_id (type_id new_rule_props ''Kitchen-Lab'' (mount_builder new_rule_props)) = ''kitchenlab''"
proof -
  have a: "bp_initial new_rule_props = None" by code_simp
  have b: "rb_id (mount_builder new_rule_props) = []" by code_simp
  have "filter slug_alnum (to_lower ''Kitchen-Lab'') = ''kitchenlab''" by code_simp
  with typed_id_loses_dashes [OF a b, of "''Kitchen-Lab''"] show ?thesis by simp
qed

definition rule_clauses_ok :: "routing_rule \<Rightarrow> bool" where
  "rule_clauses_ok r \<longleftrightarrow> rr_device_match r \<noteq> [] \<and> rr_worker_match r \<noteq> []
    \<and> list_all (\<lambda>c. rc_tags c \<noteq> [] \<and> chips_ok (rc_tags c)) (rr_device_match r @ rr_worker_match r)"


definition new_rule_events :: "builder_event list" where
  "new_rule_events = [BuName ''Big builds'', BuRow DeviceSide 0 (ClauseChip (ChipType ''heavy'')), BuRow DeviceSide 0 (ClauseChip (ChipKey EnterKey)),
     BuRow WorkerSide 0 (ClauseChip (ChipPick ''linux'')), BuAdd WorkerSide, BuRemove WorkerSide 1]"


text \<open>The rule a deep link opened stays open under polling: as long as the rule is in the list, no
  refreshed rule list moves the editor away from it or restarts it.\<close>
theorem polls_keep_editor:
  assumes "rm_mode m = ModeEdit r" and "rm_open m" and "rm_editId m = Some (rr_id r)"
  shows "rm_mode (foldl (\<lambda>m rs. rules_step (RmRules rs) m) m polls) = ModeEdit r"
proof -
  have "rm_mode m = ModeEdit r \<and> rm_open m \<and> rm_editId m = Some (rr_id r) \<Longrightarrow>
      rm_mode (foldl (\<lambda>m rs. rules_step (RmRules rs) m) m polls) = ModeEdit r" for m
  proof (induction polls arbitrary: m)
    case (Cons rs polls)
    have found: "rr_id x = rr_id r" if "find (\<lambda>x. rr_id x = rr_id r) rs = Some x" for x
      using that by (induction rs) (auto split: if_splits)
    have "deep_link (m\<lparr>rm_rules := rs\<rparr>) = m\<lparr>rm_rules := rs\<rparr>"
    proof (cases "find (\<lambda>x. rr_id x = rr_id r) rs")
      case None
      then show ?thesis using Cons.prems by (simp add: deep_link_def)
    next
      case (Some x)
      with found [OF Some] show ?thesis using Cons.prems by (simp add: deep_link_def)
    qed
    then show ?case using Cons.prems Cons.IH [of "m\<lparr>rm_rules := rs\<rparr>"] by simp
  qed simp
  with assms show ?thesis by simp
qed

definition deep_linked :: rules_modal where
  "deep_linked = \<lparr>rm_mode = ModeEdit kitchen_rule, rm_pendingDeleteId = None, rm_open = True,
     rm_editId = Some (rr_id kitchen_rule), rm_rules = [kitchen_rule]\<rparr>"

theorem polls_keep_editor_witness:
  "rm_mode (foldl (\<lambda>m rs. rules_step (RmRules rs) m) deep_linked [[], [kitchen_rule\<lparr>rr_name := ''renamed''\<rparr>]]) = ModeEdit kitchen_rule"
  by (rule polls_keep_editor) (simp_all add: deep_linked_def)

text \<open>After a deep-linked edit was cancelled, deleting any other rule throws the user back into the
  editor of the linked rule: the refreshed list runs the deep-link effect again.\<close>
theorem delete_reopens_editor:
  "rm_mode (foldl (\<lambda>m e. rules_step e m) (deep_linked\<lparr>rm_rules := [kitchen_rule, kitchen_rule\<lparr>rr_id := ''other''\<rparr>]\<rparr>)
     [RmCancel, RmDelete ''other'', RmRules [kitchen_rule], RmDeleteDone]) = ModeEdit kitchen_rule"
  by (simp add: deep_linked_def deep_link_def kitchen_rule_def)

end
