(* ===== verification/Panel_Views.thy ===== *)
theory Panel_Views
  imports History_Views File_History Rule_Builder
begin

text \<open>
  What some views draw around state modelled elsewhere: the rows and statistics of the compile-history drawer
  (\<open>components/CompileHistoryPanel.tsx\<close>) with the roll-up of the server that feeds them
  (\<open>ha-addon/server/job_history.py\<close>), the time range popover as a session (\<open>components/TimeRangePicker.tsx\<close>), the columns of \<open>QueueHistoryDialog.tsx\<close>, the rows and pickers
  of \<open>HistoryPanel.tsx\<close>, and the
  list of routing rules (\<open>components/RoutingRulesModal.tsx\<close>, the footer of \<open>RoutingRuleBuilder.tsx\<close>).
\<close>

section \<open>Statistics\<close>

record history_stats =
  hs_total :: nat
  hs_success :: nat
  hs_failed :: nat
  hs_cancelled :: nat
  hs_timed_out :: nat
  hs_avg :: "rat option"
  hs_window_days :: nat

datatype pill_tone = PillPlain | PillSuccess | PillError | PillWarn | PillMuted

definition stat_pills :: "history_stats option \<Rightarrow> (string \<times> pill_tone) list" where
  "stat_pills stats =
    (case stats of
       None \<Rightarrow> []
     | Some s \<Rightarrow>
        if hs_total s = 0 then []
        else [(show_nat (hs_total s) @ '' total'', PillPlain), (show_nat (hs_success s) @ '' ok'', PillSuccess)]
          @ (if 0 < hs_failed s then [(show_nat (hs_failed s) @ '' failed'', PillError)] else [])
          @ (if 0 < hs_timed_out s then [(show_nat (hs_timed_out s) @ '' timed out'', PillWarn)] else [])
          @ (if 0 < hs_cancelled s then [(show_nat (hs_cancelled s) @ '' cancelled'', PillPlain)] else [])
          @ (case hs_avg s of None \<Rightarrow> [] | Some a \<Rightarrow> [(''avg '' @ fmtDuration (Some a), PillPlain)])
          @ [(''last '' @ show_nat (hs_window_days s) @ ''d'', PillMuted)])"

text \<open>
  The server's roll-up over the rows of the window: the count and the mean of the known durations of each state, the
  means weighted by the counts. A row is its state and its duration.
\<close>

type_synonym timed_row = "string \<times> rat option"

definition state_count :: "timed_row list \<Rightarrow> string \<Rightarrow> nat" where
  "state_count rows st = length (filter (\<lambda>(s, _). s = st) rows)"

definition known_durations :: "timed_row list \<Rightarrow> rat list" where
  "known_durations rows = List.map_filter snd rows"

definition state_avg :: "timed_row list \<Rightarrow> string \<Rightarrow> rat option" where
  "state_avg rows st =
    (let ds = known_durations (filter (\<lambda>(s, _). s = st) rows)
     in if ds = [] then None else Some (sum_list ds / of_nat (length ds)))"

definition py_avg :: "timed_row list \<Rightarrow> rat option" where
  "py_avg rows =
    (let durations = List.map_filter (\<lambda>st. map_option (\<lambda>d. (state_count rows st, d)) (state_avg rows st)) (remdups (map fst rows));
         weight_sum = sum_list (map fst durations)
     in if durations = [] \<or> weight_sum = 0 then None
        else Some (sum_list (map (\<lambda>(n, d). of_nat n * d) durations) / of_nat weight_sum))"

definition py_stats :: "nat \<Rightarrow> timed_row list \<Rightarrow> history_stats" where
  "py_stats window_days rows =
    \<lparr>hs_total = sum_list (map (state_count rows) (remdups (map fst rows))),
     hs_success = state_count rows ''success'', hs_failed = state_count rows ''failed'',
     hs_cancelled = state_count rows ''cancelled'', hs_timed_out = state_count rows ''timed_out'',
     hs_avg = py_avg rows, hs_window_days = max 1 (min window_days 3650)\<rparr>"

section \<open>Rows of the drawer\<close>

text \<open>The lines of the tooltip on the time of a row.\<close>

definition times_title :: "(rat option \<Rightarrow> string) \<Rightarrow> history_row \<Rightarrow> string" where
  "times_title absolute r =
    join_with [CHR 0x0A]
      (map (\<lambda>(label, t). label @ absolute t)
        (filter (\<lambda>(_, t). truthy_num t)
          [(''Submitted: '', hr_submitted_at r), (''Worker picked up: '', hr_started_at r), (''Finished: '', hr_finished_at r)]))"

record drawer_row =
  dr_clickable :: bool
  dr_expanded :: bool
  dr_badge :: badge
  dr_times :: string
  dr_when :: string
  dr_duration :: "string option"
  dr_trigger :: string
  dr_firmware :: "(string \<times> string) list option"
  dr_version :: string
  dr_commit :: "(string \<times> (string \<times> string) option) option"
  dr_excerpt :: "string option"

definition drawer_row_of ::
  "int \<Rightarrow> (rat option \<Rightarrow> string) \<Rightarrow> bool \<Rightarrow> bool \<Rightarrow> history_panel \<Rightarrow> history_row \<Rightarrow> drawer_row" where
  "drawer_row_of now_ms absolute versioningEnabled canDiff p r =
    (let hasExcerpt = truthy_str (hr_log_excerpt r); expanded = (pn_expanded p = Some (hr_id r)) in
     \<lparr>dr_clickable = hasExcerpt, dr_expanded = expanded, dr_badge = history_badge r, dr_times = times_title absolute r,
      dr_when = fmtEpochRelative now_ms (hr_finished_at r),
      dr_duration = map_option fst (duration_cell r),
      dr_trigger = triggeredLabel r
        @ (if truthy_str (hr_assigned_hostname r) then '' '' @ middot @ '' '' @ the (hr_assigned_hostname r) else []),
      dr_firmware = firmware_links (hr_id r) (hr_firmware_variants r),
      dr_version = str_or (hr_esphome_version r) em_dash,
      dr_commit = commit_cell versioningEnabled (versioningEnabled \<and> canDiff) r,
      dr_excerpt = (if expanded \<and> hasExcerpt then hr_log_excerpt r else None)\<rparr>)"

definition toggle_drawer_row :: "history_row \<Rightarrow> history_panel \<Rightarrow> history_panel" where
  "toggle_drawer_row r p =
    (if truthy_str (hr_log_excerpt r)
     then p\<lparr>pn_expanded := (if pn_expanded p = Some (hr_id r) then None else Some (hr_id r))\<rparr> else p)"

text \<open>
  A key pressed inside a row. The handler stands on the row, so it also sees what is pressed on the commit button
  within; Enter clicks a focused button unless a handler on the way prevents it (Space clicks on release, which is not this event).
\<close>

datatype row_focus = OnRow | OnCommit
datatype row_key = RowEnter | RowSpace | RowOther

record key_result =
  kr_panel :: history_panel
  kr_prevented :: bool
  kr_diff :: "(string \<times> string) option"

definition row_keydown :: "bool \<Rightarrow> bool \<Rightarrow> row_focus \<Rightarrow> row_key \<Rightarrow> history_row \<Rightarrow> history_panel \<Rightarrow> key_result" where
  "row_keydown versioningEnabled canDiff focus key r p =
    (let handled = truthy_str (hr_log_excerpt r) \<and> (key = RowEnter \<or> key = RowSpace);
         click = focus = OnCommit \<and> key = RowEnter \<and> \<not> handled
     in \<lparr>kr_panel = (if handled then toggle_drawer_row r p else p), kr_prevented = handled,
         kr_diff = (if click then (case commit_cell versioningEnabled (versioningEnabled \<and> canDiff) r of
             Some (_, d) \<Rightarrow> d | None \<Rightarrow> None) else None)\<rparr>)"

text \<open>A mouse click on the commit button stops there: the row does not toggle.\<close>

definition commit_click :: "bool \<Rightarrow> bool \<Rightarrow> history_row \<Rightarrow> (string \<times> string) option" where
  "commit_click versioningEnabled canDiff r =
    (case commit_cell versioningEnabled (versioningEnabled \<and> canDiff) r of Some (_, d) \<Rightarrow> d | None \<Rightarrow> None)"

section \<open>Columns of the fleet-wide dialog\<close>

text \<open>Identifier, heading and whether the heading offers sorting.\<close>

definition dialog_columns :: "bool \<Rightarrow> (string \<times> string \<times> bool) list" where
  "dialog_columns versioningEnabled =
    [(''expand'', [], False), (''target'', ''Device'', True), (''state'', ''State'', True), (''esphome_version'', ''ESPHome'', True)]
    @ (if versioningEnabled then [(''commit'', ''Commit'', False)] else [])
    @ [(''duration_seconds'', ''Duration'', True), (''submitted_at'', ''Started'', True), (''finished_at'', ''Finished'', True),
       (''triggered_by'', ''Triggered'', True), (''assigned_hostname'', ''Worker'', True),
       (''selection_reason'', ''Worker selection'', True), (''download'', [], False)]"

text \<open>The cells, as text with their tooltips.\<close>

definition target_cell :: "target list \<Rightarrow> history_row \<Rightarrow> string \<times> string option" where
  "target_cell targets r =
    (let friendly = friendlyFor targets (hr_target r)
     in (friendly, if friendly \<noteq> hr_target r then Some (hr_target r) else None))"

definition submitted_cell :: "int \<Rightarrow> (rat option \<Rightarrow> string) \<Rightarrow> history_row \<Rightarrow> string \<times> string" where
  "submitted_cell now_ms absolute r =
    (if truthy_num (hr_submitted_at r) then fmtEpochRelative now_ms (hr_submitted_at r) else em_dash,
     ''Submitted: '' @ absolute (hr_submitted_at r) @ [CHR 0x0A]
       @ (if truthy_num (hr_started_at r) then ''Worker picked up: '' @ absolute (hr_started_at r)
          else ''(No worker picked up this job '' @ em_dash @ '' cancelled or rejected before start.)''))"

definition drawer_finished_cell :: "int \<Rightarrow> (rat option \<Rightarrow> string) \<Rightarrow> history_row \<Rightarrow> string \<times> string" where
  "drawer_finished_cell now_ms absolute r = (fmtEpochRelative now_ms (hr_finished_at r), absolute (hr_finished_at r))"

definition drawer_triggered_cell :: "history_row \<Rightarrow> string \<times> string" where
  "drawer_triggered_cell r =
    (let b = getTriggerBadge (history_trigger r); cancelled = isScheduledCancelBeforeStart (history_trigger r)
     in (tb_label b @ (if cancelled then '' '' @ em_dash @ '' cancelled before start'' else []),
         if cancelled then ''Scheduler fired, but the job was cancelled before any worker picked it up.'' else tb_title b))"

definition esphome_cell :: "history_row \<Rightarrow> string" where
  "esphome_cell r = str_or (hr_esphome_version r) em_dash"

definition drawer_selection_cell :: "history_row \<Rightarrow> selection_display option" where
  "drawer_selection_cell r = formatSelectionReason (hr_selection_reason r)"

section \<open>The time range popover\<close>

record range_session =
  rs_open :: bool
  rs_since :: "int option"
  rs_until :: "int option"
  rs_label :: "string option"
  rs_draft :: picker

datatype range_event =
    OpenRange | DismissRange | PickDays "int option" "int option" | TypeFrom string | TypeTo string
  | ApplyRange | PickPreset int string

definition mount_range :: "int option \<Rightarrow> int option \<Rightarrow> string option \<Rightarrow> range_session" where
  "mount_range since until label =
    \<lparr>rs_open = False, rs_since = since, rs_until = until, rs_label = label, rs_draft = initial_picker\<rparr>"

text \<open>The draft can be edited only while the popover is open; the effect seeds it whenever it opens.\<close>

fun range_step :: "clock_zone \<Rightarrow> range_event \<Rightarrow> range_session \<Rightarrow> range_session" where
  "range_step z OpenRange s =
     (if rs_open s then s else s\<lparr>rs_open := True, rs_draft := open_picker z (rs_since s) (rs_until s) (rs_draft s)\<rparr>)"
| "range_step z DismissRange s = s\<lparr>rs_open := False\<rparr>"
| "range_step z (PickDays a b) s = (if rs_open s then s\<lparr>rs_draft := (rs_draft s)\<lparr>pk_from := a, pk_to := b\<rparr>\<rparr> else s)"
| "range_step z (TypeFrom t) s = (if rs_open s then s\<lparr>rs_draft := (rs_draft s)\<lparr>pk_fromTime := t\<rparr>\<rparr> else s)"
| "range_step z (TypeTo t) s = (if rs_open s then s\<lparr>rs_draft := (rs_draft s)\<lparr>pk_toTime := t\<rparr>\<rparr> else s)"
| "range_step z ApplyRange s =
     (if \<not> rs_open s then s
      else case applyAbsolute z (rs_draft s) of
        None \<Rightarrow> s
      | Some (a, b) \<Rightarrow> s\<lparr>rs_since := Some a, rs_until := Some b, rs_label := None, rs_open := False\<rparr>)"
| "range_step z (PickPreset now label) s =
     (if \<not> rs_open s then s
      else case choose_preset now label of
        None \<Rightarrow> s
      | Some (a, b, l) \<Rightarrow> s\<lparr>rs_since := a, rs_until := b, rs_label := Some l, rs_open := False\<rparr>)"

definition range_run :: "clock_zone \<Rightarrow> range_event list \<Rightarrow> range_session \<Rightarrow> range_session" where
  "range_run z es s = fold (range_step z) es s"

text \<open>\<open>weekInfo\<close> is what \<open>Intl.Locale\<close> knows of the language: \<^const>\<open>None\<close> where it throws or has no such field.\<close>

definition firstDayOfWeekForLocale :: "(string \<Rightarrow> int option) \<Rightarrow> string \<Rightarrow> nat" where
  "firstDayOfWeekForLocale weekInfo lang =
    (case weekInfo lang of
       Some d \<Rightarrow> if d = 7 then 0 else 1
     | None \<Rightarrow>
         if list_ex (starts_with (to_lower lang)) [''en-us'', ''en-ca'', ''ja'', ''ko'', ''he'', ''pt-br'', ''es-mx''] then 0 else 1)"

section \<open>The list of routing rules\<close>

fun op_words :: "routing_clause_op \<Rightarrow> string" where
  "op_words AllOf = ''all of''"
| "op_words AnyOf = ''any of''"
| "op_words NoneOf = ''none of''"
| "op_words (UnknownOp _) = ''none of''"

definition clauseSummary :: "routing_clause list \<Rightarrow> (string \<times> string list) list option" where
  "clauseSummary clauses = (if clauses = [] then None else Some (map (\<lambda>c. (op_words (rc_op c), rc_tags c)) clauses))"

record rule_line =
  rl_name :: string
  rl_id :: string
  rl_device :: "(string \<times> string list) list option"
  rl_worker :: "(string \<times> string list) list option"
  rl_delete_disabled :: bool

definition rule_line_of :: "rules_modal \<Rightarrow> routing_rule \<Rightarrow> rule_line" where
  "rule_line_of m r =
    \<lparr>rl_name = rr_name r, rl_id = rr_id r, rl_device = clauseSummary (rr_device_match r),
     rl_worker = clauseSummary (rr_worker_match r), rl_delete_disabled = (rm_pendingDeleteId m = Some (rr_id r))\<rparr>"

definition rules_modal_title :: "rules_mode \<Rightarrow> string" where
  "rules_modal_title mode =
    (case mode of
       ModeList \<Rightarrow> ''Routing rules'' | ModeCreate \<Rightarrow> ''Add routing rule''
     | ModeEdit r \<Rightarrow> ''Edit rule '' @ em_dash @ '' '' @ rr_name r)"

definition worker_pool :: "worker list \<Rightarrow> string list" where
  "worker_pool workers = sorted_pool (concat (map (\<lambda>w. nullish (w_tags w) []) workers))"

definition preview_devices :: "target list \<Rightarrow> string list list" where
  "preview_devices targets =
    map (\<lambda>t. filter (\<lambda>s. s \<noteq> []) (map trim (split_on (CHR '','') (str_or (t_tags t) [])))) targets"

definition preview_text :: "rule_impact \<Rightarrow> string" where
  "preview_text i =
    ''With this rule, '' @ show_nat (ri_constrainedDevices i) @ '' of '' @ show_nat (ri_totalDevices i)
    @ '' devices would be constrained, and '' @ show_nat (ri_eligibleWorkers i) @ '' of '' @ show_nat (ri_totalWorkers i)
    @ '' online workers are eligible to build for them.''"

section \<open>Rows and pickers of the file history\<close>

text \<open>The options of a picker with their labels.\<close>

definition hash_options :: "bool \<Rightarrow> file_entry list \<Rightarrow> (string \<times> string) list" where
  "hash_options allowWorkingTree entries =
    (if allowWorkingTree then [(WORKING_TREE, ''Current (working tree)'')] else [])
    @ map (\<lambda>e. (fe_hash e, fe_short_hash e @ '' '' @ middot @ '' '' @ fe_message e)) entries"

text \<open>\<open>formatAbsoluteTime\<close>: the year only when it is not the current one, always on a 24-hour clock.\<close>

definition formatAbsoluteTime :: "platform \<Rightarrow> int \<Rightarrow> rat \<Rightarrow> string" where
  "formatAbsoluteTime pf now_ms epochSeconds =
    (if epochSeconds = 0 then []
     else let d = pf_local pf (epochSeconds * 1000); now = pf_local pf (of_int now_ms) in
       pf_date_string pf None
         \<lparr>io_hour12 = None, io_fields = [(''month'', ''short''), (''day'', ''numeric'')]
            @ (if ld_year d \<noteq> ld_year now then [(''year'', ''numeric'')] else [])\<rparr> d
       @ '', '' @ pf_time_string pf d \<lparr>io_hour12 = Some False, io_fields = [(''hour'', ''2-digit''), (''minute'', ''2-digit'')]\<rparr>)"

datatype row_ring = RingTo | RingFrom | RingNone

record commit_row =
  cw_ring :: row_ring
  cw_hash :: string
  cw_message :: string
  cw_when :: string
  cw_absolute :: string
  cw_added :: string
  cw_removed :: string
  cw_firmware :: "(string \<times> string) list option"
  cw_restore :: "bool \<times> string"

definition commit_row_of :: "platform \<Rightarrow> int \<Rightarrow> panel_state \<Rightarrow> bool \<Rightarrow> nat \<Rightarrow> file_entry \<Rightarrow> commit_row" where
  "commit_row_of pf now_ms s has_uncommitted idx e =
    \<lparr>cw_ring = (if cp_to (ps_pair s) = fe_hash e then RingTo else if cp_from (ps_pair s) = fe_hash e then RingFrom else RingNone),
     cw_hash = fe_short_hash e, cw_message = fe_message e, cw_when = formatRelativeTime now_ms (fe_date e),
     cw_absolute = formatAbsoluteTime pf now_ms (fe_date e), cw_added = ''+'' @ show_int (fe_lines_added e),
     cw_removed = ''-'' @ show_int (fe_lines_removed e), cw_firmware = row_firmware e,
     cw_restore = restore_button (ps_busy s) has_uncommitted idx\<rparr>"

definition commit_rows :: "platform \<Rightarrow> int \<Rightarrow> panel_state \<Rightarrow> bool \<Rightarrow> commit_row list" where
  "commit_rows pf now_ms s has_uncommitted =
    map (\<lambda>(i, e). commit_row_of pf now_ms s has_uncommitted i e) (enumerate 0 (nullish (ps_entries s) []))"

text \<open>The confirmation of a restore: heading, what happens to the file, what happens in git.\<close>

definition restore_texts :: "bool \<Rightarrow> bool \<Rightarrow> string \<Rightarrow> file_entry \<Rightarrow> string \<times> string \<times> string" where
  "restore_texts has_uncommitted autoCommit filename e =
    (''Restore '' @ fe_short_hash e @ ''?'',
     if has_uncommitted then ''Your uncommitted changes to '' @ filename @ '' will be overwritten.''
     else ''This will replace the current content of '' @ filename @ '' with its version at '' @ fe_short_hash e @ ''.'',
     if autoCommit then ''A new revert: '' @ [CHR 0xE2, CHR 0x80, CHR 0xA6]
       @ '' commit will be created so the rollback is itself recorded in history.''
     else ''No new commit will be created (auto-commit is off); the working tree will be left dirty until you commit manually.'')"

section \<open>Lemmas\<close>

text \<open>Sums over the rows split by state.\<close>

lemma sum_by_state:
  fixes g :: "timed_row \<Rightarrow> 'a::comm_monoid_add"
  assumes "finite K" "fst ` set rows \<subseteq> K"
  shows "(\<Sum>st\<in>K. sum_list (map g (filter (\<lambda>(s, _). s = st) rows))) = sum_list (map g rows)"
  using assms(2)
proof (induction rows)
  case (Cons x rows)
  have "(\<Sum>st\<in>K. sum_list (map g (filter (\<lambda>(s, _). s = st) (x # rows))))
      = (\<Sum>st\<in>K. (if fst x = st then g x else 0) + sum_list (map g (filter (\<lambda>(s, _). s = st) rows)))"
    by (intro sum.cong) (auto simp: case_prod_unfold)
  also have "\<dots> = g x + sum_list (map g rows)"
    using Cons assms(1) by (simp add: sum.distrib)
  finally show ?case by simp
qed simp

lemma sum_over_states:
  fixes g :: "timed_row \<Rightarrow> 'a::comm_monoid_add"
  shows "sum_list (map (\<lambda>st. sum_list (map g (filter (\<lambda>(s, _). s = st) rows))) (remdups (map fst rows))) = sum_list (map g rows)"
  by (simp add: sum_list_distinct_conv_sum_set sum_by_state)

lemma state_count_sum: "state_count rows st = sum_list (map (\<lambda>_. 1) (filter (\<lambda>(s, _). s = st) rows))"
  by (simp add: state_count_def sum_list_triv)

lemma total_is_length: "sum_list (map (state_count rows) (remdups (map fst rows))) = length rows"
  using sum_over_states [of "\<lambda>_. 1::nat" rows]
  by (simp add: state_count_sum [abs_def] sum_list_triv)

lemma known_all:
  assumes "list_all (\<lambda>(_, d). d \<noteq> None) rows"
  shows "known_durations rows = map (\<lambda>(_, d). the d) rows"
  using assms by (induction rows) (auto simp: known_durations_def List.map_filter_simps)

lemma map_filter_all: "\<forall>x \<in> set xs. f x = Some (g x) \<Longrightarrow> List.map_filter f xs = map g xs"
  by (induction xs) (auto simp: List.map_filter_simps)

lemma state_avg_timed:
  assumes "list_all (\<lambda>(_, d). d \<noteq> None) rows" "st \<in> fst ` set rows"
  shows "state_avg rows st
    = Some (sum_list (map (\<lambda>(_, d). the d) (filter (\<lambda>(s, _). s = st) rows)) / of_nat (state_count rows st))"
    "0 < state_count rows st"
proof -
  have "list_all (\<lambda>(_, d). d \<noteq> None) (filter (\<lambda>(s, _). s = st) rows)"
    using assms(1) by (auto simp: list_all_iff)
  then have k: "known_durations (filter (\<lambda>(s, _). s = st) rows) = map (\<lambda>(_, d). the d) (filter (\<lambda>(s, _). s = st) rows)"
    by (rule known_all)
  have "filter (\<lambda>(s, _). s = st) rows \<noteq> []"
    using assms(2) by (force simp: filter_empty_conv)
  then show "state_avg rows st
    = Some (sum_list (map (\<lambda>(_, d). the d) (filter (\<lambda>(s, _). s = st) rows)) / of_nat (state_count rows st))"
    "0 < state_count rows st"
    by (simp_all add: state_avg_def k state_count_def)
qed

section \<open>Properties\<close>

text \<open>The pills count every compile of the window once: the total is the number of rows, and when every row ended in
  one of the four final states the other pills add up to it.\<close>
theorem pills_count_all:
  assumes "list_all (\<lambda>(st, _). st \<in> set [''success'', ''failed'', ''cancelled'', ''timed_out'']) rows"
  shows "let s = py_stats w rows in hs_total s = length rows
     \<and> hs_success s + hs_failed s + hs_cancelled s + hs_timed_out s = hs_total s
     \<and> (stat_pills (Some s) = [] \<longleftrightarrow> rows = [])"
proof -
  have "fst ` set rows \<subseteq> {''success'', ''failed'', ''cancelled'', ''timed_out''}"
    using assms by (force simp: list_all_iff)
  from sum_by_state [OF _ this, of "\<lambda>_. 1::nat"]
  have "state_count rows ''success'' + state_count rows ''failed'' + state_count rows ''cancelled''
      + state_count rows ''timed_out'' = length rows"
    by (simp add: state_count_sum sum_list_triv)
  then show ?thesis
    by (simp add: Let_def py_stats_def total_is_length stat_pills_def)
qed

text \<open>The average the drawer shows is the mean of the durations when every row has one.\<close>
theorem avg_exact_when_timed:
  assumes "rows \<noteq> []" "list_all (\<lambda>(_, d). d \<noteq> None) rows"
  shows "hs_avg (py_stats w rows) = Some (sum_list (map (\<lambda>(_, d). the d) rows) / of_nat (length rows))"
proof -
  let ?ks = "remdups (map fst rows)"
  let ?S = "\<lambda>st. sum_list (map (\<lambda>(_, d). the d) (filter (\<lambda>(s, _). s = st) rows))"
  let ?ds = "map (\<lambda>st. (state_count rows st, ?S st / of_nat (state_count rows st))) ?ks"
  have ds: "List.map_filter (\<lambda>st. map_option (\<lambda>d. (state_count rows st, d)) (state_avg rows st)) ?ks = ?ds"
    using state_avg_timed [OF assms(2)] by (intro map_filter_all) auto
  have w: "sum_list (map fst ?ds) = length rows"
    using total_is_length [of rows] by (simp add: comp_def)
  have m: "map (\<lambda>(n, d). of_nat n * d) ?ds = map ?S ?ks"
    using state_avg_timed(2) [OF assms(2)] by auto
  have "sum_list (map (\<lambda>(n, d). of_nat n * d) ?ds) = sum_list (map (\<lambda>(_, d). the d) rows)"
    unfolding m by (rule sum_over_states)
  then show ?thesis
    using assms(1) unfolding py_stats_def py_avg_def ds Let_def history_stats.simps w by simp
qed

text \<open>A row without a duration does not count into the mean of its state, yet it counts into the state's weight: one
  compile of 100 seconds and a failure of 10 next to a failure that never started average to 40, not 55.\<close>
theorem untimed_rows_weigh:
  "hs_avg (py_stats 30 [(''success'', Some 100), (''failed'', Some 10), (''failed'', None)]) = Some 40"
  by code_simp

text \<open>The commit button of a row is out of reach for the keyboard as soon as the row has a log: Enter on it toggles
  the row and its own click never happens, though a mouse click opens the comparison.\<close>
theorem commit_button_dead_on_enter:
  assumes "truthy_str (hr_log_excerpt r)"
  shows "let k = row_keydown v c OnCommit RowEnter r p in kr_diff k = None \<and> kr_panel k = toggle_drawer_row r p"
  using assms by (simp add: row_keydown_def Let_def)

text \<open>On a range open at the start, a time that was typed and then dismissed is still there when the popover is opened
  again: the draft takes its times from the current value only where the value has that end.\<close>
theorem dismissed_time_stays:
  assumes "rs_since s = None" "\<not> rs_open s"
  shows "pk_fromTime (rs_draft (range_run z [OpenRange, TypeFrom t, DismissRange, OpenRange] s)) = t"
  using assms by (simp add: range_run_def open_picker_def)

text \<open>A range that was applied or chosen is the one the popover opens with the next time, whatever was typed and
  dismissed before.\<close>
theorem reopened_draft_is_value:
  assumes "\<not> rs_open s" "rs_since s = Some a" "rs_until s = Some b"
  shows "rs_draft (range_run z [OpenRange, TypeFrom t, TypeTo u, PickDays c d, DismissRange, OpenRange] s)
      = \<lparr>pk_from = Some a, pk_to = Some b, pk_fromTime = fmtTimeHHMM z a, pk_toTime = fmtTimeHHMM z b\<rparr>"
  using assms by (simp add: range_run_def open_picker_def)

text \<open>Of the columns whose heading offers sorting the server knows all but one, with versioning or without.\<close>
theorem unsorted_offers:
  "filter (\<lambda>(c, _, offered). offered \<and> SORTABLE c = None) (dialog_columns v) = [(''selection_reason'', ''Worker selection'', True)]"
proof -
  have "\<forall>v \<in> set [True, False]. filter (\<lambda>(c, _, offered). offered \<and> SORTABLE c = None) (dialog_columns v)
      = [(''selection_reason'', ''Worker selection'', True)]" by code_simp
  then show ?thesis by (cases v) simp_all
qed

text \<open>The two views agree on a row a schedule asked for and nobody built: both say so next to its trigger.\<close>
theorem cancelled_before_start_told:
  assumes "isScheduledCancelBeforeStart (history_trigger r)"
  shows "ends_with (fst (drawer_triggered_cell r)) '' cancelled before start'' \<and> ends_with (triggeredLabel r) '' cancelled before start''
     \<and> duration_cell r = None \<and> worker_cell_text r = []"
  using assms by (simp add: drawer_triggered_cell_def triggeredLabel_def duration_cell_def worker_cell_text_def Let_def ends_with_def starts_with_def)

text \<open>The pickers offer what the panel compares: their values are the panel's options, and with distinct commits at most
  one row is marked as the newer side.\<close>
theorem one_row_marked:
  assumes "distinct (map fe_hash (nullish (ps_entries s) []))"
  shows "map fst (hash_options True (nullish (ps_entries s) [])) = picker_options s
    \<and> length (filter (\<lambda>r. cw_ring r = RingTo) (commit_rows pf now_ms s u)) \<le> 1"
proof -
  have ring: "cw_ring (commit_row_of pf now_ms s u i e) = RingTo \<longleftrightarrow> cp_to (ps_pair s) = fe_hash e" for i e
    by (simp add: commit_row_of_def)
  have "length (filter (\<lambda>r. cw_ring r = RingTo) (commit_rows pf now_ms s u))
      = length (filter (\<lambda>x. cp_to (ps_pair s) = fe_hash (snd x)) (enumerate 0 (nullish (ps_entries s) [])))"
    by (simp add: commit_rows_def filter_map comp_def case_prod_unfold ring)
  also have "\<dots> = length (filter (\<lambda>e. cp_to (ps_pair s) = fe_hash e) (map snd (enumerate 0 (nullish (ps_entries s) []))))"
    by (simp only: filter_map length_map comp_def)
  also have "\<dots> = length (filter (\<lambda>h. cp_to (ps_pair s) = h) (map fe_hash (nullish (ps_entries s) [])))"
    by (simp add: filter_map comp_def)
  also have "\<dots> = card ({h. cp_to (ps_pair s) = h} \<inter> set (map fe_hash (nullish (ps_entries s) [])))"
    using distinct_length_filter [OF assms] by simp
  also have "\<dots> \<le> card {cp_to (ps_pair s)}" by (intro card_mono) auto
  finally show ?thesis by (simp add: hash_options_def picker_options_def comp_def)
qed

lemma commit_button_witness:
  "let r = one_row\<lparr>hr_log_excerpt := Some ''x'', hr_config_hash := Some ''abc''\<rparr>;
       p = \<lparr>pn_target = Some ''a.yaml'', pn_offset = 0, pn_expanded = None\<rparr>
   in kr_diff (row_keydown True True OnCommit RowEnter r p) = None \<and> commit_click True True r = Some (hr_target r, ''abc'')"
  by code_simp

end
