(* ===== verification/Table_Frames.thy ===== *)
theory Table_Frames
  imports Device_Row Queue_Tab Workers_Tab Schedules_Tab History_Views Panel_Views Table_State
begin

text \<open>
  The tables of \<open>components/QueueTab.tsx\<close>, \<open>components/SchedulesTab.tsx\<close>, \<open>components/WorkersTab.tsx\<close> and
  \<open>components/QueueHistoryDialog.tsx\<close> around the cells of their theories: the columns with heading, sort value and cell,
  the heading row with \<open>aria-sort\<close>, the rows and what is drawn when there are none; the menus above the queue and
  what choosing an entry calls. As the table library documents, a column can be sorted when it has an accessor.
\<close>

section \<open>Columns in general\<close>

datatype sort_value = SortText string | SortTime int | SortOrigin trigger_source | SortNumber rat | SortNothing

record ('e, 'r, 'c) frame_column =
  fc_id :: string
  fc_head :: column_head
  fc_key :: "('e \<Rightarrow> 'r \<Rightarrow> sort_value) option"
  fc_cell :: "'e \<Rightarrow> 'r \<Rightarrow> 'c"

definition frame_head ::
  "(string \<Rightarrow> sort_state) \<Rightarrow> ('e, 'r, 'c) frame_column list \<Rightarrow> (column_head \<times> string option) list" where
  "frame_head sorting cs =
    map (\<lambda>c. (fc_head c, case fc_key c of None \<Rightarrow> None | Some _ \<Rightarrow> Some (getAriaSort (sorting (fc_id c))))) cs"

definition frame_row :: "('e, 'r, 'c) frame_column list \<Rightarrow> 'e \<Rightarrow> 'r \<Rightarrow> 'c list" where
  "frame_row cs e r = map (\<lambda>c. fc_cell c e r) cs"

text \<open>The body: a message that spans some columns, or the rows.\<close>

datatype 'c frame_body = EmptyRow nat string | BodyRows "'c list list"

section \<open>The queue\<close>

record queue_env =
  qe_platform :: platform
  qe_prefs :: fmt_prefs
  qe_ms :: "string \<Rightarrow> int"
  qe_now :: int
  qe_targets :: "target list"
  qe_workers :: "worker list"
  qe_selected :: "string \<Rightarrow> bool"
  qe_menu :: "string option"

datatype queue_view =
    QueueTick string bool
  | QueueDevice string string
  | QueueState state_cell
  | QueueWorker worker_cell
  | QueueVersion "string \<times> bool"
  | QueueReason "(intent_line option \<times> selection_display option) option"
  | QueueHash "(string \<times> string \<times> (string \<times> string)) option option"
  | QueueTrigger "string \<times> string option \<times> string"
  | QueueCreated "string \<times> string \<times> string"
  | QueueFinished finish_cell
  | QueueActions row_actions

definition hash_column :: "(queue_env, job, queue_view) frame_column" where
  "hash_column =
    \<lparr>fc_id = ''config_hash'', fc_head = SortHead ''Commit'', fc_key = Some (\<lambda>e j. SortText (str_or (j_config_hash j) [])),
     fc_cell = (\<lambda>e j. QueueHash (hash_cell True j))\<rparr>"

definition queue_columns :: "bool \<Rightarrow> (queue_env, job, queue_view) frame_column list" where
  "queue_columns versioningEnabled =
    [\<lparr>fc_id = ''select'', fc_head = TickHead, fc_key = None, fc_cell = (\<lambda>e j. QueueTick (j_id j) (qe_selected e (j_id j)))\<rparr>,
     \<lparr>fc_id = ''device'', fc_head = SortHead ''Device'', fc_key = Some (\<lambda>e j. SortText (device_label (qe_targets e) j)),
      fc_cell = (\<lambda>e j. QueueDevice (device_label (qe_targets e) j) (stripYaml (Some (j_target j))))\<rparr>,
     \<lparr>fc_id = ''state'', fc_head = SortHead ''State'', fc_key = Some (\<lambda>e j. SortText (j_state j)),
      fc_cell = (\<lambda>e j. QueueState (state_cell_of j))\<rparr>,
     \<lparr>fc_id = ''worker'', fc_head = SortHead ''Worker'', fc_key = Some (\<lambda>e j. SortText (str_or (j_assigned_hostname j) [])),
      fc_cell = (\<lambda>e j. QueueWorker (worker_cell_of (qe_workers e) j))\<rparr>,
     \<lparr>fc_id = ''esphome_version'', fc_head = SortHead ''ESPHome'', fc_key = Some (\<lambda>e j. SortText (str_or (j_esphome_version j) [])),
      fc_cell = (\<lambda>e j. QueueVersion (version_cell (qe_targets e) j))\<rparr>,
     \<lparr>fc_id = ''selection_reason'', fc_head = SortHead ''Worker selection'',
      fc_key = Some (\<lambda>e j. SortText (str_or (j_selection_reason j) [])), fc_cell = (\<lambda>e j. QueueReason (selection_cell j))\<rparr>]
    @ (if versioningEnabled then [hash_column] else [])
    @ [\<lparr>fc_id = ''triggered_by'', fc_head = SortHead ''Triggered'',
        fc_key = Some (\<lambda>e j. SortOrigin (classifyTrigger (job_trigger_row j))),
        fc_cell = (\<lambda>e j. QueueTrigger (triggered_cell (qe_platform e) (qe_prefs e) (qe_ms e) (qe_targets e) j))\<rparr>,
       \<lparr>fc_id = ''created_at'', fc_head = SortHead ''Start Time'', fc_key = Some (\<lambda>e j. SortTime (qe_ms e (j_created_at j))),
        fc_cell = (\<lambda>e j. QueueCreated (created_cell (qe_platform e) (qe_prefs e) (qe_ms e) (qe_now e) j))\<rparr>,
       \<lparr>fc_id = ''finished_at'', fc_head = SortHead ''Finish Time'',
        fc_key = Some (\<lambda>e j. if truthy_str (j_finished_at j) then SortTime (qe_ms e (the (j_finished_at j))) else SortNothing),
        fc_cell = (\<lambda>e j. QueueFinished (finished_cell (qe_platform e) (qe_prefs e) (qe_ms e) (qe_now e) j))\<rparr>,
       \<lparr>fc_id = ''actions'', fc_head = PlainHead ''Actions'', fc_key = None,
        fc_cell = (\<lambda>e j. QueueActions (actions_cell (qe_targets e) (qe_menu e) j))\<rparr>]"

text \<open>\<open>rows\<close> is what the table library made of the jobs that pass the search box.\<close>

definition queue_body :: "bool \<Rightarrow> queue_env \<Rightarrow> job list \<Rightarrow> queue_view frame_body" where
  "queue_body versioningEnabled e rows =
    (if length rows = 0 then EmptyRow 6 ''No jobs in queue''
     else BodyRows (map (frame_row (queue_columns versioningEnabled) e) rows))"

text \<open>The two menus of the toolbar: label, whether it is disabled, its tooltip.\<close>

record menu_entry =
  me_label :: string
  me_disabled :: bool
  me_title :: "string option"

definition entry_of :: "string \<Rightarrow> bool \<Rightarrow> string \<Rightarrow> menu_entry" where
  "entry_of label disabled why = \<lparr>me_label = label, me_disabled = disabled, me_title = (if disabled then Some why else None)\<rparr>"

definition rerun_menu :: "target list \<Rightarrow> job list \<Rightarrow> queue_tab \<Rightarrow> menu_entry list" where
  "rerun_menu targets queue st =
    (let b = toolbar targets queue st in
     [entry_of ''Rerun All Failed'' (\<not> tl_rerunFailed b) ''No failed jobs in the current queue'',
      entry_of ''Rerun Selected'' (\<not> tl_rerunSelected b) ''Queue is empty'',
      entry_of ''Cancel Selected'' (\<not> tl_cancelSelected b) ''Queue is empty''])"

definition clear_menu :: "target list \<Rightarrow> job list \<Rightarrow> queue_tab \<Rightarrow> menu_entry list" where
  "clear_menu targets queue st =
    (let b = toolbar targets queue st in
     [entry_of ''Clear Selected'' (\<not> tl_clearSelected b) ''Select one or more rows to clear'',
      entry_of ''Clear Succeeded'' (\<not> tl_clearSucceeded b) ''No succeeded jobs to clear'',
      entry_of ''Clear All Finished'' (\<not> tl_clearFinished b) ''No finished jobs to clear'',
      entry_of ''Clear Entire Queue'' (\<not> tl_clearAll b) ''Queue is empty''])"

datatype queue_call =
  RetryAllFailed | RetryJobs "string list" | CancelJobs "string list" | ClearJobs "string list" | ClearSucceeded | ClearFinished | ClearAll

text \<open>What choosing an entry that is not disabled calls.\<close>

definition queue_choose :: "target list \<Rightarrow> job list \<Rightarrow> queue_tab \<Rightarrow> string \<Rightarrow> queue_call option" where
  "queue_choose targets queue st label =
    (if label = ''Rerun All Failed'' then Some RetryAllFailed
     else if label = ''Rerun Selected'' then map_option RetryJobs (handleRetrySelected targets queue st)
     else if label = ''Cancel Selected'' then map_option CancelJobs (handleCancelSelected targets queue st)
     else if label = ''Clear Selected'' then map_option ClearJobs (handleClearSelected targets queue st)
     else if label = ''Clear Succeeded'' then Some ClearSucceeded
     else if label = ''Clear All Finished'' then Some ClearFinished
     else if label = ''Clear Entire Queue'' then Some ClearAll
     else None)"

text \<open>The cross in the search box, which is only there when the box has text.\<close>

definition clear_search :: "queue_tab \<Rightarrow> queue_event option" where
  "clear_search st = (if qt_filter st \<noteq> [] then Some (queue_event.TypeFilter []) else None)"

section \<open>The schedules\<close>

record schedules_env =
  se_now :: int
  se_to_ms :: "string \<Rightarrow> int option"
  se_toLocale :: "string \<Rightarrow> string"
  se_history :: schedule_history
  se_selected :: "string \<Rightarrow> bool"

datatype schedules_view =
    SchedTick bool
  | SchedDevice string string
  | SchedPlan schedule_cell
  | SchedStatus "string list"
  | SchedLast last_run_cell
  | SchedVersion "string \<times> string option"
  | SchedEdit

definition schedules_key :: "string \<Rightarrow> (schedules_env \<Rightarrow> target \<Rightarrow> sort_value) option" where
  "schedules_key i = Some (\<lambda>e t. case map_of (schedule_sort_keys t) i of Some k \<Rightarrow> SortText k | None \<Rightarrow> SortNothing)"

definition schedules_columns :: "(schedules_env, target, schedules_view) frame_column list" where
  "schedules_columns =
    [\<lparr>fc_id = ''select'', fc_head = TickHead, fc_key = None, fc_cell = (\<lambda>e t. SchedTick (se_selected e (t_target t)))\<rparr>,
     \<lparr>fc_id = ''device'', fc_head = SortHead ''Device'', fc_key = schedules_key ''device'',
      fc_cell = (\<lambda>e t. SchedDevice (schedule_name t) (stripYaml (Some (t_target t))))\<rparr>,
     \<lparr>fc_id = ''schedule'', fc_head = SortHead ''Schedule'', fc_key = schedules_key ''schedule'',
      fc_cell = (\<lambda>e t. SchedPlan (schedules_cell (se_toLocale e) t))\<rparr>,
     \<lparr>fc_id = ''status'', fc_head = SortHead ''Status'', fc_key = schedules_key ''status'',
      fc_cell = (\<lambda>e t. SchedStatus (schedule_status_labels t))\<rparr>,
     \<lparr>fc_id = ''nextRun'', fc_head = SortHead ''Last Run'', fc_key = schedules_key ''nextRun'',
      fc_cell = (\<lambda>e t. SchedLast (last_run_of (se_toLocale e) (se_now e) (se_to_ms e) (se_history e) t))\<rparr>,
     \<lparr>fc_id = ''version'', fc_head = SortHead ''ESPHome'', fc_key = schedules_key ''version'',
      fc_cell = (\<lambda>e t. SchedVersion (schedule_version t))\<rparr>,
     \<lparr>fc_id = ''actions'', fc_head = NoHead, fc_key = None, fc_cell = (\<lambda>e t. SchedEdit)\<rparr>]"

definition schedules_body :: "target list \<Rightarrow> schedules_env \<Rightarrow> target list \<Rightarrow> schedules_view frame_body" where
  "schedules_body targets e rows =
    (if length rows = 0 then EmptyRow 7 (schedules_empty_text targets)
     else BodyRows (map (frame_row schedules_columns e) rows))"

text \<open>The cells of a row that open the schedule of its device.\<close>

fun opens_schedule :: "schedules_view \<Rightarrow> bool" where
  "opens_schedule (SchedPlan c) \<longleftrightarrow> True"
| "opens_schedule SchedEdit \<longleftrightarrow> True"
| "opens_schedule _ \<longleftrightarrow> False"

section \<open>The workers\<close>

text \<open>The columns as the table library has them; the cells are drawn by hand and in another order.\<close>

definition sorts_by :: "string \<Rightarrow> (unit \<Rightarrow> worker \<Rightarrow> sort_value) option" where
  "sorts_by i = Some (\<lambda>_ w. SortText (getWorkerSortValue w i))"

definition workers_columns :: "(unit, worker, unit) frame_column list" where
  "workers_columns =
    [\<lparr>fc_id = ''hostname'', fc_head = SortHead ''Hostname'', fc_key = sorts_by ''hostname'', fc_cell = (\<lambda>_ _. ())\<rparr>,
     \<lparr>fc_id = ''status'', fc_head = SortHead ''Status'', fc_key = sorts_by ''status'', fc_cell = (\<lambda>_ _. ())\<rparr>,
     \<lparr>fc_id = ''version'', fc_head = SortHead ''Version'', fc_key = sorts_by ''version'', fc_cell = (\<lambda>_ _. ())\<rparr>,
     \<lparr>fc_id = ''platform'', fc_head = PlainHead ''Platform'', fc_key = None, fc_cell = (\<lambda>_ _. ())\<rparr>,
     \<lparr>fc_id = ''currentJob'', fc_head = PlainHead ''Current Job'', fc_key = None, fc_cell = (\<lambda>_ _. ())\<rparr>,
     \<lparr>fc_id = ''tags'', fc_head = PlainHead ''Tags'', fc_key = None, fc_cell = (\<lambda>_ _. ())\<rparr>,
     \<lparr>fc_id = ''slots'', fc_head = PlainHead ''Slots'', fc_key = None, fc_cell = (\<lambda>_ _. ())\<rparr>,
     \<lparr>fc_id = ''actions'', fc_head = PlainHead [], fc_key = None, fc_cell = (\<lambda>_ _. ())\<rparr>]"

definition renderHeader :: "(string \<Rightarrow> sort_state) \<Rightarrow> string \<Rightarrow> (column_head \<times> string option) option" where
  "renderHeader sorting i =
    map_option (\<lambda>c. hd (frame_head sorting [c])) (find (\<lambda>c. fc_id c = i) workers_columns)"

definition workers_head :: "(string \<Rightarrow> sort_state) \<Rightarrow> (column_head \<times> string option) option list" where
  "workers_head sorting = map (renderHeader sorting) HEADER_ORDER"

datatype workers_view =
    HostView string "(string \<times> string) option" bool
  | WorkerTagsView "string list" string
  | PlatformView "platform_line list option"
  | StateView dot_status "uptime_line option" "string option"
  | CurrentJob job_cell
  | ClientView client_version_cell worker_preset
  | SlotsView string
  | WorkerMenu "(worker_action \<times> string option) list" string
  | BlankView

definition workers_cells :: "worker_row \<Rightarrow> workers_view list" where
  "workers_cells r =
    (case wr_detail r of
       None \<Rightarrow> [HostView (wr_name r) (wr_slot_line r) False, BlankView, BlankView, BlankView, CurrentJob (wr_job r),
                BlankView, BlankView, BlankView]
     | Some d \<Rightarrow> [HostView (wr_name r) (wr_slot_line r) (wr_builtin r),
         WorkerTagsView (wd_tags d) (''Tags for '' @ wr_name r),
         PlatformView (wd_platform d),
         StateView (wd_status d) (wd_uptime d) (wd_health d),
         CurrentJob (wr_job r),
         ClientView (wd_version d) (wd_reinstall d),
         SlotsView (wr_worker r),
         WorkerMenu (wd_menu d) (''Actions for '' @ wr_name r)])"

text \<open>The column a cell belongs to; a blank cell fits any.\<close>

fun fits_column :: "workers_view \<Rightarrow> string \<Rightarrow> bool" where
  "fits_column (HostView n s b) i \<longleftrightarrow> i = ''hostname''"
| "fits_column (WorkerTagsView ts l) i \<longleftrightarrow> i = ''tags''"
| "fits_column (PlatformView p) i \<longleftrightarrow> i = ''platform''"
| "fits_column (StateView s u h) i \<longleftrightarrow> i = ''status''"
| "fits_column (CurrentJob j) i \<longleftrightarrow> i = ''currentJob''"
| "fits_column (ClientView c p) i \<longleftrightarrow> i = ''version''"
| "fits_column (SlotsView w) i \<longleftrightarrow> i = ''slots''"
| "fits_column (WorkerMenu m l) i \<longleftrightarrow> i = ''actions''"
| "fits_column BlankView i \<longleftrightarrow> True"

definition workers_table :: "tab_env \<Rightarrow> job list \<Rightarrow> worker list \<Rightarrow> worker list \<Rightarrow> workers_view frame_body" where
  "workers_table v queue workers ordered =
    (case workers_body v queue workers ordered of
       Inl message \<Rightarrow> EmptyRow 8 message
     | Inr rows \<Rightarrow> BodyRows (map workers_cells rows))"

section \<open>The fleet-wide history\<close>

record history_body =
  hb_error :: "string option"
  hb_none :: bool
  hb_rows :: "(history_row \<times> bool \<times> (nat \<times> string) option) list"
  hb_sentinel :: "(nat \<times> string) option"

text \<open>A row has whether a click opens it and, when it is open, how many columns its log spans, besides an empty cell.\<close>

definition history_view :: "bool \<Rightarrow> target list \<Rightarrow> history_dialog \<Rightarrow> history_body" where
  "history_view versioningEnabled targets h =
    (let rows = flatRows targets h; n = length (dialog_columns versioningEnabled) in
     \<lparr>hb_error = map_option (\<lambda>m. ''Failed to load history: '' @ m) (hd_error h),
      hb_none = no_rows_message targets h,
      hb_rows = map (\<lambda>r. (r, truthy_str (hr_log_excerpt r),
        if hd_expanded h = Some (hr_id r) \<and> truthy_str (hr_log_excerpt r)
        then Some (n - 1, nullish (hr_log_excerpt r) []) else None)) rows,
      hb_sentinel = (if rows \<noteq> [] \<and> hd_hasMore h
        then Some (n, if hd_pending h \<noteq> None then ''Loading'' @ ellipsis else []) else None)\<rparr>)"

datatype history_cell =
    ExpandMark "bool option"
  | HistTarget "string \<times> string option"
  | HistBadge badge
  | HistVersion string
  | HistCommit "(string \<times> (string \<times> string) option) option"
  | HistDuration "(string \<times> string option) option"
  | HistTimes "string \<times> string"
  | HistTrigger "string \<times> string"
  | HistWorker string
  | HistReason "selection_display option"
  | HistDownload "(string list \<times> bool) option"

text \<open>\<open>menu\<close> is the job whose download menu is open; \<open>absolute\<close> formats a date.\<close>

definition history_cells ::
  "bool \<Rightarrow> bool \<Rightarrow> target list \<Rightarrow> int \<Rightarrow> (rat option \<Rightarrow> string) \<Rightarrow> string option \<Rightarrow> string option \<Rightarrow> history_row \<Rightarrow> history_cell list" where
  "history_cells versioningEnabled canDiff targets now_ms absolute expanded menu r =
    [ExpandMark (if truthy_str (hr_log_excerpt r) then Some (expanded = Some (hr_id r)) else None),
     HistTarget (target_cell targets r), HistBadge (history_badge r), HistVersion (esphome_cell r)]
    @ (if versioningEnabled then [HistCommit (commit_cell True canDiff r)] else [])
    @ [HistDuration (duration_cell r), HistTimes (submitted_cell now_ms absolute r),
       HistTimes (drawer_finished_cell now_ms absolute r), HistTrigger (drawer_triggered_cell r),
       HistWorker (worker_cell_text r), HistReason (drawer_selection_cell r),
       HistDownload (if length (hr_firmware_variants r) = 0 then None
         else Some (hr_firmware_variants r, menu = Some (hr_id r)))]"

section \<open>Properties\<close>

text \<open>Every row of the queue has one cell per heading, with the Commit column and without.\<close>
lemma queue_rows_aligned:
  "length (frame_row (queue_columns v) e j) = length (frame_head sorting (queue_columns v))
   \<and> length (frame_head sorting (queue_columns v)) = (if v then 11 else 10)"
  by (simp add: frame_row_def frame_head_def queue_columns_def)

text \<open>The message of the empty queue spans half of the table, and says that no jobs are queued when the search hides them.\<close>
theorem queue_empty_row_short:
  "queue_body v e [] = EmptyRow 6 ''No jobs in queue'' \<and> 6 < length (frame_head sorting (queue_columns v))"
  using queue_rows_aligned [of v undefined undefined sorting] by (cases v) (simp_all add: queue_body_def)

theorem queue_search_reads_empty:
  assumes "queue \<noteq> []" and "filteredQueue targets flt queue = []"
  shows "queue_body v e (filteredQueue targets flt queue) = queue_body v e (filteredQueue targets [] [])"
  using assms(2) by (simp add: filteredQueue_def [of targets "[]" "[]"])

text \<open>A disabled entry says why, and one that is not disabled and calls something has no tooltip.\<close>
lemma entry_explains: "me_title (entry_of l d w) = None \<longleftrightarrow> \<not> me_disabled (entry_of l d w)"
  by (simp add: entry_of_def)

theorem disabled_entries_explained:
  "list_all (\<lambda>m. me_title m = None \<longleftrightarrow> \<not> me_disabled m) (rerun_menu targets queue st @ clear_menu targets queue st)"
  by (simp add: rerun_menu_def clear_menu_def Let_def entry_explains)

text \<open>
  With jobs listed and none selected, Rerun Selected and Cancel Selected are enabled and do nothing, while Clear
  Selected is disabled.
\<close>
theorem selected_entries_silent:
  assumes "queue \<noteq> []" and "selectedIds targets queue st = []"
  shows "map me_disabled (rerun_menu targets queue st) ! 1 = False \<and> queue_choose targets queue st ''Rerun Selected'' = None
    \<and> map me_disabled (rerun_menu targets queue st) ! 2 = False \<and> queue_choose targets queue st ''Cancel Selected'' = None
    \<and> me_disabled (hd (clear_menu targets queue st))"
  using assms
  by (simp add: rerun_menu_def clear_menu_def Let_def entry_of_def toolbar_def queue_choose_def handleRetrySelected_def
      handleCancelSelected_def)

text \<open>Clear Selected is enabled exactly when it clears something, and then it clears the selected rows in their order.\<close>
theorem clear_selected_honest:
  "queue_choose targets queue st ''Clear Selected''
    = (if me_disabled (hd (clear_menu targets queue st)) then None else Some (ClearJobs (selectedIds targets queue st)))"
  by (simp add: queue_choose_def clear_menu_def Let_def entry_of_def toolbar_def handleClearSelected_def)

text \<open>The schedules: the message spans the whole table, and two cells of each row open the device's schedule.\<close>
theorem schedules_rows_aligned:
  "schedules_body targets e [] = EmptyRow (length (frame_head sorting schedules_columns)) (schedules_empty_text targets)
   \<and> length (frame_row schedules_columns e t) = length (frame_head sorting schedules_columns)
   \<and> length (filter opens_schedule (frame_row schedules_columns e t)) = 2"
  by (simp add: schedules_body_def frame_row_def frame_head_def schedules_columns_def)

text \<open>Every sortable heading of the schedules sorts by a text: the values looked up by column exist.\<close>
theorem schedules_keys_found:
  "\<forall>c \<in> set schedules_columns. case fc_key c of None \<Rightarrow> True | Some k \<Rightarrow> \<exists>s. k e t = SortText s"
  by (simp add: schedules_columns_def schedules_key_def schedule_sort_keys_def)

text \<open>
  The workers: the hand-written heading order names each column once, so that no heading is blank, and each cell of a
  row, for the first slot and the others, stands under its own heading.
\<close>
theorem workers_cells_under_headings:
  "distinct HEADER_ORDER \<and> set HEADER_ORDER = set (map fc_id workers_columns) \<and> distinct (map fc_id workers_columns)
   \<and> list_all (\<lambda>h. h \<noteq> None) (workers_head sorting)
   \<and> list_all2 fits_column (workers_cells r) HEADER_ORDER"
  by (cases "wr_detail r")
    (auto simp: HEADER_ORDER_def workers_columns_def workers_head_def renderHeader_def workers_cells_def)

text \<open>A search that matches no worker leaves the table without rows and without a message.\<close>
theorem worker_search_blank:
  assumes "workers \<noteq> []"
  shows "workers_table v queue workers [] = BodyRows []"
  using assms by (simp add: workers_table_def workers_body_def worker_rows_def pin_local_def)

text \<open>
  The history dialog: cells and headings agree, an open log with the empty cell before it is as wide as the table, and
  so is the row that loads more.
\<close>
theorem history_rows_aligned:
  "length (history_cells v d targets now absolute expanded menu r) = length (dialog_columns v)
   \<and> (\<forall>x \<in> set (hb_rows (history_view v targets h)). case snd (snd x) of None \<Rightarrow> True | Some (w, _) \<Rightarrow> 1 + w = length (dialog_columns v))
   \<and> (case hb_sentinel (history_view v targets h) of None \<Rightarrow> True | Some (w, _) \<Rightarrow> w = length (dialog_columns v))"
  by (auto simp: history_cells_def dialog_columns_def history_view_def Let_def)

text \<open>When loading failed and nothing is listed, the dialog says both that it failed and that no history matches.\<close>
theorem failure_reads_as_no_match:
  assumes "flatRows targets h = []" and "hd_pending h = None"
  shows "hb_error (history_view v targets (h\<lparr>hd_error := Some m\<rparr>)) = Some (''Failed to load history: '' @ m)
    \<and> hb_none (history_view v targets (h\<lparr>hd_error := Some m\<rparr>))"
  using assms by (simp add: history_view_def no_rows_message_def flatRows_def Let_def)

end
