(* ===== verification/Bulk_Window.thy ===== *)
theory Bulk_Window
  imports Device_Actions
begin

text \<open>
  The Actions menu of the Devices tab with the three dialogs it opens (the component and the markup of
  \<open>components/devices/DeviceTableActions.tsx\<close>); the handlers themselves are those of \<open>Device_Actions\<close>. Committing is
  two steps here, the click and the settling of its batch, so that events and polls can come in between; every other
  action is one step that is told what the server answers.
\<close>

section \<open>State\<close>

record actions_props =
  bp_targets :: "target list"
  bp_selected :: "string list"
  bp_versioning :: bool

record actions_window =
  bw_schedule :: bool
  bw_tags :: bool
  bw_commit :: commit_all
  bw_batch :: "string list option"

definition mount_actions :: actions_window where
  "mount_actions = \<lparr>bw_schedule = False, bw_tags = False,
     bw_commit = \<lparr>ca_open = False, ca_message = [], ca_busy = False\<rparr>, bw_batch = None\<rparr>"

section \<open>The menu\<close>

definition select_first :: string where
  "select_first = ''Check one or more devices in the table first''"

definition tagEditTitle :: "target list \<Rightarrow> string list \<Rightarrow> string option" where
  "tagEditTitle targets selected =
    (let skipped = archivedSelectedCount targets selected in
     if selected = [] then Some select_first
     else if editableTagTargets targets selected = [] then
       Some (''Tags can'' @ apostrophe @ ''t be edited on archived devices'')
     else if 0 < skipped then
       Some (show_nat skipped @ '' archived row'' @ plural skipped @ '' skipped '' @ em_dash @ '' tags can'' @ apostrophe
         @ ''t be edited on archived devices'')
     else None)"

definition unarchiveSelectedTitle :: "target list \<Rightarrow> string list \<Rightarrow> string" where
  "unarchiveSelectedTitle targets selected =
    (if selected = [] then select_first
     else if \<not> allSelectedArchived targets selected then
       ''Mixed or all-active selection '' @ em_dash @ '' only archived devices can be unarchived''
     else ''Unarchive '' @ show_nat (length selected) @ '' device'' @ plural (length selected))"

datatype actions_item = ItemSchedule | ItemUnschedule | ItemTags | ItemArchive | ItemUnarchive | ItemCommit

fun item_enabled :: "actions_props \<Rightarrow> actions_window \<Rightarrow> actions_item \<Rightarrow> bool" where
  "item_enabled p w ItemSchedule \<longleftrightarrow> bp_selected p \<noteq> []"
| "item_enabled p w ItemUnschedule \<longleftrightarrow> bp_selected p \<noteq> []"
| "item_enabled p w ItemTags \<longleftrightarrow> bp_selected p \<noteq> [] \<and> editableTagTargets (bp_targets p) (bp_selected p) \<noteq> []"
| "item_enabled p w ItemArchive \<longleftrightarrow> allSelectedActive (bp_targets p) (bp_selected p)"
| "item_enabled p w ItemUnarchive \<longleftrightarrow> allSelectedArchived (bp_targets p) (bp_selected p)"
| "item_enabled p w ItemCommit \<longleftrightarrow> bp_versioning p \<and> \<not> ca_busy (bw_commit w) \<and> dirtyTargets (bp_targets p) \<noteq> []"

definition commit_item_title :: "target list \<Rightarrow> string" where
  "commit_item_title targets =
    (let n = length (dirtyTargets targets) in
     if n = 0 then ''No uncommitted YAML changes in the config directory''
     else ''Commit '' @ show_nat n @ '' uncommitted YAML file'' @ plural n)"

definition commit_item_label :: "target list \<Rightarrow> string" where
  "commit_item_label targets =
    (let n = length (dirtyTargets targets) in
     ''Commit all uncommitted'' @ (if 0 < n then '' ('' @ show_nat n @ '')'' else []))"

section \<open>Events\<close>

text \<open>What a server answers: the message a call on a file rejects with, if it does.\<close>

type_synonym call_failure = "string \<Rightarrow> string option"

datatype actions_event =
    ClickItem actions_item
  | RunUnschedule call_failure
  | RunArchive "string \<Rightarrow> bool" | RunUnarchive "string \<Rightarrow> bool"
  | SaveTags tag_diff "string option" | CloseTagsDialog
  | SaveSchedule string "string option" call_failure | SaveOnce string call_failure | CloseSchedule
  | TypeCommit string | CancelCommit | ConfirmCommit | CommitSettled "string \<Rightarrow> bool option"

datatype actions_call =
    CallSchedule string string "string option" | CallOnce string string | CallUnschedule string
  | CallArchive string | CallUnarchive string | CallMeta string "string option" | CallCommit string "string option"

text \<open>\<open>Promise.all\<close> over the selection: of several failures the first of the list stands for the first to reject.\<close>

definition schedule_outcome :: "string \<Rightarrow> call_failure \<Rightarrow> string list \<Rightarrow> actions_window \<Rightarrow> actions_window \<times> ui_effect list" where
  "schedule_outcome done_text failure selected w =
    (case List.map_filter failure selected of
       [] \<Rightarrow> (w\<lparr>bw_schedule := False\<rparr>,
              [Toast (done_text @ '' for '' @ show_nat (length selected) @ '' device(s)'') ToastKindSuccess, Refresh])
     | msg # _ \<Rightarrow> (w, [Toast (''Schedule failed: '' @ msg) ToastKindError]))"

definition commit_message :: "commit_all \<Rightarrow> string option" where
  "commit_message c = (if trim (ca_message c) \<noteq> [] then Some (trim (ca_message c)) else None)"

text \<open>What follows when the calls of a batch have settled, given the list the click ran over.\<close>

definition batch_toast :: "(string \<Rightarrow> bool option) \<Rightarrow> string list \<Rightarrow> ui_effect" where
  "batch_toast outcome batch =
    (let committed = length (filter (\<lambda>t. outcome t = Some True) batch);
         failed = length (filter (\<lambda>t. outcome t = None) batch)
     in if failed = 0 \<and> committed = length batch then
          Toast (''Committed '' @ show_nat committed @ '' file'' @ plural committed) ToastKindSuccess
        else if 0 < committed then
          Toast (''Committed '' @ show_nat committed @ '', '' @ show_nat failed @ '' failed'')
            (if 0 < failed then ToastKindError else ToastKindInfo)
        else Toast ''No files committed'' ToastKindError)"

fun actions_step :: "actions_props \<Rightarrow> actions_event \<Rightarrow> actions_window \<Rightarrow> actions_window \<times> actions_call list \<times> ui_effect list" where
  "actions_step p (ClickItem i) w =
     (if \<not> item_enabled p w i then (w, [], [])
      else case i of
        ItemSchedule \<Rightarrow> (w\<lparr>bw_schedule := True\<rparr>, [], [])
      | ItemTags \<Rightarrow> (w\<lparr>bw_tags := True\<rparr>, [], [])
      | ItemCommit \<Rightarrow> (w\<lparr>bw_commit := openCommitAll (bp_targets p) (bw_commit w)\<rparr>, [], [])
      | _ \<Rightarrow> (w, [], []))"
| "actions_step p (RunUnschedule failure) w =
     (if \<not> item_enabled p w ItemUnschedule then (w, [], [])
      else let (calls, effs) = handleRemoveScheduleSelected failure (bp_targets p) (bp_selected p)
           in (w, map CallUnschedule calls, effs))"
| "actions_step p (RunArchive ok) w =
     (let (calls, effs) = handleArchiveSelected ok (bp_targets p) (bp_selected p) in (w, map CallArchive calls, effs))"
| "actions_step p (RunUnarchive ok) w =
     (let (calls, effs) = handleUnarchiveSelected ok (bp_targets p) (bp_selected p) in (w, map CallUnarchive calls, effs))"
| "actions_step p (SaveTags diff failed) w =
     (if \<not> bw_tags w then (w, [], [])
      else let (calls, effs) = applyBulkTagDiff (bp_targets p) (bp_selected p) diff in
        (case failed of
           None \<Rightarrow> (w\<lparr>bw_tags := False\<rparr>, map (\<lambda>(f, v). CallMeta f v) calls, effs)
         | Some _ \<Rightarrow> (w, map (\<lambda>(f, v). CallMeta f v) calls, [])))"
| "actions_step p CloseTagsDialog w = (w\<lparr>bw_tags := False\<rparr>, [], [])"
| "actions_step p (SaveSchedule cron tz failure) w =
     (if \<not> bw_schedule w then (w, [], [])
      else let (w', effs) = schedule_outcome ''Schedule set'' failure (bp_selected p) w
           in (w', map (\<lambda>t. CallSchedule t cron tz) (bp_selected p), effs))"
| "actions_step p (SaveOnce datetime failure) w =
     (if \<not> bw_schedule w then (w, [], [])
      else let (w', effs) = schedule_outcome ''One-time upgrade scheduled'' failure (bp_selected p) w
           in (w', map (\<lambda>t. CallOnce t datetime) (bp_selected p), effs))"
| "actions_step p CloseSchedule w = (w\<lparr>bw_schedule := False\<rparr>, [], [])"
| "actions_step p (TypeCommit s) w =
     ((if ca_open (bw_commit w) then w\<lparr>bw_commit := (bw_commit w)\<lparr>ca_message := s\<rparr>\<rparr> else w), [], [])"
| "actions_step p CancelCommit w =
     ((if ca_busy (bw_commit w) then w else w\<lparr>bw_commit := (bw_commit w)\<lparr>ca_open := False\<rparr>\<rparr>), [], [])"
| "actions_step p ConfirmCommit w =
     (let dirty = dirtyTargets (bp_targets p); c = bw_commit w in
      if \<not> ca_open c \<or> ca_busy c \<or> dirty = [] then (w, [], [])
      else (w\<lparr>bw_commit := c\<lparr>ca_busy := True\<rparr>, bw_batch := Some dirty\<rparr>,
            map (\<lambda>t. CallCommit t (commit_message c)) dirty, []))"
| "actions_step p (CommitSettled outcome) w =
     (case bw_batch w of
        None \<Rightarrow> (w, [], [])
      | Some batch \<Rightarrow>
          (w\<lparr>bw_commit := \<lparr>ca_open = False, ca_message = [], ca_busy = False\<rparr>, bw_batch := None\<rparr>, [],
           [batch_toast outcome batch, Refresh]))"

text \<open>A run: every event comes with the properties of the render it happens in.\<close>

fun actions_run :: "(actions_props \<times> actions_event) list \<Rightarrow> actions_window \<Rightarrow> actions_window \<times> actions_call list" where
  "actions_run [] w = (w, [])"
| "actions_run ((p, e) # es) w =
     (let (w', calls, _) = actions_step p e w; (w'', rest) = actions_run es w' in (w'', calls @ rest))"

definition is_commit :: "actions_call \<Rightarrow> bool" where
  "is_commit c = (case c of CallCommit _ _ \<Rightarrow> True | _ \<Rightarrow> False)"

definition settles :: "actions_event \<Rightarrow> bool" where
  "settles e = (case e of CommitSettled _ \<Rightarrow> True | _ \<Rightarrow> False)"

section \<open>Lemmas\<close>

definition batch_inv :: "actions_window \<Rightarrow> bool" where
  "batch_inv w \<longleftrightarrow> (bw_batch w \<noteq> None \<longleftrightarrow> ca_busy (bw_commit w)) \<and> (ca_busy (bw_commit w) \<longrightarrow> ca_open (bw_commit w))"

lemma schedule_outcome_frame [simp]:
  "bw_commit (fst (schedule_outcome t f s w)) = bw_commit w" "bw_batch (fst (schedule_outcome t f s w)) = bw_batch w"
  by (auto simp: schedule_outcome_def split: list.splits)

lemma openCommitAll_busy [simp]: "ca_busy (openCommitAll ts c) = ca_busy c"
  by (simp add: openCommitAll_def)

lemma batch_inv_step: "batch_inv w \<Longrightarrow> batch_inv (fst (actions_step p e w))"
  by (induction p e w rule: actions_step.induct)
    (auto simp: batch_inv_def Let_def case_prod_unfold split: actions_item.splits option.splits)

lemma in_flight_step:
  assumes "bw_batch w = Some batch" "batch_inv w" "\<not> settles e"
  shows "bw_batch (fst (actions_step p e w)) = Some batch
    \<and> filter is_commit (fst (snd (actions_step p e w))) = []"
  using assms
  by (induction p e w rule: actions_step.induct)
    (auto simp: batch_inv_def settles_def Let_def case_prod_unfold is_commit_def filter_empty_conv
      split: actions_item.splits option.splits)

lemma in_flight_run:
  assumes "bw_batch w = Some batch" "batch_inv w" "list_all (\<lambda>(p, e). \<not> settles e) es"
  shows "bw_batch (fst (actions_run es w)) = Some batch \<and> batch_inv (fst (actions_run es w))
    \<and> filter is_commit (snd (actions_run es w)) = []"
  using assms
proof (induction es arbitrary: w)
  case (Cons pe es)
  obtain p e where pe: "pe = (p, e)" by (cases pe)
  have "bw_batch (fst (actions_step p e w)) = Some batch" "filter is_commit (fst (snd (actions_step p e w))) = []"
    using in_flight_step [of w batch e p] Cons.prems pe by auto
  with Cons.IH [of "fst (actions_step p e w)"] batch_inv_step [of w p e] Cons.prems pe show ?case
    by (simp add: case_prod_unfold Let_def)
qed simp

section \<open>Properties\<close>

text \<open>C10: A commit of everything uncommitted is one batch, whatever happens before the server has answered: the click
  and the settling together make the calls and the toast of \<open>handleCommitAll\<close> at the time of the click and leave its
  state, and no event in between, under whatever polled properties, commits a second time.\<close>
theorem commit_batch_atomic:
  assumes "ca_open (bw_commit w)" "\<not> ca_busy (bw_commit w)" "bw_batch w = None" "dirtyTargets (bp_targets p) \<noteq> []"
    "list_all (\<lambda>(q, e). \<not> settles e) es"
  shows "let (w1, calls, _) = actions_step p ConfirmCommit w;
             (w2, between) = actions_run es w1;
             (w3, _, effs) = actions_step q (CommitSettled outcome) w2
         in (bw_commit w3, calls, effs) =
              (let (c, cs, es) = handleCommitAll outcome (bp_targets p) (bw_commit w) in (c, map (\<lambda>(t, m). CallCommit t m) cs, es))
            \<and> filter is_commit between = [] \<and> bw_batch w3 = None"
proof -
  let ?d = "dirtyTargets (bp_targets p)"
  let ?w1 = "w\<lparr>bw_commit := (bw_commit w)\<lparr>ca_busy := True\<rparr>, bw_batch := Some ?d\<rparr>"
  have click: "actions_step p ConfirmCommit w = (?w1, map (\<lambda>t. CallCommit t (commit_message (bw_commit w))) ?d, [])"
    using assms by (simp add: Let_def)
  have "bw_batch (fst (actions_run es ?w1)) = Some ?d" "filter is_commit (snd (actions_run es ?w1)) = []"
    using in_flight_run [of ?w1 ?d es] assms by (simp_all add: batch_inv_def)
  with assms(1,2,4) show ?thesis
    by (simp add: click case_prod_unfold Let_def handleCommitAll_def commit_message_def batch_toast_def)
qed

text \<open>Scheduling a selection sends a call for every selected device and is not undone: when one is refused, the toast
  says that scheduling failed, the dialog stays open and the table is not refreshed, although the calls for all other
  devices were made.\<close>
theorem bulk_schedule_partial:
  assumes "bw_schedule w" "f \<in> set (bp_selected p)" "failure f \<noteq> None"
  shows "let (w', calls, effs) = actions_step p (SaveSchedule cron tz failure) w
         in calls = map (\<lambda>t. CallSchedule t cron tz) (bp_selected p) \<and> bw_schedule w'
            \<and> (\<exists>msg. effs = [Toast (''Schedule failed: '' @ msg) ToastKindError]) \<and> Refresh \<notin> set effs"
proof -
  have "List.map_filter failure (bp_selected p) \<noteq> []"
    using assms(2,3) by (auto simp: List.map_filter_def filter_empty_conv)
  then obtain m ms where "List.map_filter failure (bp_selected p) = m # ms" by (cases "List.map_filter failure (bp_selected p)") auto
  with assms(1) show ?thesis by (simp add: schedule_outcome_def)
qed

definition two_dirty :: actions_props where
  "two_dirty =
    \<lparr>bp_targets = [(bare_target ''a.yaml'')\<lparr>t_has_uncommitted_changes := Some True\<rparr>,
                   (bare_target ''b.yaml'')\<lparr>t_has_uncommitted_changes := Some True\<rparr>],
     bp_selected = [''a.yaml'', ''b.yaml''], bp_versioning = True\<rparr>"

definition prompt_open :: actions_window where
  "prompt_open = mount_actions\<lparr>bw_commit := \<lparr>ca_open = True, ca_message = '' tidy '', ca_busy = False\<rparr>\<rparr>"

text \<open>While the first batch is under way a second confirmation and an attempt to cancel do nothing.\<close>
lemma commit_batch_witness:
  "let (w1, calls, _) = actions_step two_dirty ConfirmCommit prompt_open;
       (w2, between) = actions_run [(two_dirty, ConfirmCommit), (two_dirty, CancelCommit)] w1;
       (w3, _, effs) = actions_step two_dirty (CommitSettled (\<lambda>_. Some True)) w2
   in (bw_commit w3, calls, effs) =
        (let (c, cs, es) = handleCommitAll (\<lambda>_. Some True) (bp_targets two_dirty) (bw_commit prompt_open)
         in (c, map (\<lambda>(t, m). CallCommit t m) cs, es))
      \<and> filter is_commit between = [] \<and> bw_batch w3 = None"
  by (rule commit_batch_atomic) code_simp+

lemma bulk_schedule_witness:
  "let (w', calls, effs) = actions_step two_dirty
         (SaveSchedule ''0 3 * * *'' None (\<lambda>f. if f = ''b.yaml'' then Some ''archived'' else None)) (mount_actions\<lparr>bw_schedule := True\<rparr>)
   in calls = map (\<lambda>t. CallSchedule t ''0 3 * * *'' None) (bp_selected two_dirty) \<and> bw_schedule w'
      \<and> (\<exists>msg. effs = [Toast (''Schedule failed: '' @ msg) ToastKindError]) \<and> Refresh \<notin> set effs"
  by (rule bulk_schedule_partial [where f = "''b.yaml''"]) code_simp+

end
