(* ===== verification/Single_Flight.thy ===== *)
theory Single_Flight
  imports Bulk_Window Small_Dialogs Rule_Builder
begin

text \<open>
  The dialogs that send a request and show that it is under way share one contract: while the flag is set nothing more
  is sent, and only the answer clears it. The locale \<open>single_flight\<close> states it of any step function and proves once what
  it gives over a run; it is interpreted here on the routing-rule builder, both tag dialogs, the install dialog and
  the bulk commit of the Devices tab, and in their theories on the editor's commit dialog and the versioning question.
\<close>

section \<open>The contract\<close>

text \<open>How many steps of a run send.\<close>

fun sends_in :: "('e \<Rightarrow> 's \<Rightarrow> 's) \<Rightarrow> ('e \<Rightarrow> 's \<Rightarrow> bool) \<Rightarrow> 'e list \<Rightarrow> 's \<Rightarrow> nat" where
  "sends_in next_of emits [] s = 0"
| "sends_in next_of emits (e # es) s = (if emits e s then 1 else 0) + sends_in next_of emits es (next_of e s)"

locale single_flight =
  fixes next_of :: "'e \<Rightarrow> 's \<Rightarrow> 's"
    and emits :: "'e \<Rightarrow> 's \<Rightarrow> bool"
    and busy :: "'s \<Rightarrow> bool"
    and closes :: "'e \<Rightarrow> bool"
  assumes sends_busy: "emits e s \<Longrightarrow> busy (next_of e s)"
    and sends_idle: "emits e s \<Longrightarrow> \<not> busy s \<and> \<not> closes e"
    and busy_stays: "busy s \<Longrightarrow> \<not> closes e \<Longrightarrow> busy (next_of e s)"
begin

lemma sends_bounded:
  "sends_in next_of emits es s \<le> (if busy s then 0 else 1) + length (filter closes es)"
proof (induction es arbitrary: s)
  case (Cons e es)
  show ?case
  proof (cases "emits e s")
    case True
    then show ?thesis using Cons.IH [of "next_of e s"] sends_busy [of e s] sends_idle [of e s] by simp
  next
    case False
    then show ?thesis using Cons.IH [of "next_of e s"] busy_stays [of s e] by (auto split: if_splits)
  qed
qed simp

lemma busy_silent: "busy s \<Longrightarrow> list_all (\<lambda>e. \<not> closes e) es \<Longrightarrow> sends_in next_of emits es s = 0"
  using sends_bounded [of es s] by (simp add: filter_False list_all_iff)

end

section \<open>The dialogs\<close>

definition builder_answers :: "builder_event \<Rightarrow> bool" where
  "builder_answers e \<longleftrightarrow> e = BuSaved \<or> e = BuFailed"

definition tags_answers :: "tags_event \<Rightarrow> bool" where
  "tags_answers e \<longleftrightarrow> (case e of TdSaved \<Rightarrow> True | TdFailed _ \<Rightarrow> True | _ \<Rightarrow> False)"

definition bulk_answers :: "bulk_event \<Rightarrow> bool" where
  "bulk_answers e \<longleftrightarrow> (case e of BdSaved \<Rightarrow> True | BdFailed _ \<Rightarrow> True | _ \<Rightarrow> False)"

definition install_answers :: "install_event \<Rightarrow> bool" where
  "install_answers e \<longleftrightarrow> e = InstallQueued \<or> e = InstallRefused"

text \<open>The single-tag dialog sends where it begins to save; the bulk commit in the step that makes its calls.\<close>

definition tags_sends :: "tags_event \<Rightarrow> tags_dialog \<Rightarrow> bool" where
  "tags_sends e d \<longleftrightarrow> \<not> td_saving d \<and> td_saving (tags_step e d)"

definition commit_sends :: "actions_props \<times> actions_event \<Rightarrow> actions_window \<Rightarrow> bool" where
  "commit_sends pe w \<longleftrightarrow> filter is_commit (fst (snd (actions_step (fst pe) (snd pe) w))) \<noteq> []"

lemma on_side_saving [simp]: "rb_saving (on_side sd f b) = rb_saving b"
  by (cases sd) (simp_all add: on_side_def split: prod.splits)

interpretation rule_flight: single_flight "\<lambda>e b. fst (builder_step p e b)" "\<lambda>e b. snd (builder_step p e b) \<noteq> None" rb_saving builder_answers
  for p
proof
  fix e b
  show "snd (builder_step p e b) \<noteq> None \<Longrightarrow> rb_saving (fst (builder_step p e b))"
    by (cases e) (auto split: if_splits)
  show "snd (builder_step p e b) \<noteq> None \<Longrightarrow> \<not> rb_saving b \<and> \<not> builder_answers e"
    by (cases e) (auto simp: builder_answers_def canSave_def split: if_splits)
  show "rb_saving b \<Longrightarrow> \<not> builder_answers e \<Longrightarrow> rb_saving (fst (builder_step p e b))"
    by (cases e) (auto simp: builder_answers_def canSave_def)
qed

interpretation tags_flight: single_flight tags_step tags_sends td_saving tags_answers
proof
  fix e d
  show "tags_sends e d \<Longrightarrow> td_saving (tags_step e d)" by (simp add: tags_sends_def)
  show "tags_sends e d \<Longrightarrow> \<not> td_saving d \<and> \<not> tags_answers e"
    by (auto simp: tags_sends_def tags_answers_def split: tags_event.splits)
  show "td_saving d \<Longrightarrow> \<not> tags_answers e \<Longrightarrow> td_saving (tags_step e d)"
    by (cases e) (auto simp: tags_answers_def tags_handleSave_def Let_def split: prod.splits)
qed

lemma bulk_saving_frame [simp]:
  "bd_saving (toggleRemove t d) = bd_saving d" "bd_saving (addAdding t d) = bd_saving d" "bd_saving (removeAdding t d) = bd_saving d"
  by (simp_all add: toggleRemove_def addAdding_def removeAdding_def Let_def)

lemma bulk_save_cases: "bulk_handleSave common d = (d', out) \<Longrightarrow> (out \<noteq> None \<longrightarrow> bd_saving d') \<and> (bd_saving d \<longrightarrow> bd_saving d')"
  by (auto simp: bulk_handleSave_def Let_def split: if_splits)

interpretation bulk_flight: single_flight "\<lambda>e d. fst (bulk_step common e d)" "\<lambda>e d. snd (bulk_step common e d) \<noteq> None" bd_saving bulk_answers
  for common
proof
  fix e d
  obtain d' out where out: "bulk_step common e d = (d', out)" by (cases "bulk_step common e d")
  show "snd (bulk_step common e d) \<noteq> None \<Longrightarrow> bd_saving (fst (bulk_step common e d))"
    using out bulk_save_cases [of common d d' out] by (cases e) (auto split: if_splits)
  show "snd (bulk_step common e d) \<noteq> None \<Longrightarrow> \<not> bd_saving d \<and> \<not> bulk_answers e"
    using out by (cases e) (auto simp: bulk_answers_def split: if_splits)
  show "bd_saving d \<Longrightarrow> \<not> bulk_answers e \<Longrightarrow> bd_saving (fst (bulk_step common e d))"
    using out by (cases e) (auto simp: bulk_answers_def split: if_splits)
qed

interpretation install_flight: single_flight "\<lambda>e m. fst (install_step e m)" "\<lambda>e m. snd (install_step e m) \<noteq> None" im_busy install_answers
proof
  fix e m
  show "snd (install_step e m) \<noteq> None \<Longrightarrow> im_busy (fst (install_step e m))"
    by (cases e) (auto simp: install_step_def handlePrimary_def split: if_splits)
  show "snd (install_step e m) \<noteq> None \<Longrightarrow> \<not> im_busy m \<and> \<not> install_answers e"
    by (cases e) (auto simp: install_step_def handlePrimary_def install_answers_def split: if_splits)
  show "im_busy m \<Longrightarrow> \<not> install_answers e \<Longrightarrow> im_busy (fst (install_step e m))"
    by (cases e) (auto simp: install_step_def handlePrimary_def install_answers_def)
qed

lemma commit_calls_only:
  "filter is_commit (fst (snd (actions_step p e w))) \<noteq> []
     \<Longrightarrow> e = ConfirmCommit \<and> \<not> ca_busy (bw_commit w) \<and> ca_busy (bw_commit (fst (actions_step p e w)))"
  by (induction p e w rule: actions_step.induct)
    (auto simp: Let_def case_prod_unfold is_commit_def filter_empty_conv split: if_splits actions_item.splits option.splits)

lemma commit_busy_stays:
  "ca_busy (bw_commit w) \<Longrightarrow> \<not> settles e \<Longrightarrow> ca_busy (bw_commit (fst (actions_step p e w)))"
  by (induction p e w rule: actions_step.induct)
    (auto simp: Let_def case_prod_unfold settles_def split: actions_item.splits option.splits)

interpretation commit_flight: single_flight "\<lambda>pe w. fst (actions_step (fst pe) (snd pe) w)" commit_sends "\<lambda>w. ca_busy (bw_commit w)" "\<lambda>pe. settles (snd pe)"
proof
  fix pe :: "actions_props \<times> actions_event" and w
  show "commit_sends pe w \<Longrightarrow> ca_busy (bw_commit (fst (actions_step (fst pe) (snd pe) w)))"
    unfolding commit_sends_def using commit_calls_only by blast
  show "commit_sends pe w \<Longrightarrow> \<not> ca_busy (bw_commit w) \<and> \<not> settles (snd pe)"
    unfolding commit_sends_def using commit_calls_only [of "fst pe" "snd pe" w] by (auto simp: settles_def)
  show "ca_busy (bw_commit w) \<Longrightarrow> \<not> settles (snd pe) \<Longrightarrow> ca_busy (bw_commit (fst (actions_step (fst pe) (snd pe) w)))"
    by (rule commit_busy_stays)
qed

section \<open>Properties\<close>


end
