(* ===== verification/Dialog_Views.thy ===== *)
theory Dialog_Views
  imports App_Shell Tag_Editors Small_Dialogs Worker_Dialogs Esphome_Versions Rule_Builder Panel_Views Single_Flight
begin

text \<open>
  What the smaller windows draw from the state their theories keep, and which of their buttons can be pressed: the head of
  the page with its tabs and the overlay of an expired session (\<open>App.tsx\<close>), \<open>BulkTagsEditDialog.tsx\<close>,
  \<open>TagsEditDialog.tsx\<close>, \<open>RenderedConfigModal.tsx\<close>, \<open>SetDiskQuotaDialog.tsx\<close>, \<open>EsphomeVersionDropdown.tsx\<close>,
  \<open>VersioningOnboardingModal.tsx\<close>, the list of \<open>RoutingRulesModal.tsx\<close> and \<open>ErrorBoundary.tsx\<close>. Of a text the theories
  keep what depends on the state.
\<close>

section \<open>The head of the page\<close>

record head_button =
  hb_label :: string
  hb_pressed :: "bool option"
  hb_click :: "window_event option"

definition theme_label :: "theme \<Rightarrow> string" where
  "theme_label t = (if t = DarkTheme then ''Switch to light mode'' else ''Switch to dark mode'')"

definition streamer_label :: "bool \<Rightarrow> string" where
  "streamer_label on = (if on then ''Disable streamer mode'' else ''Enable streamer mode (blur sensitive data)'')"

definition head_buttons :: "shell \<Rightarrow> head_button list" where
  "head_buttons s =
    [\<lparr>hb_label = ''Secrets'', hb_pressed = None, hb_click = Some (EditFile ''secrets.yaml'')\<rparr>,
     \<lparr>hb_label = theme_label (sh_theme s), hb_pressed = Some (sh_theme s = LightTheme), hb_click = Some ToggleTheme\<rparr>,
     \<lparr>hb_label = streamer_label (sh_streamer s), hb_pressed = Some (sh_streamer s), hb_click = Some ToggleStreamer\<rparr>,
     \<lparr>hb_label = ''ESPHome Web'', hb_pressed = None, hb_click = None\<rparr>,
     \<lparr>hb_label = ''Settings'', hb_pressed = None, hb_click = Some (ShowSettings True)\<rparr>]"

definition press_head :: "nat \<Rightarrow> shell \<Rightarrow> shell" where
  "press_head n s = (if n < length (head_buttons s) then
     (case hb_click (head_buttons s ! n) of None \<Rightarrow> s | Some e \<Rightarrow> window_step e s) else s)"

definition addon_badge :: "string option \<Rightarrow> string" where
  "addon_badge version = (if truthy_str version then CHR ''v'' # the version else ''v?'')"

text \<open>The dot beside the buttons has a fixed title.\<close>

definition status_dot_title :: "js_error option list \<Rightarrow> string" where
  "status_dot_title errs = ''Server online''"

text \<open>\<open>charAt(0).toUpperCase()\<close>, for the ASCII names of the tabs.\<close>

definition upper_char :: "char \<Rightarrow> char" where
  "upper_char c = (if CHR ''a'' \<le> c \<and> c \<le> CHR ''z'' then char_of ((of_char c :: nat) - 32) else c)"

definition capitalised :: "string \<Rightarrow> string" where
  "capitalised s = map upper_char (take 1 s) @ drop 1 s"

record nav_tab =
  nt_tab :: tab_name
  nt_label :: string
  nt_count :: string
  nt_active :: bool

definition nav_tabs :: "target list \<Rightarrow> device list \<Rightarrow> job list \<Rightarrow> worker list \<Rightarrow> app \<Rightarrow> nav_tab list" where
  "nav_tabs targets devices queue workers a =
    map (\<lambda>t. \<lparr>nt_tab = t, nt_label = capitalised (tab_string t), nt_count = getTabCount t targets devices (displayQueue queue) workers,
              nt_active = (ap_activeTab a = t)\<rparr>) [DevicesT, QueueT, WorkersT, SchedulesT]"

definition session_overlay :: "js_error option list \<Rightarrow> (string \<times> string) option" where
  "session_overlay errs = (if isUnauthenticated errs then Some (''Session expired'', ''Reload'') else None)"

section \<open>The tag dialogs\<close>

text \<open>The dialog for one subject: title, error, whether Cancel and Save can be pressed and the label of Save.\<close>

record save_view =
  sv_title :: string
  sv_error :: "string option"
  sv_cancel :: bool
  sv_save :: bool
  sv_label :: string

definition tags_view :: "string \<Rightarrow> tags_dialog \<Rightarrow> save_view" where
  "tags_view subject d =
    \<lparr>sv_title = ''Edit tags '' @ em_dash @ '' '' @ subject, sv_error = td_error d, sv_cancel = (\<not> td_saving d),
     sv_save = (\<not> td_saving d), sv_label = (if td_saving d then ''Saving'' @ ellipsis else ''Save'')\<rparr>"

definition devices_text :: "nat \<Rightarrow> string" where
  "devices_text n = show_nat n @ '' '' @ (if n = 1 then ''device'' else ''devices'')"

record bulk_view = save_view +
  bv_shared_head :: string
  bv_shared :: "(string \<times> bool) list"
  bv_note :: "string option"
  bv_partial :: "string list"
  bv_add_head :: string
  bv_adding :: "string list"
  bv_placeholder :: string
  bv_offered :: "string list"

definition bulk_view_of :: "nat \<Rightarrow> string list \<Rightarrow> string list \<Rightarrow> string list \<Rightarrow> bulk_dialog \<Rightarrow> bulk_view" where
  "bulk_view_of n common part suggestions d =
    \<lparr>sv_title = ''Bulk edit tags '' @ em_dash @ '' '' @ show_nat n @ '' device'' @ (if n = 1 then [] else ''s''),
     sv_error = bd_error d, sv_cancel = (\<not> bd_saving d), sv_save = (\<not> (bd_saving d \<or> \<not> bulk_dirty d)),
     sv_label = (if bd_saving d then ''Saving'' @ ellipsis else ''Apply''),
     bv_shared_head = ''Shared by all '' @ devices_text n,
     bv_shared = map (\<lambda>t. (t, t \<in> set (bd_removing d))) common,
     bv_note = (let k = length (bd_removing d) in
       if 0 < k then Some (show_nat k @ '' tag'' @ (if k = 1 then [] else ''s'') @ '' will be removed from all ''
         @ devices_text n @ '' on save.'') else None),
     bv_partial = part, bv_add_head = ''Add to all '' @ devices_text n, bv_adding = bd_adding d,
     bv_placeholder = (if bd_adding d = [] then ''Type a tag and press Enter'' @ ellipsis else []),
     bv_offered = (if ci_focused (bd_chip d) \<and> trim (ci_input (bd_chip d)) \<noteq> [] then bulk_filtered suggestions common d else [])\<rparr>"

section \<open>The rendered configuration\<close>

datatype rendered_panel = RenderingPanel | RenderFailed string | ConfigError string | RenderedText string

text \<open>The four panels are four conditions in the code.\<close>

definition rendered_panels :: "rendered_view \<Rightarrow> rendered_panel list" where
  "rendered_panels v =
    (if rv_loading v then [RenderingPanel] else [])
    @ (if \<not> rv_loading v \<and> truthy_str (rv_error v) then [RenderFailed (the (rv_error v))] else [])
    @ (if \<not> rv_loading v \<and> \<not> truthy_str (rv_error v) \<and> \<not> rv_success v then [ConfigError (rv_output v)] else [])
    @ (if \<not> rv_loading v \<and> \<not> truthy_str (rv_error v) \<and> rv_success v then [RenderedText (rv_output v)] else [])"

text \<open>What Copy hands to the clipboard.\<close>

definition rendered_copy :: "rendered_view \<Rightarrow> string option" where
  "rendered_copy v = (if rv_output v = [] then None else Some (rv_output v))"

section \<open>The disk quota\<close>

record quota_view = save_view +
  qv_default :: string
  qv_on_default :: bool
  qv_gb :: int
  qv_gb_enabled :: bool

definition quota_view_of :: "string \<Rightarrow> int \<Rightarrow> quota_dialog \<Rightarrow> quota_view" where
  "quota_view_of hostname defaultBytes d =
    \<lparr>sv_title = ''Set disk quota '' @ em_dash @ '' '' @ hostname, sv_error = None, sv_cancel = (\<not> qd_saving d),
     sv_save = (\<not> (\<not> quota_valid d \<or> qd_saving d)), sv_label = (if qd_saving d then ''Saving'' @ ellipsis else ''Save''),
     qv_default = ''Use fleet default ('' @ show_int (whole_gib defaultBytes) @ '' GiB)'',
     qv_on_default = (qd_mode d = QuotaDefault), qv_gb = qd_gb d, qv_gb_enabled = (qd_mode d = QuotaCustom)\<rparr>"

section \<open>The version menu\<close>

record version_menu =
  vm_search :: string
  vm_betas :: bool
  vm_installable :: bool

definition mount_version_menu :: version_menu where
  "mount_version_menu = \<lparr>vm_search = [], vm_betas = False, vm_installable = True\<rparr>"

definition version_button :: "esphome_versions \<Rightarrow> string" where
  "version_button l = ''ESPHome '' @ str_or (ev_selected l) ''?''"

text \<open>A message, or the versions with whether each is the selected and the installed one.\<close>

definition version_items :: "esphome_versions \<Rightarrow> version_menu \<Rightarrow> string + (string \<times> bool \<times> bool) list" where
  "version_items l m =
    (let vs = dropdown_filtered (ev_available l) (vm_betas m) (vm_installable m) (vm_search m) in
     if length vs = 0 then Inl (if length (ev_available l) = 0 then ''Loading...'' else ''No matches'')
     else Inr (map (\<lambda>v. (v, Some v = ev_selected l, Some v = ev_detected l)) vs))"

section \<open>The versioning question\<close>

text \<open>\<open>busy\<close> is reset by a failure only: after a success the dialog waits for its owner to unmount it.\<close>

datatype onboarding_event = ChooseVersioning bool | VersioningSaved | VersioningFailed

fun onboarding_step :: "onboarding_event \<Rightarrow> bool \<Rightarrow> bool \<times> bool option" where
  "onboarding_step (ChooseVersioning on) busy = (if busy then (busy, None) else (True, Some on))"
| "onboarding_step VersioningSaved busy = (busy, None)"
| "onboarding_step VersioningFailed busy = (False, None)"

interpretation onboarding_flight: single_flight "\<lambda>e b. fst (onboarding_step e b)" "\<lambda>e b. snd (onboarding_step e b) \<noteq> None"
  "\<lambda>b. b" "\<lambda>e. e = VersioningFailed"
proof
  fix e b
  show "snd (onboarding_step e b) \<noteq> None \<Longrightarrow> fst (onboarding_step e b)" by (cases e) (auto split: if_splits)
  show "snd (onboarding_step e b) \<noteq> None \<Longrightarrow> \<not> b \<and> e \<noteq> VersioningFailed" by (cases e) (auto split: if_splits)
  show "b \<Longrightarrow> e \<noteq> VersioningFailed \<Longrightarrow> fst (onboarding_step e b)" by (cases e) auto
qed

section \<open>The list of rules\<close>

record rules_view =
  ru_title :: string
  ru_lines :: "rule_line list option"
  ru_builder :: bool

text \<open>\<open>ru_lines\<close> is \<^const>\<open>None\<close> for the note that there are no rules, and empty while the builder is shown.\<close>

definition rules_view_of :: "rules_modal \<Rightarrow> rules_view" where
  "rules_view_of m =
    (case rm_mode m of
       ModeList \<Rightarrow> \<lparr>ru_title = rules_modal_title ModeList,
         ru_lines = (if rm_rules m = [] then None else Some (map (rule_line_of m) (rm_rules m))), ru_builder = False\<rparr>
     | other \<Rightarrow> \<lparr>ru_title = rules_modal_title other, ru_lines = Some [], ru_builder = True\<rparr>)"

text \<open>Delete is sent for a rule whose button is not disabled.\<close>

definition click_delete :: "string \<Rightarrow> rules_modal \<Rightarrow> rules_modal \<times> string option" where
  "click_delete i m = (if rm_pendingDeleteId m = Some i then (m, None) else (rules_step (RmDelete i) m, Some i))"

definition rule_saved_toast :: "rules_mode \<Rightarrow> string \<Rightarrow> string" where
  "rule_saved_toast mode name = (case mode of ModeCreate \<Rightarrow> ''Created rule '' @ name | _ \<Rightarrow> ''Updated rule '' @ name)"

section \<open>The error boundary\<close>

text \<open>\<open>TreeThrows\<close> is an error thrown while the children render, which they only do when no error is shown.\<close>

datatype boundary_event = TreeThrows string | DismissError | ReloadPage

record boundary =
  eb_error :: "string option"
  eb_logged :: "string list"
  eb_reloads :: nat

definition mount_boundary :: boundary where
  "mount_boundary = \<lparr>eb_error = None, eb_logged = [], eb_reloads = 0\<rparr>"

fun boundary_step :: "boundary_event \<Rightarrow> boundary \<Rightarrow> boundary" where
  "boundary_step (TreeThrows m) b = (if eb_error b = None then b\<lparr>eb_error := Some m, eb_logged := eb_logged b @ [m]\<rparr> else b)"
| "boundary_step DismissError b = b\<lparr>eb_error := None\<rparr>"
| "boundary_step ReloadPage b = (if eb_error b = None then b else b\<lparr>eb_reloads := eb_reloads b + 1\<rparr>)"

definition boundary_view :: "boundary \<Rightarrow> string option" where
  "boundary_view b = eb_error b"

section \<open>Properties\<close>

text \<open>Pressing the theme or the streamer button twice leaves the page as it was, and each press changes its label.\<close>
theorem head_toggles:
  "press_head 1 (press_head 1 s) = s \<and> press_head 2 (press_head 2 s) = s
   \<and> hb_label (head_buttons (press_head 1 s) ! 1) \<noteq> hb_label (head_buttons s ! 1)
   \<and> hb_label (head_buttons (press_head 2 s) ! 2) \<noteq> hb_label (head_buttons s ! 2)"
  by (cases s; cases "sh_theme s") (auto simp: press_head_def head_buttons_def theme_label_def streamer_label_def)

text \<open>The dot says that the server is online also while the page reports that the session has expired.\<close>
theorem dot_online_when_expired:
  "session_overlay [Some e] \<noteq> None \<longleftrightarrow> isUnauthorizedError e"
  "status_dot_title [Some e] = status_dot_title [None]"
  by (simp_all add: session_overlay_def isUnauthenticated_def status_dot_title_def)

text \<open>Of the four tabs exactly one is active, the one shown, and choosing a tab makes it that one.\<close>
theorem one_tab_active:
  "map nt_tab (filter nt_active (nav_tabs ts ds q ws a)) = [ap_activeTab a]
   \<and> map nt_tab (filter nt_active (nav_tabs ts ds q ws (switchTab t a))) = [t]"
  by (cases "ap_activeTab a"; cases t) (simp_all add: nav_tabs_def switchTab_def)

theorem tab_labels: "map nt_label (nav_tabs ts ds q ws a) = [''Devices'', ''Queue'', ''Workers'', ''Schedules'']"
  by (simp add: nav_tabs_def capitalised_def upper_char_def char_of_eq_iff take_bit_eq_mod)

text \<open>Apply sends a diff when it can be pressed, except that typing a tag every device has makes it answer with an error.\<close>
theorem apply_sends_unless_shared:
  assumes "sv_save (bulk_view_of n common part sugg d)"
  shows "snd (bulk_step common BdApply d) = None \<longleftrightarrow>
    bd_adding d = [] \<and> bd_removing d = [] \<and> trim (ci_input (bd_chip d)) \<in> set common"
  using assms by (auto simp: bulk_view_of_def bulk_dirty_def bulk_handleSave_def finalAdd_def Let_def)

text \<open>Every pending removal is counted in the note, though a tag that is no longer shared has no chip to undo it with.\<close>
theorem note_counts_removals:
  "(bv_note (bulk_view_of n common part sugg d) = None) = (bd_removing d = [])"
  by (simp add: bulk_view_of_def Let_def)

theorem vanished_tag_still_removed:
  assumes "bd_removing d = [t]" and "t \<notin> set common" and "\<not> bd_saving d"
  shows "filter snd (bv_shared (bulk_view_of n common part sugg d)) = []
    \<and> (\<exists>diff. snd (bulk_step common BdApply d) = Some diff \<and> df_remove diff = [t])"
  using assms by (auto simp: bulk_view_of_def bulk_dirty_def bulk_handleSave_def filter_map comp_def filter_empty_conv Let_def)

text \<open>The rendered configuration shows exactly one panel, and Copy is enabled only with the panel of the text.\<close>
theorem rendered_one_panel:
  "length (rendered_panels v) = 1
   \<and> (rendered_buttons_enabled v \<and> \<not> truthy_str (rv_error v) \<longrightarrow> rendered_panels v = [RenderedText (rv_output v)])"
  by (simp add: rendered_panels_def rendered_buttons_enabled_def)

text \<open>Save of the quota dialog can be pressed exactly when it sends something, and a typed number is refused only above 1024.\<close>
theorem quota_save_sends:
  "sv_save (quota_view_of h b d) \<longleftrightarrow> \<not> qd_saving d \<and> quota_value d \<noteq> None"
  by (auto simp: quota_view_of_def quota_value_def)

theorem quota_refuses_large:
  assumes "qd_mode d = QuotaCustom"
  shows "quota_valid (setGb s d) \<longleftrightarrow> int_or (parse_int s) 1 \<le> 1024"
  using assms by (auto simp: quota_valid_def setGb_def)

text \<open>The version menu offers only versions the server listed, and by default neither betas nor versions below the floor.\<close>
theorem version_menu_default:
  assumes "version_items l mount_version_menu = Inr items"
  shows "fst ` set items = {v \<in> set (ev_available l). \<not> isBeta v \<and> isInstallable v}"
  using assms
  by (auto simp: version_items_def mount_version_menu_def dropdown_filtered_def Let_def image_image split: if_splits)

text \<open>A selected beta is named on the button and missing from its menu, where no version is marked as selected then.\<close>
theorem selected_beta_unlisted:
  assumes "ev_selected l = Some v" and "isBeta v" and "version_items l mount_version_menu = Inr items"
  shows "version_button l = ''ESPHome '' @ v \<and> v \<notin> fst ` set items \<and> list_all (\<lambda>(w, sel, inst). \<not> sel) items"
proof -
  have "v \<noteq> []" using assms(2) by auto
  moreover have "fst ` set items \<subseteq> {w. \<not> isBeta w}"
    using assms(3) by (auto simp: version_items_def mount_version_menu_def dropdown_filtered_def Let_def split: if_splits)
  moreover have "\<forall>x \<in> set items. fst (snd x) \<longleftrightarrow> fst x = v"
    using assms(1,3) by (auto simp: version_items_def Let_def split: if_splits)
  ultimately have "v \<notin> fst ` set items" "\<forall>x \<in> set items. \<not> fst (snd x)" using assms(2) by fastforce+
  then show ?thesis
    using assms(1) \<open>v \<noteq> []\<close> by (auto simp: version_button_def str_or_def truthy_str_def list_all_iff)
qed

text \<open>The question sends one answer, and one more after each that could not be saved.\<close>
theorem onboarding_asks_once:
  "sends_in (\<lambda>e b. fst (onboarding_step e b)) (\<lambda>e b. snd (onboarding_step e b) \<noteq> None) es False
    \<le> 1 + length (filter (\<lambda>e. e = VersioningFailed) es)"
  using onboarding_flight.sends_bounded [of es False] by simp

text \<open>
  Deleting a second rule while the first is being deleted enables the first one's button again, so that the same rule
  can be deleted twice.
\<close>
theorem delete_enabled_again:
  assumes "i \<noteq> j"
  shows "snd (click_delete i (fst (click_delete j (fst (click_delete i (m\<lparr>rm_pendingDeleteId := None\<rparr>)))))) = Some i"
  using assms by (simp add: click_delete_def)

text \<open>Without another deletion in between the button stays disabled until the answer.\<close>
theorem delete_sent_once:
  "snd (click_delete i (fst (click_delete i m))) = None"
  by (simp add: click_delete_def)

text \<open>The boundary shows the first error until it is dismissed, whatever else happens, and logs each error it shows.\<close>
theorem boundary_keeps_error:
  assumes "eb_error b = Some m" and "DismissError \<notin> set es"
  shows "boundary_view (fold boundary_step es b) = Some m \<and> eb_logged (fold boundary_step es b) = eb_logged b"
  using assms
proof (induction es arbitrary: b)
  case (Cons e es)
  then show ?case by (cases e) auto
qed (simp add: boundary_view_def)

end
