(* ===== verification/Editor_Sessions.thy ===== *)
theory Editor_Sessions
  imports Text_Format "HOL-Library.Sublist"
begin

text \<open>
  Creating and editing a device file: \<open>components/EditorModal.tsx\<close>, the form of
  \<open>components/NewDeviceModal.tsx\<close> and the part of \<open>App.tsx\<close> that remembers files created but not
  saved and deletes them when the editor closes. The file routes of \<open>ha-addon/server/ui_api.py\<close> are
  mirrored on a map from names to contents. Arguments: what the commit route answers (\<open>git\<close>), what
  the validator says of a file's content (\<open>check\<close>), and Monaco's own diff (\<open>differ\<close>, \<^const>\<open>None\<close>
  when that internal API is missing).
\<close>

section \<open>Changed lines\<close>

function prefix_loop :: "'a list \<Rightarrow> 'a list \<Rightarrow> nat \<Rightarrow> nat" where
  "prefix_loop orig new i =
     (if i < length orig \<and> i < length new \<and> orig ! i = new ! i then prefix_loop orig new (i + 1) else i)"
  by pat_completeness auto
termination by (relation "measure (\<lambda>(orig, _, i). length orig - i)") auto

function suffix_loop :: "'a list \<Rightarrow> 'a list \<Rightarrow> nat \<Rightarrow> nat \<Rightarrow> nat" where
  "suffix_loop orig new p i =
     (if i < length orig - p \<and> i < length new - p \<and> orig ! (length orig - 1 - i) = new ! (length new - 1 - i)
      then suffix_loop orig new p (i + 1) else i)"
  by pat_completeness auto
termination by (relation "measure (\<lambda>(orig, _, p, i). length orig - p - i)") auto

declare prefix_loop.simps [simp del] suffix_loop.simps [simp del]

text \<open>Monaco's changes are pairs of the first modified line and the line after the last.\<close>

type_synonym differ = "(string \<Rightarrow> string \<Rightarrow> (int \<times> int) list) option"

definition changed_ranges :: "differ \<Rightarrow> string \<Rightarrow> string \<Rightarrow> (int \<times> int) list" where
  "changed_ranges differ savedValue currentValue =
    (let changes = (case differ of None \<Rightarrow> [] | Some f \<Rightarrow> map (\<lambda>(s, e). (s, e - 1)) (f savedValue currentValue)) in
     if changes = [] \<and> currentValue \<noteq> savedValue then
       (let orig = split_on (CHR 0x0A) savedValue; new = split_on (CHR 0x0A) currentValue;
            p = prefix_loop orig new 0; s = suffix_loop orig new p 0
        in if p < length new - s then [(int p + 1, int (length new) - int s)] else [])
     else changes)"

definition dirty_lines :: "differ \<Rightarrow> string \<Rightarrow> string \<Rightarrow> nat" where
  "dirty_lines differ savedValue currentValue =
    (if currentValue = savedValue then 0
     else sum_list (map (\<lambda>(s, e). nat (e - s + 1)) (changed_ranges differ savedValue currentValue)))"

section \<open>The server's files\<close>

type_synonym files = "string \<Rightarrow> string option"

definition PENDING :: string where "PENDING = ''.pending.''"

definition is_staged :: "string \<Rightarrow> bool" where
  "is_staged f \<longleftrightarrow> starts_with f PENDING"

definition final_name :: "string \<Rightarrow> string" where
  "final_name f = drop (length PENDING) f"

text \<open>\<open>save_target_content\<close>: the new files and \<open>renamed_to\<close>, or the error.\<close>

definition py_save :: "string \<Rightarrow> string \<Rightarrow> files \<Rightarrow> string + (files \<times> string option)" where
  "py_save f content fs =
    (if is_staged f then
       (if fs (final_name f) \<noteq> None then Inl (final_name f @ '' already exists'')
        else Inr ((fs(final_name f \<mapsto> content))(f := None), Some (final_name f)))
     else Inr (fs(f \<mapsto> content), None))"

definition py_delete :: "string \<Rightarrow> files \<Rightarrow> string + files" where
  "py_delete f fs = (if fs f = None then Inl ''File not found'' else Inr (fs(f := None)))"

section \<open>The new-device form\<close>

definition slug_char :: "char \<Rightarrow> bool" where
  "slug_char c \<longleftrightarrow> (CHR ''a'' \<le> c \<and> c \<le> CHR ''z'') \<or> is_digit c"

text \<open>\<open>SLUG_RE\<close>: \<open>^[a-z0-9][a-z0-9-]*$\<close>.\<close>

definition SLUG_RE :: "string \<Rightarrow> bool" where
  "SLUG_RE s = (case s of [] \<Rightarrow> False | c # cs \<Rightarrow> slug_char c \<and> list_all (\<lambda>d. slug_char d \<or> d = CHR ''-'') cs)"

definition slug_of :: "string \<Rightarrow> string" where
  "slug_of n = (if ends_with (to_lower n) ''.yaml'' then take (length n - 5) n else n)"

definition validate_name :: "string list \<Rightarrow> string \<Rightarrow> string option" where
  "validate_name existingTargets raw =
    (let n = trim raw; slug = slug_of n; filename = slug @ ''.yaml'' in
     if n = [] then Some ''Name is required''
     else if \<not> SLUG_RE slug then Some ''Lowercase letters, digits, and hyphens only (must start with a letter or digit)''
     else if 64 < length slug then Some ''Name too long (max 64 characters)''
     else if filename \<in> set existingTargets then Some (filename @ '' already exists'')
     else None)"

definition nameError :: "string list \<Rightarrow> string \<Rightarrow> string option" where
  "nameError existingTargets name = (if trim name \<noteq> [] then validate_name existingTargets name else None)"

definition canSubmit :: "string list \<Rightarrow> bool \<Rightarrow> string \<Rightarrow> bool" where
  "canSubmit existingTargets saving name \<longleftrightarrow>
    0 < length (trim name) \<and> nameError existingTargets name = None \<and> \<not> saving"

definition cleanedTags :: "string \<Rightarrow> string list" where
  "cleanedTags tags = filter (\<lambda>s. s \<noteq> []) (map trim (split_on (CHR '','') tags))"

text \<open>\<open>create_target\<close>; \<open>made\<close> is the stub or the duplicate, or why there is none.\<close>

definition py_create :: "string \<Rightarrow> string + string \<Rightarrow> files \<Rightarrow> string + (files \<times> string)" where
  "py_create raw made fs =
    (let raw_name = trim raw; name = slug_of raw_name; new_filename = name @ ''.yaml'' in
     if raw_name = [] then Inl ''filename required''
     else if \<not> SLUG_RE name then
       Inl ''filename must be lowercase, start with a letter or digit, and contain only letters, digits, and hyphens''
     else if 64 < length name then Inl ''filename too long (max 64 characters)''
     else if fs new_filename \<noteq> None then Inl (new_filename @ '' already exists'')
     else case made of
       Inl err \<Rightarrow> Inl err
     | Inr content \<Rightarrow> Inr (fs(PENDING @ new_filename \<mapsto> content), PENDING @ new_filename))"

section \<open>The page\<close>

datatype desk_note = NoteOk string | NoteInfo string | NoteErr string

datatype commit_kind = KindSaveClose | KindSaveUpgrade

record editor =
  ed_target :: string
  ed_value :: string
  ed_saved :: string
  ed_dirtyLineCount :: nat
  ed_showCloseConfirm :: bool
  ed_validateResult :: "(bool \<times> string) option"
  ed_commitMsg :: string
  ed_commitDialogKind :: "commit_kind option"

record desk =
  dk_files :: files
  dk_editor :: "editor option"
  dk_unsavedNewTargets :: "string set"
  dk_upgrade :: "string option"
  dk_notes :: "desk_note list"
  dk_autoCommit :: bool

type_synonym tag_write = "string \<Rightarrow> string \<Rightarrow> string option"

type_synonym git = "string \<Rightarrow> string \<Rightarrow> string + (bool \<times> string)"

definition notify :: "desk_note \<Rightarrow> desk \<Rightarrow> desk" where
  "notify n w = w\<lparr>dk_notes := dk_notes w @ [n]\<rparr>"

text \<open>\<open>onClose\<close> of \<open>App.tsx\<close>: a created file that was never saved is deleted.\<close>

definition close_editor :: "desk \<Rightarrow> desk" where
  "close_editor w =
    (case dk_editor w of
       None \<Rightarrow> w
     | Some e \<Rightarrow>
        (let closed = ed_target e; w1 = w\<lparr>dk_editor := None\<rparr> in
         if closed \<in> dk_unsavedNewTargets w1 then
           (let w2 = w1\<lparr>dk_unsavedNewTargets := dk_unsavedNewTargets w1 - {closed}\<rparr> in
            case py_delete closed (dk_files w2) of
              Inl err \<Rightarrow> notify (NoteErr (''Cleanup of unsaved new device failed: '' @ err)) w2
            | Inr fs \<Rightarrow> w2\<lparr>dk_files := fs\<rparr>)
         else w1))"

definition on_editor :: "(editor \<Rightarrow> editor) \<Rightarrow> desk \<Rightarrow> desk" where
  "on_editor f w = w\<lparr>dk_editor := map_option f (dk_editor w)\<rparr>"

text \<open>The fetch effect, which runs when the editor opens and after a restore from the history.\<close>

definition load_content :: "desk \<Rightarrow> desk" where
  "load_content w =
    (case dk_editor w of
       None \<Rightarrow> w
     | Some e \<Rightarrow>
        (case dk_files w (ed_target e) of
           None \<Rightarrow> close_editor (notify (NoteErr ''Failed to load file: Target not found'') w)
         | Some c \<Rightarrow> on_editor (\<lambda>x. x\<lparr>ed_value := c, ed_saved := c, ed_dirtyLineCount := 0\<rparr>) w))"

definition open_editor :: "string \<Rightarrow> desk \<Rightarrow> desk" where
  "open_editor f w = load_content (w\<lparr>dk_editor := Some
     \<lparr>ed_target = f, ed_value = [], ed_saved = [], ed_dirtyLineCount = 0, ed_showCloseConfirm = False,
      ed_validateResult = None, ed_commitMsg = [], ed_commitDialogKind = None\<rparr>\<rparr>)"

text \<open>
  \<open>handleSubmit\<close> of the form with \<open>onCreate\<close> of \<open>App.tsx\<close>. \<open>meta\<close> is what the tag write answers;
  the toast of a duplicate names the source first (\<open>verb\<close>).
\<close>

definition onCreate :: "string \<Rightarrow> desk \<Rightarrow> desk" where
  "onCreate target w = open_editor target (w\<lparr>dk_unsavedNewTargets := insert target (dk_unsavedNewTargets w)\<rparr>)"

definition display_of :: "string \<Rightarrow> string" where
  "display_of target = (let d = stripYaml (Some target) in if is_staged d then final_name d else d)"

definition handleSubmit ::
  "string list \<Rightarrow> bool \<Rightarrow> string \<Rightarrow> string \<Rightarrow> string + string \<Rightarrow> tag_write \<Rightarrow> string \<Rightarrow> desk \<Rightarrow> desk" where
  "handleSubmit existingTargets saving name tags made meta verb w =
    (if \<not> canSubmit existingTargets saving name then w
     else case py_create (slug_of (trim name)) made (dk_files w) of
       Inl err \<Rightarrow> notify (NoteErr (''Create failed: '' @ err)) w
     | Inr (fs, target) \<Rightarrow>
        (let w1 = w\<lparr>dk_files := fs\<rparr>;
             w2 = (if cleanedTags tags \<noteq> [] then
                     (case meta target (join_with '','' (cleanedTags tags)) of
                        None \<Rightarrow> w1
                      | Some err \<Rightarrow> notify (NoteErr (''Created '' @ display_of target @ '' but tag write failed: '' @ err)) w1)
                   else w1)
         in onCreate target (notify (NoteOk (verb @ display_of target)) w2)))"

definition type_text :: "differ \<Rightarrow> string \<Rightarrow> desk \<Rightarrow> desk" where
  "type_text differ v = on_editor (\<lambda>e. e\<lparr>ed_value := v, ed_dirtyLineCount := dirty_lines differ (ed_saved e) v\<rparr>)"

section \<open>Saving\<close>

text \<open>Each handler begins by writing the buffer; \<open>ok\<close> continues with the name saved under.\<close>

definition write_buffer :: "(editor \<Rightarrow> string \<Rightarrow> desk \<Rightarrow> desk) \<Rightarrow> desk \<Rightarrow> desk" where
  "write_buffer ok w =
    (case dk_editor w of
       None \<Rightarrow> w
     | Some e \<Rightarrow>
        (case py_save (ed_target e) (ed_value e) (dk_files w) of
           Inl err \<Rightarrow> notify (NoteErr (''Save failed: '' @ err)) w
         | Inr (fs, renamedTo) \<Rightarrow>
             ok e (nullish renamedTo (ed_target e))
               (on_editor (\<lambda>x. x\<lparr>ed_saved := ed_value e\<rparr>) (w\<lparr>dk_files := fs\<rparr>))))"

definition refresh_dirty :: "differ \<Rightarrow> desk \<Rightarrow> desk" where
  "refresh_dirty differ = on_editor (\<lambda>e. e\<lparr>ed_dirtyLineCount := dirty_lines differ (ed_saved e) (ed_value e)\<rparr>)"

definition onSaved :: "string \<Rightarrow> desk \<Rightarrow> desk" where
  "onSaved f w = w\<lparr>dk_unsavedNewTargets := dk_unsavedNewTargets w - {f}\<rparr>"

definition handleSave :: "differ \<Rightarrow> desk \<Rightarrow> desk" where
  "handleSave differ =
    write_buffer (\<lambda>e finalTarget w.
      onSaved (ed_target e) (notify (NoteOk (''Saved '' @ finalTarget)) (refresh_dirty differ w)))"

definition handleSaveAndClose :: "git \<Rightarrow> string \<Rightarrow> desk \<Rightarrow> desk" where
  "handleSaveAndClose git userMessage =
    write_buffer (\<lambda>e finalTarget w.
      case git finalTarget userMessage of
        Inl err \<Rightarrow> notify (NoteErr (''Commit failed: '' @ err)) (onSaved (ed_target e) w)
      | Inr (committed, hash) \<Rightarrow>
          close_editor (notify (if committed then NoteOk (''Committed '' @ finalTarget @ '' ('' @ hash @ '')'')
             else NoteInfo (''Saved '' @ finalTarget @ '' (no changes to commit)'')) (onSaved (ed_target e) w)))"

definition handleSaveAndUpgrade :: "string option \<Rightarrow> desk \<Rightarrow> desk" where
  "handleSaveAndUpgrade userMessage =
    write_buffer (\<lambda>e finalTarget w.
      close_editor ((onSaved (ed_target e) (notify (NoteOk (''Saved '' @ finalTarget)) w))\<lparr>dk_upgrade := Some finalTarget\<rparr>))"

definition onValidate :: "differ \<Rightarrow> (string \<Rightarrow> bool \<times> string) \<Rightarrow> desk \<Rightarrow> desk" where
  "onValidate differ check =
    write_buffer (\<lambda>e finalTarget w.
      let w1 = on_editor (\<lambda>x. x\<lparr>ed_validateResult := None\<rparr>) (refresh_dirty differ w) in
      case dk_files w1 (ed_target e) of
        None \<Rightarrow> notify (NoteErr ''Validate failed: Target not found'') w1
      | Some c \<Rightarrow> on_editor (\<lambda>x. x\<lparr>ed_validateResult := Some (check c)\<rparr>) w1)"

section \<open>The buttons\<close>

definition onSaveAndCloseClicked :: "git \<Rightarrow> desk \<Rightarrow> desk" where
  "onSaveAndCloseClicked git w =
    (if dk_autoCommit w then handleSaveAndClose git [] w
     else on_editor (\<lambda>e. e\<lparr>ed_commitMsg := [], ed_commitDialogKind := Some KindSaveClose\<rparr>) w)"

definition onSaveAndUpgradeClicked :: "desk \<Rightarrow> desk" where
  "onSaveAndUpgradeClicked w =
    (if dk_autoCommit w then on_editor (\<lambda>e. e\<lparr>ed_commitMsg := [], ed_commitDialogKind := Some KindSaveUpgrade\<rparr>) w
     else handleSaveAndUpgrade None w)"

definition confirmCommitDialog :: "git \<Rightarrow> desk \<Rightarrow> desk" where
  "confirmCommitDialog git w =
    (case dk_editor w of
       None \<Rightarrow> w
     | Some e \<Rightarrow>
        (case ed_commitDialogKind e of
           None \<Rightarrow> w
         | Some KindSaveClose \<Rightarrow>
             on_editor (\<lambda>x. x\<lparr>ed_commitDialogKind := None\<rparr>) (handleSaveAndClose git (ed_commitMsg e) w)
         | Some KindSaveUpgrade \<Rightarrow>
             on_editor (\<lambda>x. x\<lparr>ed_commitDialogKind := None\<rparr>) (handleSaveAndUpgrade (Some (ed_commitMsg e)) w)))"

definition closeClicked :: "desk \<Rightarrow> desk" where
  "closeClicked w =
    (case dk_editor w of
       None \<Rightarrow> w
     | Some e \<Rightarrow> if 0 < ed_dirtyLineCount e then on_editor (\<lambda>x. x\<lparr>ed_showCloseConfirm := True\<rparr>) w else close_editor w)"

definition discardClicked :: "desk \<Rightarrow> desk" where
  "discardClicked w =
    (case dk_editor w of
       None \<Rightarrow> w
     | Some e \<Rightarrow> if ed_showCloseConfirm e then close_editor w else w)"

datatype desk_event =
    EdCreate "string list" string string "string + string" string | EdOpen string | EdReload | EdType string | EdSave | EdSaveClose | EdSaveUpgrade
  | EdMessage string | EdConfirmCommit | EdCancelCommit | EdValidate | EdDismiss | EdClose | EdKeepEditing | EdDiscard

text \<open>Upgrade and Validate are not offered for the secrets file.\<close>

definition is_device :: "desk \<Rightarrow> bool" where
  "is_device w = (case dk_editor w of None \<Rightarrow> False | Some e \<Rightarrow> ed_target e \<noteq> ''secrets.yaml'')"

record desk_env =
  en_differ :: differ
  en_git :: git
  en_check :: "string \<Rightarrow> bool \<times> string"
  en_meta :: tag_write

fun desk_step :: "desk_env \<Rightarrow> desk_event \<Rightarrow> desk \<Rightarrow> desk" where
  "desk_step v (EdCreate existing name tags made verb) w =
     (if dk_editor w = None then handleSubmit existing False name tags made (en_meta v) verb w else w)"
| "desk_step v (EdOpen f) w = (if dk_editor w = None then open_editor f w else w)"
| "desk_step v EdReload w = load_content w"
| "desk_step v (EdType t) w = type_text (en_differ v) t w"
| "desk_step v EdSave w = handleSave (en_differ v) w"
| "desk_step v EdSaveClose w = onSaveAndCloseClicked (en_git v) w"
| "desk_step v EdSaveUpgrade w = (if is_device w then onSaveAndUpgradeClicked w else w)"
| "desk_step v (EdMessage m) w = on_editor (\<lambda>e. e\<lparr>ed_commitMsg := m\<rparr>) w"
| "desk_step v EdConfirmCommit w = confirmCommitDialog (en_git v) w"
| "desk_step v EdCancelCommit w = on_editor (\<lambda>e. e\<lparr>ed_commitDialogKind := None\<rparr>) w"
| "desk_step v EdValidate w = (if is_device w then onValidate (en_differ v) (en_check v) w else w)"
| "desk_step v EdDismiss w = on_editor (\<lambda>e. e\<lparr>ed_validateResult := None\<rparr>) w"
| "desk_step v EdClose w = closeClicked w"
| "desk_step v EdKeepEditing w = on_editor (\<lambda>e. e\<lparr>ed_showCloseConfirm := False\<rparr>) w"
| "desk_step v EdDiscard w = discardClicked w"

inductive desk_reach :: "desk_env \<Rightarrow> files \<Rightarrow> desk \<Rightarrow> bool" for v fs where
  start: "desk_reach v fs \<lparr>dk_files = fs, dk_editor = None, dk_unsavedNewTargets = {}, dk_upgrade = None,
            dk_notes = [], dk_autoCommit = ac\<rparr>"
| step: "desk_reach v fs w \<Longrightarrow> desk_reach v fs (desk_step v ev w)"


section \<open>The changed-line count\<close>

lemma prefix_loop_spec:
  assumes "i \<le> length a" "i \<le> length b" "take i a = take i b"
  shows "i \<le> prefix_loop a b i \<and> prefix_loop a b i \<le> length a \<and> prefix_loop a b i \<le> length b
    \<and> take (prefix_loop a b i) a = take (prefix_loop a b i) b
    \<and> (prefix_loop a b i < length a \<longrightarrow> prefix_loop a b i < length b \<longrightarrow> a ! prefix_loop a b i \<noteq> b ! prefix_loop a b i)"
  using assms
proof (induction a b i rule: prefix_loop.induct)
  case (1 a b i)
  show ?case
  proof (cases "i < length a \<and> i < length b \<and> a ! i = b ! i")
    case True
    then have "take (i + 1) a = take (i + 1) b"
      using 1(4) by (simp add: take_Suc_conv_app_nth)
    with True 1(1) show ?thesis
      by (subst (1 2 3 4 5 6 7 8 9) prefix_loop.simps) auto
  next
    case False
    then show ?thesis using 1(2-4) by (subst (1 2 3 4 5 6 7 8 9) prefix_loop.simps) auto
  qed
qed

lemma suffix_loop_spec:
  assumes "i \<le> length a - p" "i \<le> length b - p" "\<forall>j < i. a ! (length a - 1 - j) = b ! (length b - 1 - j)"
  shows "i \<le> suffix_loop a b p i \<and> suffix_loop a b p i \<le> length a - p \<and> suffix_loop a b p i \<le> length b - p
    \<and> (\<forall>j < suffix_loop a b p i. a ! (length a - 1 - j) = b ! (length b - 1 - j))"
  using assms
proof (induction a b p i rule: suffix_loop.induct)
  case (1 a b p i)
  show ?case
  proof (cases "i < length a - p \<and> i < length b - p \<and> a ! (length a - 1 - i) = b ! (length b - 1 - i)")
    case True
    then have "\<forall>j < i + 1. a ! (length a - 1 - j) = b ! (length b - 1 - j)"
      using 1(4) by (metis Suc_eq_plus1 less_SucE)
    with True 1(1) show ?thesis
      by (subst (1 2 3 4) suffix_loop.simps) auto
  next
    case False
    then show ?thesis using 1(2-4) by (subst (1 2 3 4) suffix_loop.simps) auto
  qed
qed

lemma suffix_loop_ge: "i \<le> suffix_loop a b p i"
proof (induction a b p i rule: suffix_loop.induct)
  case (1 a b p i)
  then show ?case by (subst suffix_loop.simps) auto
qed

text \<open>The loop runs over every equal line counted from the end.\<close>

lemma suffix_loop_max:
  assumes "i \<le> k" "k \<le> length a - p" "k \<le> length b - p" "\<forall>j < k. a ! (length a - 1 - j) = b ! (length b - 1 - j)"
  shows "k \<le> suffix_loop a b p i"
  using assms
proof (induction a b p i rule: suffix_loop.induct)
  case (1 a b p i)
  show ?case
  proof (cases "i = k")
    case False
    then have "i < length a - p \<and> i < length b - p \<and> a ! (length a - 1 - i) = b ! (length b - 1 - i)"
      using 1(2-5) by simp
    moreover from this have "k \<le> suffix_loop a b p (i + 1)"
      using 1(1) 1(2-5) False by simp
    ultimately show ?thesis by (simp add: suffix_loop.simps)
  next
    case True
    then show ?thesis using suffix_loop_ge [of k a b p] by simp
  qed
qed

lemma common_prefix_le:
  assumes "a = p @ x" "b = p @ y"
  shows "length p \<le> prefix_loop a b 0"
proof (rule ccontr)
  let ?k = "prefix_loop a b 0"
  assume "\<not> length p \<le> ?k"
  then have "?k < length p" by simp
  moreover have "?k < length a \<longrightarrow> ?k < length b \<longrightarrow> a ! ?k \<noteq> b ! ?k"
    using prefix_loop_spec [of 0 a b] by simp
  ultimately show False using assms by (simp add: nth_append)
qed

lemma loops_cover_iff:
  "(\<not> prefix_loop a b 0 < length b - suffix_loop a b (prefix_loop a b 0) 0)
     \<longleftrightarrow> (\<exists>p d s. a = p @ d @ s \<and> b = p @ s)"
proof -
  define k where "k = prefix_loop a b 0"
  define m where "m = suffix_loop a b k 0"
  have k: "k \<le> length a" "k \<le> length b" "take k a = take k b"
    using prefix_loop_spec [of 0 a b] by (simp_all add: k_def)
  have m: "m \<le> length a - k" "m \<le> length b - k" "\<forall>j < m. a ! (length a - 1 - j) = b ! (length b - 1 - j)"
    using suffix_loop_spec [of 0 a k b] by (simp_all add: m_def)
  have "(\<not> k < length b - m) \<longleftrightarrow> (\<exists>p d s. a = p @ d @ s \<and> b = p @ s)"
  proof
    assume "\<not> k < length b - m"
    then have km: "k + m = length b" using k m by linarith
    have "drop k b = drop (length a - m) a"
    proof (rule nth_equalityI)
      show "length (drop k b) = length (drop (length a - m) a)" using km m k by simp
    next
      fix i assume "i < length (drop k b)"
      then have i: "i < m" using km by simp
      then have "a ! (length a - 1 - (m - 1 - i)) = b ! (length b - 1 - (m - 1 - i))"
        using m(3) [rule_format, of "m - 1 - i"] by linarith
      moreover have "length a - 1 - (m - 1 - i) = length a - m + i" "length b - 1 - (m - 1 - i) = k + i"
        using i m(1) k km by linarith+
      ultimately show "drop k b ! i = drop (length a - m) a ! i" using km k m by simp
    qed
    then have "b = take k a @ drop (length a - m) a" using k(3) by (metis append_take_drop_id)
    moreover have "a = take k a @ drop k (take (length a - m) a) @ drop (length a - m) a"
    proof -
      have "k \<le> length a - m" using m(1) k(1) by linarith
      then have "take k a @ drop k (take (length a - m) a) = take (length a - m) a"
        by (metis append_take_drop_id min.absorb1 take_take)
      then show ?thesis by (metis append.assoc append_take_drop_id)
    qed
    ultimately show "\<exists>p d s. a = p @ d @ s \<and> b = p @ s" by blast
  next
    assume "\<exists>p d s. a = p @ d @ s \<and> b = p @ s"
    then obtain p d s where ab: "a = p @ d @ s" "b = p @ s" by blast
    then have "length p \<le> k" using common_prefix_le unfolding k_def by blast
    moreover have "length b - k \<le> m"
      unfolding m_def
    proof (rule suffix_loop_max)
      show "\<forall>j < length b - k. a ! (length a - 1 - j) = b ! (length b - 1 - j)"
      proof (intro allI impI)
        fix j assume "j < length b - k"
        then have j: "j < length s" using \<open>length p \<le> k\<close> ab by simp
        then have "rev a ! j = rev b ! j" by (simp add: ab nth_append)
        moreover have "j < length a" "j < length b" using j ab by simp_all
        ultimately show "a ! (length a - 1 - j) = b ! (length b - 1 - j)" by (simp add: rev_nth)
      qed
    qed (use ab k in simp_all)
    ultimately show "\<not> k < length b - m" by linarith
  qed
  then show ?thesis by (simp add: k_def m_def)
qed

lemma split_on_inj: "split_on c s = split_on c t \<longleftrightarrow> s = t"
  by (metis join_split_on)

text \<open>Without Monaco's diff, the count is zero exactly when lines were only deleted, in one block.\<close>

lemma dirty_zero_iff:
  "dirty_lines None saved cur = 0
     \<longleftrightarrow> (\<exists>p d s. split_on (CHR 0x0A) saved = p @ d @ s \<and> split_on (CHR 0x0A) cur = p @ s)"
proof (cases "cur = saved")
  case True
  then show ?thesis
    by (simp add: dirty_lines_def) (metis append_Nil append_Nil2)
next
  case False
  let ?a = "split_on (CHR 0x0A) saved" and ?b = "split_on (CHR 0x0A) cur"
  have "dirty_lines None saved cur = 0 \<longleftrightarrow>
      \<not> prefix_loop ?a ?b 0 < length ?b - suffix_loop ?a ?b (prefix_loop ?a ?b 0) 0"
    using False by (auto simp: dirty_lines_def changed_ranges_def Let_def)
  then show ?thesis using loops_cover_iff by metis
qed

section \<open>What happens to the files\<close>

text \<open>The name a target is saved under.\<close>

definition saved_name :: "string \<Rightarrow> string" where
  "saved_name f = (if is_staged f then final_name f else f)"

lemma desk_frame [simp]:
  "dk_files (notify n w) = dk_files w" "dk_editor (notify n w) = dk_editor w"
  "dk_unsavedNewTargets (notify n w) = dk_unsavedNewTargets w"
  "dk_files (on_editor f w) = dk_files w" "dk_editor (on_editor f w) = map_option f (dk_editor w)"
  "dk_unsavedNewTargets (on_editor f w) = dk_unsavedNewTargets w"
  "dk_files (onSaved t w) = dk_files w" "dk_editor (onSaved t w) = dk_editor w"
  "dk_unsavedNewTargets (onSaved t w) = dk_unsavedNewTargets w - {t}"
  "dk_files (refresh_dirty d w) = dk_files w"
  "dk_unsavedNewTargets (refresh_dirty d w) = dk_unsavedNewTargets w"
  "dk_files (type_text d t w) = dk_files w"
  "dk_unsavedNewTargets (type_text d t w) = dk_unsavedNewTargets w"
  by (simp_all add: notify_def on_editor_def onSaved_def refresh_dirty_def type_text_def)

lemma close_editor_editor [simp]: "dk_editor (close_editor w) = None"
  by (auto simp: close_editor_def Let_def split: option.splits sum.splits)

text \<open>An invariant of every step: a target counted as unsaved is a staged file.\<close>

definition staged_only :: "desk \<Rightarrow> bool" where
  "staged_only w \<longleftrightarrow> (\<forall>f \<in> dk_unsavedNewTargets w. is_staged f)"

text \<open>Between \<open>w\<close> and \<open>w'\<close> no real file changed, except that the buffer was written to its own name.\<close>

definition only_saves :: "desk \<Rightarrow> desk \<Rightarrow> bool" where
  "only_saves w w' \<longleftrightarrow> (\<forall>g. \<not> is_staged g \<longrightarrow> dk_files w' g \<noteq> dk_files w g \<longrightarrow>
     (\<exists>e. dk_editor w = Some e \<and> g = saved_name (ed_target e) \<and> dk_files w' g = Some (ed_value e)))"

lemma only_saves_same: "dk_files w' = dk_files w \<Longrightarrow> only_saves w w'"
  by (simp add: only_saves_def)

lemma close_keeps:
  assumes "staged_only w"
  shows "staged_only (close_editor w) \<and> (\<forall>g. \<not> is_staged g \<longrightarrow> dk_files (close_editor w) g = dk_files w g)"
  using assms
  by (auto simp: close_editor_def staged_only_def notify_def py_delete_def Let_def split: option.splits sum.splits if_splits)

lemma staged_only_frame [simp]:
  "staged_only (notify n w) = staged_only w" "staged_only (on_editor f w) = staged_only w"
  "staged_only (refresh_dirty d w) = staged_only w" "staged_only (type_text d t w) = staged_only w"
  "staged_only w \<Longrightarrow> staged_only (onSaved t w)"
  by (auto simp: staged_only_def)

lemma load_keeps:
  assumes "staged_only w"
  shows "staged_only (load_content w) \<and> (\<forall>g. \<not> is_staged g \<longrightarrow> dk_files (load_content w) g = dk_files w g)"
  using assms by (auto simp: load_content_def close_keeps split: option.splits)

lemma open_keeps:
  assumes "staged_only w"
  shows "staged_only (open_editor f w) \<and> (\<forall>g. \<not> is_staged g \<longrightarrow> dk_files (open_editor f w) g = dk_files w g)"
proof -
  let ?w = "w\<lparr>dk_editor := Some \<lparr>ed_target = f, ed_value = [], ed_saved = [], ed_dirtyLineCount = 0,
      ed_showCloseConfirm = False, ed_validateResult = None, ed_commitMsg = [], ed_commitDialogKind = None\<rparr>\<rparr>"
  have "staged_only ?w" using assms by (simp add: staged_only_def)
  from load_keeps [OF this] show ?thesis by (simp add: open_editor_def)
qed

text \<open>A handler that keeps real files after the write changes none but the one it saves.\<close>

lemma write_buffer_keeps:
  assumes "staged_only w"
    and ok: "\<And>e t w'. staged_only w' \<Longrightarrow> staged_only (ok e t w') \<and> (\<forall>g. \<not> is_staged g \<longrightarrow> dk_files (ok e t w') g = dk_files w' g)"
  shows "staged_only (write_buffer ok w) \<and> only_saves w (write_buffer ok w)"
proof (cases "dk_editor w")
  case None
  then show ?thesis using assms(1) by (simp add: write_buffer_def only_saves_def)
next
  case (Some e)
  show ?thesis
  proof (cases "py_save (ed_target e) (ed_value e) (dk_files w)")
    case (Inl err)
    then show ?thesis using Some assms(1) by (simp add: write_buffer_def only_saves_def)
  next
    case (Inr r)
    obtain fs t where r: "r = (fs, t)" by force
    let ?w = "on_editor (\<lambda>x. x\<lparr>ed_saved := ed_value e\<rparr>) (w\<lparr>dk_files := fs\<rparr>)"
    have w: "staged_only ?w" using assms(1) by (simp add: staged_only_def)
    have fs: "fs g \<noteq> dk_files w g \<Longrightarrow> \<not> is_staged g \<Longrightarrow> g = saved_name (ed_target e) \<and> fs g = Some (ed_value e)" for g
      using Inr r by (auto simp: py_save_def saved_name_def split: if_splits)
    have eq: "write_buffer ok w = ok e (nullish t (ed_target e)) ?w"
      using Some Inr r by (simp add: write_buffer_def)
    show ?thesis
      unfolding eq only_saves_def using ok [OF w, of e "nullish t (ed_target e)"] fs Some by simp
  qed
qed

definition keeps :: "desk \<Rightarrow> desk \<Rightarrow> bool" where
  "keeps w w' \<longleftrightarrow> staged_only w' \<and> only_saves w w'"

lemma keeps_real: "staged_only w' \<Longrightarrow> (\<forall>g. \<not> is_staged g \<longrightarrow> dk_files w' g = dk_files w g) \<Longrightarrow> keeps w w'"
  by (simp add: keeps_def only_saves_def)

lemma keeps_on_editor: "keeps w w' \<Longrightarrow> keeps w (on_editor f w')"
  by (simp add: keeps_def only_saves_def)

lemma keeps_write:
  assumes "staged_only w"
    and "\<And>e t w'. staged_only w' \<Longrightarrow> staged_only (ok e t w') \<and> (\<forall>g. \<not> is_staged g \<longrightarrow> dk_files (ok e t w') g = dk_files w' g)"
  shows "keeps w (write_buffer ok w)"
  using write_buffer_keeps [OF assms] by (simp add: keeps_def)

lemma save_keeps: "staged_only w \<Longrightarrow> keeps w (handleSave d w)"
  unfolding handleSave_def by (rule keeps_write) auto

lemma save_close_keeps: "staged_only w \<Longrightarrow> keeps w (handleSaveAndClose git m w)"
  unfolding handleSaveAndClose_def by (rule keeps_write) (auto simp: close_keeps split: sum.split)

lemma with_upgrade_keeps:
  "staged_only (w\<lparr>dk_upgrade := u\<rparr>) = staged_only w" "dk_files (w\<lparr>dk_upgrade := u\<rparr>) = dk_files w"
  by (simp_all add: staged_only_def)

lemma save_upgrade_keeps: "staged_only w \<Longrightarrow> keeps w (handleSaveAndUpgrade m w)"
  unfolding handleSaveAndUpgrade_def
proof (rule keeps_write)
  fix e :: editor and t w'
  assume "staged_only w'"
  then have "staged_only ((onSaved (ed_target e) (notify (NoteOk (''Saved '' @ t)) w'))\<lparr>dk_upgrade := Some t\<rparr>)"
    by (simp only: with_upgrade_keeps staged_only_frame)
  then show "staged_only (close_editor ((onSaved (ed_target e) (notify (NoteOk (''Saved '' @ t)) w'))\<lparr>dk_upgrade := Some t\<rparr>))
    \<and> (\<forall>g. \<not> is_staged g \<longrightarrow> dk_files (close_editor
        ((onSaved (ed_target e) (notify (NoteOk (''Saved '' @ t)) w'))\<lparr>dk_upgrade := Some t\<rparr>)) g = dk_files w' g)"
    using close_keeps by (metis with_upgrade_keeps(2) desk_frame(1,7))
qed

lemma validate_keeps: "staged_only w \<Longrightarrow> keeps w (onValidate d check w)"
  unfolding onValidate_def by (rule keeps_write) (auto simp: Let_def split: option.split)

lemma is_staged_PENDING [simp]: "is_staged (PENDING @ s)"
  by (simp add: is_staged_def)

lemma submit_keeps:
  assumes "staged_only w"
  shows "keeps w (handleSubmit existing saving name tags made meta verb w)"
proof (cases "canSubmit existing saving name")
  case True
  show ?thesis
  proof (cases "py_create (slug_of (trim name)) made (dk_files w)")
    case (Inl err)
    then show ?thesis using assms True by (simp add: handleSubmit_def keeps_def only_saves_def)
  next
    case (Inr r)
    obtain fs t where r: "r = (fs, t)" by force
    from Inr r have t: "is_staged t" "\<And>g. \<not> is_staged g \<Longrightarrow> fs g = dk_files w g"
      by (auto simp: py_create_def Let_def split: if_splits sum.splits)
    obtain w2 where w2: "handleSubmit existing saving name tags made meta verb w = onCreate t w2"
      "staged_only w2" "dk_files w2 = fs"
      using True Inr r assms
      by (auto simp: handleSubmit_def Let_def staged_only_def split: if_splits option.splits)
    then have "staged_only (w2\<lparr>dk_unsavedNewTargets := insert t (dk_unsavedNewTargets w2)\<rparr>)"
      using t(1) by (simp add: staged_only_def)
    from open_keeps [OF this, of t] show ?thesis
      unfolding w2(1) onCreate_def by (intro keeps_real) (simp_all add: w2(3) t(2))
  qed
qed (use assms in \<open>simp add: handleSubmit_def keeps_def only_saves_def\<close>)

lemma keeps_refl: "staged_only w \<Longrightarrow> keeps w w"
  by (simp add: keeps_real)

lemma step_keeps: "staged_only w \<Longrightarrow> keeps w (desk_step v ev w)"
proof (cases ev)
  case EdSaveClose
  assume "staged_only w"
  then show ?thesis
    by (simp add: EdSaveClose onSaveAndCloseClicked_def save_close_keeps keeps_on_editor keeps_refl)
next
  case EdSaveUpgrade
  assume "staged_only w"
  then show ?thesis
    by (simp add: EdSaveUpgrade onSaveAndUpgradeClicked_def save_upgrade_keeps keeps_on_editor keeps_refl)
next
  case EdConfirmCommit
  assume "staged_only w"
  then show ?thesis
    by (auto simp: EdConfirmCommit confirmCommitDialog_def save_close_keeps save_upgrade_keeps keeps_on_editor keeps_refl
        split: option.split commit_kind.split)
next
  case EdClose
  assume "staged_only w"
  then show ?thesis
    using close_keeps [of w]
    by (auto simp: EdClose closeClicked_def keeps_real keeps_on_editor keeps_refl split: option.split)
next
  case EdDiscard
  assume "staged_only w"
  then show ?thesis
    using close_keeps [of w] by (auto simp: EdDiscard discardClicked_def keeps_real keeps_refl split: option.split)
qed (use load_keeps [of w] in \<open>simp_all add: submit_keeps open_keeps keeps_real keeps_refl keeps_on_editor
       save_keeps validate_keeps\<close>)

lemma reach_staged: "desk_reach v fs w \<Longrightarrow> staged_only w"
proof (induction rule: desk_reach.induct)
  case (step w ev)
  then show ?case using step_keeps [of w v ev] by (simp add: keeps_def)
qed (simp add: staged_only_def)

section \<open>Properties\<close>


definition plain_env :: desk_env where
  "plain_env = \<lparr>en_differ = None, en_git = \<lambda>_ _. Inr (True, ''abc1234''), en_check = \<lambda>_. (True, []), en_meta = \<lambda>_ _. None\<rparr>"

definition empty_desk :: desk where
  "empty_desk = \<lparr>dk_files = \<lambda>_. None, dk_editor = None, dk_unsavedNewTargets = {}, dk_upgrade = None,
     dk_notes = [], dk_autoCommit = True\<rparr>"

definition desk_run :: "desk_event list \<Rightarrow> desk \<Rightarrow> desk" where
  "desk_run evs w = foldl (\<lambda>w ev. desk_step plain_env ev w) w evs"

lemma desk_run_reach: "desk_reach plain_env fs w \<Longrightarrow> desk_reach plain_env fs (desk_run evs w)"
  by (induction evs arbitrary: w) (simp_all add: desk_run_def desk_reach.step)

lemma empty_desk_reach: "desk_reach plain_env (\<lambda>_. None) empty_desk"
  unfolding empty_desk_def by (rule desk_reach.start)

definition new_kitchen :: "desk_event list" where
  "new_kitchen = [EdCreate [] ''kitchen'' [] (Inr ''name: kitchen'') ''Created '', EdType ''name: hall'']"

lemma new_kitchen_saved:
  "dk_files (desk_step plain_env EdSave (desk_run new_kitchen empty_desk)) ''kitchen.yaml'' = Some ''name: hall''"
  "dk_files (desk_run new_kitchen empty_desk) ''kitchen.yaml'' = None"
  "\<not> is_staged ''kitchen.yaml''"
  by code_simp+


text \<open>The outcome of any write once the final name is taken.\<close>

definition save_refused :: "editor \<Rightarrow> desk \<Rightarrow> desk" where
  "save_refused e w = notify (NoteErr (''Save failed: '' @ final_name (ed_target e) @ '' already exists'')) w"

lemma write_refused:
  assumes "dk_editor w = Some x" "ed_target x = ed_target e" "is_staged (ed_target e)" "dk_files w (final_name (ed_target e)) \<noteq> None"
  shows "write_buffer ok w = save_refused e w"
  using assms by (simp add: write_buffer_def py_save_def save_refused_def)

text \<open>C18: After the first plain Save of a newly created device the editor still names the staged file,
  so whatever is typed next, Save, Save and Close, Save and Upgrade and Validate all fail with
  ``already exists'' and change nothing: later edits can only be saved by closing and reopening.\<close>

theorem second_save_fails:
  assumes "dk_editor w = Some e" "is_staged (ed_target e)" "dk_files w (final_name (ed_target e)) = None"
  shows "let w2 = type_text d t (handleSave d w) in
      dk_files w2 (final_name (ed_target e)) = Some (ed_value e)
    \<and> handleSave d w2 = save_refused e w2
    \<and> handleSaveAndClose git m w2 = save_refused e w2
    \<and> handleSaveAndUpgrade u w2 = save_refused e w2
    \<and> onValidate d check w2 = save_refused e w2"
proof -
  define w2 where "w2 = type_text d t (handleSave d w)"
  have "length (final_name (ed_target e)) < length (ed_target e)"
    using assms(2) by (cases "ed_target e") (auto simp: final_name_def is_staged_def starts_with_def PENDING_def)
  then have ne: "final_name (ed_target e) \<noteq> ed_target e" by auto
  have f: "dk_files w2 (final_name (ed_target e)) = Some (ed_value e)"
    using assms ne by (simp add: w2_def handleSave_def write_buffer_def py_save_def)
  obtain x where x: "dk_editor w2 = Some x" "ed_target x = ed_target e"
    using assms by (simp add: w2_def handleSave_def write_buffer_def py_save_def type_text_def refresh_dirty_def)
  note refused = write_refused [OF x assms(2)]
  have "handleSave d w2 = save_refused e w2 \<and> handleSaveAndClose git m w2 = save_refused e w2
    \<and> handleSaveAndUpgrade u w2 = save_refused e w2 \<and> onValidate d check w2 = save_refused e w2"
    by (simp add: handleSave_def handleSaveAndClose_def handleSaveAndUpgrade_def onValidate_def refused f)
  with f show ?thesis by (simp add: w2_def Let_def)
qed

definition kitchen_editor :: editor where
  "kitchen_editor = the (dk_editor (desk_run new_kitchen empty_desk))"

lemma kitchen_editor_facts:
  "dk_editor (desk_run new_kitchen empty_desk) = Some kitchen_editor"
  "is_staged (ed_target kitchen_editor)"
  "dk_files (desk_run new_kitchen empty_desk) (final_name (ed_target kitchen_editor)) = None"
  by code_simp+

lemma second_save_witness:
  "let w2 = type_text None ''name: attic'' (handleSave None (desk_run new_kitchen empty_desk)) in
     handleSave None w2 = save_refused kitchen_editor w2"
  using second_save_fails [OF kitchen_editor_facts, of None "''name: attic''"] by (simp add: Let_def)

text \<open>C19: Without Monaco's own diff, Close closes at once, with no question, exactly when the text
  differs from the saved one by the removal of a single block of lines (or not at all): the footer
  counts no changed line then, and the deletion is lost.\<close>

theorem deleted_lines_close_silently:
  assumes "dk_editor w = Some e"
  shows "dk_editor (closeClicked (type_text None t w)) = None
    \<longleftrightarrow> (\<exists>p d s. split_on (CHR 0x0A) (ed_saved e) = p @ d @ s \<and> split_on (CHR 0x0A) t = p @ s)"
proof -
  have "dk_editor (closeClicked (type_text None t w)) = None \<longleftrightarrow> dirty_lines None (ed_saved e) t = 0"
    using assms by (simp add: closeClicked_def type_text_def)
  then show ?thesis by (simp only: dirty_zero_iff)
qed

definition opened_desk :: desk where
  "opened_desk = open_editor ''kitchen.yaml'' (empty_desk\<lparr>dk_files := [''kitchen.yaml'' \<mapsto> ''a'' @ [CHR 0x0A] @ ''b'']\<rparr>)"

lemma opened_desk_editor: "map_option ed_saved (dk_editor opened_desk) = Some (''a'' @ [CHR 0x0A] @ ''b'')"
  by code_simp

lemma deleted_lines_witness: "dk_editor (closeClicked (type_text None ''b'' opened_desk)) = None"
proof -
  obtain e where e: "dk_editor opened_desk = Some e" "ed_saved e = ''a'' @ [CHR 0x0A] @ ''b''"
    using opened_desk_editor by auto
  have "split_on (CHR 0x0A) (ed_saved e) = [] @ [''a''] @ [''b'']" "split_on (CHR 0x0A) ''b'' = [] @ [''b'']"
    unfolding e(2) by code_simp+
  then show ?thesis unfolding deleted_lines_close_silently [OF e(1)] by blast
qed

lemma no_lower_dot:
  assumes "slug_char c \<or> c = CHR ''-''"
  shows "to_lower_char c \<noteq> CHR ''.''"
proof -
  have "\<forall>c \<in> set (CHR ''-'' # ''0123456789''). to_lower_char c \<noteq> CHR ''.''" by code_simp
  moreover have "CHR ''a'' \<le> c \<Longrightarrow> to_lower_char c = c"
    by (auto simp: to_lower_char_def less_eq_char_def Let_def)
  ultimately show ?thesis using assms by (auto simp: slug_char_def is_digit_def less_eq_char_def)
qed

text \<open>A slug the form accepts passes the server's own trimming unchanged.\<close>

lemma slug_once:
  assumes "SLUG_RE s"
  shows "trim s = s" "slug_of s = s" "s \<noteq> []"
proof -
  have c: "c \<in> set s \<Longrightarrow> slug_char c \<or> c = CHR ''-''" for c
    using assms by (auto simp: SLUG_RE_def list_all_iff split: list.splits)
  have ws: "slug_char c \<or> c = CHR ''-'' \<Longrightarrow> \<not> is_ws c" for c
    by (auto simp: slug_char_def is_ws_def is_digit_def)
  show "trim s = s" using c ws by (blast intro: trim_no_ws)
  show "s \<noteq> []" using assms by (auto simp: SLUG_RE_def)
  have "\<not> ends_with (to_lower s) ''.yaml''"
  proof
    assume "ends_with (to_lower s) ''.yaml''"
    then obtain zs where "rev (to_lower s) = ''lmay.'' @ zs"
      by (auto simp: ends_with_def starts_with_prefix prefix_def)
    then have "CHR ''.'' \<in> set (rev (to_lower s))" by (simp only:) simp
    then have "CHR ''.'' \<in> set (to_lower s)" by simp
    then obtain d where d: "d \<in> set s" "to_lower_char d = CHR ''.''" by (auto simp: to_lower_def)
    then show False using c [OF d(1)] no_lower_dot [of d] by auto
  qed
  then show "slug_of s = s" by (simp add: slug_of_def)
qed



end
