(* ===== verification/Editor_Window.thy ===== *)
theory Editor_Window
  imports Editor_Sessions Log_Refs Single_Flight
begin

text \<open>
  The editor window between requests (\<open>components/EditorModal.tsx\<close>). \<open>Editor_Sessions\<close> answers every request at once; here
  the requests for a file's content are in flight for a while, so that typing, saving, closing and opening other files
  can come in between. The buffer of the text editor follows the \<open>value\<close> it is given as the editor component documents:
  a new value replaces the text, the same value leaves it alone. Then the toolbar, the questions the window asks and the
  commit dialog with its keys.
\<close>

section \<open>Loading\<close>

text \<open>
  \<open>bf_inst\<close> counts how often the component was mounted: \<open>App.tsx\<close> mounts it when a file is opened and none was open, and
  keeps the same one when the file changes. \<open>bf_content\<close> is its state, \<open>bf_value\<close> what stands in the text editor. A
  request in flight has its instance, its file and what the server read, \<^const>\<open>None\<close> for a missing file.
\<close>

record buffer =
  bf_open :: "string option"
  bf_inst :: nat
  bf_content :: string
  bf_value :: string
  bf_saved :: string
  bf_fetches :: "(nat \<times> string \<times> string option) list"
  bf_files :: files
  bf_notes :: "desk_note list"

definition no_buffer :: "files \<Rightarrow> buffer" where
  "no_buffer fs = \<lparr>bf_open = None, bf_inst = 0, bf_content = [], bf_value = [], bf_saved = [], bf_fetches = [],
     bf_files = fs, bf_notes = []\<rparr>"

datatype buffer_event =
    OpenIn string | ReloadIn | CloseIn | LoadAnswer nat | TypeIn string | SaveIn | ServerWrites string string

text \<open>The effect on target and reload count sends the request.\<close>

definition fetch_content :: "buffer \<Rightarrow> buffer" where
  "fetch_content b =
    (case bf_open b of
       None \<Rightarrow> b
     | Some f \<Rightarrow> if f = [] then b else b\<lparr>bf_fetches := bf_fetches b @ [(bf_inst b, f, bf_files b f)]\<rparr>)"

text \<open>\<open>.then\<close> writes into the instance that asked, whichever file it shows by then; \<open>.catch\<close> calls the \<open>onClose\<close> of that
  instance, which closes whatever is open.\<close>

definition load_answer :: "nat \<times> string \<times> string option \<Rightarrow> buffer \<Rightarrow> buffer" where
  "load_answer req b =
    (case req of (n, _, got) \<Rightarrow>
       (case got of
          Some c \<Rightarrow>
            (if n = bf_inst b \<and> bf_open b \<noteq> None
             then b\<lparr>bf_content := c, bf_value := (if c = bf_content b then bf_value b else c), bf_saved := c\<rparr>
             else b)
        | None \<Rightarrow> b\<lparr>bf_open := None, bf_notes := bf_notes b @ [NoteErr ''Failed to load file: Target not found'']\<rparr>))"

definition save_buffer :: "buffer \<Rightarrow> buffer" where
  "save_buffer b =
    (case bf_open b of
       None \<Rightarrow> b
     | Some f \<Rightarrow>
        (case py_save f (bf_value b) (bf_files b) of
           Inl err \<Rightarrow> b\<lparr>bf_notes := bf_notes b @ [NoteErr (''Save failed: '' @ err)]\<rparr>
         | Inr (fs, renamedTo) \<Rightarrow>
             b\<lparr>bf_files := fs, bf_saved := bf_value b, bf_notes := bf_notes b @ [NoteOk (''Saved '' @ nullish renamedTo f)]\<rparr>))"

fun buffer_step :: "buffer_event \<Rightarrow> buffer \<Rightarrow> buffer" where
  "buffer_step (OpenIn f) b =
     (if bf_open b = None
      then fetch_content (b\<lparr>bf_open := Some f, bf_inst := Suc (bf_inst b), bf_content := [], bf_value := [], bf_saved := []\<rparr>)
      else if bf_open b = Some f then b
      else fetch_content (b\<lparr>bf_open := Some f\<rparr>))"
| "buffer_step ReloadIn b = fetch_content b"
| "buffer_step CloseIn b = b\<lparr>bf_open := None\<rparr>"
| "buffer_step (LoadAnswer i) b =
     (if i < length (bf_fetches b) then load_answer (bf_fetches b ! i) (b\<lparr>bf_fetches := drop_at i (bf_fetches b)\<rparr>) else b)"
| "buffer_step (TypeIn v) b = (if bf_open b = None then b else b\<lparr>bf_value := v\<rparr>)"
| "buffer_step SaveIn b = save_buffer b"
| "buffer_step (ServerWrites f c) b = b\<lparr>bf_files := (bf_files b)(f \<mapsto> c)\<rparr>"

definition buffer_run :: "buffer_event list \<Rightarrow> buffer \<Rightarrow> buffer" where
  "buffer_run es b = fold buffer_step es b"

section \<open>Answered at once\<close>

text \<open>A session in which every file is loaded before anything else happens, as events of both models.\<close>

datatype calm_event = CalmOpen string | CalmType string | CalmSave | CalmClose

definition calm_buffer :: "calm_event \<Rightarrow> buffer \<Rightarrow> buffer" where
  "calm_buffer e b =
    (case e of
       CalmOpen f \<Rightarrow> if bf_open b = None \<and> f \<noteq> [] then buffer_run [OpenIn f, LoadAnswer 0] b else b
     | CalmType v \<Rightarrow> buffer_step (TypeIn v) b
     | CalmSave \<Rightarrow> buffer_step SaveIn b
     | CalmClose \<Rightarrow> buffer_step CloseIn b)"

definition calm_desk :: "differ \<Rightarrow> calm_event \<Rightarrow> desk \<Rightarrow> desk" where
  "calm_desk differ e w =
    (case e of
       CalmOpen f \<Rightarrow> if dk_editor w = None \<and> f \<noteq> [] then open_editor f w else w
     | CalmType v \<Rightarrow> type_text differ v w
     | CalmSave \<Rightarrow> handleSave differ w
     | CalmClose \<Rightarrow> close_editor w)"

definition shows_same :: "buffer \<Rightarrow> desk \<Rightarrow> bool" where
  "shows_same b w \<longleftrightarrow>
    bf_files b = dk_files w \<and> bf_open b = map_option ed_target (dk_editor w) \<and> bf_notes b = dk_notes w \<and> bf_fetches b = []
    \<and> dk_unsavedNewTargets w = {}
    \<and> (\<forall>e. dk_editor w = Some e \<longrightarrow> bf_value b = ed_value e \<and> bf_saved b = ed_saved e)"

lemma shows_same_step: "shows_same b w \<Longrightarrow> shows_same (calm_buffer e b) (calm_desk differ e w)"
proof (cases e)
  case (CalmOpen f)
  assume same: "shows_same b w"
  show ?thesis
  proof (cases "dk_editor w = None \<and> f \<noteq> []")
    case True
    with same CalmOpen show ?thesis
      by (cases "dk_files w f")
        (auto simp: shows_same_def calm_buffer_def calm_desk_def buffer_run_def fetch_content_def load_answer_def drop_at_def
          open_editor_def load_content_def close_editor_def notify_def on_editor_def)
  next
    case False
    with same CalmOpen show ?thesis by (auto simp: shows_same_def calm_buffer_def calm_desk_def)
  qed
next
  case (CalmType v)
  assume "shows_same b w"
  then show ?thesis using CalmType
    by (auto simp: shows_same_def calm_buffer_def calm_desk_def type_text_def on_editor_def)
next
  case CalmSave
  assume "shows_same b w"
  then show ?thesis using CalmSave
    by (cases "dk_editor w")
      (auto simp: shows_same_def calm_buffer_def calm_desk_def save_buffer_def handleSave_def write_buffer_def on_editor_def
        onSaved_def notify_def refresh_dirty_def split: sum.splits)
next
  case CalmClose
  assume "shows_same b w"
  then show ?thesis using CalmClose
    by (auto simp: shows_same_def calm_buffer_def calm_desk_def close_editor_def split: option.splits)
qed

lemma calm_run: "shows_same b w \<Longrightarrow> shows_same (fold calm_buffer es b) (fold (calm_desk differ) es w)"
  by (induction es arbitrary: b w) (simp_all add: shows_same_step)

section \<open>Properties\<close>


text \<open>Save is offered before the file has arrived, and then writes the empty text the window was mounted with: the file
  is emptied.\<close>
theorem save_before_load_empties:
  assumes "bf_open b = None" "f \<noteq> []" "\<not> is_staged f"
  shows "bf_files (buffer_run [OpenIn f, SaveIn] b) f = Some []"
  using assms by (simp add: buffer_run_def fetch_content_def save_buffer_def py_save_def)

text \<open>When another file is opened from the log that lies over the editor, the answer for the first may come last: its
  text replaces the second file's, and saving writes it there.\<close>
theorem late_answer_saved_elsewhere:
  assumes "bf_open b = None" "bf_fetches b = []" "f \<noteq> []" "g \<noteq> []" "f \<noteq> g" "\<not> is_staged g"
    "bf_files b f = Some c" "bf_files b g = Some d"
  shows "bf_files (buffer_run [OpenIn f, OpenIn g, LoadAnswer 1, LoadAnswer 0, SaveIn] b) g = Some c"
  using assms
  by (simp add: buffer_run_def fetch_content_def load_answer_def save_buffer_def py_save_def drop_at_def)

text \<open>A request that fails late closes the editor of another file: what was typed there is gone without the question.\<close>
theorem late_failure_closes_other:
  assumes "bf_open b = None" "bf_fetches b = []" "f \<noteq> []" "g \<noteq> []" "bf_files b f = None" "bf_files b g = Some d"
  shows "let b' = buffer_run [OpenIn f, CloseIn, OpenIn g, LoadAnswer 1, TypeIn v, LoadAnswer 0] b
         in bf_open b' = None \<and> bf_files b' g = Some d"
  using assms by (simp add: buffer_run_def fetch_content_def load_answer_def drop_at_def)

text \<open>A reload that brings the text of the last load leaves what was typed since in place, though it counts as saved.\<close>
theorem reload_keeps_typing:
  assumes "bf_open b = Some f" "bf_fetches b = []" "f \<noteq> []" "bf_files b f = Some (bf_content b)"
  shows "let b' = buffer_run [TypeIn v, ReloadIn, LoadAnswer 0] b in bf_value b' = v \<and> bf_saved b' = bf_content b"
  using assms by (simp add: buffer_run_def fetch_content_def load_answer_def drop_at_def)

section \<open>The toolbar\<close>

record window_props =
  wp_onCompile :: bool
  wp_onOpenHistory :: bool
  wp_onViewRendered :: bool
  wp_onValidate :: bool

record tool_button =
  tb_text :: string
  tb_tooltip :: string
  tb_off :: bool

definition shown_name :: "string \<Rightarrow> string" where
  "shown_name f = (if is_staged f then final_name f else f)"

definition autoCommit_of :: "bool option option \<Rightarrow> bool" where
  "autoCommit_of setting = nullish (case setting of None \<Rightarrow> None | Some b \<Rightarrow> b) True"

definition editor_toolbar :: "window_props \<Rightarrow> bool \<Rightarrow> bool \<Rightarrow> bool \<Rightarrow> string \<Rightarrow> tool_button list" where
  "editor_toolbar p autoCommit versioningEnabled validating f =
    (let but = (\<lambda>t tip. \<lparr>tb_text = t, tb_tooltip = tip, tb_off = False\<rparr>); secrets = (f = ''secrets.yaml'') in
     [but ''Save'' ''Write to disk without a git commit. The modal stays open.'',
      but ''Save & Close''
        (if autoCommit then ''Save, commit (auto-message), then close.''
         else ''Save, prompt for a commit message, commit, then close.'')]
     @ (if wp_onCompile p \<and> f \<noteq> [] \<and> \<not> secrets
        then [but ''Save & Upgrade'' ''Save and trigger firmware compile + OTA''] else [])
     @ (if wp_onOpenHistory p \<and> versioningEnabled \<and> f \<noteq> [] \<and> \<not> is_staged f
        then [but ''History'' ''View version history + diff for this file''] else [])
     @ (if wp_onViewRendered p \<and> f \<noteq> [] \<and> \<not> secrets \<and> \<not> is_staged f
        then [but ''View rendered'' ''Show the YAML as ESPHome will compile it (substitutions / packages / !secret resolved)'']
        else [])
     @ (if wp_onValidate p \<and> f \<noteq> [] \<and> \<not> secrets
        then [\<lparr>tb_text = (if validating then ''Validating'' @ ellipsis else ''Validate''),
               tb_tooltip = ''Save and validate config via esphome config (2-5s)'', tb_off = validating\<rparr>]
        else []))"

text \<open>The footer and the question asked before changes are thrown away.\<close>

definition changed_note :: "nat \<Rightarrow> (bool \<times> string) option \<Rightarrow> string option" where
  "changed_note n validateResult =
    (if 0 < n \<and> validateResult = None then Some (show_nat n @ '' line'' @ plural n @ '' changed'') else None)"

definition close_question :: "nat \<Rightarrow> string" where
  "close_question n = ''You have '' @ show_nat n @ '' unsaved line'' @ plural n @ ''. Close without saving?''"

text \<open>What the panel below the editor says of a validation.\<close>

definition validation_panel :: "(bool \<times> string) option \<Rightarrow> (string \<times> string) option" where
  "validation_panel r =
    map_option (\<lambda>(ok, output). (if ok then ''Validation passed'' else ''Validation failed'', output)) r"

section \<open>The commit dialog\<close>

text \<open>A confirmed dialog starts the save of its kind with its message.\<close>

record commit_box =
  co_kind :: "commit_kind option"
  co_msg :: string
  co_busy :: bool

datatype commit_box_event =
  BoxOpens commit_kind | BoxTypes string | BoxEnter | BoxEscape | BoxCancel | BoxConfirm | BoxDismiss | BoxSettled

definition confirm_box :: "commit_box \<Rightarrow> commit_box \<times> (commit_kind \<times> string) option" where
  "confirm_box b =
    (case co_kind b of None \<Rightarrow> (b, None) | Some k \<Rightarrow> (b\<lparr>co_busy := True\<rparr>, Some (k, co_msg b)))"

text \<open>The box is modal: it opens from the toolbar only while it is closed. \<open>BoxSettled\<close> is the \<open>finally\<close>.\<close>

fun commit_box_step :: "commit_box_event \<Rightarrow> commit_box \<Rightarrow> commit_box \<times> (commit_kind \<times> string) option" where
  "commit_box_step (BoxOpens k) b = ((if co_kind b = None then b\<lparr>co_kind := Some k, co_msg := []\<rparr> else b), None)"
| "commit_box_step (BoxTypes m) b = ((if co_kind b = None \<or> co_busy b then b else b\<lparr>co_msg := m\<rparr>), None)"
| "commit_box_step BoxEnter b = (if co_busy b then (b, None) else confirm_box b)"
| "commit_box_step BoxEscape b = ((if co_busy b then b else b\<lparr>co_kind := None\<rparr>), None)"
| "commit_box_step BoxCancel b = ((if co_busy b then b else b\<lparr>co_kind := None\<rparr>), None)"
| "commit_box_step BoxConfirm b = (if co_busy b then (b, None) else confirm_box b)"
| "commit_box_step BoxDismiss b = ((if co_busy b then b else b\<lparr>co_kind := None\<rparr>), None)"
| "commit_box_step BoxSettled b = (b\<lparr>co_busy := False, co_kind := None\<rparr>, None)"

record commit_box_view =
  cv_heading :: string
  cv_text :: string
  cv_placeholder :: string
  cv_confirm :: string
  cv_enabled :: bool

definition commit_box_view_of :: "string \<Rightarrow> commit_box \<Rightarrow> commit_box_view option" where
  "commit_box_view_of f b =
    map_option (\<lambda>k.
      \<lparr>cv_heading = (if k = KindSaveUpgrade then ''Commit message for save & upgrade'' else ''Commit message for save & close''),
       cv_text = (if k = KindSaveClose then ''Save, commit, and close. Leave blank to use the default message.''
                  else ''This save will create a git commit. Leave blank to use the default message.''),
       cv_placeholder = ''save: '' @ shown_name f,
       cv_confirm = (if co_busy b then ''Saving'' @ ellipsis
                     else if k = KindSaveUpgrade then ''Save, commit & upgrade'' else ''Save, commit & close''),
       cv_enabled = (\<not> co_busy b)\<rparr>) (co_kind b)"

definition box_settles :: "commit_box_event \<Rightarrow> bool" where
  "box_settles e \<longleftrightarrow> e = BoxSettled"

interpretation box_flight: single_flight "\<lambda>e b. fst (commit_box_step e b)" "\<lambda>e b. snd (commit_box_step e b) \<noteq> None" co_busy box_settles
proof
  fix e b
  show "snd (commit_box_step e b) \<noteq> None \<Longrightarrow> co_busy (fst (commit_box_step e b))"
    by (cases e) (auto simp: confirm_box_def split: option.splits if_splits)
  show "snd (commit_box_step e b) \<noteq> None \<Longrightarrow> \<not> co_busy b \<and> \<not> box_settles e"
    by (cases e) (auto simp: confirm_box_def box_settles_def split: option.splits if_splits)
  show "co_busy b \<Longrightarrow> \<not> box_settles e \<Longrightarrow> co_busy (fst (commit_box_step e b))"
    by (cases e) (auto simp: confirm_box_def box_settles_def)
qed

text \<open>However often Enter is pressed or the button clicked, an open commit dialog starts one save until it has settled,
  and while one runs it cannot be dismissed.\<close>
theorem commit_dialog_saves_once:
  "sends_in (\<lambda>e b. fst (commit_box_step e b)) (\<lambda>e b. snd (commit_box_step e b) \<noteq> None) es
     \<lparr>co_kind = k, co_msg = m, co_busy = False\<rparr> \<le> 1 + length (filter box_settles es)
   \<and> (co_busy b \<longrightarrow> co_kind b \<noteq> None \<longrightarrow> e \<noteq> BoxSettled \<longrightarrow> co_kind (fst (commit_box_step e b)) = co_kind b)"
  using box_flight.sends_bounded [of es "\<lparr>co_kind = k, co_msg = m, co_busy = False\<rparr>"]
  by (cases e) (auto simp: confirm_box_def split: option.splits)

text \<open>The toolbar never offers to compile, render or validate the secrets file, nor to show the history or the rendered
  form of a file that is not saved yet.\<close>
theorem toolbar_offers:
  "let texts = map tb_text (editor_toolbar p ac ve va f) in
   (f = ''secrets.yaml'' \<longrightarrow> set texts \<subseteq> {''Save'', ''Save & Close'', ''History''})
   \<and> (is_staged f \<longrightarrow> ''History'' \<notin> set texts \<and> ''View rendered'' \<notin> set texts)"
  by (auto simp: editor_toolbar_def Let_def ellipsis_def)

end
