(* ===== verification/Settings_Form.thy ===== *)
theory Settings_Form
  imports Settings_Drawer
begin

text \<open>
  What the settings drawer draws (\<open>components/SettingsDrawer.tsx\<close>, \<open>components/AccentColorPicker.tsx\<close>): its two tabs
  with the rows of each, the control of every row with the value it is given and the patch a change of it makes, the
  token row with its two buttons, and the question about uncommitted files. Saving, drafts and bounds are those of
  \<open>Settings_Drawer\<close>; help texts are left out.
\<close>

section \<open>Rows\<close>

text \<open>A text control is masked or not and may bound its length; a choice has the value and label of each option, an accent
  the label of each colour and whether it is the chosen one.\<close>

datatype row_control =
    SwitchControl bool
  | TextControl bool "nat option" string
  | NumberControl numeric_row "rat option"
  | ChoiceControl "(string \<times> string) list" string
  | AccentControl "(string \<times> string \<times> bool) list"

record form_row =
  fr_key :: string
  fr_label :: string
  fr_control :: row_control
  fr_dimmed :: bool

definition text_value :: "drawer \<Rightarrow> string \<Rightarrow> string" where
  "text_value d key = (case setting d key of Some (JStr s) \<Rightarrow> s | _ \<Rightarrow> [])"

definition bool_row :: "drawer \<Rightarrow> string \<Rightarrow> string \<Rightarrow> form_row" where
  "bool_row d key label = \<lparr>fr_key = key, fr_label = label, fr_control = SwitchControl (bool_value d key), fr_dimmed = False\<rparr>"

definition string_row :: "drawer \<Rightarrow> string \<times> string \<times> nat \<Rightarrow> form_row" where
  "string_row d = (\<lambda>(key, label, maxLength).
    \<lparr>fr_key = key, fr_label = label, fr_control = TextControl False (Some maxLength) (text_value d key), fr_dimmed = False\<rparr>)"

definition secret_row :: "drawer \<Rightarrow> string \<Rightarrow> string \<Rightarrow> bool \<Rightarrow> form_row" where
  "secret_row d key label revealed =
    \<lparr>fr_key = key, fr_label = label, fr_control = TextControl (\<not> revealed) None (text_value d key), fr_dimmed = False\<rparr>"

definition number_row :: "drawer \<Rightarrow> numeric_row \<Rightarrow> form_row" where
  "number_row d r =
    \<lparr>fr_key = nr_key r, fr_label = nr_label r, fr_control = NumberControl r (numeric_value d r), fr_dimmed = False\<rparr>"

definition enum_row :: "drawer \<Rightarrow> string \<Rightarrow> string \<Rightarrow> (string \<times> string) list \<Rightarrow> form_row" where
  "enum_row d key label options =
    \<lparr>fr_key = key, fr_label = label, fr_control = ChoiceControl options (text_value d key), fr_dimmed = False\<rparr>"

definition accent_row :: "drawer \<Rightarrow> form_row" where
  "accent_row d =
    \<lparr>fr_key = ''accent_color'', fr_label = ''Accent colour'',
     fr_control = AccentControl (map (\<lambda>(i, label). (i, label, i = accent_value d)) ACCENT_COLORS), fr_dimmed = False\<rparr>"

definition time_options :: "(string \<times> string) list" where
  "time_options =
    [(''auto'', ''Auto (follow browser locale)''), (''24h'', ''24-hour (13:45:09)''), (''12h'', ''12-hour (1:45:09 PM)'')]"

definition date_options :: "(string \<times> string) list" where
  "date_options =
    [(''auto'', ''Auto (follow browser locale)''), (''iso'', ''ISO (2026-04-27)''), (''us'', ''US (4/27/2026)''),
     (''eu'', ''EU (27/04/2026)''), (''long'', ''Long (Apr 27, 2026)'')]"

definition language_options :: "(string \<times> string) list" where
  "language_options = [(''auto'', ''Auto (follow browser locale)''), (''en'', ''English''), (''de'', ''Deutsch'')]"

definition font_options :: "(string \<times> string) list" where
  "font_options = [(''small'', ''Small''), (''normal'', ''Normal''), (''large'', ''Large'')]"

section \<open>The drawer\<close>

type_synonym form_section = "string \<times> form_row list"

definition versioning_section :: "drawer \<Rightarrow> form_section" where
  "versioning_section d =
    (''Config versioning'',
     bool_row d ''versioning_enabled'' ''Enable versioning''
     # map (\<lambda>r. r\<lparr>fr_dimmed := sub_settings_dimmed d\<rparr>)
         (bool_row d ''auto_commit_on_save'' ''Auto-commit on save'' # map (string_row d) string_rows))"

definition auth_section :: "drawer \<Rightarrow> bool \<Rightarrow> form_section" where
  "auth_section d revealed =
    (''Authentication'',
     [secret_row d ''server_token'' ''Server token'' revealed,
      bool_row d ''require_ha_auth'' ''Require Home Assistant auth on direct port''])"

definition display_section :: "drawer \<Rightarrow> form_section" where
  "display_section d =
    (''Display'',
     [enum_row d ''time_format'' ''Time format'' time_options,
      enum_row d ''date_format'' ''Date format'' date_options,
      enum_row d ''language'' ''Language'' language_options,
      enum_row d ''font_size'' ''Font size'' font_options,
      accent_row d])"

definition number_section :: "drawer \<Rightarrow> string \<Rightarrow> string list \<Rightarrow> form_section" where
  "number_section d title keys = (title, map (number_row d) (filter (\<lambda>r. nr_key r \<in> set keys) numeric_rows))"

definition advanced_sections :: "drawer \<Rightarrow> form_section list" where
  "advanced_sections d =
    [number_section d ''Job history'' [''job_history_retention_days''],
     number_section d ''Disk management''
       [''firmware_cache_max_gb'', ''firmware_retention_days'', ''job_log_retention_days'', ''default_worker_disk_quota_bytes''],
     number_section d ''Timeouts'' [''job_timeout'', ''ota_timeout'', ''worker_offline_threshold''],
     number_section d ''Polling'' [''device_poll_interval'']]"

definition basic_sections :: "drawer \<Rightarrow> bool \<Rightarrow> form_section list" where
  "basic_sections d revealed = [versioning_section d, auth_section d revealed, display_section d]"

text \<open>The body: the error, the loading note, and once there are settings the tabs with the sections of the chosen one;
  diagnostics are offered when the shell passes a handler.\<close>

record drawer_view =
  dv_error :: "string option"
  dv_loading :: bool
  dv_tabs :: "(string \<times> bool) list"
  dv_sections :: "form_section list"
  dv_diagnostics :: bool

definition drawer_view_of :: "string option \<Rightarrow> bool \<Rightarrow> bool \<Rightarrow> bool \<Rightarrow> drawer \<Rightarrow> drawer_view" where
  "drawer_view_of err isLoading diagnostics revealed d =
    \<lparr>dv_error = map_option (\<lambda>m. ''Failed to load settings: '' @ m) err, dv_loading = isLoading,
     dv_tabs = (if sd_data d = None then [] else [(''Basic'', \<not> sd_advanced d), (''Advanced'', sd_advanced d)]),
     dv_sections = (if sd_data d = None then [] else if sd_advanced d then advanced_sections d else basic_sections d revealed),
     dv_diagnostics = (sd_data d \<noteq> None \<and> sd_advanced d \<and> diagnostics)\<rparr>"

definition pick_tab :: "bool \<Rightarrow> drawer \<Rightarrow> drawer" where
  "pick_tab advanced d = d\<lparr>sd_advanced := advanced\<rparr>"

text \<open>What a control hands to \<open>patch\<close> when it is changed to a value it offers.\<close>

fun control_patch :: "string \<Rightarrow> row_control \<Rightarrow> json \<Rightarrow> (string \<times> json) list option" where
  "control_patch key (SwitchControl _) (JBool b) = Some (bool_patch key b)"
| "control_patch key (TextControl _ _ v) (JStr s) = (if s = v then None else Some [(key, JStr s)])"
| "control_patch key (NumberControl r v) (JNum q) = (if v = Some q then None else Some (numeric_patch r q))"
| "control_patch key (ChoiceControl opts v) (JStr s) = map_option (\<lambda>x. [(key, JStr x)]) (enum_choice v s)"
| "control_patch key (AccentControl opts) (JStr s) =
     (if list_ex (\<lambda>(i, _, selected). i = s \<and> selected) opts then None else Some [(key, JStr s)])"
| "control_patch _ _ _ = None"

text \<open>The values a switch or a choice offers.\<close>

fun control_offers :: "row_control \<Rightarrow> json list" where
  "control_offers (SwitchControl b) = [JBool (\<not> b)]"
| "control_offers (ChoiceControl opts _) = map (JStr \<circ> fst) opts"
| "control_offers (AccentControl opts) = map (JStr \<circ> fst) opts"
| "control_offers _ = []"

section \<open>The token row\<close>

record token_row =
  tk_row :: "string draft_row"
  tk_revealed :: bool

datatype token_event = TokenRow "string row_event" | TokenEnter | TokenReveal

fun token_step :: "string \<Rightarrow> token_event \<Rightarrow> token_row \<Rightarrow> token_row \<times> string row_out option" where
  "token_step label (TokenRow e) t =
     (case row_step id (secret_check label) e (tk_row t) of (r, out) \<Rightarrow> (t\<lparr>tk_row := r\<rparr>, out))"
| "token_step label TokenEnter t =
     (case row_step id (secret_check label) RowBlur (tk_row t) of (r, out) \<Rightarrow> (t\<lparr>tk_row := r\<rparr>, out))"
| "token_step label TokenReveal t = (t\<lparr>tk_revealed := \<not> tk_revealed t\<rparr>, None)"

definition mount_token :: "string \<Rightarrow> token_row" where
  "mount_token v = \<lparr>tk_row = mount_row id v, tk_revealed = False\<rparr>"

text \<open>What the field shows and the labels of its buttons.\<close>

definition token_view :: "token_row \<Rightarrow> string \<times> string \<times> string" where
  "token_view t =
    (if tk_revealed t then ''text'' else ''password'', row_draft (tk_row t), if tk_revealed t then ''Hide token'' else ''Show token'')"

text \<open>The copy button: what the clipboard is given, and the toast.\<close>

definition copy_token :: "bool \<Rightarrow> token_row \<Rightarrow> string option \<times> toast" where
  "copy_token clipboard_ok t =
    (if clipboard_ok then (Some (row_value (tk_row t)), Toast SuccessToast ''Token copied'')
     else (None, Toast ErrToast ''Clipboard copy failed''))"

section \<open>The question\<close>

record turn_on_view =
  tv_heading :: string
  tv_text :: string
  tv_files :: "string list"
  tv_more :: "string option"
  tv_buttons :: "(string \<times> bool) list"

definition turn_on_view_of :: "string list \<Rightarrow> drawer \<Rightarrow> turn_on_view option" where
  "turn_on_view_of dirty d =
    (if \<not> sd_turnOnOpen d then None
     else Some
       \<lparr>tv_heading = ''Turn on auto-commit?'',
        tv_text = ''You have uncommitted changes to '' @ show_nat (length dirty) @ '' file'' @ plural (length dirty)
          @ ''. From now on every save will auto-commit '' @ em_dash @ '' but those existing edits won'' @ [CHR 39]
          @ ''t be committed automatically until you touch each file again.'',
        tv_files = fst (turn_on_listing dirty),
        tv_more = map_option (\<lambda>n. ellipsis @ ''and '' @ show_nat n @ '' more'') (snd (turn_on_listing dirty)),
        tv_buttons = [(''Cancel'', \<not> sd_turnOnBusy d), (''Turn on anyway'', \<not> sd_turnOnBusy d),
          (''Commit '' @ show_nat (length dirty) @ '' and turn on'', \<not> sd_turnOnBusy d)]\<rparr>)"

section \<open>Properties\<close>

definition all_rows_of :: "drawer \<Rightarrow> bool \<Rightarrow> form_row list" where
  "all_rows_of d revealed = concat (map snd (basic_sections d revealed @ advanced_sections d))"

lemma row_keys:
  "map fr_key (all_rows_of d revealed) =
     [''versioning_enabled'', ''auto_commit_on_save'', ''git_author_name'', ''git_author_email'', ''server_token'', ''require_ha_auth'',
      ''time_format'', ''date_format'', ''language'', ''font_size'', ''accent_color'', ''job_history_retention_days'',
      ''firmware_cache_max_gb'', ''firmware_retention_days'', ''job_log_retention_days'', ''default_worker_disk_quota_bytes'',
      ''job_timeout'', ''ota_timeout'', ''worker_offline_threshold'', ''device_poll_interval'']"
  by (simp add: all_rows_of_def basic_sections_def advanced_sections_def versioning_section_def auth_section_def
      display_section_def number_section_def bool_row_def string_row_def secret_row_def number_row_def enum_row_def
      accent_row_def string_rows_def numeric_rows_def int_row_def)

text \<open>Every setting the server validates has exactly one row in one of the tabs, but for the switch of native polling,
  which has none; and no row is for a setting the server does not know.\<close>
theorem rows_cover_settings:
  "distinct (map fr_key (all_rows_of d revealed))
   \<and> set (map fr_key (all_rows_of d revealed)) = set (map fst py_VALIDATORS) - {''device_native_api_poll''}"
  unfolding row_keys by (auto simp: py_VALIDATORS_def)

text \<open>A row whose offers the server stores as they are sent.\<close>

definition stores :: "string \<Rightarrow> (string \<times> json) list option \<Rightarrow> bool" where
  "stores key p = (case p of None \<Rightarrow> True | Some xs \<Rightarrow> (case xs of [(k, w)] \<Rightarrow> k = key \<and> py_setting k w = Some w | _ \<Rightarrow> False))"

definition sound_row :: "form_row \<Rightarrow> bool" where
  "sound_row r = list_all (\<lambda>v. stores (fr_key r) (control_patch (fr_key r) (fr_control r) v)) (control_offers (fr_control r))"

lemma switch_stored:
  "py_setting ''auto_commit_on_save'' (JBool b) = Some (JBool b)" "py_setting ''require_ha_auth'' (JBool b) = Some (JBool b)"
  "py_setting ''versioning_enabled'' (JStr ''on'') = Some (JStr ''on'')"
  "py_setting ''versioning_enabled'' (JStr ''off'') = Some (JStr ''off'')"
  by (simp_all add: py_setting_def py_VALIDATORS_def)

lemma sound_switches:
  "sound_row (bool_row d ''versioning_enabled'' label)" "sound_row (bool_row d ''auto_commit_on_save'' label)"
  "sound_row (bool_row d ''require_ha_auth'' label)"
  by (simp_all add: sound_row_def bool_row_def stores_def bool_patch_def switch_stored)

lemma sound_enum:
  "list_all (\<lambda>x. py_setting key (JStr (fst x)) = Some (JStr (fst x))) opts \<Longrightarrow> sound_row (enum_row d key label opts)"
  by (simp add: sound_row_def enum_row_def stores_def enum_choice_def list_all_iff)

lemma options_stored:
  "list_all (\<lambda>x. py_setting ''time_format'' (JStr (fst x)) = Some (JStr (fst x))) time_options"
  "list_all (\<lambda>x. py_setting ''date_format'' (JStr (fst x)) = Some (JStr (fst x))) date_options"
  "list_all (\<lambda>x. py_setting ''language'' (JStr (fst x)) = Some (JStr (fst x))) language_options"
  "list_all (\<lambda>x. py_setting ''font_size'' (JStr (fst x)) = Some (JStr (fst x))) font_options"
  "list_all (\<lambda>x. py_setting ''accent_color'' (JStr (fst x)) = Some (JStr (fst x))) ACCENT_COLORS"
  by (simp_all add: py_setting_def py_VALIDATORS_def time_options_def date_options_def language_options_def font_options_def
      ACCENT_COLORS_def)

lemmas sound_enums = options_stored(1-4) [THEN sound_enum]

lemma sound_accent: "sound_row (accent_row d)"
  using options_stored(5) by (auto simp: sound_row_def accent_row_def stores_def list_all_iff)

lemma sound_others:
  "sound_row (string_row d s)" "sound_row (secret_row d key label revealed)" "sound_row (number_row d n)"
  "sound_row (r\<lparr>fr_dimmed := b\<rparr>) = sound_row r"
  by (simp_all add: sound_row_def string_row_def secret_row_def number_row_def split: prod.split)

text \<open>Whatever a switch, a choice or a colour offers, the patch it makes sets that row's setting alone, and the server
  stores the value as it is sent.\<close>
theorem offered_values_accepted: "list_all sound_row (all_rows_of d revealed)"
  by (auto simp: all_rows_of_def basic_sections_def advanced_sections_def versioning_section_def auth_section_def
      display_section_def number_section_def sound_switches sound_enums sound_accent sound_others list_all_iff)

fun token_run :: "string \<Rightarrow> token_event list \<Rightarrow> token_row \<Rightarrow> token_row" where
  "token_run label [] t = t"
| "token_run label (e # es) t = token_run label es (fst (token_step label e t))"

definition changes_token :: "token_event \<Rightarrow> bool" where
  "changes_token e \<longleftrightarrow> (case e of TokenRow (RowValue _) \<Rightarrow> True | _ \<Rightarrow> False)"

text \<open>Copying gives the token that is stored, not what is being typed; showing it sends nothing and leaves the text.\<close>
theorem copies_stored_token:
  "list_all (\<lambda>e. \<not> changes_token e) es \<Longrightarrow>
     fst (copy_token True (token_run label es (mount_token v))) = Some v
     \<and> token_step label TokenReveal t = (t\<lparr>tk_revealed := \<not> tk_revealed t\<rparr>, None)"
proof -
  have "row_value (tk_row (fst (token_step label e t))) = row_value (tk_row t)" if "\<not> changes_token e" for e and t :: token_row
    using that by (cases "(label, e, t)" rule: token_step.cases)
      (auto simp: changes_token_def row_commit_def row_effect_def Let_def split: row_event.splits sum.splits if_splits prod.splits)
  then have "list_all (\<lambda>e. \<not> changes_token e) es \<Longrightarrow> row_value (tk_row (token_run label es t)) = row_value (tk_row t)" for t
    by (induction es arbitrary: t) auto
  then show "list_all (\<lambda>e. \<not> changes_token e) es \<Longrightarrow> ?thesis"
    by (simp add: copy_token_def mount_token_def mount_row_def)
qed

end
