(* ===== verification/New_Device.thy ===== *)
theory New_Device
  imports Editor_Sessions
begin

text \<open>
  The dialog that creates or duplicates a device (\<open>components/NewDeviceModal.tsx\<close>) with its mount in \<open>App.tsx\<close>: the
  proposed name, the fields, and requests that settle after the dialog may have been dismissed and opened again. A
  mounted dialog has a number, so that a request's continuation reaches only the dialog that sent it. Validation of
  names and what the server does with a request are those of \<open>Editor_Sessions\<close>.
\<close>

section \<open>The form\<close>

datatype form_mode = CreateNew | DuplicateOf "string option"

record device_form =
  df_id :: nat
  df_mode :: form_mode
  df_name :: string
  df_tags :: string
  df_saving :: bool

definition defaultName :: "form_mode \<Rightarrow> string" where
  "defaultName m =
    (case m of
       CreateNew \<Rightarrow> []
     | DuplicateOf source \<Rightarrow> if truthy_str source then stripYaml source @ ''-copy'' else [])"

definition form_title :: "form_mode \<Rightarrow> string" where
  "form_title m = (case m of CreateNew \<Rightarrow> ''New Device'' | DuplicateOf source \<Rightarrow> ''Duplicate '' @ stripYaml (Some (nullish source [])))"

definition submit_label :: "device_form \<Rightarrow> string" where
  "submit_label f =
    (if df_saving f then ''Creating'' @ [CHR 0xE2, CHR 0x80, CHR 0xA6]
     else case df_mode f of CreateNew \<Rightarrow> ''Create'' | DuplicateOf _ \<Rightarrow> ''Duplicate'')"

text \<open>A request with what its continuation has closed over.\<close>

record create_request =
  cr_form :: nat
  cr_mode :: form_mode
  cr_slug :: string
  cr_source :: "string option"
  cr_tags :: "string list"

definition create_request_of :: "device_form \<Rightarrow> create_request" where
  "create_request_of f =
    \<lparr>cr_form = df_id f, cr_mode = df_mode f, cr_slug = slug_of (trim (df_name f)),
     cr_source = (case df_mode f of CreateNew \<Rightarrow> None | DuplicateOf source \<Rightarrow> source), cr_tags = cleanedTags (df_tags f)\<rparr>"

definition created_note :: "form_mode \<Rightarrow> string \<Rightarrow> desk_note" where
  "created_note m target =
    (case m of
       CreateNew \<Rightarrow> NoteOk (''Created '' @ display_of target)
     | DuplicateOf source \<Rightarrow> NoteOk (''Duplicated '' @ stripYaml source @ '' '' @ [CHR 0xE2, CHR 0x86, CHR 0x92] @ '' '' @ display_of target))"

section \<open>The page\<close>

record form_page =
  fp_next :: nat
  fp_form :: "device_form option"
  fp_requests :: "create_request list"
  fp_notes :: "desk_note list"
  fp_unsaved :: "string set"
  fp_editor :: "string option"

datatype form_event =
    OpenForm form_mode | TypeFormName string | TypeFormTags string
  | PressSubmit | PressFormCancel | DismissForm
  | CreateSettled nat "string + string" "string option"

definition mount_form :: "nat \<Rightarrow> form_mode \<Rightarrow> device_form" where
  "mount_form i m = \<lparr>df_id = i, df_mode = m, df_name = defaultName m, df_tags = [], df_saving = False\<rparr>"

definition remove_nth :: "nat \<Rightarrow> 'a list \<Rightarrow> 'a list" where
  "remove_nth i xs = take i xs @ drop (Suc i) xs"

text \<open>
  \<open>PressSubmit\<close> is the button or Enter in either field. \<open>CreateSettled i res meta\<close>: the \<open>i\<close>-th open request
  settles; \<open>meta\<close> is what the tag write, if there is one, rejects with.
\<close>

fun form_step :: "string list \<Rightarrow> form_event \<Rightarrow> form_page \<Rightarrow> form_page" where
  "form_step existing (OpenForm m) s =
     s\<lparr>fp_form := Some (mount_form (fp_next s) m), fp_next := Suc (fp_next s)\<rparr>"
| "form_step existing (TypeFormName x) s = s\<lparr>fp_form := map_option (\<lambda>f. f\<lparr>df_name := x\<rparr>) (fp_form s)\<rparr>"
| "form_step existing (TypeFormTags x) s = s\<lparr>fp_form := map_option (\<lambda>f. f\<lparr>df_tags := x\<rparr>) (fp_form s)\<rparr>"
| "form_step existing PressSubmit s =
     (case fp_form s of
        None \<Rightarrow> s
      | Some f \<Rightarrow>
          if canSubmit existing (df_saving f) (df_name f)
          then s\<lparr>fp_form := Some (f\<lparr>df_saving := True\<rparr>), fp_requests := fp_requests s @ [create_request_of f]\<rparr> else s)"
| "form_step existing PressFormCancel s =
     (case fp_form s of None \<Rightarrow> s | Some f \<Rightarrow> if df_saving f then s else s\<lparr>fp_form := None\<rparr>)"
| "form_step existing DismissForm s = s\<lparr>fp_form := None\<rparr>"
| "form_step existing (CreateSettled i res meta) s =
     (if length (fp_requests s) \<le> i then s
      else let r = fp_requests s ! i; s1 = s\<lparr>fp_requests := remove_nth i (fp_requests s)\<rparr> in
        (case res of
           Inl err \<Rightarrow>
             s1\<lparr>fp_notes := fp_notes s1 @ [NoteErr (''Create failed: '' @ err)],
                fp_form := map_option (\<lambda>f. if df_id f = cr_form r then f\<lparr>df_saving := False\<rparr> else f) (fp_form s1)\<rparr>
         | Inr target \<Rightarrow>
             s1\<lparr>fp_notes := fp_notes s1
                  @ (if cr_tags r \<noteq> [] then
                       (case meta of None \<Rightarrow> []
                        | Some err \<Rightarrow> [NoteErr (''Created '' @ display_of target @ '' but tag write failed: '' @ err)])
                     else [])
                  @ [created_note (cr_mode r) target],
                fp_form := None, fp_unsaved := insert target (fp_unsaved s1), fp_editor := Some target\<rparr>))"

text \<open>The existing targets come from the poll, so every event has its own.\<close>

definition form_run :: "(string list \<times> form_event) list \<Rightarrow> form_page \<Rightarrow> form_page" where
  "form_run es s = fold (\<lambda>(existing, e). form_step existing e) es s"

definition fresh_page :: form_page where
  "fresh_page = \<lparr>fp_next = 0, fp_form = None, fp_requests = [], fp_notes = [], fp_unsaved = {}, fp_editor = None\<rparr>"

section \<open>Invariant\<close>

text \<open>Every dialog has at most one request, its number is one already given out, and the mounted dialog is saving
  exactly while its own request is open.\<close>

definition form_inv :: "form_page \<Rightarrow> bool" where
  "form_inv s \<longleftrightarrow>
    distinct (map cr_form (fp_requests s)) \<and> list_all (\<lambda>r. cr_form r < fp_next s \<and> SLUG_RE (cr_slug r)) (fp_requests s)
    \<and> (case fp_form s of None \<Rightarrow> True
       | Some f \<Rightarrow> df_id f < fp_next s \<and> (df_saving f \<longleftrightarrow> df_id f \<in> cr_form ` set (fp_requests s)))"

lemma create_request_of_simps [simp]: "cr_form (create_request_of f) = df_id f" "cr_slug (create_request_of f) = slug_of (trim (df_name f))"
  by (simp_all add: create_request_of_def)

lemma canSubmit_slug: "canSubmit existing saving name \<Longrightarrow> SLUG_RE (slug_of (trim name)) \<and> \<not> saving"
  by (auto simp: canSubmit_def nameError_def validate_name_def Let_def split: if_splits)

lemma map_remove_nth: "map f (remove_nth i xs) = remove_nth i (map f xs)"
  by (simp add: remove_nth_def take_map drop_map)

lemma set_remove_nth:
  assumes "distinct xs" "i < length xs"
  shows "set (remove_nth i xs) = set xs - {xs ! i}" "distinct (remove_nth i xs)"
proof -
  have xs: "xs = take i xs @ xs ! i # drop (Suc i) xs" using assms(2) by (simp add: id_take_nth_drop)
  have d: "distinct (take i xs @ xs ! i # drop (Suc i) xs)" using assms(1) xs by simp
  have "set xs = set (take i xs @ xs ! i # drop (Suc i) xs)" using xs by simp
  then show "set (remove_nth i xs) = set xs - {xs ! i}" "distinct (remove_nth i xs)"
    using d by (auto simp: remove_nth_def)
qed

lemma set_remove_nth_subset: "set (remove_nth i xs) \<subseteq> set xs"
  by (auto simp: remove_nth_def dest: in_set_takeD in_set_dropD)

lemma settle_requests:
  assumes "form_inv s" "i < length (fp_requests s)"
  shows "distinct (map cr_form (remove_nth i (fp_requests s)))"
    "list_all (\<lambda>r. cr_form r < fp_next s \<and> SLUG_RE (cr_slug r)) (remove_nth i (fp_requests s))"
    "cr_form ` set (remove_nth i (fp_requests s)) = cr_form ` set (fp_requests s) - {cr_form (fp_requests s ! i)}"
proof -
  have d: "distinct (map cr_form (fp_requests s))" and l: "i < length (map cr_form (fp_requests s))"
    using assms by (simp_all add: form_inv_def)
  from set_remove_nth [OF d l] assms(2)
  show "distinct (map cr_form (remove_nth i (fp_requests s)))"
    "cr_form ` set (remove_nth i (fp_requests s)) = cr_form ` set (fp_requests s) - {cr_form (fp_requests s ! i)}"
    by (simp_all add: map_remove_nth flip: set_map)
  show "list_all (\<lambda>r. cr_form r < fp_next s \<and> SLUG_RE (cr_slug r)) (remove_nth i (fp_requests s))"
    using assms(1) set_remove_nth_subset [of i "fp_requests s"] by (auto simp: form_inv_def list_all_iff)
qed

lemma form_inv_step: "form_inv s \<Longrightarrow> form_inv (form_step existing e s)"
proof (cases e)
  case (OpenForm m)
  assume "form_inv s"
  then show ?thesis by (force simp: OpenForm form_inv_def mount_form_def list_all_iff)
next
  case PressSubmit
  assume inv: "form_inv s"
  show ?thesis
    using inv by (auto simp: PressSubmit form_inv_def list_all_iff dest!: canSubmit_slug split: option.splits)
next
  case (CreateSettled i res meta)
  assume inv: "form_inv s"
  show ?thesis
  proof (cases "length (fp_requests s) \<le> i")
    case False
    then show ?thesis
      using inv settle_requests [OF inv, of i]
      by (auto simp: CreateSettled form_inv_def Let_def split: sum.splits option.splits)
  qed (simp add: CreateSettled inv)
qed (auto simp: form_inv_def split: option.splits)

lemma form_inv_run: "form_inv s \<Longrightarrow> form_inv (form_run es s)"
  by (induction es arbitrary: s) (auto simp: form_run_def form_inv_step)

text \<open>The name proposed for a duplicate.\<close>

lemma SLUG_chars: "SLUG_RE s \<Longrightarrow> c \<in> set s \<Longrightarrow> slug_char c \<or> c = CHR ''-''"
  by (auto simp: SLUG_RE_def list_all_iff split: list.splits)

lemma SLUG_copy: "SLUG_RE s \<Longrightarrow> SLUG_RE (s @ ''-copy'')"
  by (auto simp: SLUG_RE_def slug_char_def split: list.splits)

lemma trim_copy:
  assumes "c \<in> set s" "\<not> is_ws c"
  shows "trim (s @ ''-copy'') = dropWhile is_ws s @ ''-copy''"
proof -
  have "dropWhile is_ws (s @ ''-copy'') = dropWhile is_ws s @ ''-copy''"
    using assms by (rule dropWhile_append1)
  moreover have "\<not> is_ws CHR ''y''" by code_simp
  ultimately show ?thesis by (simp add: trim_def)
qed

lemma slug_of_copy: "slug_of (s @ ''-copy'') = s @ ''-copy''"
  by (simp add: slug_of_def ends_with_def to_lower_def to_lower_char_def starts_with_def)

lemma kept_by_dropWhile: "c \<in> set s \<Longrightarrow> \<not> P c \<Longrightarrow> c \<in> set (dropWhile P s)"
  by (induction s) auto

section \<open>Properties\<close>

text \<open>C22: However the dialog is opened, filled in, dismissed and opened again, and in whatever order the server answers,
  no dialog sends a second request while its first is open, every open request asks for a well-formed name, and the
  mounted dialog shows that it is saving exactly while its own request is open.\<close>
theorem one_request_per_form:
  "let s = form_run es fresh_page in
     distinct (map cr_form (fp_requests s)) \<and> list_all (\<lambda>r. SLUG_RE (cr_slug r)) (fp_requests s)
     \<and> (case fp_form s of None \<Rightarrow> True | Some f \<Rightarrow> (df_saving f \<longleftrightarrow> df_id f \<in> cr_form ` set (fp_requests s)))"
proof -
  have "form_inv (form_run es fresh_page)"
    by (rule form_inv_run) (simp add: form_inv_def fresh_page_def)
  then show ?thesis by (auto simp: form_inv_def Let_def list_all_iff split: option.splits)
qed

text \<open>Dismissing the dialog while it saves does not take the request back: when the server answers, the editor opens
  on the new file all the same, in place of whatever file was being edited.\<close>
theorem dismissed_create_still_opens:
  assumes "fp_form s = Some f" "canSubmit existing (df_saving f) (df_name f)" "fp_requests s = []"
  shows "let s1 = form_step existing DismissForm (form_step existing PressSubmit s);
             s2 = form_step existing (CreateSettled 0 (Inr target) meta) s1
         in fp_form s1 = None \<and> fp_editor s2 = Some target \<and> target \<in> fp_unsaved s2"
  using assms by (simp add: Let_def)

lemma dismissed_create_witness:
  "let s0 = form_run [([], OpenForm CreateNew), ([], TypeFormName ''lamp'')] fresh_page;
       s1 = form_step [] DismissForm (form_step [] PressSubmit s0);
       s2 = form_step [] (CreateSettled 0 (Inr ''.pending.lamp.yaml'') None) s1
   in fp_form s1 = None \<and> fp_editor s2 = Some ''.pending.lamp.yaml'' \<and> ''.pending.lamp.yaml'' \<in> fp_unsaved s2"
  unfolding Let_def
  by (rule dismissed_create_still_opens [unfolded Let_def, where f = "mount_form 0 CreateNew\<lparr>df_name := ''lamp''\<rparr>"]) code_simp+

text \<open>The name proposed for a duplicate can be submitted as it stands when the source is itself a well-formed slug of at
  most 59 characters and no file has the copy's name; for a source with an underscore, which file names may have, the
  dialog opens on a name that it refuses.\<close>
theorem duplicate_name_offered:
  fixes source :: string
  defines "base \<equiv> stripYaml (Some source)"
  assumes "source \<noteq> []"
  shows "SLUG_RE base \<and> length base \<le> 59 \<and> base @ ''-copy.yaml'' \<notin> set existing
      \<Longrightarrow> canSubmit existing False (defaultName (DuplicateOf (Some source)))"
    "CHR ''_'' \<in> set base \<Longrightarrow> \<not> canSubmit existing False (defaultName (DuplicateOf (Some source)))"
proof -
  have d: "defaultName (DuplicateOf (Some source)) = base @ ''-copy''"
    using assms(2) by (simp add: defaultName_def base_def truthy_str_def)
  show "canSubmit existing False (defaultName (DuplicateOf (Some source)))"
    if "SLUG_RE base \<and> length base \<le> 59 \<and> base @ ''-copy.yaml'' \<notin> set existing"
    using that slug_once [OF SLUG_copy, of base] SLUG_copy [of base]
    by (simp add: d canSubmit_def nameError_def validate_name_def Let_def)
  show "\<not> canSubmit existing False (defaultName (DuplicateOf (Some source)))" if u: "CHR ''_'' \<in> set base"
  proof -
    have w: "\<not> is_ws CHR ''_''" "\<not> slug_char CHR ''_''" by code_simp+
    have t: "trim (base @ ''-copy'') = dropWhile is_ws base @ ''-copy''" using u w(1) by (rule trim_copy)
    have "\<not> SLUG_RE (dropWhile is_ws base @ ''-copy'')"
      using SLUG_chars [of _ "CHR ''_''"] kept_by_dropWhile [where P = is_ws, OF u w(1)] w(2) by fastforce
    then show ?thesis
      by (simp add: d canSubmit_def nameError_def validate_name_def Let_def t slug_of_copy)
  qed
qed

lemma duplicate_name_witness:
  "canSubmit [''lamp.yaml''] False (defaultName (DuplicateOf (Some ''lamp.yaml'')))
   \<and> \<not> canSubmit [] False (defaultName (DuplicateOf (Some ''floor_lamp.yaml'')))"
  by (rule conjI, rule duplicate_name_offered(1), code_simp, code_simp, rule duplicate_name_offered(2), code_simp, code_simp)

end
