(* ===== verification/Editor_Help.thy ===== *)
theory Editor_Help
  imports Fleet_Prelude
begin

text \<open>
  What the YAML editor shows while typing: the markers (\<open>components/editor/yamlValidation.ts\<close>), the
  completions (\<open>components/editor/completionProvider.ts\<close>) and the schemas they read
  (\<open>api/esphomeSchema.ts\<close>). A document is the list of its lines; the YAML parser and the answers of the
  schema service are arguments. Columns count bytes, which for ASCII text are the editor's columns.
\<close>

section \<open>The component list\<close>

text \<open>The module's cache: the list, and the promise shared by the callers.\<close>

datatype list_promise = NoPromise | PromisePending | PromiseResolved "string list"

record component_cache =
  cc_list :: "string list"
  cc_promise :: list_promise

definition empty_cache :: component_cache where
  "empty_cache = \<lparr>cc_list = [], cc_promise = NoPromise\<rparr>"

text \<open>Whether a call asks the server; what the call resolves to once nothing is pending.\<close>

definition loadComponentList :: "component_cache \<Rightarrow> bool \<times> component_cache" where
  "loadComponentList c =
    (if 0 < length (cc_list c) then (False, c)
     else if cc_promise c \<noteq> NoPromise then (False, c)
     else (True, c\<lparr>cc_promise := PromisePending\<rparr>))"

definition loaded_components :: "component_cache \<Rightarrow> string list option" where
  "loaded_components c =
    (if 0 < length (cc_list c) then Some (cc_list c)
     else case cc_promise c of PromiseResolved xs \<Rightarrow> Some xs | _ \<Rightarrow> None)"

text \<open>The server's answer; \<^const>\<open>None\<close> is a failure, which resolves to no component.\<close>

definition components_answer :: "string list option \<Rightarrow> component_cache \<Rightarrow> component_cache" where
  "components_answer a c =
    (if cc_promise c \<noteq> PromisePending then c
     else case a of
       Some xs \<Rightarrow> c\<lparr>cc_list := xs, cc_promise := PromiseResolved xs\<rparr>
     | None \<Rightarrow> c\<lparr>cc_promise := PromiseResolved []\<rparr>)"

datatype list_event = LoadList | ListAnswer "string list option"

fun list_run :: "list_event list \<Rightarrow> component_cache \<Rightarrow> nat \<times> component_cache" where
  "list_run [] c = (0, c)"
| "list_run (LoadList # es) c =
     (let (asked, c1) = loadComponentList c; (n, c2) = list_run es c1 in ((if asked then Suc n else n), c2))"
| "list_run (ListAnswer a # es) c = list_run es (components_answer a c)"

section \<open>Markers\<close>

datatype marker_severity = ErrorMarker | WarningMarker

record marker =
  mk_severity :: marker_severity
  mk_message :: string
  mk_startLine :: nat
  mk_startColumn :: nat
  mk_endLine :: nat
  mk_endColumn :: nat

text \<open>What the parser throws: its position, when it has one, and its texts.\<close>

record yaml_error =
  ye_mark :: "(nat option \<times> nat option) option"
  ye_reason :: "string option"
  ye_message :: "string option"

definition collectSyntaxMarkers :: "(nat \<Rightarrow> nat) \<Rightarrow> yaml_error option \<Rightarrow> marker list" where
  "collectSyntaxMarkers getLineLength thrown =
    (case thrown of
       None \<Rightarrow> []
     | Some err \<Rightarrow>
        (case ye_mark err of
           None \<Rightarrow> []
         | Some (l, c) \<Rightarrow>
            (let line = nullish l 0 + 1; col = nullish c 0 + 1
             in [\<lparr>mk_severity = ErrorMarker,
                  mk_message = str_or (ye_reason err) (str_or (ye_message err) ''YAML syntax error''),
                  mk_startLine = line, mk_startColumn = col, mk_endLine = line, mk_endColumn = getLineLength line + 1\<rparr>])))"

text \<open>The key of a line that starts in the first column, and the warning for a line.\<close>

definition indent_of :: "string \<Rightarrow> nat" where
  "indent_of line = length line - length (trim_start line)"

definition schema_marker :: "string list \<Rightarrow> nat \<Rightarrow> string \<Rightarrow> marker option" where
  "schema_marker componentList i line =
    (let trimmed = trim_start line in
     if trimmed = [] \<or> starts_with trimmed ''#'' \<or> starts_with trimmed ''-'' then None
     else if indent_of line \<noteq> 0 then None
     else case index_of (CHR '':'') trimmed of
       None \<Rightarrow> None
     | Some colonIdx \<Rightarrow>
        (let afterColon = trim (drop (colonIdx + 1) trimmed); key = trim (take colonIdx trimmed) in
         if starts_with afterColon ''!'' then None
         else if key \<noteq> [] \<and> key \<notin> set componentList then
           Some \<lparr>mk_severity = WarningMarker, mk_message = ''Unknown component: \"'' @ key @ ''\"'',
                 mk_startLine = i + 1, mk_startColumn = 1, mk_endLine = i + 1, mk_endColumn = length key + 1\<rparr>
         else None))"

definition validateYaml :: "(string \<Rightarrow> yaml_error option) \<Rightarrow> (nat \<Rightarrow> nat) \<Rightarrow> string list \<Rightarrow> string \<Rightarrow> marker list" where
  "validateYaml loadAll getLineLength componentList content =
    (let syntaxMarkers = collectSyntaxMarkers getLineLength (loadAll content) in
     if 0 < length syntaxMarkers then syntaxMarkers
     else if length componentList = 0 then []
     else List.map_filter (\<lambda>(i, line). schema_marker componentList i line)
            (enumerate 0 (split_on (CHR 0x0A) content)))"

text \<open>The debounce timer: the document to validate and when.\<close>

definition validateYamlDebounced :: "nat \<Rightarrow> nat \<Rightarrow> 'doc \<Rightarrow> ('doc \<times> nat) option \<Rightarrow> ('doc \<times> nat) option" where
  "validateYamlDebounced delayMs now doc timer = Some (doc, now + delayMs)"

section \<open>Schemas\<close>

text \<open>
  The schema cache maps \<open>version/component\<close>; a cached null is \<^const>\<open>JNull\<close>. An answer is \<^const>\<open>None\<close> for a
  network error, a status that is not ok or a body that does not parse. The result has the URLs asked for.
\<close>

type_synonym schema_cache = "string \<Rightarrow> json option"

definition schema_url :: "string \<Rightarrow> string \<Rightarrow> string" where
  "schema_url ver component = ''https://schema.esphome.io/'' @ ver @ ''/'' @ component @ ''.json''"

fun try_versions :: "(string \<Rightarrow> json option) \<Rightarrow> string \<Rightarrow> string list \<Rightarrow> string list \<times> json option" where
  "try_versions answer component [] = ([], None)"
| "try_versions answer component (ver # vers) =
     (let url = schema_url ver component in
      case answer url of
        Some data \<Rightarrow> ([url], Some data)
      | None \<Rightarrow> (let (urls, r) = try_versions answer component vers in (url # urls, r)))"

definition fetchComponentSchema ::
  "(string \<Rightarrow> json option) \<Rightarrow> string \<Rightarrow> string \<Rightarrow> schema_cache \<Rightarrow> json \<times> string list \<times> schema_cache" where
  "fetchComponentSchema answer component esphomeVersion cache =
    (let key = esphomeVersion @ ''/'' @ component in
     case cache key of
       Some data \<Rightarrow> (data, [], cache)
     | None \<Rightarrow>
        (let (urls, r) = try_versions answer component [esphomeVersion, ''dev'']; data = nullish r JNull
         in (data, urls, cache(key := Some data))))"

text \<open>Property access on a value that passed \<open>typeof x === 'object'\<close>, and \<open>Object.entries\<close>.\<close>

definition obj_get :: "json \<Rightarrow> string \<Rightarrow> json option" where
  "obj_get v k = (case v of JObj kvs \<Rightarrow> map_of kvs k | _ \<Rightarrow> None)"

definition as_object :: "json option \<Rightarrow> json option" where
  "as_object v = (case v of Some (JObj kvs) \<Rightarrow> v | Some (JArr xs) \<Rightarrow> v | _ \<Rightarrow> None)"

definition obj_entries :: "json \<Rightarrow> (string \<times> json) list" where
  "obj_entries v =
    (case v of
       JObj kvs \<Rightarrow> kvs
     | JArr xs \<Rightarrow> map (\<lambda>(i, x). (show_nat i, x)) (enumerate 0 xs)
     | _ \<Rightarrow> [])"

record config_var =
  cv_name :: string
  cv_docs :: string
  cv_required :: bool

definition config_var_of :: "string \<times> json \<Rightarrow> config_var" where
  "config_var_of e =
    (case e of (name, info) \<Rightarrow>
      \<lparr>cv_name = name,
       cv_docs = (case Option.bind (as_object (Some info)) (\<lambda>o'. obj_get o' ''docs'') of Some (JStr d) \<Rightarrow> d | _ \<Rightarrow> []),
       cv_required = (Option.bind (as_object (Some info)) (\<lambda>o'. obj_get o' ''key'') = Some (JStr ''Required''))\<rparr>)"

definition sub_object :: "string \<Rightarrow> json option \<Rightarrow> json option" where
  "sub_object k v = as_object (Option.bind v (\<lambda>o'. obj_get o' k))"

definition getConfigVars :: "json \<Rightarrow> string \<Rightarrow> config_var list" where
  "getConfigVars schemaData componentName =
    (case sub_object ''config_vars'' (sub_object ''schema'' (sub_object ''CONFIG_SCHEMA''
        (sub_object ''schemas'' (sub_object componentName (as_object (Some schemaData)))))) of
       None \<Rightarrow> []
     | Some vars \<Rightarrow> map config_var_of (obj_entries vars))"

section \<open>Completions\<close>

text \<open>The search for the parent component, over the lines from the current one upwards.\<close>

fun find_parent :: "string list \<Rightarrow> string option" where
  "find_parent [] = None"
| "find_parent (line # earlier) =
     (let trimmed = trim_start line in
      if trimmed = [] \<or> starts_with trimmed ''#'' then find_parent earlier
      else if indent_of line = 0 then
        (let key = (case index_of (CHR '':'') trimmed of Some i \<Rightarrow> trim (take i trimmed) | None \<Rightarrow> trim trimmed)
         in if key = [] then None else Some key)
      else find_parent earlier)"

definition findParentComponent :: "string list \<Rightarrow> nat \<Rightarrow> string option" where
  "findParentComponent lines lineNumber = find_parent (rev (take lineNumber lines))"

text \<open>\<^const>\<open>None\<close> stands for the infinite indent of a blank line.\<close>

definition currentLineIndent :: "string \<Rightarrow> nat option" where
  "currentLineIndent line = (if trim_start line = [] then None else Some (indent_of line))"

text \<open>\<open>/!secret\s+\S*$/\<close> or the text before the cursor ends with the tag.\<close>

definition trim_end :: "string \<Rightarrow> string" where
  "trim_end s = rev (dropWhile is_ws (rev s))"

definition secret_context :: "string \<Rightarrow> bool" where
  "secret_context before =
    ((let r = dropWhile (\<lambda>c. \<not> is_ws c) (rev before) in r \<noteq> [] \<and> ends_with (trim_end (rev r)) ''!secret'')
     \<or> ends_with (trim_end before) ''!secret'')"

definition COMMON_SUB_KEYS :: "string list" where
  "COMMON_SUB_KEYS =
    [''platform'', ''name'', ''id'', ''pin'', ''internal'', ''disabled_by_default'',
     ''on_value'', ''on_state'', ''filters'', ''update_interval'', ''unit_of_measurement'',
     ''device_class'', ''state_class'', ''accuracy_decimals'', ''icon'', ''address'',
     ''sda'', ''scl'', ''frequency'', ''rx_pin'', ''tx_pin'', ''baud_rate'']"

datatype item_kind = KindVariable | KindModule | KindField | KindProperty

record suggestion =
  sg_label :: string
  sg_kind :: item_kind
  sg_insert :: string
  sg_docs :: "string option"
  sg_sort :: "string option"

definition secret_item :: "string \<Rightarrow> suggestion" where
  "secret_item k = \<lparr>sg_label = k, sg_kind = KindVariable, sg_insert = k, sg_docs = Some ''Secret from secrets.yaml'', sg_sort = None\<rparr>"

definition component_item :: "string \<Rightarrow> suggestion" where
  "component_item name =
    \<lparr>sg_label = name, sg_kind = KindModule, sg_insert = name @ '':'' @ [CHR 0x0A] @ ''  '',
     sg_docs = Some (''ESPHome component: '' @ name), sg_sort = None\<rparr>"

definition var_item :: "config_var \<Rightarrow> suggestion" where
  "var_item v =
    \<lparr>sg_label = cv_name v, sg_kind = (if cv_required v then KindField else KindProperty), sg_insert = cv_name v @ '': '',
     sg_docs = Some (cv_docs v), sg_sort = Some ((if cv_required v then ''0'' else ''1'') @ cv_name v)\<rparr>"

definition sub_key_item :: "string \<Rightarrow> suggestion" where
  "sub_key_item k = \<lparr>sg_label = k, sg_kind = KindProperty, sg_insert = k @ '': '', sg_docs = None, sg_sort = None\<rparr>"

text \<open>The suggestions at a position, given the secret keys (\<^const>\<open>None\<close>: the request failed), the component
  list and the schema of a component. All have the range of the word at the cursor.\<close>

definition provideCompletionItems ::
  "string list option \<Rightarrow> string list \<Rightarrow> (string \<Rightarrow> json) \<Rightarrow> string list \<Rightarrow> nat \<Rightarrow> nat \<Rightarrow> suggestion list" where
  "provideCompletionItems secrets components schema lines lineNumber column =
    (let line = lines ! (lineNumber - 1) in
     if secret_context (take (column - 1) line)
     then (case secrets of Some keys \<Rightarrow> map secret_item keys | None \<Rightarrow> [])
     else if currentLineIndent line = Some 0 then map component_item components
     else
       (let vars = (case findParentComponent lines lineNumber of Some p \<Rightarrow> getConfigVars (schema p) p | None \<Rightarrow> [])
        in if 0 < length vars then map var_item vars else map sub_key_item COMMON_SUB_KEYS))"

section \<open>Lemmas\<close>

lemma try_versions_asks: "fst (try_versions answer cname vers) \<noteq> [] \<longleftrightarrow> vers \<noteq> []"
  by (cases vers) (auto simp: Let_def split: option.splits prod.splits)

lemma schema_marker_iff:
  "schema_marker comps i line = Some m \<longleftrightarrow>
    (\<exists>k rest. trim_start line = k @ CHR '':'' # rest \<and> CHR '':'' \<notin> set k
       \<and> indent_of line = 0 \<and> \<not> starts_with (trim_start line) ''#'' \<and> \<not> starts_with (trim_start line) ''-''
       \<and> \<not> starts_with (trim rest) ''!'' \<and> trim k \<noteq> [] \<and> trim k \<notin> set comps
       \<and> m = \<lparr>mk_severity = WarningMarker, mk_message = ''Unknown component: \"'' @ trim k @ ''\"'',
              mk_startLine = i + 1, mk_startColumn = 1, mk_endLine = i + 1, mk_endColumn = length (trim k) + 1\<rparr>)"
  (is "?l \<longleftrightarrow> ?r")
proof
  assume l: ?l
  then obtain c where c: "index_of (CHR '':'') (trim_start line) = Some c"
    by (auto simp: schema_marker_def Let_def split: option.splits if_splits)
  then have "trim_start line = take c (trim_start line) @ CHR '':'' # drop (Suc c) (trim_start line)"
    "CHR '':'' \<notin> set (take c (trim_start line))"
    using index_of_Some [OF c] by (simp_all add: id_take_nth_drop [symmetric])
      (metis id_take_nth_drop)
  with l c show ?r
    by (intro exI [of _ "take c (trim_start line)"] exI [of _ "drop (Suc c) (trim_start line)"])
      (auto simp: schema_marker_def Let_def split: if_splits)
next
  assume ?r
  then obtain k rest where k: "trim_start line = k @ CHR '':'' # rest" "CHR '':'' \<notin> set k" and
    o: "indent_of line = 0" "\<not> starts_with (trim_start line) ''#''" "\<not> starts_with (trim_start line) ''-''"
    "\<not> starts_with (trim rest) ''!''" "trim k \<noteq> []" "trim k \<notin> set comps"
    "m = \<lparr>mk_severity = WarningMarker, mk_message = ''Unknown component: \"'' @ trim k @ ''\"'',
              mk_startLine = i + 1, mk_startColumn = 1, mk_endLine = i + 1, mk_endColumn = length (trim k) + 1\<rparr>"
    by blast
  have "index_of (CHR '':'') (trim_start line) = Some (length k)" using k by (simp add: index_of_append)
  then show ?l using k o by (simp add: schema_marker_def Let_def)
qed

lemma indent_zero: "indent_of line = 0 \<Longrightarrow> trim_start line = line"
proof -
  assume "indent_of line = 0"
  then have "length (dropWhile is_ws line) = length line"
    using length_dropWhile_le [of is_ws line] by (simp add: indent_of_def trim_start_def)
  then have "takeWhile is_ws line = []"
    by (metis add_cancel_left_left length_0_conv length_append takeWhile_dropWhile_id)
  then show ?thesis unfolding trim_start_def by (metis self_append_conv2 takeWhile_dropWhile_id)
qed

lemma trim_prefix:
  assumes "dropWhile is_ws k = k"
  shows "prefix (trim k) k"
proof -
  have "k = rev (dropWhile is_ws (rev k)) @ rev (takeWhile is_ws (rev k))"
    by (metis rev_append rev_rev_ident takeWhile_dropWhile_id)
  then show ?thesis unfolding trim_def assms by (metis prefixI)
qed

lemma dropWhile_id_prefix:
  assumes "dropWhile P (a @ b) = a @ b"
  shows "dropWhile P a = a"
proof (cases a)
  case (Cons x xs)
  with assms have "\<not> P x" unfolding dropWhile_eq_self_iff by simp
  with Cons show ?thesis by simp
qed simp

lemma set_map_filter_eq: "set (List.map_filter f xs) = {y. \<exists>x \<in> set xs. f x = Some y}"
  by (induction xs) (auto simp: map_filter_simps split: option.splits)

section \<open>Properties\<close>



text \<open>The component list is asked for at most once in the life of the page.\<close>
theorem components_asked_once: "fst (list_run es empty_cache) \<le> 1"
proof -
  have quiet: "fst (list_run es c) = 0" if "cc_promise c \<noteq> NoPromise" for es c
    using that
  proof (induction es arbitrary: c)
    case (Cons e es)
    show ?case
    proof (cases e)
      case LoadList
      with Cons show ?thesis by (simp add: loadComponentList_def split_beta)
    next
      case (ListAnswer a)
      have "cc_promise (components_answer a c) \<noteq> NoPromise"
        using Cons.prems by (auto simp: components_answer_def split: option.splits)
      with Cons ListAnswer show ?thesis by simp
    qed
  qed simp
  have "fst (list_run es c) \<le> 1" if "cc_promise c = NoPromise" "cc_list c = []" for es c
    using that
  proof (induction es arbitrary: c)
    case (Cons e es)
    show ?case
    proof (cases e)
      case LoadList
      with Cons.prems quiet show ?thesis by (simp add: loadComponentList_def split_beta)
    next
      case (ListAnswer a)
      with Cons show ?thesis by (simp add: components_answer_def)
    qed
  qed simp
  then show ?thesis by (simp add: empty_cache_def)
qed

text \<open>When that one request fails, the page stays without components until it is reloaded: every later call
  answers the empty list, nothing is asked again, and no unknown key is marked.\<close>
theorem failed_component_list_final:
  "(case list_run (LoadList # ListAnswer None # es) empty_cache of (n, c) \<Rightarrow>
      n = 1 \<and> loaded_components c = Some []
      \<and> (loadAll content = None \<longrightarrow> validateYaml loadAll len (cc_list c) content = []))"
proof -
  let ?c = "\<lparr>cc_list = [], cc_promise = PromiseResolved []\<rparr>"
  have "list_run es ?c = (0, ?c)" for es
  proof (induction es)
    case (Cons e es)
    then show ?case by (cases e) (simp_all add: loadComponentList_def components_answer_def)
  qed simp
  then show ?thesis
    by (simp add: loadComponentList_def components_answer_def empty_cache_def loaded_components_def validateYaml_def
        collectSyntaxMarkers_def)
qed

text \<open>A schema, or that it could not be had, is asked for once: the second request for a component at a
  version is answered from the cache with the same value, whatever the network would say by then.\<close>
theorem schema_cached:
  "(case fetchComponentSchema answer cname ver cache of (v, urls, cache') \<Rightarrow>
      length urls \<le> 2 \<and> fetchComponentSchema answer' cname ver cache' = (v, [], cache'))"
  by (auto simp: fetchComponentSchema_def Let_def split: option.splits prod.splits)

text \<open>The parent of a position is the nearest line at or above it that starts in the first column and is
  neither blank nor a comment.\<close>
theorem parent_is_nearest_top_line:
  assumes "lines = before @ [k @ CHR '':'' # rest] @ inside" and "CHR '':'' \<notin> set k"
    and "trim k = k" and "k \<noteq> []" and "\<not> starts_with k ''#''"
    and "\<forall>l \<in> set inside. trim_start l = [] \<or> starts_with (trim_start l) ''#'' \<or> indent_of l \<noteq> 0"
  shows "findParentComponent lines (length lines) = Some k"
proof -
  obtain c cs where k: "k = c # cs" using assms(4) by (cases k) auto
  have "dropWhile is_ws k = k"
  proof (rule ccontr)
    assume "dropWhile is_ws k \<noteq> k"
    then have "is_ws c" using k by (auto split: if_splits)
    then have "length (dropWhile is_ws k) < length k" using k length_dropWhile_le [of is_ws cs] by simp
    moreover have "length (trim k) \<le> length (dropWhile is_ws k)"
      unfolding trim_def using length_dropWhile_le [of is_ws "rev (dropWhile is_ws k)"] by simp
    ultimately show False using assms(3) by simp
  qed
  then have nws: "\<not> is_ws c" unfolding k by (auto split: if_splits dest: arg_cong [where f = length])
      (metis Suc_n_not_le_n length_Cons length_dropWhile_le)
  have skip: "find_parent (ls @ r) = find_parent r"
    if "\<forall>l \<in> set ls. trim_start l = [] \<or> starts_with (trim_start l) ''#'' \<or> indent_of l \<noteq> 0" for ls r
    using that by (induction ls) (auto simp: Let_def)
  have top: "trim_start (k @ CHR '':'' # rest) = k @ CHR '':'' # rest" "indent_of (k @ CHR '':'' # rest) = 0"
    using nws by (simp_all add: trim_start_def k indent_of_def)
  have "\<not> starts_with (k @ CHR '':'' # rest) ''#''" using assms(5) by (simp add: starts_with_def k)
  with top assms(2-4) have "find_parent ((k @ CHR '':'' # rest) # r) = Some k" for r
    by (simp add: Let_def index_of_append)
  then show ?thesis
    using skip [of "rev inside"] assms(1,6) by (simp add: findParentComponent_def)
qed

lemma parent_witness:
  "findParentComponent [''sensor:'', ''  - platform: dht'', '''', ''    pin: 4''] 4 = Some ''sensor''"
  using parent_is_nearest_top_line [of "[''sensor:'', ''  - platform: dht'', '''', ''    pin: 4'']" "[]" "''sensor''" "''''"
      "[''  - platform: dht'', '''', ''    pin: 4'']"]
  by (simp add: trim_no_ws is_ws_def starts_with_def trim_start_def indent_of_def eval_nat_numeral)

text \<open>A list item written in the first column is taken for the parent, so completion inside it offers the
  generic keys instead of the component's; the validator skips such a line.\<close>
theorem dash_item_taken_for_parent:
  "findParentComponent [''sensor:'', ''- platform: dht'', ''  p''] 3 = Some ''- platform''
   \<and> schema_marker [''sensor''] 1 ''- platform: dht'' = None
   \<and> findParentComponent [''sensor:'', ''  - platform: dht'', ''    p''] 3 = Some ''sensor''"
  by code_simp

end
