(* ===== verification/Log_Handover.thy ===== *)
theory Log_Handover
  imports App_Actions
begin

text \<open>
  \<open>App.tsx\<close>: the effect that watches an open build log and, when its job ends with a successful
  flash, closes it and opens the device's live log (lines 532 to 568), with the events that drive
  it. The effect depends on the open log, the queue and the editor; running it after every event
  gives the same states, since it changes nothing the second time.
\<close>

section \<open>The effect\<close>

definition watch_of :: "string \<Rightarrow> app \<Rightarrow> bool" where
  "watch_of i a = (case ap_logWatch a of Some (j, seen) \<Rightarrow> j = i \<and> seen | None \<Rightarrow> False)"

definition hand_over :: "job \<Rightarrow> app \<Rightarrow> app" where
  "hand_over job a =
    a\<lparr>ap_logWatch := None, ap_logJobId := None, ap_deviceLogAwaitBoot := True, ap_deviceLogTarget := Some (j_target job)\<rparr>"

definition flashed :: "job \<Rightarrow> bool" where
  "flashed job \<longleftrightarrow> j_state job = ''success'' \<and> j_ota_result job = Some ''success''
     \<and> \<not> truthy_bool (j_validate_only job) \<and> \<not> truthy_bool (j_download_only job)"

definition log_effect :: "job list \<Rightarrow> app \<Rightarrow> app" where
  "log_effect queue a =
    (if \<not> truthy_str (ap_logJobId a) then a\<lparr>ap_logWatch := None\<rparr>
     else let i = the (ap_logJobId a) in
       case find (\<lambda>j. j_id j = i) queue of
         None \<Rightarrow> a
       | Some job \<Rightarrow>
           if isJobInProgress job then a\<lparr>ap_logWatch := Some (i, True)\<rparr>
           else if watch_of i a \<and> flashed job \<and> \<not> truthy_str (ap_editorTarget a) then hand_over job a
           else a\<lparr>ap_logWatch := Some (i, watch_of i a)\<rparr>)"

lemma watch_of_set [simp]: "watch_of i (a\<lparr>ap_logWatch := Some (j, b)\<rparr>) \<longleftrightarrow> j = i \<and> b"
  by (simp add: watch_of_def)

lemma log_effect_idem: "log_effect queue (log_effect queue a) = log_effect queue a"
proof (cases "truthy_str (ap_logJobId a)")
  case True
  then obtain i where i: "ap_logJobId a = Some i" "i \<noteq> []" by (auto simp: truthy_str_iff)
  show ?thesis
  proof (cases "find (\<lambda>j. j_id j = i) queue")
    case (Some job)
    then show ?thesis
      by (cases "isJobInProgress job"; cases "watch_of i a"; cases "flashed job"; cases "truthy_str (ap_editorTarget a)")
        (simp_all add: log_effect_def i hand_over_def watch_of_set Let_def)
  qed (simp add: log_effect_def i truthy_str_def)
qed (simp add: log_effect_def)

section \<open>The session\<close>

text \<open>
  \<open>ConfirmOpens\<close> is the last step of \<open>handleUpgradeConfirm\<close>: it opens the log of the job it
  started, with the queue it has just fetched.
\<close>

datatype session_event =
    PollQueue "job list"
  | OpenLog string
  | CloseLog
  | EditFromLog string
  | OpenEditor string
  | CloseEditor
  | CloseLiveLog
  | ConfirmOpens job "job list"

fun session_act :: "session_event \<Rightarrow> app \<times> job list \<Rightarrow> app \<times> job list" where
  "session_act (PollQueue q) (a, _) = (a, q)"
| "session_act (OpenLog i) (a, q) = (a\<lparr>ap_logJobId := Some i\<rparr>, q)"
| "session_act CloseLog (a, q) = (a\<lparr>ap_logJobId := None, ap_logWorkerId := None\<rparr>, q)"
| "session_act (EditFromLog t) (a, q) = (a\<lparr>ap_logJobId := None, ap_editorTarget := Some t\<rparr>, q)"
| "session_act (OpenEditor t) (a, q) = (a\<lparr>ap_editorTarget := Some t\<rparr>, q)"
| "session_act CloseEditor (a, q) = (a\<lparr>ap_editorTarget := None\<rparr>, q)"
| "session_act CloseLiveLog (a, q) = (a\<lparr>ap_deviceLogTarget := None, ap_deviceLogAwaitBoot := False\<rparr>, q)"
| "session_act (ConfirmOpens job q) (a, _) = (open_job_log job a, q)"

definition session_step :: "app \<times> job list \<Rightarrow> session_event \<Rightarrow> app \<times> job list" where
  "session_step s e = (case session_act e s of (a, q) \<Rightarrow> (log_effect q a, q))"

definition session_run :: "app \<times> job list \<Rightarrow> session_event list \<Rightarrow> app \<times> job list" where
  "session_run s es = foldl session_step s es"

text \<open>The log of job \<open>i\<close> was open while the queue showed it in progress, or the dialog opened it.\<close>

definition progress_shown :: "string \<Rightarrow> app \<times> job list \<Rightarrow> bool" where
  "progress_shown i s \<longleftrightarrow> ap_logJobId (fst s) = Some i
     \<and> (case find (\<lambda>j. j_id j = i) (snd s) of None \<Rightarrow> False | Some job \<Rightarrow> isJobInProgress job)"

definition watched :: "string \<Rightarrow> app \<times> job list \<Rightarrow> session_event list \<Rightarrow> bool" where
  "watched i s es \<longleftrightarrow> (\<exists>es1 es2. es = es1 @ es2 \<and>
     (progress_shown i (session_run s es1) \<or> (\<exists>job q es0. es1 = es0 @ [ConfirmOpens job q] \<and> j_id job = i)))"

section \<open>Lemmas\<close>

lemma session_run_snoc [simp]: "session_run s (es @ [e]) = session_step (session_run s es) e"
  by (simp add: session_run_def)

lemma session_run_Nil [simp]: "session_run s [] = s"
  by (simp add: session_run_def)

lemma watched_mono: "watched i s es \<Longrightarrow> watched i s (es @ es')"
  unfolding watched_def by (metis append.assoc)

text \<open>An event alone marks a job as watched only when it is \<open>ConfirmOpens\<close>.\<close>

lemma session_act_watch:
  assumes "watch_of i (fst (session_act e s))"
  shows "watch_of i (fst s) \<or> (\<exists>job q. e = ConfirmOpens job q \<and> j_id job = i)"
  using assms by (cases e; cases s) (auto simp: watch_of_def open_job_log_def)

lemma log_effect_watch:
  assumes "watch_of i (log_effect q a)"
  shows "watch_of i a \<or> progress_shown i (log_effect q a, q)"
  using assms
  by (auto simp: log_effect_def hand_over_def watch_of_def progress_shown_def truthy_str_iff Let_def
      split: option.splits if_splits)

lemma watch_is_earned:
  assumes "ap_logWatch (fst s) = None" and "watch_of i (fst (session_run s es))"
  shows "watched i s es"
  using assms(2)
proof (induction es rule: rev_induct)
  case Nil
  then show ?case using assms(1) by (simp add: watch_of_def)
next
  case (snoc e es)
  obtain a q where act: "session_act e (session_run s es) = (a, q)" by (cases "session_act e (session_run s es)")
  then have step: "session_run s (es @ [e]) = (log_effect q a, q)" by (simp add: session_step_def)
  from snoc.prems have "watch_of i a \<or> progress_shown i (session_run s (es @ [e]))"
    unfolding step by (auto dest: log_effect_watch)
  then show ?case
  proof
    assume "progress_shown i (session_run s (es @ [e]))"
    then show ?thesis unfolding watched_def by (metis append_Nil2)
  next
    assume "watch_of i a"
    then have "watch_of i (fst (session_run s es)) \<or> (\<exists>job q. e = ConfirmOpens job q \<and> j_id job = i)"
      using session_act_watch [of i e "session_run s es"] act by simp
    then show ?thesis
    proof
      assume "watch_of i (fst (session_run s es))"
      then show ?thesis by (rule watched_mono [OF snoc.IH])
    next
      assume "\<exists>job q. e = ConfirmOpens job q \<and> j_id job = i"
      then show ?thesis unfolding watched_def by (metis append_Nil2)
    qed
  qed
qed

section \<open>Properties\<close>

text \<open>C12: the hand-over never surprises. If an event makes the page switch from a build log to a
  device's live log, that build log was open and its job has just ended with a successful flash,
  is no validation or download, no editor is open, and at an earlier moment of the session the
  log was open while the job was still in progress, or was opened for it by the upgrade dialog.\<close>
theorem handover_is_earned:
  assumes "ap_logWatch (fst s) = None"
    and "ap_deviceLogAwaitBoot (fst (session_step (session_run s es) e))"
    and "\<not> ap_deviceLogAwaitBoot (fst (session_act e (session_run s es)))"
  shows "\<exists>i job. ap_logJobId (fst (session_act e (session_run s es))) = Some i
    \<and> find (\<lambda>j. j_id j = i) (snd (session_run s (es @ [e]))) = Some job \<and> flashed job
    \<and> ap_deviceLogTarget (fst (session_run s (es @ [e]))) = Some (j_target job)
    \<and> \<not> truthy_str (ap_editorTarget (fst (session_run s (es @ [e])))) \<and> watched i s (es @ [e])"
proof -
  obtain a q where act: "session_act e (session_run s es) = (a, q)" by (cases "session_act e (session_run s es)")
  then have step: "session_run s (es @ [e]) = (log_effect q a, q)" by (simp add: session_step_def)
  from assms(2,3) act obtain i job where
    i: "ap_logJobId a = Some i" "find (\<lambda>j. j_id j = i) q = Some job" "watch_of i a" "flashed job"
      "\<not> truthy_str (ap_editorTarget a)" "log_effect q a = hand_over job a"
    by (auto simp: session_step_def log_effect_def truthy_str_iff Let_def split: option.splits if_splits)
  have "watched i s (es @ [e])"
  proof (cases "watch_of i (fst (session_run s es))")
    case True
    then show ?thesis by (intro watched_mono watch_is_earned [OF assms(1)])
  next
    case False
    then obtain j' q' where "e = ConfirmOpens j' q'" "j_id j' = i"
      using session_act_watch [of i e "session_run s es"] act i(3) by auto
    then show ?thesis unfolding watched_def by (metis append_Nil2)
  qed
  with i act step show ?thesis by (simp add: hand_over_def)
qed

text \<open>C13: the hand-over happens. When a build log is open, its job in progress and no editor is
  open, the first poll that shows the job flashed closes the log and opens the device's live log,
  waiting for it to boot.\<close>
theorem handover_fires:
  assumes "progress_shown i s" and "i \<noteq> []" and "log_effect (snd s) (fst s) = fst s"
    and "\<not> truthy_str (ap_editorTarget (fst s))"
    and "find (\<lambda>j. j_id j = i) q = Some job" and "flashed job"
  shows "ap_deviceLogTarget (fst (session_step s (PollQueue q))) = Some (j_target job)
    \<and> ap_deviceLogAwaitBoot (fst (session_step s (PollQueue q)))
    \<and> ap_logJobId (fst (session_step s (PollQueue q))) = None"
proof -
  obtain a q0 where s: "s = (a, q0)" by (cases s)
  from assms(1,2) have l: "ap_logJobId a = Some i" "truthy_str (ap_logJobId a)"
    by (auto simp: s progress_shown_def truthy_str_def)
  have "watch_of i (log_effect q0 a)"
    using assms(1) l by (auto simp: s progress_shown_def log_effect_def watch_of_def split: option.splits)
  then have w: "watch_of i a" using assms(3) by (simp add: s)
  have "\<not> isJobInProgress job" using assms(6) by (simp add: flashed_def isJobInProgress_def)
  then have "log_effect q a = hand_over job a"
    using assms(4,5,6) l w by (simp add: s log_effect_def)
  then show ?thesis by (simp add: s session_step_def hand_over_def)
qed

section \<open>Witnesses\<close>

definition building :: job where
  "building = bare_job ''j1'' ''kitchen.yaml'' ''working''"

definition built :: job where
  "built = (bare_job ''j1'' ''kitchen.yaml'' ''success'')\<lparr>j_ota_result := Some ''success''\<rparr>"

definition start_page :: "app \<times> job list" where
  "start_page = (page, [])"

theorem handover_is_earned_witness:
  "watched ''j1'' start_page [PollQueue [building], OpenLog ''j1'', PollQueue [built]]"
proof -
  have r: "session_run start_page [PollQueue [building], OpenLog ''j1''] =
      (page\<lparr>ap_logJobId := Some ''j1'', ap_logWatch := Some (''j1'', True)\<rparr>, [building])"
    by (simp add: session_run_def session_step_def start_page_def log_effect_def page_def truthy_str_def building_def
        isJobInProgress_def Let_def)
  have "\<not> isJobInProgress built" "flashed built" "j_id built = ''j1''"
    by (simp_all add: built_def isJobInProgress_def flashed_def truthy_bool_def)
  then have "log_effect [built] (page\<lparr>ap_logJobId := Some ''j1'', ap_logWatch := Some (''j1'', True)\<rparr>) =
      hand_over built (page\<lparr>ap_logJobId := Some ''j1'', ap_logWatch := Some (''j1'', True)\<rparr>)"
    by (simp add: log_effect_def page_def truthy_str_def watch_of_def Let_def)
  then have "ap_deviceLogAwaitBoot (fst (session_step (session_run start_page [PollQueue [building], OpenLog ''j1'']) (PollQueue [built])))"
    unfolding r by (simp add: session_step_def hand_over_def)
  moreover have "ap_logWatch (fst start_page) = None" by (simp add: start_page_def page_def)
  moreover have "\<not> ap_deviceLogAwaitBoot (fst (session_act (PollQueue [built])
      (session_run start_page [PollQueue [building], OpenLog ''j1''])))"
    unfolding r by (simp add: page_def)
  ultimately obtain i where "ap_logJobId (fst (session_act (PollQueue [built])
      (session_run start_page [PollQueue [building], OpenLog ''j1'']))) = Some i"
    and "watched i start_page ([PollQueue [building], OpenLog ''j1''] @ [PollQueue [built]])"
    using handover_is_earned [of start_page "[PollQueue [building], OpenLog ''j1'']" "PollQueue [built]"] by blast
  then show ?thesis unfolding r by simp
qed

theorem handover_fires_witness:
  "ap_deviceLogTarget (fst (session_step
     (page\<lparr>ap_logJobId := Some ''j1'', ap_logWatch := Some (''j1'', True)\<rparr>, [building]) (PollQueue [built]))) = Some ''kitchen.yaml''"
proof -
  let ?s = "(page\<lparr>ap_logJobId := Some ''j1'', ap_logWatch := Some (''j1'', True)\<rparr>, [building])"
  have "progress_shown ''j1'' ?s" "log_effect (snd ?s) (fst ?s) = fst ?s" "\<not> truthy_str (ap_editorTarget (fst ?s))"
    by (simp_all add: progress_shown_def building_def isJobInProgress_def log_effect_def truthy_str_def page_def Let_def)
  moreover have "find (\<lambda>j. j_id j = ''j1'') [built] = Some built" "flashed built"
    by (simp_all add: built_def flashed_def truthy_bool_def)
  ultimately show ?thesis using handover_fires [of "''j1''" ?s "[built]" built] by (simp add: built_def)
qed

end
