(* ===== verification/Tag_Chips.thy ===== *)
theory Tag_Chips
  imports Fleet_Prelude "HOL-Library.Word"
begin

text \<open>
  \<open>components/ui/tag-chips.tsx\<close>: the colour of a tag. The hash runs on UTF-16 code units and wraps
  to a signed 32-bit integer at every step (\<open>| 0\<close>), so it is kept on \<^typ>\<open>32 word\<close>. A \<^typ>\<open>string\<close>
  is UTF-8 here; \<open>utf16_units\<close> gives the units \<open>charCodeAt\<close> reads.
\<close>

section \<open>Code units\<close>

fun utf16_units :: "nat list \<Rightarrow> nat list" where
  "utf16_units [] = []"
| "utf16_units (a # bs) =
     (if a < 0x80 then a # utf16_units bs
      else if a < 0xE0 then
        (case bs of b # r \<Rightarrow> ((a - 0xC0) * 64 + (b - 0x80)) # utf16_units r | _ \<Rightarrow> [])
      else if a < 0xF0 then
        (case bs of b # c # r \<Rightarrow> ((a - 0xE0) * 4096 + (b - 0x80) * 64 + (c - 0x80)) # utf16_units r | _ \<Rightarrow> [])
      else
        (case bs of
           b # c # d # r \<Rightarrow>
             (let u = (a - 0xF0) * 262144 + (b - 0x80) * 4096 + (c - 0x80) * 64 + (d - 0x80) - 0x10000
              in (0xD800 + u div 1024) # (0xDC00 + u mod 1024) # utf16_units r)
         | _ \<Rightarrow> []))"

definition char_codes :: "string \<Rightarrow> nat list" where
  "char_codes s = utf16_units (map of_char s)"

section \<open>The palette and the hash\<close>

record chip_colour =
  ch_bg :: string
  ch_border :: string

definition chip :: "string \<Rightarrow> string \<Rightarrow> chip_colour" where
  "chip bg border = \<lparr>ch_bg = bg, ch_border = border\<rparr>"

definition PALETTE :: "chip_colour list" where
  "PALETTE =
    [chip ''#dc2626'' ''#991b1b'', chip ''#ea580c'' ''#9a3412'', chip ''#d97706'' ''#92400e'',
     chip ''#ca8a04'' ''#854d0e'', chip ''#65a30d'' ''#3f6212'', chip ''#16a34a'' ''#15803d'',
     chip ''#059669'' ''#065f46'', chip ''#0d9488'' ''#115e59'', chip ''#0891b2'' ''#155e75'',
     chip ''#0284c7'' ''#075985'', chip ''#2563eb'' ''#1e40af'', chip ''#4f46e5'' ''#3730a3'',
     chip ''#7c3aed'' ''#5b21b6'', chip ''#9333ea'' ''#6b21a8'', chip ''#c026d3'' ''#86198f'',
     chip ''#db2777'' ''#9d174d'', chip ''#e11d48'' ''#9f1239'',
     chip ''#7f1d1d'' ''#450a0a'', chip ''#854d0e'' ''#422006'', chip ''#166534'' ''#052e16'',
     chip ''#155e75'' ''#083344'', chip ''#1e3a8a'' ''#172554'', chip ''#5b21b6'' ''#2e1065'',
     chip ''#9d174d'' ''#500724'',
     chip ''#475569'' ''#334155'']"

definition hash_step :: "32 word \<Rightarrow> nat \<Rightarrow> 32 word" where
  "hash_step h u = push_bit 5 h + h + of_nat u"

definition tagHash :: "nat list \<Rightarrow> 32 word" where
  "tagHash units = foldl hash_step 5381 units"

definition tagHueIndex :: "string \<Rightarrow> nat" where
  "tagHueIndex tag = nat \<bar>sint (tagHash (char_codes tag))\<bar> mod length PALETTE"

record chip_style =
  cs_background :: string
  cs_borderColor :: string
  cs_color :: string

definition tagChipStyle :: "string \<Rightarrow> chip_style" where
  "tagChipStyle tag =
    (let c = PALETTE ! tagHueIndex tag
     in \<lparr>cs_background = ch_bg c, cs_borderColor = ch_border c, cs_color = ''#ffffff''\<rparr>)"

section \<open>A chip\<close>

text \<open>What a chip shows, for the callbacks it is given: \<open>onClick\<close> makes it a button, \<open>onRemove\<close> adds a cross.\<close>

record tag_chip =
  tg_text :: string
  tg_title :: string
  tg_style :: chip_style
  tg_button :: bool
  tg_cross :: "string option"

definition TagChip :: "bool \<Rightarrow> bool \<Rightarrow> nat option \<Rightarrow> string \<Rightarrow> tag_chip" where
  "TagChip onClick onRemove count tag =
    \<lparr>tg_text = tag @ (case count of None \<Rightarrow> [] | Some n \<Rightarrow> ''('' @ show_nat n @ '')''), tg_title = ''Tag: '' @ tag,
     tg_style = tagChipStyle tag, tg_button = onClick, tg_cross = (if onRemove then Some (''Remove tag '' @ tag) else None)\<rparr>"

text \<open>A click on the cross does not reach the chip.\<close>

datatype chip_part = ChipBody | ChipCross
datatype chip_call = ChipClicked | ChipRemoved

definition chip_click :: "bool \<Rightarrow> bool \<Rightarrow> chip_part \<Rightarrow> chip_call option" where
  "chip_click onClick onRemove part =
    (case part of
       ChipCross \<Rightarrow> if onRemove then Some ChipRemoved else None
     | ChipBody \<Rightarrow> if onClick then Some ChipClicked else None)"

definition TagChips :: "string list option \<Rightarrow> tag_chip list option" where
  "TagChips tags = (if nullish tags [] = [] then None else Some (map (TagChip False False None) (the tags)))"

section \<open>Lemmas\<close>

text \<open>The same hash on unbounded integers, wrapped once at the end.\<close>

definition djb2 :: "nat list \<Rightarrow> int" where
  "djb2 units = foldl (\<lambda>h u. 33 * h + int u) 5381 units"

definition wrap32 :: "int \<Rightarrow> int" where
  "wrap32 n = (n + 2 ^ 31) mod 2 ^ 32 - 2 ^ 31"

lemma hash_step_33: "hash_step h u = 33 * h + of_nat u"
  by (simp add: hash_step_def push_bit_eq_mult)

lemma foldl_hash: "foldl hash_step (of_int k) us = of_int (foldl (\<lambda>h u. 33 * h + int u) k us)"
proof (induction us arbitrary: k)
  case (Cons u us)
  have "hash_step (of_int k) u = of_int (33 * k + int u)" by (simp add: hash_step_33)
  then show ?case using Cons.IH [of "33 * k + int u"] by simp
qed simp

lemma tagHash_djb2: "tagHash us = of_int (djb2 us)"
  using foldl_hash [of 5381 us] by (simp add: tagHash_def djb2_def)

lemma sint_of_int_wrap: "sint (of_int n :: 32 word) = wrap32 n"
  by (simp add: wrap32_def signed_of_int signed_take_bit_eq_take_bit_shift take_bit_eq_mod add.commute)

lemma wrap32_bounds: "- (2 ^ 31) \<le> wrap32 n \<and> wrap32 n < 2 ^ 31"
  by (simp add: wrap32_def)

section \<open>Properties\<close>

text \<open>A tag's colour is the classic string hash: the code's running value, wrapped to a signed 32-bit
  integer at every character, is the polynomial hash computed without bounds and wrapped once,
  and its absolute value, of the most negative integer too, picks an entry of the palette.\<close>
theorem tag_colour_hash:
  "tagHueIndex tag = nat \<bar>wrap32 (djb2 (char_codes tag))\<bar> mod 25
   \<and> tagChipStyle tag \<in> set (map (\<lambda>c. \<lparr>cs_background = ch_bg c, cs_borderColor = ch_border c, cs_color = ''#ffffff''\<rparr>) PALETTE)"
proof -
  have len: "length PALETTE = 25" by (simp add: PALETTE_def)
  have "tagHueIndex tag < length PALETTE" by (simp add: tagHueIndex_def len)
  then have "PALETTE ! tagHueIndex tag \<in> set PALETTE" by (rule nth_mem)
  moreover have "tagHueIndex tag = nat \<bar>wrap32 (djb2 (char_codes tag))\<bar> mod 25"
    by (simp add: tagHueIndex_def len tagHash_djb2 sint_of_int_wrap)
  ultimately show ?thesis by (simp add: tagChipStyle_def Let_def)
qed

lemma kitchen_colour: "tagHueIndex ''kitchen'' = 20"
  by (simp add: tagHueIndex_def tagHash_djb2 sint_of_int_wrap wrap32_def djb2_def char_codes_def PALETTE_def)

end
