(* ===== verification/Spec2Isabelle.thy ===== *)
theory Spec2Isabelle
  imports Log_Refs Live_Socket Table_Frames Dialog_Views Device_Row Editor_Window Settings_Form Single_Flight New_Device Panel_Views Editor_Help File_History App_Shell Settings_Drawer Schedules_Tab Worker_Dialogs History_Views Devices_Window Log_Handover Log_Viewers Editor_Sessions Rule_Builder Ansi_Render Tag_Chips Queue_Tab Device_Actions
begin

text \<open>
  Fleet for ESPHome is a Home Assistant add-on that compiles and flashes ESPHome devices on a fleet of build workers.
  A Python server (\<open>ha-addon/server\<close>) keeps devices, workers, a job queue, routing rules, schedules and the git history
  of the configurations; workers (\<open>ha-addon/client\<close>) claim jobs; the React page in \<open>ha-addon/ui/src\<close> is what users see.
  These theories model that page, in TypeScript, as written. All paths below are relative to \<open>ha-addon/ui/src\<close>.

  \<^bold>\<open>How the page is put together.\<close> \<open>App.tsx\<close> polls the server's lists (devices, targets, workers, queue) and hands them to four
  tabs and a dozen dialogs. A click runs a handler, the handler calls a function of \<open>api/client.ts\<close>, which sends one
  request and turns the answer into a value or an error; toasts report it and the lists are polled again. State is kept
  in the components, in \<open>localStorage\<close>, and in mutable references that outlive a render. Hence the recurring shapes of the
  model: a record per component, a datatype of its events, a step function on the record that also returns the requests
  and toasts, and runs of events in which polls, answers and timers come in any order. A request that can be overtaken
  is two events, the click and the answer.

  \<^bold>\<open>Theories, by what they model.\<close>

  \<^item> \<open>Fleet_Prelude\<close>: JavaScript itself (UTF-8 strings, numbers, truthiness, sorting by a comparator, JSON values);
    \<open>Fleet_Types\<close>: \<open>types/index.ts\<close>; \<open>Text_Format\<close>: \<open>utils/format.ts\<close>; \<open>Url_Codec\<close>: the encodings of URLs.
  \<^item> \<open>Api_Transport\<close>, \<open>Api_Endpoints\<close>: \<open>api/client.ts\<close>, first token, version check, reload and errors, then every
    endpoint with its path, body and decoding.
  \<^item> \<open>Job_State\<close>, \<open>Job_Origin\<close>, \<open>Esphome_Versions\<close>, \<open>Cron_Schedules\<close>, \<open>Routing_Rules\<close>, \<open>Ansi_Render\<close>: the helpers in
    \<open>utils/\<close> of these names, with \<open>EsphomeVersionDropdown.tsx\<close>. Routing also mirrors \<open>server/routing.py\<close>.
  \<^item> \<open>Upgrade_Modal\<close>: \<open>UpgradeModal.tsx\<close>. \<open>App_Actions\<close>, \<open>Log_Handover\<close>, \<open>App_Shell\<close>: the handlers, the effect that moves
    from a build log to the device's log, the windows and preferences of \<open>App.tsx\<close>.
  \<^item> \<open>Queue_Tab\<close>, \<open>Log_Viewers\<close>, \<open>Log_Refs\<close>, \<open>Live_Socket\<close>: \<open>QueueTab.tsx\<close>, \<open>queue/\<close>, \<open>LogModal.tsx\<close>, \<open>DeviceLogModal.tsx\<close>; the last
    two have the references of the two log dialogs with every socket, timer and request that earlier runs of their effects
    may have left behind. \<open>Table_Frames\<close>: columns, headings, empty rows and menus of the queue, schedules, workers and history tables.
  \<^item> \<open>Devices_Tab\<close>, \<open>Devices_Window\<close>, \<open>Device_Columns\<close>, \<open>Device_Row\<close>, \<open>Device_Menu\<close>, \<open>Device_Actions\<close>, \<open>Bulk_Window\<close>:
    \<open>DevicesTab.tsx\<close> and \<open>devices/\<close>; \<open>Device_Row\<close> has the column list as a value and what each click on a row reaches. \<open>Tag_Chips\<close>, \<open>Tag_Editors\<close>: the chips and their three editors. \<open>Table_State\<close>: sortable headers and
    \<open>utils/persistState.ts\<close>.
  \<^item> \<open>Workers_Tab\<close>, \<open>Worker_Dialogs\<close>: \<open>WorkersTab.tsx\<close>, \<open>SetDiskQuotaDialog.tsx\<close>, \<open>ConnectWorkerModal.tsx\<close>. \<open>Rule_Builder\<close>:
    \<open>RoutingRuleBuilder.tsx\<close>, \<open>RoutingRulesModal.tsx\<close>. \<open>Schedules_Tab\<close>: \<open>SchedulesTab.tsx\<close>.
  \<^item> \<open>Editor_Sessions\<close>, \<open>Editor_Window\<close>, \<open>New_Device\<close>, \<open>Editor_Help\<close>, \<open>File_History\<close>: \<open>EditorModal.tsx\<close>,
    \<open>NewDeviceModal.tsx\<close>, \<open>editor/\<close> with \<open>api/esphomeSchema.ts\<close>, \<open>HistoryPanel.tsx\<close> with \<open>FirmwareDownloadMenu.tsx\<close>.
    \<open>Editor_Sessions\<close> has the editor's contract, where loads and saves are answered at once; \<open>Editor_Window\<close> its buffer, where
    answers come late, and the refinement between the two.
  \<^item> \<open>History_Views\<close>, \<open>Panel_Views\<close>: \<open>QueueHistoryDialog.tsx\<close>, \<open>CompileHistoryPanel.tsx\<close>, \<open>TimeRangePicker.tsx\<close>.
    \<open>Settings_Drawer\<close>, \<open>Settings_Form\<close>: \<open>SettingsDrawer.tsx\<close>, first the values and what is sent, then the rows of the form.
    \<open>Small_Dialogs\<close>: ping, install to an address, rendered configuration, rename
    and delete, banner, onboarding, accent colour. \<open>Dialog_Views\<close>: the head of the page, what the dialogs draw and which of
    their buttons can be pressed, \<open>ErrorBoundary.tsx\<close>. \<open>Single_Flight\<close>: what the dialogs that send a request have in common.

  A definition has the name of the function, component or type it translates. An interface is a record; an optional
  field is an option, read with \<open>truthy_str\<close>, \<open>nullish\<close> and the like exactly where the code uses \<open>||\<close>, \<open>??\<close> or \<open>?.\<close>; a
  thrown error is the left of a sum. Where the page relies on a check of the server, that check is mirrored from the
  Python source in a definition whose name starts with \<open>py_\<close>, and a theorem relates the two.

  \<^bold>\<open>What is an argument.\<close> Code that is not under \<open>src/\<close> is a parameter: the answers of the server (a function of the call,
  or an event), \<open>localeCompare\<close>, the locale's dates and times, the table library's sorting toggle, Monaco's diff, the
  schema's host, and the calendar. Theorems that need a law of one state it (\<open>js_comparator\<close>, \<open>zone_ok\<close>) and have a
  witness with a concrete function.

  \<^bold>\<open>Interfaces.\<close> \<open>transport\<close> (what every endpoint asks of \<open>apiFetch\<close>), \<open>url_codec\<close> (decode after encode), \<open>js_comparator\<close>
  (an order that may be given to \<open>sort\<close>), \<open>job_phases\<close>, \<open>clause_semantics\<close> (a rule clause as a predicate on tag sets),
  \<open>chip_box\<close> (an editor that keeps tag lists clean), \<open>memo\<close> (a comparison of properties that may replace a render),
  \<open>single_flight\<close> (a dialog that sends once between two answers), \<open>stored_state\<close> (what a reload gives back), \<open>round_trip_row\<close> (what a settings row
  shows is what it saves) and \<open>pill_filter\<close>; each is interpreted on the definitions of the components that provide it.

  \<^bold>\<open>What the theorems show.\<close> Requests: the choice confirmed in the upgrade dialog reaches the server unchanged, for a rerun
  too; a target's name cannot leave its place in a URL; an outdated page reloads once. Agreement with the server:
  routing decisions, job predicates, row buttons, settings bounds, quota and name checks. State: only saves change real
  files, tag lists stay clean, a selection survives polling, the compared pair is always older to newer, one request per
  dialog. Time: the hand-over to the device log happens exactly when it is earned, retries are bounded, a closed live log is silent, polling shows the
  log exactly as long as one loop polls, commits are one batch whatever comes in between, infinite scrolling is exact.
  Round trips: cron expressions, quotas, tags, numbers in settings, preferences, columns. Theorems that end in a
  misbehaviour of the code are kept as such and listed among the findings of the manifest.

  \<^bold>\<open>Bounds and termination.\<close> All recursions are structural or have a termination proof; no definition uses fuel. The
  network is the list of its future answers, each request takes one, so loops that wait for the server end with it; the
  theorems bound them by the code's own constants as well. Hashes of tag colours are computed on 32-bit words, as the code's \<open>| 0\<close> does;
  other numbers of the page are small integers or exact rationals, and floating-point rounding is modelled only where
  the code rounds.

  \<^bold>\<open>Not modelled.\<close> Markup and styling without a decision in them, icons and layout; the thin wrappers of library widgets
  in \<open>components/ui\<close> (dialog, sheet, menu, button); the set-up of libraries (\<open>main.tsx\<close>, \<open>i18n\<close>, \<open>monaco-local.ts\<close>);
  fixed help texts; the size of the terminal; the built bundle under \<open>server/static\<close>; the browser tests and screenshot
  scripts; and the server, the worker and the Home Assistant integration themselves, in Python, except for the mirrors.
\<close>

end
